(* ===== verification/OAO_Prelude.thy ===== *)
theory OAO_Prelude
  imports Main "HOL-Library.Word" "HOL-Library.Finite_Map"
begin

text \<open>
  Shared vocabulary of the development: Go's machine integers, the error values and the
  result types of the model, the sequencing of fallible stateful steps, and the generic
  facts on keyed slices that the notification components share.

  A Go error is a value of type \<open>error\<close>; a function with results \<open>(T, error)\<close> returns
  \<open>error + T\<close> (\<open>Inl\<close> the error). A run-time panic (a nil dereference) is the error value
  \<open>Panic\<close>: no function of the operator recovers from a panic, and every caller hands
  an error of a callee straight on, so unwinding the stack and returning the error take the
  same path through the code.
\<close>

named_theorems go_simps \<open>unfolding rules for the sequencing combinators of the model\<close>

section \<open>Go values\<close>

type_synonym int32 = "32 word"
type_synonym int64 = "64 word"

text \<open>A Go \<open>map[string]T\<close>; the nil map is \<open>None\<close>, which \<open>reflect.DeepEqual\<close> tells apart
  from the empty map.\<close>
type_synonym 'v gomap = "(string, 'v) fmap option"

text \<open>\<open>v, ok := m[k]\<close>; reading from the nil map finds nothing.\<close>
definition goLookup :: "'v gomap \<Rightarrow> string \<Rightarrow> 'v option" where
  "goLookup m k = (case m of None \<Rightarrow> None | Some f \<Rightarrow> fmlookup f k)"

datatype error =
    NotFound string            \<comment> \<open>an API status error with reason NotFound\<close>
  | ApiError string            \<comment> \<open>any other error of the API server or the client\<close>
  | Errorf string              \<comment> \<open>an error made by \<open>fmt.Errorf\<close> or by a library function\<close>
  | Wrapped string error       \<comment> \<open>\<open>fmt.Errorf\<close> with the verb \<open>%w\<close>\<close>
  | Panic string               \<comment> \<open>a run-time panic that unwinds the call\<close>

text \<open>\<open>k8serrors.IsNotFound\<close> looks through wrapped errors for the reason.\<close>
primrec IsNotFound :: "error \<Rightarrow> bool" where
  "IsNotFound (NotFound m) = True"
| "IsNotFound (ApiError m) = False"
| "IsNotFound (Errorf m) = False"
| "IsNotFound (Wrapped m e) = IsNotFound e"
| "IsNotFound (Panic m) = False"

section \<open>Fallible stateful steps\<close>

text \<open>A step reads and changes a state and returns a value or an error.\<close>
type_synonym ('s, 'a) step = "'s \<Rightarrow> (error + 'a) \<times> 's"

definition ok :: "'a \<Rightarrow> ('s, 'a) step" where
  "ok x = (\<lambda>s. (Inr x, s))"

definition fail :: "error \<Rightarrow> ('s, 'a) step" where
  "fail e = (\<lambda>s. (Inl e, s))"

text \<open>The idiom \<open>x, err := m(); if err != nil { return err }; f(x)\<close>.\<close>
definition andThen :: "('s, 'a) step \<Rightarrow> ('a \<Rightarrow> ('s, 'b) step) \<Rightarrow> ('s, 'b) step" where
  "andThen m f = (\<lambda>s. case m s of (Inl e, s') \<Rightarrow> (Inl e, s') | (Inr x, s') \<Rightarrow> f x s')"

text \<open>The idiom \<open>x, err := m(); if err != nil { h(err) } else { f(x) }\<close>.\<close>
definition onResult :: "('s, 'a) step \<Rightarrow> (error \<Rightarrow> ('s, 'b) step) \<Rightarrow> ('a \<Rightarrow> ('s, 'b) step)
    \<Rightarrow> ('s, 'b) step" where
  "onResult m h f = (\<lambda>s. case m s of (Inl e, s') \<Rightarrow> h e s' | (Inr x, s') \<Rightarrow> f x s')"

text \<open>The loop \<open>for _, x := range xs { if err := f(x); err != nil { return err } }\<close>.\<close>
fun forEach :: "'a list \<Rightarrow> ('a \<Rightarrow> ('s, unit) step) \<Rightarrow> ('s, unit) step" where
  "forEach [] f = ok ()"
| "forEach (x # xs) f = andThen (f x) (\<lambda>_. forEach xs f)"

lemma ok_apply [simp]: "ok x s = (Inr x, s)"
  by (simp add: ok_def)

lemma fail_apply [simp]: "fail e s = (Inl e, s)"
  by (simp add: fail_def)

lemma andThen_ok [simp]: "andThen (ok x) f = f x"
  by (simp add: andThen_def ok_def)

lemma andThen_fail [simp]: "andThen (fail e) f = fail e"
  by (simp add: andThen_def fail_def)

lemma andThen_Inr [go_simps]:
  "andThen m f s = (Inr y, s'') \<longleftrightarrow> (\<exists>x s'. m s = (Inr x, s') \<and> f x s' = (Inr y, s''))"
  by (auto simp: andThen_def split: prod.splits sum.splits)

lemma andThen_Inl [go_simps]:
  "andThen m f s = (Inl e, s'') \<longleftrightarrow>
     m s = (Inl e, s'') \<or> (\<exists>x s'. m s = (Inr x, s') \<and> f x s' = (Inl e, s''))"
  by (auto simp: andThen_def split: prod.splits sum.splits)

text \<open>A relation between the states before and after that every step keeps is kept by their
  sequence, whether or not one of them fails.\<close>
lemma andThen_rel:
  assumes run: "andThen m f s = (r, s'')"
    and trans: "\<And>a b c. R a b \<Longrightarrow> R b c \<Longrightarrow> R a c"
    and m: "\<And>r s'. m s = (r, s') \<Longrightarrow> R s s'"
    and f: "\<And>x s' r s''. f x s' = (r, s'') \<Longrightarrow> R s' s''"
  shows "R s s''"
  using run m f trans by (fastforce simp: andThen_def split: prod.splits sum.splits)

lemma forEach_rel:
  assumes "forEach xs f s = (r, s')"
    and refl: "\<And>a. R a a" and trans: "\<And>a b c. R a b \<Longrightarrow> R b c \<Longrightarrow> R a c"
    and f: "\<And>x s r s'. x \<in> set xs \<Longrightarrow> f x s = (r, s') \<Longrightarrow> R s s'"
  shows "R s s'"
  using assms(1) f
proof (induction xs arbitrary: s)
  case Nil
  then show ?case by (simp add: refl)
next
  case (Cons x xs)
  obtain q s1 where q: "f x s = (q, s1)" by fastforce
  with Cons.prems(2) have 1: "R s s1" by (metis list.set_intros(1))
  show ?case
  proof (cases q)
    case (Inl e)
    with q Cons.prems(1) 1 show ?thesis by (simp add: andThen_def)
  next
    case (Inr u)
    with q Cons.prems(1) have "forEach xs f s1 = (r, s')" by (simp add: andThen_def)
    then have "R s1 s'"
      by (rule Cons.IH) (use Cons.prems(2) in \<open>meson list.set_intros(2)\<close>)
    with 1 trans show ?thesis by blast
  qed
qed

section \<open>Keyed slices\<close>

text \<open>
  Several slices of the API types are used as maps: an element is looked up by scanning for
  its key, and stored by overwriting the first element with that key or appending. The
  contract of the pair (scan, store); \<open>stamp\<close> is what storing changes in the element.
\<close>

locale keyed_slice =
  fixes key :: "'a \<Rightarrow> 'k"
    and get :: "'a list \<Rightarrow> 'k \<Rightarrow> 'a option"
    and put :: "'a list \<Rightarrow> 'a \<Rightarrow> 'a list"
    and stamp :: "'a \<Rightarrow> 'a"
  assumes get_Nil: "get [] k = None"
    and get_Cons: "get (x # xs) k = (if key x = k then Some x else get xs k)"
    and put_Nil: "put [] x = [stamp x]"
    and put_Cons: "put (y # ys) x = (if key y = key x then stamp x # ys else y # put ys x)"
    and key_stamp: "key (stamp x) = key x"
begin

lemmas slice_laws = get_Nil get_Cons put_Nil put_Cons key_stamp

lemma get_put: "get (put xs x) k = (if k = key x then Some (stamp x) else get xs k)"
  by (induction xs) (auto simp: slice_laws)

lemma get_SomeD: "get xs k = Some x \<Longrightarrow> x \<in> set xs \<and> key x = k"
  by (induction xs) (auto simp: slice_laws split: if_splits)

lemma get_None_iff: "get xs k = None \<longleftrightarrow> k \<notin> key ` set xs"
  by (induction xs) (auto simp: slice_laws)

lemma keys_put:
  "map key (put xs x) = (if key x \<in> key ` set xs then map key xs else map key xs @ [key x])"
  by (induction xs) (auto simp: slice_laws)

lemma distinct_put: "distinct (map key xs) \<Longrightarrow> distinct (map key (put xs x))"
  by (simp add: keys_put)

end

section \<open>Slices and sums\<close>

lemma all_nat_split: "(\<forall>m. P m) \<longleftrightarrow> P 0 \<and> (\<forall>m. P (Suc m))"
  by (metis nat.exhaust)

lemma word_sint_scast32: "sint (scast (w :: 32 word) :: 64 word) = sint w"
  by (simp add: sint_up_scast is_up)

end
