(* ===== verification/GoTime.thy ===== *)
theory GoTime
  imports OAO_Prelude
begin

text \<open>
  The part of Go's package \<open>time\<close> that the operator uses. An instant is its distance in
  nanoseconds from a fixed epoch; \<open>time.Time\<close> holds 64-bit seconds, which adding one
  \<open>time.Duration\<close> (at most about 292 years) does not exhaust, so instants are \<open>int\<close>.
  A \<open>time.Duration\<close> is an \<open>int64\<close> count of nanoseconds and its arithmetic wraps around.
\<close>

type_synonym Time = int
type_synonym Duration = int64

definition Hour :: Duration where
  "Hour = 3600000000000"

text \<open>\<open>time.Duration(n) * time.Hour\<close> for an \<open>int32\<close> number of hours: the conversion extends
  the sign, the product wraps around at 64 bits.\<close>
definition hours :: "int32 \<Rightarrow> Duration" where
  "hours n = scast n * Hour"

definition Time_Add :: "Time \<Rightarrow> Duration \<Rightarrow> Time" where
  "Time_Add t d = t + sint d"

definition Time_Before :: "Time \<Rightarrow> Time \<Rightarrow> bool" where
  "Time_Before t u \<longleftrightarrow> t < u"

definition Time_After :: "Time \<Rightarrow> Time \<Rightarrow> bool" where
  "Time_After t u \<longleftrightarrow> u < t"

text \<open>The largest number of hours whose duration does not wrap around.\<close>
definition maxHours :: int where
  "maxHours = 2562047"

definition hourNs :: int where
  "hourNs = 3600000000000"

lemma sint_hours_wrap: "sint (hours n) = signed_take_bit 63 (sint n * hourNs)"
  by (simp add: hours_def Hour_def hourNs_def sint_word_ariths word_sint_scast32)

lemma sint_hours:
  assumes "- maxHours \<le> sint n" and "sint n \<le> maxHours"
  shows "sint (hours n) = sint n * hourNs"
proof -
  have "signed_take_bit 63 (sint n * hourNs) = sint n * hourNs"
    by (rule signed_take_bit_int_eq_self) (use assms in \<open>simp_all add: maxHours_def hourNs_def\<close>)
  then show ?thesis by (simp add: sint_hours_wrap)
qed

lemma Time_Add_hours:
  "- maxHours \<le> sint n \<Longrightarrow> sint n \<le> maxHours \<Longrightarrow> Time_Add t (hours n) = t + sint n * hourNs"
  by (simp add: Time_Add_def sint_hours)

lemma signed_wrap64: "signed_take_bit 63 (x + k * 2 ^ 64) = signed_take_bit 63 (x :: int)"
proof -
  have "(x + k * 18446744073709551616 + 9223372036854775808) mod 18446744073709551616 = (x + 9223372036854775808) mod 18446744073709551616"
    using mod_mult_self1[of "x + 9223372036854775808" k "18446744073709551616 :: int"] by (simp add: algebra_simps)
  then show ?thesis by (simp add: signed_take_bit_eq_take_bit_shift take_bit_eq_mod)
qed

text \<open>A duration that is computed exactly fits into 64 bits.\<close>
lemma sint_hours_exact: "sint (hours n) = m * hourNs \<Longrightarrow> - maxHours \<le> m \<and> m \<le> maxHours"
  using sint_ge[of "hours n"] sint_lt[of "hours n"] by (simp add: maxHours_def hourNs_def)

text \<open>Above that bound, up to a full turn of the 64-bit counter, the product is negative.\<close>
lemma sint_hours_overflow:
  assumes "maxHours < sint n" and "sint n \<le> 5124095"
  shows "sint (hours n) < 0"
proof -
  have "sint (hours n) = signed_take_bit 63 (sint n * hourNs)" by (rule sint_hours_wrap)
  also have "\<dots> = signed_take_bit 63 (sint n * hourNs - 2 ^ 64)"
    using signed_wrap64[of "sint n * hourNs" "-1"] by simp
  also have "\<dots> = sint n * hourNs - 2 ^ 64"
    by (rule signed_take_bit_int_eq_self) (use assms in \<open>simp_all add: maxHours_def hourNs_def\<close>)
  finally show ?thesis using assms by (simp add: hourNs_def)
qed

text \<open>Near the lower end of the 32 bits the product wraps around 419 times and is negative.\<close>
lemma sint_hours_underflow:
  assumes "- 2147483648 \<le> sint n" and "sint n < - 2147483288"
  shows "sint (hours n) < 0"
proof -
  have "sint (hours n) = signed_take_bit 63 (sint n * hourNs)" by (rule sint_hours_wrap)
  also have "\<dots> = signed_take_bit 63 (sint n * hourNs + 419 * 2 ^ 64)"
    by (rule signed_wrap64[symmetric])
  also have "\<dots> = sint n * hourNs + 419 * 2 ^ 64"
    by (rule signed_take_bit_int_eq_self) (use assms in \<open>simp_all add: hourNs_def\<close>)
  finally show ?thesis using assms by (simp add: hourNs_def)
qed

text \<open>A sum beyond 32 bits.\<close>
lemma signed_wrap32:
  assumes "2147483648 \<le> x" and "x < 4294967296"
  shows "signed_take_bit 31 (x :: int) = x - 4294967296"
proof -
  have "(x + 2147483648) mod 4294967296 = x - 2147483648"
    using assms mod_pos_pos_trivial[of "x - 2147483648" 4294967296] mod_add_self2[of "x - 2147483648" "4294967296 :: int"] by (simp add: add.commute)
  then show ?thesis by (simp add: signed_take_bit_eq_take_bit_shift take_bit_eq_mod)
qed

lemma sint_inc32: "sint (c + 1 :: 32 word) = (if sint c = 2147483647 then - 2147483648 else sint c + 1)"
proof -
  have b: "- 2147483648 \<le> sint c" "sint c \<le> 2147483647"
    using sint_ge[of c] sint_lt[of c] by simp_all
  have e: "sint (c + 1) = signed_take_bit 31 (sint c + 1)"
    by (simp add: sint_word_ariths)
  show ?thesis
  proof (cases "sint c = 2147483647")
    case False
    with b have "signed_take_bit 31 (sint c + 1) = sint c + 1"
      by (intro signed_take_bit_int_eq_self) simp_all
    with False e show ?thesis by simp
  qed (simp add: e)
qed

end
