(* ===== verification/Notifications.thy ===== *)
theory Notifications
  imports GoTime
begin

text \<open>
  The ManagedNotification API type and its methods
  (\<^verbatim>\<open>api/v1alpha1/managednotification_types.go\<close>): notification templates, the record of the
  service logs sent for each of them, and the decision whether a service log may be sent.

  Slices of structs are lists; a method with a pointer receiver returns the changed value.
  A scan \<open>for _, t := range xs { if t.Name == n { return &t } }\<close> returns a pointer to
  the loop variable, a copy, so returning the element is faithful. \<open>time.Now\<close> is the
  argument \<open>now\<close>.
\<close>

section \<open>Types\<close>

type_synonym NotificationSeverity = string
type_synonym NotificationReferenceType = string
type_synonym NotificationConditionType = string
type_synonym ConditionStatus = string

definition SeverityDebug :: NotificationSeverity where
  "SeverityDebug = ''Debug''"

definition SeverityWarning :: NotificationSeverity where
  "SeverityWarning = ''Warning''"

definition SeverityInfo :: NotificationSeverity where
  "SeverityInfo = ''Info''"

definition SeverityMajor :: NotificationSeverity where
  "SeverityMajor = ''Major''"

definition SeverityCritical :: NotificationSeverity where
  "SeverityCritical = ''Critical''"

definition SeverityError :: NotificationSeverity where
  "SeverityError = ''Error''"

definition SeverityFatal :: NotificationSeverity where
  "SeverityFatal = ''Fatal''"

definition ConditionAlertFiring :: NotificationConditionType where
  "ConditionAlertFiring = ''AlertFiring''"

definition ConditionAlertResolved :: NotificationConditionType where
  "ConditionAlertResolved = ''AlertResolved''"

definition ConditionServiceLogSent :: NotificationConditionType where
  "ConditionServiceLogSent = ''ServiceLogSent''"

definition ConditionTrue :: ConditionStatus where
  "ConditionTrue = ''True''"

record Notification =
  notif_Name :: string
  notif_Summary :: string
  notif_ActiveDesc :: string
  notif_ResolvedDesc :: string
  notif_LogType :: string
  notif_References :: "NotificationReferenceType list"
  notif_Severity :: NotificationSeverity
  notif_ResendWait :: int32

record NotificationCondition =
  cond_Type :: NotificationConditionType
  cond_Status :: ConditionStatus
  cond_LastTransitionTime :: "Time option"
  cond_Reason :: string

type_synonym Conditions = "NotificationCondition list"

record NotificationRecord =
  rec_Name :: string
  rec_ServiceLogSentCount :: int32
  rec_Conditions :: Conditions

type_synonym NotificationRecords = "NotificationRecord list"

record ManagedNotificationSpec =
  mnspec_Notifications :: "Notification list"

record ManagedNotificationStatus =
  mnstatus_NotificationRecords :: NotificationRecords

record ManagedNotification =
  mn_Name :: string
  mn_Namespace :: string
  mn_Spec :: ManagedNotificationSpec
  mn_Status :: ManagedNotificationStatus

section \<open>Operations\<close>

fun scanNotification :: "Notification list \<Rightarrow> string \<Rightarrow> Notification option" where
  "scanNotification [] n = None"
| "scanNotification (t # ts) n = (if notif_Name t = n then Some t else scanNotification ts n)"

definition GetNotificationForName :: "ManagedNotification \<Rightarrow> string \<Rightarrow> error + Notification" where
  "GetNotificationForName m n =
     (case scanNotification (mnspec_Notifications (mn_Spec m)) n of
        Some t \<Rightarrow> Inr t
      | None \<Rightarrow> Inl (Errorf (''notification with name '' @ n @ '' not found'')))"

text \<open>\<open>NotificationRecords.GetNotificationRecord\<close>; nil is \<open>None\<close>.\<close>
fun GetNotificationRecord :: "NotificationRecords \<Rightarrow> string \<Rightarrow> NotificationRecord option" where
  "GetNotificationRecord [] name = None"
| "GetNotificationRecord (n # ns) name =
     (if rec_Name n = name then Some n else GetNotificationRecord ns name)"

text \<open>\<open>ManagedNotificationStatus.GetNotificationRecord\<close>.\<close>
definition Status_GetNotificationRecord ::
  "ManagedNotificationStatus \<Rightarrow> string \<Rightarrow> error + NotificationRecord" where
  "Status_GetNotificationRecord m n =
     (case GetNotificationRecord (mnstatus_NotificationRecords m) n of
        Some t \<Rightarrow> Inr t
      | None \<Rightarrow> Inl (Errorf (''notification record for notification '' @ n @ '' not found'')))"

fun hasRecord :: "NotificationRecords \<Rightarrow> string \<Rightarrow> bool" where
  "hasRecord [] n = False"
| "hasRecord (t # ts) n = (if rec_Name t = n then True else hasRecord ts n)"

definition HasNotificationRecord :: "ManagedNotificationStatus \<Rightarrow> string \<Rightarrow> bool" where
  "HasNotificationRecord m n = hasRecord (mnstatus_NotificationRecords m) n"

fun GetCondition :: "Conditions \<Rightarrow> NotificationConditionType \<Rightarrow> NotificationCondition option" where
  "GetCondition [] t = None"
| "GetCondition (c # cs) t = (if cond_Type c = t then Some c else GetCondition cs t)"

text \<open>The tail of the firing branch of \<open>CanBeSent\<close>: the don't-resend window. A condition
  without a transition time is a nil dereference.\<close>
definition resendAllowed :: "Notification \<Rightarrow> NotificationCondition \<Rightarrow> Time \<Rightarrow> error + bool" where
  "resendAllowed t sentCondition now =
     (case cond_LastTransitionTime sentCondition of
        None \<Rightarrow> Inl (Panic ''invalid memory address or nil pointer dereference'')
      | Some ltt \<Rightarrow>
          let nextresend = Time_Add ltt (hours (notif_ResendWait t)) in
          if Time_Before now nextresend \<and> cond_Status sentCondition = ConditionTrue
          then Inr False else Inr True)"

definition CanBeSent :: "ManagedNotification \<Rightarrow> string \<Rightarrow> bool \<Rightarrow> Time \<Rightarrow> error + bool" where
  "CanBeSent m n firing now =
     (case GetNotificationForName m n of
        Inl err \<Rightarrow> Inl err
      | Inr t \<Rightarrow>
          let hasNotificationRecord = HasNotificationRecord (mn_Status m) n in
          if firing then
            (if \<not> hasNotificationRecord then Inr True
             else case Status_GetNotificationRecord (mn_Status m) n of
                    Inl err \<Rightarrow> Inl err
                  | Inr s \<Rightarrow>
                      (case GetCondition (rec_Conditions s) ConditionServiceLogSent of
                         None \<Rightarrow> Inr True
                       | Some sentCondition \<Rightarrow> resendAllowed t sentCondition now))
          else
            (if \<not> hasNotificationRecord then Inr False
             else case Status_GetNotificationRecord (mn_Status m) n of
                    Inl err \<Rightarrow> Inl err
                  | Inr s \<Rightarrow>
                      if length (notif_ResolvedDesc t) = 0 then Inr False
                      else (case GetCondition (rec_Conditions s) ConditionAlertFiring of
                              None \<Rightarrow> Inl (Panic ''invalid memory address or nil pointer dereference'')
                            | Some c \<Rightarrow>
                                if cond_Status c \<noteq> ConditionTrue then Inr False else Inr True)))"

fun SetCondition :: "Conditions \<Rightarrow> NotificationCondition \<Rightarrow> Conditions" where
  "SetCondition [] new = [new]"
| "SetCondition (c # cs) new =
     (if cond_Type c = cond_Type new then new # cs else c # SetCondition cs new)"

definition SetStatus :: "NotificationRecord \<Rightarrow> NotificationConditionType \<Rightarrow> string \<Rightarrow>
    ConditionStatus \<Rightarrow> Time option \<Rightarrow> NotificationRecord" where
  "SetStatus nr nct reason cs t =
     (let condition = \<lparr>cond_Type = nct, cond_Status = cs, cond_LastTransitionTime = t,
                       cond_Reason = reason\<rparr>
      in nr\<lparr>rec_Conditions := SetCondition (rec_Conditions nr) condition\<rparr>)"

text \<open>\<open>rec.ServiceLogSentCount++\<close> on the copy of the argument: the \<open>int32\<close> wraps around.\<close>
definition countSent :: "NotificationRecord \<Rightarrow> NotificationRecord" where
  "countSent r = r\<lparr>rec_ServiceLogSentCount := rec_ServiceLogSentCount r + 1\<rparr>"

fun storeRecord :: "NotificationRecords \<Rightarrow> NotificationRecord \<Rightarrow> NotificationRecords" where
  "storeRecord [] r = [r]"
| "storeRecord (n # ns) r = (if rec_Name n = rec_Name r then r # ns else n # storeRecord ns r)"

definition SetNotificationRecord ::
  "NotificationRecords \<Rightarrow> NotificationRecord \<Rightarrow> NotificationRecords" where
  "SetNotificationRecord nrs r = storeRecord nrs (countSent r)"

section \<open>The slices as maps\<close>

interpretation conds: keyed_slice cond_Type GetCondition SetCondition "\<lambda>c. c"
  by unfold_locales auto

interpretation recs: keyed_slice rec_Name GetNotificationRecord SetNotificationRecord countSent
  by unfold_locales (auto simp: SetNotificationRecord_def countSent_def)

lemma hasRecord_iff: "hasRecord rs n \<longleftrightarrow> GetNotificationRecord rs n \<noteq> None"
  by (induction rs) auto

text \<open>The error branch after a successful \<open>HasNotificationRecord\<close> cannot be taken.\<close>
lemma HasNotificationRecord_iff:
  "HasNotificationRecord st n \<longleftrightarrow> (\<exists>r. Status_GetNotificationRecord st n = Inr r)"
  by (auto simp: HasNotificationRecord_def hasRecord_iff Status_GetNotificationRecord_def
      split: option.splits)

text \<open>Well-formed status: one record per notification, one condition per type.\<close>
definition wf_records :: "NotificationRecords \<Rightarrow> bool" where
  "wf_records rs \<longleftrightarrow> distinct (map rec_Name rs) \<and>
     (\<forall>r \<in> set rs. distinct (map cond_Type (rec_Conditions r)))"

lemma SetNotificationRecord_subset: "set (SetNotificationRecord rs r) \<subseteq> insert (countSent r) (set rs)"
  unfolding SetNotificationRecord_def by (induction rs) auto

lemma countSent_fields [simp]:
  "rec_Name (countSent r) = rec_Name r" "rec_Conditions (countSent r) = rec_Conditions r"
  "rec_ServiceLogSentCount (countSent r) = rec_ServiceLogSentCount r + 1"
  by (simp_all add: countSent_def)

lemma SetStatus_fields [simp]:
  "rec_Name (SetStatus r nct reason cs t) = rec_Name r"
  "rec_ServiceLogSentCount (SetStatus r nct reason cs t) = rec_ServiceLogSentCount r"
  by (simp_all add: SetStatus_def Let_def)

lemma GetCondition_SetStatus:
  "GetCondition (rec_Conditions (SetStatus r nct reason cs t)) u =
     (if u = nct then Some \<lparr>cond_Type = nct, cond_Status = cs, cond_LastTransitionTime = t,
                            cond_Reason = reason\<rparr>
      else GetCondition (rec_Conditions r) u)"
  by (simp add: SetStatus_def Let_def conds.get_put)

text \<open>What \<open>CanBeSent\<close> looks at once the status holds a freshly stored record.\<close>
lemma Status_GetNotificationRecord_stored:
  assumes "mnstatus_NotificationRecords st = SetNotificationRecord rs r" and "rec_Name r = n"
  shows "Status_GetNotificationRecord st n = Inr (countSent r)" and "HasNotificationRecord st n"
proof -
  show "Status_GetNotificationRecord st n = Inr (countSent r)"
    using assms by (simp add: Status_GetNotificationRecord_def recs.get_put)
  then show "HasNotificationRecord st n" by (simp add: HasNotificationRecord_iff)
qed

text \<open>The window that opens when a service log is recorded as sent.\<close>
lemma window_after_sent:
  assumes "GetNotificationForName m n = Inr t"
    and "- maxHours \<le> sint (notif_ResendWait t)" and "sint (notif_ResendWait t) \<le> maxHours"
    and "rec_Name r = n"
    and "mnstatus_NotificationRecords (mn_Status m) =
           SetNotificationRecord rs (SetStatus r ConditionServiceLogSent reason ConditionTrue (Some t0))"
  shows "CanBeSent m n True now = Inr (t0 + sint (notif_ResendWait t) * hourNs \<le> now)"
proof -
  let ?r = "SetStatus r ConditionServiceLogSent reason ConditionTrue (Some t0)"
  have rec: "Status_GetNotificationRecord (mn_Status m) n = Inr (countSent ?r)"
    and has: "HasNotificationRecord (mn_Status m) n"
    using Status_GetNotificationRecord_stored[OF assms(5)] assms(4) by simp_all
  show ?thesis
    using assms(1-3) rec has
    by (auto simp: CanBeSent_def GetCondition_SetStatus resendAllowed_def Time_Add_hours Time_Before_def)
qed

section \<open>Properties\<close>

text \<open>C27. The resend window. Once a service log for notification \<open>n\<close> has been recorded as
  sent at time \<open>t0\<close> (\<open>SetStatus\<close> followed by \<open>SetNotificationRecord\<close>), a firing alert
  may be sent again exactly from \<open>t0\<close> plus the resend wait on, whatever the record and
  the other records held before, as long as the wait is at most 2562047 hours.\<close>
theorem firing_resend_window:
  assumes "GetNotificationForName m n = Inr t"
    and "- maxHours \<le> sint (notif_ResendWait t)" and "sint (notif_ResendWait t) \<le> maxHours"
    and "rec_Name r = n"
    and "mnstatus_NotificationRecords (mn_Status m) =
           SetNotificationRecord rs (SetStatus r ConditionServiceLogSent reason ConditionTrue (Some t0))"
  shows "CanBeSent m n True now = Inr (t0 + sint (notif_ResendWait t) * hourNs \<le> now)"
  using assms by (rule window_after_sent)

text \<open>A concrete ManagedNotification, used in the witnesses.\<close>
definition sampleNotification :: "int32 \<Rightarrow> string \<Rightarrow> Notification" where
  "sampleNotification wait resolved =
     \<lparr>notif_Name = ''disk'', notif_Summary = ''Disk filling'', notif_ActiveDesc = ''active'',
      notif_ResolvedDesc = resolved, notif_LogType = [], notif_References = [],
      notif_Severity = ''Info'', notif_ResendWait = wait\<rparr>"

definition sampleManaged :: "Notification \<Rightarrow> NotificationRecords \<Rightarrow> ManagedNotification" where
  "sampleManaged t rs =
     \<lparr>mn_Name = ''mn'', mn_Namespace = ''ns'', mn_Spec = \<lparr>mnspec_Notifications = [t]\<rparr>,
      mn_Status = \<lparr>mnstatus_NotificationRecords = rs\<rparr>\<rparr>"

definition sampleRecord :: NotificationRecord where
  "sampleRecord = \<lparr>rec_Name = ''disk'', rec_ServiceLogSentCount = 0, rec_Conditions = []\<rparr>"

lemma sample_simps [simp]:
  "notif_Name (sampleNotification w d) = ''disk''" "notif_ResendWait (sampleNotification w d) = w"
  "notif_ResolvedDesc (sampleNotification w d) = d"
  "GetNotificationForName (sampleManaged (sampleNotification w d) rs) ''disk'' =
     Inr (sampleNotification w d)"
  "mnstatus_NotificationRecords (mn_Status (sampleManaged t rs)) = rs"
  "rec_Name sampleRecord = ''disk''" "rec_Conditions sampleRecord = []"
  "rec_ServiceLogSentCount sampleRecord = 0"
  by (simp_all add: sampleNotification_def sampleManaged_def sampleRecord_def GetNotificationForName_def)

lemma firing_resend_window_witness:
  "CanBeSent (sampleManaged (sampleNotification 24 [])
      (SetNotificationRecord [] (SetStatus sampleRecord ConditionServiceLogSent ''sent'' ConditionTrue (Some 0))))
     ''disk'' True (23 * hourNs) = Inr False"
  using firing_resend_window[of "sampleManaged (sampleNotification 24 [])
      (SetNotificationRecord [] (SetStatus sampleRecord ConditionServiceLogSent ''sent'' ConditionTrue (Some 0)))"
      "''disk''" "sampleNotification 24 []" sampleRecord "[]" "''sent''" 0 "23 * hourNs"]
  by (simp add: maxHours_def hourNs_def)

text \<open>A resolved notice goes out exactly when the template exists and has a resolved body
  and the record of the notification says that its alert is firing.\<close>
theorem resolved_sent_iff:
  "CanBeSent m n False now = Inr True \<longleftrightarrow>
     (\<exists>t r c. GetNotificationForName m n = Inr t \<and> notif_ResolvedDesc t \<noteq> [] \<and>
        Status_GetNotificationRecord (mn_Status m) n = Inr r \<and>
        GetCondition (rec_Conditions r) ConditionAlertFiring = Some c \<and> cond_Status c = ConditionTrue)"
  by (auto simp: CanBeSent_def HasNotificationRecord_iff Let_def split: sum.splits option.splits if_splits)

text \<open>C36. \<open>CanBeSent\<close> crashes exactly in two states of the record: for a firing alert when the
  ServiceLogSent condition has no transition time, and for a resolved alert, with a resolved
  body to send, when the record has no AlertFiring condition.\<close>
theorem CanBeSent_panics_iff:
  "(\<exists>msg. CanBeSent m n firing now = Inl (Panic msg)) \<longleftrightarrow>
     (\<exists>t r. GetNotificationForName m n = Inr t \<and> Status_GetNotificationRecord (mn_Status m) n = Inr r \<and>
        (if firing then \<exists>c. GetCondition (rec_Conditions r) ConditionServiceLogSent = Some c \<and>
                            cond_LastTransitionTime c = None
         else notif_ResolvedDesc t \<noteq> [] \<and> GetCondition (rec_Conditions r) ConditionAlertFiring = None))"
  by (cases firing)
    (auto simp: CanBeSent_def resendAllowed_def HasNotificationRecord_iff Let_def GetNotificationForName_def
      Status_GetNotificationRecord_def split: sum.splits option.splits if_splits)

text \<open>C37. A resend wait between 2562048 and 5124095 hours overflows the 64-bit duration to a
  negative one: the resend window is empty and a notification that has just been sent may be
  sent again at once.\<close>
theorem resend_window_overflow:
  assumes "GetNotificationForName m n = Inr t"
    and "maxHours < sint (notif_ResendWait t)" and "sint (notif_ResendWait t) \<le> 5124095"
    and "rec_Name r = n"
    and "mnstatus_NotificationRecords (mn_Status m) =
           SetNotificationRecord rs (SetStatus r ConditionServiceLogSent reason ConditionTrue (Some t0))"
    and "t0 \<le> now"
  shows "CanBeSent m n True now = Inr True"
proof -
  let ?r = "SetStatus r ConditionServiceLogSent reason ConditionTrue (Some t0)"
  have rec: "Status_GetNotificationRecord (mn_Status m) n = Inr (countSent ?r)"
    and has: "HasNotificationRecord (mn_Status m) n"
    using Status_GetNotificationRecord_stored[OF assms(5)] assms(4) by simp_all
  have "sint (hours (notif_ResendWait t)) < 0" using assms(2,3) by (rule sint_hours_overflow)
  then show ?thesis
    using assms(1,6) rec has
    by (auto simp: CanBeSent_def GetCondition_SetStatus resendAllowed_def Time_Add_def Time_Before_def)
qed

lemma resend_window_overflow_witness:
  "CanBeSent (sampleManaged (sampleNotification 2562048 [])
      (SetNotificationRecord [] (SetStatus sampleRecord ConditionServiceLogSent ''sent'' ConditionTrue (Some 0))))
     ''disk'' True 0 = Inr True"
  using resend_window_overflow[of "sampleManaged (sampleNotification 2562048 [])
      (SetNotificationRecord [] (SetStatus sampleRecord ConditionServiceLogSent ''sent'' ConditionTrue (Some 0)))"
      "''disk''" "sampleNotification 2562048 []" sampleRecord "[]" "''sent''" 0 0]
  by (simp add: maxHours_def)

text \<open>Storing a record: a lookup of its name returns it with the sent count one higher (the
  largest \<open>int32\<close> wraps to the smallest) and the condition that was set, every other name is
  unaffected, and a well-formed status stays well-formed.\<close>
theorem SetNotificationRecord_store:
  assumes "wf_records rs" and "distinct (map cond_Type (rec_Conditions r))"
    and stored: "stored = SetNotificationRecord rs (SetStatus r nct reason cs t)"
  shows "wf_records stored \<and>
    (\<exists>r'. GetNotificationRecord stored (rec_Name r) = Some r' \<and>
       sint (rec_ServiceLogSentCount r') =
         (if sint (rec_ServiceLogSentCount r) = 2147483647 then - 2147483648
          else sint (rec_ServiceLogSentCount r) + 1) \<and>
       (\<forall>u. GetCondition (rec_Conditions r') u =
          (if u = nct then Some \<lparr>cond_Type = nct, cond_Status = cs, cond_LastTransitionTime = t,
                                 cond_Reason = reason\<rparr>
           else GetCondition (rec_Conditions r) u))) \<and>
    (\<forall>n. n \<noteq> rec_Name r \<longrightarrow> GetNotificationRecord stored n = GetNotificationRecord rs n)"
proof (intro conjI)
  have "distinct (map cond_Type (rec_Conditions (SetStatus r nct reason cs t)))"
    using assms(2) by (simp add: SetStatus_def Let_def conds.distinct_put)
  then show "wf_records stored"
    using assms(1) SetNotificationRecord_subset[of rs "SetStatus r nct reason cs t"]
    by (auto simp: wf_records_def stored recs.distinct_put)
qed (simp_all add: stored recs.get_put GetCondition_SetStatus sint_inc32)

lemma SetNotificationRecord_store_witness:
  "wf_records (SetNotificationRecord [] (SetStatus sampleRecord ConditionAlertFiring ''firing'' ConditionTrue (Some 7)))"
  using SetNotificationRecord_store[of "[]" sampleRecord _ ConditionAlertFiring "''firing''" ConditionTrue "Some 7"]
  by (simp add: wf_records_def)

text \<open>The errors of \<open>CanBeSent\<close> that are returned, not raised, are exactly those of an
  undefined notification; in particular the error branch after \<open>HasNotificationRecord\<close>
  is dead code.\<close>
lemma CanBeSent_error_iff:
  "(\<exists>e. CanBeSent m n firing now = Inl e \<and> (\<nexists>msg. e = Panic msg)) \<longleftrightarrow>
     n \<notin> notif_Name ` set (mnspec_Notifications (mn_Spec m))"
proof -
  have scan: "scanNotification ts n = None \<longleftrightarrow> n \<notin> notif_Name ` set ts" for ts
    by (induction ts) auto
  show ?thesis
    by (auto simp: CanBeSent_def resendAllowed_def HasNotificationRecord_iff Let_def scan[symmetric]
        GetNotificationForName_def split: sum.splits option.splits if_splits)
qed

end
