(* ===== verification/FleetRecords.thy ===== *)
theory FleetRecords
  imports GoTime
begin

text \<open>
  The fleet API types and their methods
  (\<^verbatim>\<open>api/v1alpha1/managedfleetnotification_types.go\<close> and
  \<^verbatim>\<open>api/v1alpha1/managedfleetnotificationrecord_types.go\<close>): the template of a fleet
  notification, and the history of the notifications sent per notification name and hosted
  cluster.

  A method that changes its receiver is a step over the record: it returns its result or
  error together with the record after the call. The sent counters have Go's type \<open>int\<close>, 64
  bits on the operator's platforms. \<open>time.Now\<close> is the argument \<open>now\<close>.
\<close>

section \<open>Types\<close>

record FleetNotification =
  fn_Name :: string
  fn_Summary :: string
  fn_NotificationMessage :: string
  fn_LogType :: string
  fn_References :: "string list"
  fn_Severity :: string
  fn_ResendWait :: int32
  fn_LimitedSupport :: bool

record ManagedFleetNotificationSpec =
  mfnspec_FleetNotification :: FleetNotification

record ManagedFleetNotification =
  mfn_Name :: string
  mfn_Namespace :: string
  mfn_Spec :: ManagedFleetNotificationSpec

record NotificationRecordItem =
  item_HostedClusterID :: string
  item_FiringNotificationSentCount :: int64
  item_ResolvedNotificationSentCount :: int64
  item_LastTransitionTime :: "Time option"

record NotificationRecordByName =
  rbn_NotificationName :: string
  rbn_ResendWait :: int32
  rbn_NotificationRecordItems :: "NotificationRecordItem list"

record ManagedFleetNotificationRecordStatus =
  mfnrs_ManagementCluster :: string
  mfnrs_NotificationRecordByName :: "NotificationRecordByName list"

record ManagedFleetNotificationRecord =
  mfnr_Name :: string
  mfnr_Namespace :: string
  mfnr_Status :: ManagedFleetNotificationRecordStatus

abbreviation records :: "ManagedFleetNotificationRecord \<Rightarrow> NotificationRecordByName list" where
  "records fnr \<equiv> mfnrs_NotificationRecordByName (mfnr_Status fnr)"

abbreviation cluster :: "ManagedFleetNotificationRecord \<Rightarrow> string" where
  "cluster fnr \<equiv> mfnrs_ManagementCluster (mfnr_Status fnr)"

definition withRecords :: "ManagedFleetNotificationRecord \<Rightarrow> NotificationRecordByName list \<Rightarrow>
    ManagedFleetNotificationRecord" where
  "withRecords fnr rs =
     fnr\<lparr>mfnr_Status := (mfnr_Status fnr)\<lparr>mfnrs_NotificationRecordByName := rs\<rparr>\<rparr>"

section \<open>Operations\<close>

definition GetNotificationByName ::
  "ManagedFleetNotification \<Rightarrow> string \<Rightarrow> error + ManagedFleetNotification" where
  "GetNotificationByName fn name =
     (if name = fn_Name (mfnspec_FleetNotification (mfn_Spec fn)) then Inr fn
      else Inl (Errorf (''notification with name '' @ name @ '' not found'')))"

definition GetNotificationRecordByMC ::
  "ManagedFleetNotificationRecord \<Rightarrow> string \<Rightarrow> error + ManagedFleetNotificationRecord" where
  "GetNotificationRecordByMC fnr mc =
     (if mc \<noteq> cluster fnr
      then Inl (Errorf (''cannot find the notification with management cluster: '' @ mc))
      else Inr fnr)"

fun scanByName :: "NotificationRecordByName list \<Rightarrow> string \<Rightarrow> NotificationRecordByName option" where
  "scanByName [] name = None"
| "scanByName (rn # rns) name =
     (if rbn_NotificationName rn = name then Some rn else scanByName rns name)"

definition GetNotificationRecordByName ::
  "ManagedFleetNotificationRecord \<Rightarrow> string \<Rightarrow> string \<Rightarrow> error + NotificationRecordByName" where
  "GetNotificationRecordByName fnr mc name =
     (case GetNotificationRecordByMC fnr mc of
        Inl err \<Rightarrow> Inl err
      | Inr r \<Rightarrow>
          (case scanByName (records r) name of
             Some rn \<Rightarrow> Inr rn
           | None \<Rightarrow> Inl (Errorf (''cannot find notification record for name '' @ name))))"

fun scanItem :: "NotificationRecordItem list \<Rightarrow> string \<Rightarrow> NotificationRecordItem option" where
  "scanItem [] clusterID = None"
| "scanItem (ri # ris) clusterID =
     (if item_HostedClusterID ri = clusterID then Some ri else scanItem ris clusterID)"

definition GetNotificationRecordItem :: "ManagedFleetNotificationRecord \<Rightarrow> string \<Rightarrow> string \<Rightarrow>
    string \<Rightarrow> error + NotificationRecordItem" where
  "GetNotificationRecordItem fnr mc name clusterID =
     (case GetNotificationRecordByName fnr mc name of
        Inl err \<Rightarrow> Inl err
      | Inr rn \<Rightarrow>
          (case scanItem (rbn_NotificationRecordItems rn) clusterID of
             Some ri \<Rightarrow> Inr ri
           | None \<Rightarrow> Inl (Errorf (''cannot find notification item by name: '' @ name @
                               '' for cluster '' @ clusterID))))"

fun hasItem :: "NotificationRecordItem list \<Rightarrow> string \<Rightarrow> bool" where
  "hasItem [] clusterID = False"
| "hasItem (ri # ris) clusterID =
     (if item_HostedClusterID ri = clusterID then True else hasItem ris clusterID)"

definition HasNotificationRecordItem ::
  "ManagedFleetNotificationRecord \<Rightarrow> string \<Rightarrow> string \<Rightarrow> string \<Rightarrow> bool" where
  "HasNotificationRecordItem fnr mc name clusterID =
     (if mc \<noteq> cluster fnr then False
      else case GetNotificationRecordByName fnr mc name of
             Inl err \<Rightarrow> False
           | Inr rn \<Rightarrow> hasItem (rbn_NotificationRecordItems rn) clusterID)"

definition FiringCanBeSent ::
  "ManagedFleetNotificationRecord \<Rightarrow> string \<Rightarrow> string \<Rightarrow> string \<Rightarrow> Time \<Rightarrow> error + bool" where
  "FiringCanBeSent fnr mc name clusterID now =
     (case GetNotificationRecordByName fnr mc name of
        Inl err \<Rightarrow> Inl err
      | Inr rn \<Rightarrow>
          let interval = rbn_ResendWait rn in
          if \<not> HasNotificationRecordItem fnr mc name clusterID then Inr True
          else case GetNotificationRecordItem fnr mc name clusterID of
                 Inl err \<Rightarrow> Inl err
               | Inr ri \<Rightarrow>
                   (case item_LastTransitionTime ri of
                      None \<Rightarrow> Inr True
                    | Some ltt \<Rightarrow>
                        let nextSend = Time_Add ltt (hours interval) in
                        if Time_After now nextSend then Inr True else Inr False))"

definition newItem :: "string \<Rightarrow> NotificationRecordItem" where
  "newItem clusterID =
     \<lparr>item_HostedClusterID = clusterID, item_FiringNotificationSentCount = 0,
      item_ResolvedNotificationSentCount = 0, item_LastTransitionTime = None\<rparr>"

text \<open>The loop of \<open>AddNotificationRecordItem\<close>: it stops at the first record of that name.\<close>
fun addLoop :: "NotificationRecordByName list \<Rightarrow> string \<Rightarrow> string \<Rightarrow>
    error + (NotificationRecordItem \<times> NotificationRecordByName list)" where
  "addLoop [] name clusterID = Inl (Errorf (''notification '' @ name @ '' does not exist''))"
| "addLoop (nfr # rest) name clusterID =
     (if rbn_NotificationName nfr \<noteq> name
      then (case addLoop rest name clusterID of
              Inl err \<Rightarrow> Inl err
            | Inr (ri, rest') \<Rightarrow> Inr (ri, nfr # rest'))
      else if hasItem (rbn_NotificationRecordItems nfr) clusterID
      then Inl (Errorf (''notification record item for notification '' @ name @
                        '' and hosted cluster '' @ clusterID @ '' exists''))
      else let ri = newItem clusterID in
        Inr (ri, nfr\<lparr>rbn_NotificationRecordItems := rbn_NotificationRecordItems nfr @ [ri]\<rparr> # rest))"

definition AddNotificationRecordItem :: "string \<Rightarrow> NotificationRecordByName \<Rightarrow>
    (ManagedFleetNotificationRecord, NotificationRecordItem) step" where
  "AddNotificationRecordItem clusterID rn fnr =
     (case addLoop (records fnr) (rbn_NotificationName rn) clusterID of
        Inl err \<Rightarrow> (Inl err, fnr)
      | Inr (ri, rs) \<Rightarrow> (Inr ri, withRecords fnr rs))"

text \<open>The change \<open>UpdateNotificationRecordItem\<close> makes to the item it finds.\<close>
definition countItem :: "bool \<Rightarrow> Time \<Rightarrow> NotificationRecordItem \<Rightarrow> NotificationRecordItem" where
  "countItem statusFiring now ri =
     (if statusFiring
      then ri\<lparr>item_FiringNotificationSentCount := item_FiringNotificationSentCount ri + 1\<rparr>
      else ri\<lparr>item_ResolvedNotificationSentCount := item_ResolvedNotificationSentCount ri + 1\<rparr>)
     \<lparr>item_LastTransitionTime := Some now\<rparr>"

fun updateItems :: "NotificationRecordItem list \<Rightarrow> string \<Rightarrow> bool \<Rightarrow> Time \<Rightarrow>
    (NotificationRecordItem \<times> NotificationRecordItem list) option" where
  "updateItems [] hostedClusterID statusFiring now = None"
| "updateItems (nfi # rest) hostedClusterID statusFiring now =
     (if item_HostedClusterID nfi = hostedClusterID
      then let ri = countItem statusFiring now nfi in Some (ri, ri # rest)
      else map_option (\<lambda>(ri, rest'). (ri, nfi # rest'))
             (updateItems rest hostedClusterID statusFiring now))"

text \<open>The outer loop: unlike the one of \<open>AddNotificationRecordItem\<close> it goes on to later
  records of the same name when the item is not in this one.\<close>
fun updateLoop :: "NotificationRecordByName list \<Rightarrow> string \<Rightarrow> string \<Rightarrow> bool \<Rightarrow> Time \<Rightarrow>
    (NotificationRecordItem \<times> NotificationRecordByName list) option" where
  "updateLoop [] name hostedClusterID statusFiring now = None"
| "updateLoop (nfr # rest) name hostedClusterID statusFiring now =
     (let continue = map_option (\<lambda>(ri, rest'). (ri, nfr # rest'))
            (updateLoop rest name hostedClusterID statusFiring now) in
      if rbn_NotificationName nfr \<noteq> name then continue
      else case updateItems (rbn_NotificationRecordItems nfr) hostedClusterID statusFiring now of
             Some (ri, items) \<Rightarrow> Some (ri, nfr\<lparr>rbn_NotificationRecordItems := items\<rparr> # rest)
           | None \<Rightarrow> continue)"

definition recordNotFound :: "string \<Rightarrow> string \<Rightarrow> error" where
  "recordNotFound name hostedClusterID =
     Errorf (''notification record not found for Notification '' @ name @
             '' and Hosted Cluster '' @ hostedClusterID)"

definition UpdateNotificationRecordItem :: "string \<Rightarrow> string \<Rightarrow> bool \<Rightarrow> Time \<Rightarrow>
    (ManagedFleetNotificationRecord, NotificationRecordItem) step" where
  "UpdateNotificationRecordItem name hostedClusterID statusFiring now fnr =
     (case updateLoop (records fnr) name hostedClusterID statusFiring now of
        None \<Rightarrow> (Inl (recordNotFound name hostedClusterID), fnr)
      | Some (ri, rs) \<Rightarrow> (Inr ri, withRecords fnr rs))"

text \<open>\<open>append(items[:j], items[j+1:]...)\<close> at the first item of that cluster.\<close>
fun removeItems :: "NotificationRecordItem list \<Rightarrow> string \<Rightarrow> NotificationRecordItem list option" where
  "removeItems [] hostedClusterID = None"
| "removeItems (nfi # rest) hostedClusterID =
     (if item_HostedClusterID nfi = hostedClusterID then Some rest
      else map_option (Cons nfi) (removeItems rest hostedClusterID))"

fun removeLoop :: "NotificationRecordByName list \<Rightarrow> string \<Rightarrow> string \<Rightarrow>
    (NotificationRecordByName \<times> NotificationRecordByName list) option" where
  "removeLoop [] name hostedClusterID = None"
| "removeLoop (nfr # rest) name hostedClusterID =
     (let continue = map_option (\<lambda>(rn, rest'). (rn, nfr # rest'))
            (removeLoop rest name hostedClusterID) in
      if rbn_NotificationName nfr \<noteq> name then continue
      else case removeItems (rbn_NotificationRecordItems nfr) hostedClusterID of
             Some items \<Rightarrow>
               let nfr' = nfr\<lparr>rbn_NotificationRecordItems := items\<rparr> in Some (nfr', nfr' # rest)
           | None \<Rightarrow> continue)"

definition RemoveNotificationRecordItem :: "string \<Rightarrow> string \<Rightarrow>
    (ManagedFleetNotificationRecord, NotificationRecordByName) step" where
  "RemoveNotificationRecordItem name hostedClusterID fnr =
     (case removeLoop (records fnr) name hostedClusterID of
        None \<Rightarrow> (Inl (recordNotFound name hostedClusterID), fnr)
      | Some (rn, rs) \<Rightarrow> (Inr rn, withRecords fnr rs))"

section \<open>Invariant and abstract view\<close>

text \<open>At most one record per notification name and one item per hosted cluster in it.\<close>
definition wf_items :: "NotificationRecordItem list \<Rightarrow> bool" where
  "wf_items ris \<longleftrightarrow> distinct (map item_HostedClusterID ris)"

definition wf_rbns :: "NotificationRecordByName list \<Rightarrow> bool" where
  "wf_rbns rs \<longleftrightarrow> distinct (map rbn_NotificationName rs) \<and>
     (\<forall>rn \<in> set rs. wf_items (rbn_NotificationRecordItems rn))"

definition wf_fleet :: "ManagedFleetNotificationRecord \<Rightarrow> bool" where
  "wf_fleet fnr \<longleftrightarrow> wf_rbns (records fnr)"

text \<open>The abstract state: which item a notification name and a hosted cluster have.\<close>
definition rbns_view :: "NotificationRecordByName list \<Rightarrow> string \<times> string \<Rightarrow> NotificationRecordItem option" where
  "rbns_view rs = (\<lambda>(name, clusterID).
     case scanByName rs name of
       None \<Rightarrow> None
     | Some rn \<Rightarrow> scanItem (rbn_NotificationRecordItems rn) clusterID)"

definition fleet_view :: "ManagedFleetNotificationRecord \<Rightarrow> string \<times> string \<Rightarrow> NotificationRecordItem option" where
  "fleet_view fnr = rbns_view (records fnr)"

text \<open>The shape the operations leave alone: names, waits and the order of the records.\<close>
definition rbns_shape :: "NotificationRecordByName list \<Rightarrow> (string \<times> int32) list" where
  "rbns_shape rs = map (\<lambda>rn. (rbn_NotificationName rn, rbn_ResendWait rn)) rs"

section \<open>Items of one record\<close>

lemma hasItem_iff: "hasItem ris c \<longleftrightarrow> scanItem ris c \<noteq> None"
  by (induction ris) auto

lemma scanItem_append: "scanItem (xs @ ys) c = (case scanItem xs c of None \<Rightarrow> scanItem ys c | Some r \<Rightarrow> Some r)"
  by (induction xs) auto

lemma scanItem_None_iff: "scanItem ris c = None \<longleftrightarrow> c \<notin> item_HostedClusterID ` set ris"
  by (induction ris) auto

lemma scanItem_ID: "scanItem ris c = Some ri \<Longrightarrow> item_HostedClusterID ri = c"
  by (induction ris) (auto split: if_splits)

lemma newItem_ID [simp]: "item_HostedClusterID (newItem c) = c"
  by (simp add: newItem_def)

lemma countItem_fields [simp]:
  "item_HostedClusterID (countItem f now ri) = item_HostedClusterID ri"
  "item_LastTransitionTime (countItem f now ri) = Some now"
  by (simp_all add: countItem_def)

lemma updateItems_None_iff: "updateItems ris c f now = None \<longleftrightarrow> scanItem ris c = None"
  by (induction ris) (auto simp: Let_def)

lemma updateItems_Some:
  assumes "updateItems ris c f now = Some (ri, ris')"
  shows "scanItem ris' = (scanItem ris)(c \<mapsto> ri) \<and>
    (\<exists>ri0. scanItem ris c = Some ri0 \<and> ri = countItem f now ri0) \<and>
    map item_HostedClusterID ris' = map item_HostedClusterID ris"
  using assms
proof (induction ris arbitrary: ris')
  case (Cons x xs)
  show ?case
  proof (cases "item_HostedClusterID x = c")
    case True
    with Cons.prems show ?thesis by (auto simp: Let_def fun_eq_iff)
  next
    case False
    with Cons.prems obtain xs' where "updateItems xs c f now = Some (ri, xs')" and "ris' = x # xs'"
      by auto
    with False Cons.IH show ?thesis by (auto simp: fun_eq_iff)
  qed
qed simp

lemma removeItems_None_iff: "removeItems ris c = None \<longleftrightarrow> scanItem ris c = None"
  by (induction ris) auto

lemma removeItems_Some:
  assumes "removeItems ris c = Some ris'" and "wf_items ris"
  shows "scanItem ris' = (scanItem ris)(c := None) \<and> wf_items ris' \<and>
    set ris' = {ri \<in> set ris. item_HostedClusterID ri \<noteq> c}"
  using assms
proof (induction ris arbitrary: ris')
  case (Cons x xs)
  show ?case
  proof (cases "item_HostedClusterID x = c")
    case True
    with Cons.prems have "ris' = xs" "c \<notin> item_HostedClusterID ` set xs" "wf_items xs"
      by (auto simp: wf_items_def)
    with True show ?thesis by (auto simp: fun_eq_iff scanItem_None_iff image_iff)
  next
    case False
    with Cons.prems obtain xs' where xs': "removeItems xs c = Some xs'" "ris' = x # xs'" "wf_items xs"
      by (auto simp: wf_items_def)
    with Cons.IH have "scanItem xs' = (scanItem xs)(c := None)" "wf_items xs'"
      "set xs' = {ri \<in> set xs. item_HostedClusterID ri \<noteq> c}" by auto
    with False xs' Cons.prems(2) show ?thesis by (auto simp: fun_eq_iff wf_items_def)
  qed
qed simp

lemma removeItems_new: "scanItem ris c = None \<Longrightarrow> removeItems (ris @ [newItem c]) c = Some ris"
  by (induction ris) (auto split: if_splits)

lemma wf_items_snoc: "wf_items (ris @ [newItem c]) \<longleftrightarrow> wf_items ris \<and> scanItem ris c = None"
  by (auto simp: wf_items_def scanItem_None_iff)

section \<open>The records of a management cluster\<close>

lemma scanByName_None_iff: "scanByName rs n = None \<longleftrightarrow> n \<notin> rbn_NotificationName ` set rs"
  by (induction rs) auto

lemma scanByName_Name: "scanByName rs n = Some rn \<Longrightarrow> rbn_NotificationName rn = n \<and> rn \<in> set rs"
  by (induction rs) (auto split: if_splits)

lemma rbns_view_Nil [simp]: "rbns_view [] = (\<lambda>_. None)"
  by (auto simp: rbns_view_def)

lemma rbns_view_Cons: "rbns_view (rn # rs) k =
    (if rbn_NotificationName rn = fst k then scanItem (rbn_NotificationRecordItems rn) (snd k)
     else rbns_view rs k)"
  by (cases k) (simp add: rbns_view_def)

lemma wf_rbns_Cons: "wf_rbns (rn # rs) \<longleftrightarrow>
    wf_items (rbn_NotificationRecordItems rn) \<and> wf_rbns rs \<and> scanByName rs (rbn_NotificationName rn) = None"
  by (auto simp: wf_rbns_def scanByName_None_iff)

lemma rbns_shape_names: "rbns_shape rs' = rbns_shape rs \<Longrightarrow>
    rbn_NotificationName ` set rs' = rbn_NotificationName ` set rs"
  by (metis (mono_tags, lifting) fst_conv image_cong image_image list.set_map rbns_shape_def)

lemma rbns_shape_Cons [simp]: "rbns_shape (rn # rs) = (rbn_NotificationName rn, rbn_ResendWait rn) # rbns_shape rs"
  by (simp add: rbns_shape_def)

text \<open>A record that the loops pass over.\<close>
lemma rbns_skip:
  assumes "rbns_view rs' = (rbns_view rs)((n, c) := v)" and "rbn_NotificationName x \<noteq> n"
    and shape: "rbns_shape rs' = rbns_shape rs"
  shows "rbns_view (x # rs') = (rbns_view (x # rs))((n, c) := v)"
    and "wf_rbns rs' \<Longrightarrow> wf_rbns (x # rs) \<Longrightarrow> wf_rbns (x # rs')"
proof -
  show "rbns_view (x # rs') = (rbns_view (x # rs))((n, c) := v)"
    using assms(1,2) by (auto simp: fun_eq_iff rbns_view_Cons)
  show "wf_rbns (x # rs')" if "wf_rbns rs'" "wf_rbns (x # rs)"
    using that rbns_shape_names[OF shape] unfolding wf_rbns_Cons scanByName_None_iff by simp
qed

lemma addLoop_Inl_iff:
  "(\<exists>e. addLoop rs n c = Inl e) \<longleftrightarrow> scanByName rs n = None \<or> rbns_view rs (n, c) \<noteq> None"
  by (induction rs) (auto simp: rbns_view_Cons hasItem_iff Let_def rbns_view_def split: sum.splits)

lemma addLoop_Inr:
  assumes "addLoop rs n c = Inr (ri, rs')"
  shows "ri = newItem c \<and> rbns_view rs' = (rbns_view rs)((n, c) \<mapsto> ri) \<and>
    rbns_shape rs' = rbns_shape rs \<and> (wf_rbns rs \<longrightarrow> wf_rbns rs')"
  using assms
proof (induction rs arbitrary: rs')
  case (Cons x xs)
  show ?case
  proof (cases "rbn_NotificationName x = n")
    case True
    with Cons.prems have "scanItem (rbn_NotificationRecordItems x) c = None" "ri = newItem c"
      "rs' = x\<lparr>rbn_NotificationRecordItems := rbn_NotificationRecordItems x @ [ri]\<rparr> # xs"
      by (auto simp: Let_def hasItem_iff split: if_splits)
    with True show ?thesis
      by (auto simp: fun_eq_iff rbns_view_Cons scanItem_append wf_rbns_Cons wf_items_snoc split: option.splits)
  next
    case False
    with Cons.prems obtain xs' where xs': "addLoop xs n c = Inr (ri, xs')" "rs' = x # xs'"
      by (auto split: sum.splits)
    note IH = Cons.IH[OF xs'(1)]
    from IH have "rbns_view xs' = (rbns_view xs)((n, c) \<mapsto> ri)" "rbns_shape xs' = rbns_shape xs" by blast+
    note skip = rbns_skip[OF this(1) False this(2)]
    show ?thesis unfolding xs'(2) using IH skip by (metis rbns_shape_Cons wf_rbns_Cons)
  qed
qed simp

lemma updateLoop_None_iff: "wf_rbns rs \<Longrightarrow> updateLoop rs n c f now = None \<longleftrightarrow> rbns_view rs (n, c) = None"
proof (induction rs)
  case (Cons x xs)
  show ?case
  proof (cases "rbn_NotificationName x = n")
    case True
    with Cons.prems have "rbns_view xs (n, c) = None" "wf_rbns xs"
      by (auto simp: wf_rbns_Cons rbns_view_def)
    with True Cons.IH show ?thesis
      using updateItems_None_iff[of "rbn_NotificationRecordItems x" c f now]
      by (auto simp: Let_def rbns_view_Cons split: option.splits)
  next
    case False
    with Cons show ?thesis by (simp add: Let_def rbns_view_Cons wf_rbns_Cons)
  qed
qed simp

lemma updateLoop_Some:
  assumes "updateLoop rs n c f now = Some (ri, rs')" and "wf_rbns rs"
  shows "rbns_view rs' = (rbns_view rs)((n, c) \<mapsto> ri) \<and>
    (\<exists>ri0. rbns_view rs (n, c) = Some ri0 \<and> ri = countItem f now ri0) \<and>
    rbns_shape rs' = rbns_shape rs \<and> wf_rbns rs'"
  using assms
proof (induction rs arbitrary: rs')
  case (Cons x xs)
  show ?case
  proof (cases "rbn_NotificationName x = n \<and> updateItems (rbn_NotificationRecordItems x) c f now \<noteq> None")
    case True
    with Cons.prems obtain items
      where items: "updateItems (rbn_NotificationRecordItems x) c f now = Some (ri, items)"
        "rs' = x\<lparr>rbn_NotificationRecordItems := items\<rparr> # xs" by auto
    from updateItems_Some[OF items(1)] items(2) True Cons.prems(2) show ?thesis
      by (auto simp: fun_eq_iff rbns_view_Cons wf_rbns_Cons wf_items_def)
  next
    case False
    with Cons.prems obtain xs' where xs': "updateLoop xs n c f now = Some (ri, xs')" "rs' = x # xs'"
      by (auto simp: Let_def split: if_splits option.splits)
    from Cons.prems(2) have wf: "wf_rbns xs" by (simp add: wf_rbns_Cons)
    from xs'(1) updateLoop_None_iff[OF wf] have "rbns_view xs (n, c) \<noteq> None" by (metis option.distinct(1))
    with Cons.prems(2) have "rbn_NotificationName x \<noteq> n" by (auto simp: wf_rbns_Cons rbns_view_def)
    note ne = this and IH = Cons.IH[OF xs'(1) wf]
    from IH have "rbns_view xs' = (rbns_view xs)((n, c) \<mapsto> ri)" "rbns_shape xs' = rbns_shape xs" by blast+
    note skip = rbns_skip[OF this(1) ne this(2)]
    show ?thesis unfolding xs'(2) using IH skip Cons.prems(2) ne
      by (metis fst_conv rbns_shape_Cons rbns_view_Cons scanByName.simps(2))
  qed
qed simp

lemma removeLoop_None_iff: "wf_rbns rs \<Longrightarrow> removeLoop rs n c = None \<longleftrightarrow> rbns_view rs (n, c) = None"
proof (induction rs)
  case (Cons x xs)
  show ?case
  proof (cases "rbn_NotificationName x = n")
    case True
    with Cons.prems have "rbns_view xs (n, c) = None" "wf_rbns xs"
      by (auto simp: wf_rbns_Cons rbns_view_def)
    with True Cons.IH show ?thesis
      using removeItems_None_iff[of "rbn_NotificationRecordItems x" c]
      by (auto simp: Let_def rbns_view_Cons split: option.splits)
  next
    case False
    with Cons show ?thesis by (simp add: Let_def rbns_view_Cons wf_rbns_Cons)
  qed
qed simp

lemma removeLoop_Some:
  assumes "removeLoop rs n c = Some (rn, rs')" and "wf_rbns rs"
  shows "rbns_view rs' = (rbns_view rs)((n, c) := None) \<and> rbns_view rs (n, c) \<noteq> None \<and>
    scanByName rs' n = Some rn \<and> rbns_shape rs' = rbns_shape rs \<and> wf_rbns rs'"
  using assms
proof (induction rs arbitrary: rs')
  case (Cons x xs)
  show ?case
  proof (cases "rbn_NotificationName x = n \<and> removeItems (rbn_NotificationRecordItems x) c \<noteq> None")
    case True
    then obtain items where items: "removeItems (rbn_NotificationRecordItems x) c = Some items" by blast
    with True Cons.prems(1) have rs': "rs' = x\<lparr>rbn_NotificationRecordItems := items\<rparr> # xs"
      "rn = x\<lparr>rbn_NotificationRecordItems := items\<rparr>" by (auto simp: Let_def)
    from Cons.prems(2) have "wf_items (rbn_NotificationRecordItems x)" by (simp add: wf_rbns_Cons)
    from removeItems_Some[OF items this] removeItems_None_iff[of "rbn_NotificationRecordItems x" c]
      items True Cons.prems(2) show ?thesis
      unfolding rs' by (simp add: fun_eq_iff rbns_view_Cons wf_rbns_Cons)
  next
    case False
    with Cons.prems obtain xs' where xs': "removeLoop xs n c = Some (rn, xs')" "rs' = x # xs'"
      by (auto simp: Let_def split: if_splits option.splits)
    from Cons.prems(2) have wf: "wf_rbns xs" by (simp add: wf_rbns_Cons)
    from xs'(1) removeLoop_None_iff[OF wf] have "rbns_view xs (n, c) \<noteq> None" by (metis option.distinct(1))
    with Cons.prems(2) have "rbn_NotificationName x \<noteq> n" by (auto simp: wf_rbns_Cons rbns_view_def)
    note ne = this and IH = Cons.IH[OF xs'(1) wf]
    from IH have "rbns_view xs' = (rbns_view xs)((n, c) := None)" "rbns_shape xs' = rbns_shape xs" by blast+
    note skip = rbns_skip[OF this(1) ne this(2)]
    show ?thesis unfolding xs'(2) using IH skip Cons.prems(2) ne
      by (metis fst_conv rbns_shape_Cons rbns_view_Cons scanByName.simps(2))
  qed
qed simp

lemma scanByName_shape:
  assumes "rbns_shape rs' = rbns_shape rs" and "scanByName rs n = Some rn"
  shows "\<exists>rn'. scanByName rs' n = Some rn' \<and> rbn_ResendWait rn' = rbn_ResendWait rn"
  using assms
proof (induction rs arbitrary: rs')
  case (Cons x xs)
  then obtain x' xs' where "rs' = x' # xs'" "rbns_shape xs' = rbns_shape xs"
    "rbn_NotificationName x' = rbn_NotificationName x" "rbn_ResendWait x' = rbn_ResendWait x"
    by (cases rs') (auto simp: rbns_shape_def)
  with Cons.IH[of xs'] Cons.prems(2) show ?case by (auto split: if_splits)
qed simp

section \<open>The history as an abstract map\<close>

text \<open>
  The contract of a store of history items, over a view from keys to items: adding succeeds
  exactly for a known, absent key, updating and removing exactly for a present key, an
  operation that fails changes nothing, and one that succeeds changes one key of the view.
\<close>
locale item_store =
  fixes invar :: "'r \<Rightarrow> bool" and view :: "'r \<Rightarrow> 'k \<Rightarrow> 'v option" and known :: "'r \<Rightarrow> 'k \<Rightarrow> bool"
    and fresh :: "'k \<Rightarrow> 'v" and touch :: "'u \<Rightarrow> 'v \<Rightarrow> 'v"
    and add :: "'k \<Rightarrow> ('r, 'v) step" and upd :: "'k \<Rightarrow> 'u \<Rightarrow> ('r, 'v) step"
    and rem :: "'k \<Rightarrow> ('r, 'x) step"
  assumes add_ok: "invar r \<Longrightarrow> known r k \<Longrightarrow> view r k = None \<Longrightarrow>
      \<exists>r'. add k r = (Inr (fresh k), r') \<and> view r' = (view r)(k \<mapsto> fresh k) \<and> invar r' \<and> known r' = known r"
    and add_err: "invar r \<Longrightarrow> \<not> known r k \<or> view r k \<noteq> None \<Longrightarrow> \<exists>e. add k r = (Inl e, r)"
    and upd_ok: "invar r \<Longrightarrow> view r k = Some v \<Longrightarrow>
      \<exists>r'. upd k u r = (Inr (touch u v), r') \<and> view r' = (view r)(k \<mapsto> touch u v) \<and> invar r' \<and> known r' = known r"
    and upd_err: "invar r \<Longrightarrow> view r k = None \<Longrightarrow> \<exists>e. upd k u r = (Inl e, r)"
    and rem_ok: "invar r \<Longrightarrow> view r k = Some v \<Longrightarrow>
      \<exists>x r'. rem k r = (Inr x, r') \<and> view r' = (view r)(k := None) \<and> invar r' \<and> known r' = known r"
    and rem_err: "invar r \<Longrightarrow> view r k = None \<Longrightarrow> \<exists>e. rem k r = (Inl e, r)"
begin

lemma add_invar: "invar r \<Longrightarrow> add k r = (q, r') \<Longrightarrow> invar r' \<and> known r' = known r"
  using add_ok[of r k] add_err[of r k] by (cases "known r k \<and> view r k = None") auto

lemma upd_invar: "invar r \<Longrightarrow> upd k u r = (q, r') \<Longrightarrow> invar r' \<and> known r' = known r"
  using upd_ok[of r k _ u] upd_err[of r k u] by (cases "view r k") auto

lemma rem_invar: "invar r \<Longrightarrow> rem k r = (q, r') \<Longrightarrow> invar r' \<and> known r' = known r"
  using rem_ok[of r k] rem_err[of r k] by (cases "view r k") auto

lemmas op_invar = add_invar upd_invar rem_invar

text \<open>Adding, touching and removing an item leaves the view as it was.\<close>
lemma add_upd_rem:
  assumes "invar r" "known r k" "view r k = None"
    and "andThen (add k) (\<lambda>_. andThen (upd k u) (\<lambda>_. rem k)) r = (q, r')"
  shows "(\<exists>x. q = Inr x) \<and> view r' = view r"
proof -
  from add_ok[OF assms(1-3)] obtain r1
    where r1: "add k r = (Inr (fresh k), r1)" "view r1 = (view r)(k \<mapsto> fresh k)" "invar r1" by blast
  with upd_ok[of r1 k "fresh k" u] obtain r2
    where r2: "upd k u r1 = (Inr (touch u (fresh k)), r2)" "invar r2"
      "view r2 = (view r1)(k \<mapsto> touch u (fresh k))" by auto
  with rem_ok[of r2 k] obtain x r3 where "rem k r2 = (Inr x, r3)" "view r3 = (view r2)(k := None)" by auto
  with assms(3,4) r1 r2 show ?thesis by (auto simp: andThen_def fun_upd_idem)
qed

end

text \<open>\<open>AddNotificationRecordItem\<close> uses of its record argument only the name.\<close>
definition nameOnly :: "string \<Rightarrow> NotificationRecordByName" where
  "nameOnly n = \<lparr>rbn_NotificationName = n, rbn_ResendWait = 0, rbn_NotificationRecordItems = []\<rparr>"

lemma AddNotificationRecordItem_nameOnly:
  "AddNotificationRecordItem c rn = AddNotificationRecordItem c (nameOnly (rbn_NotificationName rn))"
  by (simp add: fun_eq_iff AddNotificationRecordItem_def nameOnly_def)

lemma withRecords_simps [simp]:
  "records (withRecords fnr rs) = rs" "cluster (withRecords fnr rs) = cluster fnr"
  "withRecords (withRecords fnr rs) rs' = withRecords fnr rs'" "withRecords fnr (records fnr) = fnr"
  by (simp_all add: withRecords_def)

lemma fleet_withRecords [simp]:
  "fleet_view (withRecords fnr rs) = rbns_view rs" "wf_fleet (withRecords fnr rs) = wf_rbns rs"
  by (simp_all add: fleet_view_def wf_fleet_def)

definition fleet_known :: "ManagedFleetNotificationRecord \<Rightarrow> string \<times> string \<Rightarrow> bool" where
  "fleet_known fnr k \<longleftrightarrow> fst k \<in> rbn_NotificationName ` set (records fnr)"

lemma fleet_known_shape:
  "rbns_shape rs' = rbns_shape (records fnr) \<Longrightarrow> fleet_known (withRecords fnr rs') = fleet_known fnr"
  by (drule rbns_shape_names) (simp add: fun_eq_iff fleet_known_def)

lemma fleet_add_ok:
  assumes "wf_fleet fnr" "fleet_known fnr (n, c)" "fleet_view fnr (n, c) = None"
  shows "\<exists>rs. AddNotificationRecordItem c (nameOnly n) fnr = (Inr (newItem c), withRecords fnr rs) \<and>
    rbns_view rs = (fleet_view fnr)((n, c) \<mapsto> newItem c) \<and> wf_rbns rs \<and> rbns_shape rs = rbns_shape (records fnr)"
proof -
  from assms obtain ri rs where rs: "addLoop (records fnr) n c = Inr (ri, rs)"
    using addLoop_Inl_iff[of "records fnr" n c]
    by (cases "addLoop (records fnr) n c") (auto simp: fleet_known_def fleet_view_def scanByName_None_iff)
  with addLoop_Inr[OF rs] assms(1) show ?thesis
    by (auto simp: AddNotificationRecordItem_def nameOnly_def fleet_view_def wf_fleet_def)
qed

lemma fleet_upd_ok:
  assumes "wf_fleet fnr" "fleet_view fnr (n, c) = Some ri"
  shows "\<exists>rs. UpdateNotificationRecordItem n c f now fnr = (Inr (countItem f now ri), withRecords fnr rs) \<and>
    rbns_view rs = (fleet_view fnr)((n, c) \<mapsto> countItem f now ri) \<and> wf_rbns rs \<and>
    rbns_shape rs = rbns_shape (records fnr)"
proof -
  from assms obtain ri' rs where rs: "updateLoop (records fnr) n c f now = Some (ri', rs)"
    using updateLoop_None_iff[of "records fnr" n c f now] by (auto simp: fleet_view_def wf_fleet_def)
  with updateLoop_Some[OF rs] assms show ?thesis
    by (auto simp: UpdateNotificationRecordItem_def fleet_view_def wf_fleet_def)
qed

lemma fleet_rem_ok:
  assumes "wf_fleet fnr" "fleet_view fnr (n, c) = Some ri"
  shows "\<exists>rn rs. RemoveNotificationRecordItem n c fnr = (Inr rn, withRecords fnr rs) \<and>
    rbns_view rs = (fleet_view fnr)((n, c) := None) \<and> wf_rbns rs \<and> rbns_shape rs = rbns_shape (records fnr)"
proof -
  from assms obtain rn rs where rs: "removeLoop (records fnr) n c = Some (rn, rs)"
    using removeLoop_None_iff[of "records fnr" n c] by (auto simp: fleet_view_def wf_fleet_def)
  with removeLoop_Some[OF rs] assms show ?thesis
    by (auto simp: RemoveNotificationRecordItem_def fleet_view_def wf_fleet_def)
qed

interpretation fleet: item_store wf_fleet fleet_view fleet_known "\<lambda>k. newItem (snd k)"
  "\<lambda>u. countItem (fst u) (snd u)"
  "\<lambda>k. AddNotificationRecordItem (snd k) (nameOnly (fst k))"
  "\<lambda>k u. UpdateNotificationRecordItem (fst k) (snd k) (fst u) (snd u)"
  "\<lambda>k. RemoveNotificationRecordItem (fst k) (snd k)"
proof unfold_locales
  fix r k v u
  show "\<exists>r'. AddNotificationRecordItem (snd k) (nameOnly (fst k)) r = (Inr (newItem (snd k)), r') \<and>
      fleet_view r' = (fleet_view r)(k \<mapsto> newItem (snd k)) \<and> wf_fleet r' \<and> fleet_known r' = fleet_known r"
    if "wf_fleet r" "fleet_known r k" "fleet_view r k = None"
    using fleet_add_ok[of r "fst k" "snd k"] that fleet_known_shape[of _ r] by fastforce
  show "\<exists>r'. UpdateNotificationRecordItem (fst k) (snd k) (fst u) (snd u) r = (Inr (countItem (fst u) (snd u) v), r') \<and>
      fleet_view r' = (fleet_view r)(k \<mapsto> countItem (fst u) (snd u) v) \<and> wf_fleet r' \<and> fleet_known r' = fleet_known r"
    if "wf_fleet r" "fleet_view r k = Some v"
    using fleet_upd_ok[of r "fst k" "snd k" v "fst u" "snd u"] that fleet_known_shape[of _ r] by fastforce
  show "\<exists>x r'. RemoveNotificationRecordItem (fst k) (snd k) r = (Inr x, r') \<and>
      fleet_view r' = (fleet_view r)(k := None) \<and> wf_fleet r' \<and> fleet_known r' = fleet_known r"
    if "wf_fleet r" "fleet_view r k = Some v"
    using fleet_rem_ok[of r "fst k" "snd k" v] that fleet_known_shape[of _ r] by fastforce
  show "\<exists>e. AddNotificationRecordItem (snd k) (nameOnly (fst k)) r = (Inl e, r)"
    if "wf_fleet r" "\<not> fleet_known r k \<or> fleet_view r k \<noteq> None"
    using that addLoop_Inl_iff[of "records r" "fst k" "snd k"]
    by (auto simp: AddNotificationRecordItem_def nameOnly_def fleet_known_def fleet_view_def scanByName_None_iff)
  show "\<exists>e. UpdateNotificationRecordItem (fst k) (snd k) (fst u) (snd u) r = (Inl e, r)"
    if "wf_fleet r" "fleet_view r k = None"
    using that updateLoop_None_iff[of "records r" "fst k" "snd k" "fst u" "snd u"]
    by (simp add: UpdateNotificationRecordItem_def fleet_view_def wf_fleet_def)
  show "\<exists>e. RemoveNotificationRecordItem (fst k) (snd k) r = (Inl e, r)"
    if "wf_fleet r" "fleet_view r k = None"
    using that removeLoop_None_iff[of "records r" "fst k" "snd k"]
    by (simp add: RemoveNotificationRecordItem_def fleet_view_def wf_fleet_def)
qed

section \<open>Executions\<close>

text \<open>One call of a mutating method by the agent that owns the record, successful or not.\<close>
inductive fleet_step :: "ManagedFleetNotificationRecord \<Rightarrow> ManagedFleetNotificationRecord \<Rightarrow> bool" where
  add: "AddNotificationRecordItem c rn fnr = (q, fnr') \<Longrightarrow> fleet_step fnr fnr'"
| update: "UpdateNotificationRecordItem n c firing now fnr = (q', fnr') \<Longrightarrow> fleet_step fnr fnr'"
| remove: "RemoveNotificationRecordItem n c fnr = (q'', fnr') \<Longrightarrow> fleet_step fnr fnr'"

inductive_simps fleet_step_iff: "fleet_step fnr fnr'"

text \<open>What no call changes: the management cluster, the names and the waits.\<close>
definition fleet_frame :: "ManagedFleetNotificationRecord \<Rightarrow> string \<times> (string \<times> int32) list" where
  "fleet_frame fnr = (cluster fnr, rbns_shape (records fnr))"

lemma addLoop_frame: "addLoop rs n c = Inr (ri, rs') \<Longrightarrow> rbns_shape rs' = rbns_shape rs"
  by (drule addLoop_Inr) blast

lemma updateLoop_frame: "updateLoop rs n c f now = Some (ri, rs') \<Longrightarrow> rbns_shape rs' = rbns_shape rs"
  by (induction rs arbitrary: rs') (auto simp: Let_def split: if_splits option.splits)

lemma removeLoop_frame: "removeLoop rs n c = Some (rn, rs') \<Longrightarrow> rbns_shape rs' = rbns_shape rs"
  by (induction rs arbitrary: rs') (auto simp: Let_def split: if_splits option.splits)

lemma fleet_step_frame: "fleet_step fnr fnr' \<Longrightarrow> fleet_frame fnr' = fleet_frame fnr"
proof (induction rule: fleet_step.induct)
  case (add c rn fnr q fnr')
  then show ?case
    by (cases "addLoop (records fnr) (rbn_NotificationName rn) c")
      (auto simp: fleet_frame_def AddNotificationRecordItem_def addLoop_frame)
qed (auto simp: fleet_frame_def UpdateNotificationRecordItem_def RemoveNotificationRecordItem_def
      updateLoop_frame removeLoop_frame split: option.splits)

lemma fleet_step_wf: "fleet_step fnr fnr' \<Longrightarrow> wf_fleet fnr \<Longrightarrow> wf_fleet fnr'"
  using fleet.add_invar[of fnr "(_, _)"] fleet.upd_invar[of fnr "(_, _)" "(_, _)"] fleet.rem_invar[of fnr "(_, _)"]
  by (metis AddNotificationRecordItem_nameOnly fleet_step_iff fst_conv snd_conv)

section \<open>Properties\<close>

text \<open>A record with one notification and no history, used in the witnesses.\<close>
definition sampleFleet :: "int32 \<Rightarrow> ManagedFleetNotificationRecord" where
  "sampleFleet wait =
     \<lparr>mfnr_Name = ''mc-1'', mfnr_Namespace = ''ns'',
      mfnr_Status = \<lparr>mfnrs_ManagementCluster = ''mc-1'',
        mfnrs_NotificationRecordByName =
          [\<lparr>rbn_NotificationName = ''audit'', rbn_ResendWait = wait, rbn_NotificationRecordItems = []\<rparr>]\<rparr>\<rparr>"

lemma sampleFleet_simps [simp]:
  "records (sampleFleet w) = [\<lparr>rbn_NotificationName = ''audit'', rbn_ResendWait = w, rbn_NotificationRecordItems = []\<rparr>]"
  "cluster (sampleFleet w) = ''mc-1''" "wf_fleet (sampleFleet w)" "fleet_known (sampleFleet w) (''audit'', c)"
  "fleet_view (sampleFleet w) k = None"
  by (simp_all add: sampleFleet_def wf_fleet_def wf_rbns_def wf_items_def fleet_known_def fleet_view_def
      rbns_view_Cons)

text \<open>C24. Along every sequence of calls, successful or not, the history keeps at most one record
  per notification name and one item per hosted cluster, and the management cluster, the
  notification names and their resend waits stay as they are.\<close>
theorem fleet_run_invariant:
  assumes "fleet_step\<^sup>*\<^sup>* fnr fnr'" and "wf_fleet fnr"
  shows "wf_fleet fnr' \<and> fleet_frame fnr' = fleet_frame fnr"
  using assms
  by (induction rule: rtranclp_induct) (auto dest: fleet_step_wf fleet_step_frame)

lemma fleet_run_invariant_witness:
  "wf_fleet (snd (AddNotificationRecordItem ''hc-1'' (nameOnly ''audit'') (sampleFleet 24)))"
proof -
  have "fleet_step\<^sup>*\<^sup>* (sampleFleet 24) (snd (AddNotificationRecordItem ''hc-1'' (nameOnly ''audit'') (sampleFleet 24)))"
    by (rule r_into_rtranclp) (rule fleet_step.add, rule prod.collapse[symmetric])
  from fleet_run_invariant[OF this] show ?thesis by simp
qed

text \<open>C23. Adding an item refines the update of a map from (notification, hosted cluster) to items:
  it succeeds exactly when the notification has a record and the cluster no item in it, it then
  returns and stores a fresh item under that key only, and otherwise changes nothing.\<close>
theorem AddNotificationRecordItem_refines:
  assumes "wf_fleet fnr" and "AddNotificationRecordItem c rn fnr = (q, fnr')"
    and "k = (rbn_NotificationName rn, c)"
  shows "if fleet_known fnr k \<and> fleet_view fnr k = None
         then q = Inr (newItem c) \<and> fleet_view fnr' = (fleet_view fnr)(k \<mapsto> newItem c)
         else (\<exists>e. q = Inl e) \<and> fnr' = fnr"
  using assms(2,3) AddNotificationRecordItem_nameOnly[of c rn] fleet.add_ok[OF assms(1), of k]
    fleet.add_err[OF assms(1), of k] by auto

lemma AddNotificationRecordItem_refines_witness:
  "fleet_view (snd (AddNotificationRecordItem ''hc-1'' (nameOnly ''audit'') (sampleFleet 24))) (''audit'', ''hc-1'')
     = Some (newItem ''hc-1'')"
  using AddNotificationRecordItem_refines[of "sampleFleet 24" "''hc-1''" "nameOnly ''audit''" _ _ "(''audit'', ''hc-1'')",
      OF _ prod.collapse[symmetric]]
  by (simp add: nameOnly_def)

text \<open>Updating an item: a present item gets the counter of the reported status one higher (modulo
  \<open>2 ^ 64\<close>), the other counter kept and the transition time set to now; every other item, the names,
  waits and the order of the records are kept. An absent item is an error that changes nothing.\<close>
theorem UpdateNotificationRecordItem_effect:
  assumes "wf_fleet fnr" and "UpdateNotificationRecordItem n c firing now fnr = (q, fnr')"
  shows "case fleet_view fnr (n, c) of
      None \<Rightarrow> (\<exists>e. q = Inl e) \<and> fnr' = fnr
    | Some ri \<Rightarrow> \<exists>ri'. q = Inr ri' \<and> fleet_view fnr' = (fleet_view fnr)((n, c) \<mapsto> ri') \<and>
        fleet_frame fnr' = fleet_frame fnr \<and> item_HostedClusterID ri' = item_HostedClusterID ri \<and>
        item_LastTransitionTime ri' = Some now \<and>
        item_FiringNotificationSentCount ri' = item_FiringNotificationSentCount ri + (if firing then 1 else 0) \<and>
        item_ResolvedNotificationSentCount ri' = item_ResolvedNotificationSentCount ri + (if firing then 0 else 1)"
proof (cases "fleet_view fnr (n, c)")
  case None
  with fleet.upd_err[OF assms(1), of "(n, c)" "(firing, now)"] assms(2) show ?thesis by simp
next
  case (Some ri)
  from fleet.upd_ok[OF assms(1) this, of "(firing, now)"] assms(2)
  have "q = Inr (countItem firing now ri)" "fleet_view fnr' = (fleet_view fnr)((n, c) \<mapsto> countItem firing now ri)"
    by auto
  moreover have "fleet_frame fnr' = fleet_frame fnr"
    using assms(2) by (intro fleet_step_frame fleet_step.update)
  ultimately show ?thesis using Some by (simp add: countItem_def)
qed

lemma UpdateNotificationRecordItem_effect_witness:
  "snd (UpdateNotificationRecordItem ''audit'' ''hc-9'' True 5 (sampleFleet 24)) = sampleFleet 24"
  using UpdateNotificationRecordItem_effect[of "sampleFleet 24" "''audit''" "''hc-9''" True 5,
      OF _ prod.collapse[symmetric]]
  by simp

text \<open>C29. A resend decision follows the update: after an item has been counted as sent at \<open>t0\<close>, a
  firing notification for it may go out exactly after \<open>t0\<close> plus the resend wait of its record, for
  waits of at most 2562047 hours; the boundary instant itself is excluded.\<close>
theorem FiringCanBeSent_after_update:
  assumes "wf_fleet fnr" and "fleet_view fnr (n, c) = Some ri"
    and "UpdateNotificationRecordItem n c firing t0 fnr = (q, fnr')"
    and "scanByName (records fnr) n = Some rn"
    and "- maxHours \<le> sint (rbn_ResendWait rn)" and "sint (rbn_ResendWait rn) \<le> maxHours"
  shows "FiringCanBeSent fnr' (cluster fnr) n c now = Inr (t0 + sint (rbn_ResendWait rn) * hourNs < now)"
proof -
  from fleet.upd_ok[OF assms(1,2), of "(firing, t0)"] assms(3)
  have view: "fleet_view fnr' (n, c) = Some (countItem firing t0 ri)" by auto
  have frame: "fleet_frame fnr' = fleet_frame fnr"
    using assms(3) by (intro fleet_step_frame fleet_step.update)
  then have "rbns_shape (records fnr') = rbns_shape (records fnr)" by (simp add: fleet_frame_def)
  then obtain rn' where rn': "scanByName (records fnr') n = Some rn'" "rbn_ResendWait rn' = rbn_ResendWait rn"
    using assms(4) by (auto dest: scanByName_shape)
  with view have "scanItem (rbn_NotificationRecordItems rn') c = Some (countItem firing t0 ri)"
    by (simp add: fleet_view_def rbns_view_def)
  with rn' frame assms(5,6) show ?thesis
    by (simp add: FiringCanBeSent_def GetNotificationRecordByName_def GetNotificationRecordByMC_def fleet_frame_def
        HasNotificationRecordItem_def GetNotificationRecordItem_def hasItem_iff Time_Add_hours Time_After_def)
qed

lemma FiringCanBeSent_after_update_witness:
  "\<exists>fnr. fleet_view fnr (''audit'', ''hc-1'') = Some (newItem ''hc-1'') \<and>
     FiringCanBeSent (snd (UpdateNotificationRecordItem ''audit'' ''hc-1'' True 0 fnr)) ''mc-1'' ''audit'' ''hc-1'' (25 * hourNs)
       = Inr True"
proof -
  let ?fnr = "withRecords (sampleFleet 24)
    [\<lparr>rbn_NotificationName = ''audit'', rbn_ResendWait = 24, rbn_NotificationRecordItems = [newItem ''hc-1'']\<rparr>]"
  have "wf_fleet ?fnr" "fleet_view ?fnr (''audit'', ''hc-1'') = Some (newItem ''hc-1'')"
    by (simp_all add: wf_rbns_def wf_items_def rbns_view_Cons)
  with FiringCanBeSent_after_update[of ?fnr "''audit''" "''hc-1''" "newItem ''hc-1''" True 0,
      OF _ _ prod.collapse[symmetric]]
  show ?thesis by (intro exI[of _ ?fnr]) (simp add: maxHours_def hourNs_def)
qed

text \<open>Adding an item, counting a notification for it and removing it again leaves no trace: all
  three calls succeed and the history reads as before.\<close>
theorem add_update_remove_roundtrip:
  assumes "wf_fleet fnr" and "fleet_known fnr (n, c)" and "fleet_view fnr (n, c) = None"
    and "andThen (AddNotificationRecordItem c (nameOnly n))
           (\<lambda>_. andThen (UpdateNotificationRecordItem n c firing now) (\<lambda>_. RemoveNotificationRecordItem n c)) fnr = (q, fnr')"
  shows "(\<exists>rn. q = Inr rn) \<and> fleet_view fnr' = fleet_view fnr"
  using fleet.add_upd_rem[OF assms(1-3), of "(firing, now)"] assms(4) by simp

lemma add_update_remove_roundtrip_witness:
  "fleet_view (snd (andThen (AddNotificationRecordItem ''hc-1'' (nameOnly ''audit''))
     (\<lambda>_. andThen (UpdateNotificationRecordItem ''audit'' ''hc-1'' True 7)
       (\<lambda>_. RemoveNotificationRecordItem ''audit'' ''hc-1'')) (sampleFleet 24))) = fleet_view (sampleFleet 24)"
  using add_update_remove_roundtrip[of "sampleFleet 24" "''audit''" "''hc-1''" True 7, OF _ _ _ prod.collapse[symmetric]]
  by simp

end
