(* ===== verification/K8s_Types.thy ===== *)
theory K8s_Types
  imports GoTime
begin

text \<open>
  The Kubernetes and OpenShift API types the operator reads and writes, with the fields its
  source sets or compares, and the OcmAgent custom resource
  (\<^verbatim>\<open>api/v1alpha1/ocmagent_types.go\<close>).

  A pointer field is an option, a Go map is an optional finite map (nil is \<open>None\<close>), and equality
  of these values is \<open>reflect.DeepEqual\<close>; nil and empty slices are both \<open>[]\<close>, which no
  comparison of the source can tell apart, because the expected side of each of them is a
  non-empty slice. Byte slices are strings of bytes. Resource quantities stay in the notation
  that \<open>resource.MustParse\<close> reads.
\<close>

section \<open>Metadata\<close>

record NamespacedName =
  nn_Namespace :: string
  nn_Name :: string

record OwnerReference =
  or_Name :: string
  or_UID :: string
  or_Controller :: bool

record ObjectMeta =
  om_Name :: string
  om_Namespace :: string
  om_UID :: string
  om_ResourceVersion :: string
  om_Labels :: "string gomap"
  om_OwnerReferences :: "OwnerReference list"
  om_Finalizers :: "string list"
  om_DeletionTimestamp :: "Time option"

text \<open>\<open>metav1.ObjectMeta{Name: n, Namespace: ns}\<close> and its variant with labels.\<close>
definition newMeta :: "NamespacedName \<Rightarrow> string gomap \<Rightarrow> ObjectMeta" where
  "newMeta nn labels =
     \<lparr>om_Name = nn_Name nn, om_Namespace = nn_Namespace nn, om_UID = [], om_ResourceVersion = [],
      om_Labels = labels, om_OwnerReferences = [], om_Finalizers = [], om_DeletionTimestamp = None\<rparr>"

definition metaKey :: "ObjectMeta \<Rightarrow> NamespacedName" where
  "metaKey m = \<lparr>nn_Namespace = om_Namespace m, nn_Name = om_Name m\<rparr>"

record LabelSelector =
  ls_MatchLabels :: "string gomap"

datatype IntOrString = IntVal int32 | StrVal string

text \<open>\<open>map[string]string{k: v}\<close>\<close>
definition oneLabel :: "string \<Rightarrow> string \<Rightarrow> string gomap" where
  "oneLabel k v = Some (fmupd k v fmempty)"

section \<open>Resources\<close>

record ConfigMap =
  cm_Meta :: ObjectMeta
  cm_Data :: "string gomap"

record Secret =
  sec_Meta :: ObjectMeta
  sec_Data :: "string gomap"

record ServicePort =
  sp_Name :: string
  sp_Protocol :: string
  sp_Port :: int32
  sp_TargetPort :: IntOrString

record ServiceSpec =
  ss_Selector :: "string gomap"
  ss_Ports :: "ServicePort list"

record Service =
  svc_Meta :: ObjectMeta
  svc_Spec :: ServiceSpec

record NetworkPolicyPeer =
  npp_NamespaceSelector :: "LabelSelector option"

record NetworkPolicyIngressRule =
  npir_From :: "NetworkPolicyPeer list"

record NetworkPolicySpec =
  nps_PodSelector :: LabelSelector
  nps_Ingress :: "NetworkPolicyIngressRule list"
  nps_PolicyTypes :: "string list"

record NetworkPolicy =
  np_Meta :: ObjectMeta
  np_Spec :: NetworkPolicySpec

record Endpoint =
  ep_Port :: string
  ep_Path :: string

record ServiceMonitorSpec =
  sms_Selector :: LabelSelector
  sms_Endpoints :: "Endpoint list"

record ServiceMonitor =
  sm_Meta :: ObjectMeta
  sm_Spec :: ServiceMonitorSpec

record PodDisruptionBudgetSpec =
  pdbs_MinAvailable :: "IntOrString option"
  pdbs_Selector :: "LabelSelector option"

record PodDisruptionBudget =
  pdb_Meta :: ObjectMeta
  pdb_Spec :: PodDisruptionBudgetSpec

section \<open>Deployments\<close>

record KeyToPath =
  kp_Key :: string
  kp_Path :: string

datatype VolumeSource =
    SecretVolumeSource string int32
  | ConfigMapVolumeSource string "KeyToPath list" int32

record Volume =
  vol_Name :: string
  vol_Source :: VolumeSource

record VolumeMount =
  vm_Name :: string
  vm_MountPath :: string
  vm_ReadOnly :: bool

record EnvVar =
  ev_Name :: string
  ev_Value :: string

record HTTPGetAction =
  hg_Scheme :: string
  hg_Path :: string
  hg_Port :: IntOrString

record Probe =
  pr_HTTPGet :: "HTTPGetAction option"

record ContainerPort =
  cp_Name :: string
  cp_ContainerPort :: int32

record ResourceRequirements =
  rr_Limits :: "string gomap"
  rr_Requests :: "string gomap"

record NodeSelectorRequirement =
  nsr_Key :: string
  nsr_Operator :: string

record PreferredSchedulingTerm =
  pst_Weight :: int32
  pst_MatchExpressions :: "NodeSelectorRequirement list"

record WeightedPodAffinityTerm =
  wpat_Weight :: int32
  wpat_LabelSelector :: "LabelSelector option"
  wpat_TopologyKey :: string

record Affinity =
  aff_NodePreferred :: "PreferredSchedulingTerm list option"
  aff_PodAntiPreferred :: "WeightedPodAffinityTerm list option"

record Toleration =
  tol_Key :: string
  tol_Operator :: string
  tol_Effect :: string

record Container =
  c_Name :: string
  c_Image :: string
  c_Command :: "string list"
  c_Env :: "EnvVar list"
  c_Ports :: "ContainerPort list"
  c_VolumeMounts :: "VolumeMount list"
  c_ReadinessProbe :: "Probe option"
  c_LivenessProbe :: "Probe option"
  c_Resources :: ResourceRequirements

record PodSpec =
  ps_Volumes :: "Volume list"
  ps_ServiceAccountName :: string
  ps_Affinity :: "Affinity option"
  ps_Tolerations :: "Toleration list"
  ps_Containers :: "Container list"

record PodTemplateSpec =
  pt_Labels :: "string gomap"
  pt_Annotations :: "string gomap"
  pt_Spec :: PodSpec

record DeploymentSpec =
  ds_Replicas :: "int32 option"
  ds_Selector :: "LabelSelector option"
  ds_Template :: PodTemplateSpec

record Deployment =
  dep_Meta :: ObjectMeta
  dep_Spec :: DeploymentSpec

section \<open>Cluster configuration\<close>

record ProxyStatus =
  px_HTTPProxy :: string
  px_HTTPSProxy :: string
  px_NoProxy :: string

record Proxy =
  px_Meta :: ObjectMeta
  px_Status :: ProxyStatus

record ClusterVersion =
  cv_Meta :: ObjectMeta
  cv_ClusterID :: string

section \<open>The OcmAgent custom resource\<close>

record AgentConfig =
  ac_OcmBaseUrl :: string
  ac_Services :: "string list"

record OcmAgentSpec =
  oas_AgentConfig :: AgentConfig
  oas_OcmAgentImage :: string
  oas_TokenSecret :: string
  oas_Replicas :: int32
  oas_FleetMode :: bool

record OcmAgentStatus =
  oast_ServiceStatus :: string
  oast_AvailableReplicas :: int32

record OcmAgent =
  oa_Meta :: ObjectMeta
  oa_Spec :: OcmAgentSpec
  oa_Status :: OcmAgentStatus

abbreviation oa_Name :: "OcmAgent \<Rightarrow> string" where
  "oa_Name a \<equiv> om_Name (oa_Meta a)"

abbreviation oa_Namespace :: "OcmAgent \<Rightarrow> string" where
  "oa_Namespace a \<equiv> om_Namespace (oa_Meta a)"

abbreviation oa_FleetMode :: "OcmAgent \<Rightarrow> bool" where
  "oa_FleetMode a \<equiv> oas_FleetMode (oa_Spec a)"

abbreviation oa_TokenSecret :: "OcmAgent \<Rightarrow> string" where
  "oa_TokenSecret a \<equiv> oas_TokenSecret (oa_Spec a)"

lemma metaKey_newMeta [simp]: "metaKey (newMeta nn labels) = nn"
  by (simp add: metaKey_def newMeta_def)

lemma newMeta_fields [simp]:
  "om_Name (newMeta nn labels) = nn_Name nn" "om_Namespace (newMeta nn labels) = nn_Namespace nn"
  "om_Labels (newMeta nn labels) = labels" "om_OwnerReferences (newMeta nn labels) = []"
  by (simp_all add: newMeta_def)

end
