(* ===== verification/GoFmt.thy ===== *)
theory GoFmt
  imports OAO_Prelude
begin

text \<open>Decimal printing (the verb \<open>%d\<close> of \<open>fmt\<close>) of the non-negative numbers the operator formats.\<close>

definition digitChar :: "nat \<Rightarrow> char" where
  "digitChar d = char_of (48 + d)"

fun showNat :: "nat \<Rightarrow> string" where
  "showNat n = (if n < 10 then [digitChar n] else showNat (n div 10) @ [digitChar (n mod 10)])"

declare showNat.simps [simp del]

text \<open>The number a string of digits denotes.\<close>
definition readNat :: "string \<Rightarrow> nat" where
  "readNat s = foldl (\<lambda>a c. 10 * a + (of_char c - 48)) 0 s"

lemma of_char_digitChar: "d < 10 \<Longrightarrow> of_char (digitChar d) = 48 + (d :: nat)"
  by (simp add: digitChar_def)

lemma readNat_showNat: "readNat (showNat n) = n"
proof (induction n rule: showNat.induct)
  case (1 n)
  show ?case
  proof (cases "n < 10")
    case True
    then show ?thesis by (subst showNat.simps) (simp add: readNat_def of_char_digitChar)
  next
    case False
    with 1 have "readNat (showNat (n div 10)) = n div 10" by simp
    moreover have "readNat (showNat n) = 10 * readNat (showNat (n div 10)) + n mod 10"
      using False by (subst showNat.simps) (simp add: readNat_def of_char_digitChar)
    ultimately show ?thesis by simp
  qed
qed

lemma showNat_inject: "showNat m = showNat n \<longleftrightarrow> m = n"
  by (metis readNat_showNat)

lemma showNat_digits: "c \<in> set (showNat n) \<Longrightarrow> 48 \<le> (of_char c :: nat) \<and> (of_char c :: nat) < 58"
proof (induction n rule: showNat.induct)
  case (1 n)
  then show ?case
    by (subst (asm) (2) showNat.simps) (auto simp: of_char_digitChar split: if_splits)
qed

lemma showNat_no_sep: "CHR ''/'' \<notin> set (showNat n)" "CHR 0x22 \<notin> set (showNat n)"
  by (auto dest: showNat_digits)

lemma takeWhile_sep: "c \<notin> set xs \<Longrightarrow> takeWhile (\<lambda>d. d \<noteq> c) (xs @ c # ys) = xs"
  by (induction xs) auto

end
