(* ===== verification/FleetController.thy ===== *)
theory FleetController
  imports FleetRecords K8s_Types GoFmt
begin

text \<open>
  The fleet notification controller
  (\<^verbatim>\<open>controllers/fleetnotification/fleetnotification_controller.go\<close>): one reconciliation
  looks for the first stale history item of a ManagedFleetNotificationRecord and removes it with a
  JSON patch on the status; the resulting update event triggers the next reconciliation.

  The Kubernetes client is not part of the repository. It is the parameter \<open>FleetClient\<close>: a
  state \<open>'s\<close> stands for everything outside the controller, and what the controller relies on is
  the hypothesis \<open>fleet_api\<close> below. \<open>clock n i\<close> is the reading of \<open>time.Now\<close> at record
  \<open>n\<close>, item \<open>i\<close>, which the loop visits at most once.
\<close>

section \<open>Model\<close>

record 's FleetClient =
  fc_Get :: "NamespacedName \<Rightarrow> ('s, ManagedFleetNotificationRecord) step"
  fc_StatusPatch :: "NamespacedName \<Rightarrow> string \<Rightarrow> ('s, unit) step"

definition NotificationRecordStaleTimeoutInHour :: int32 where
  "NotificationRecordStaleTimeoutInHour = 360"

text \<open>The end of life of an item: the sum of hours is an \<open>int32\<close> and wraps around.\<close>
definition eol :: "int32 \<Rightarrow> Time \<Rightarrow> Time" where
  "eol resendWait ltt = Time_Add ltt (hours (resendWait + NotificationRecordStaleTimeoutInHour))"

text \<open>The inner loop of \<open>Reconcile\<close>, up to the first item it wants removed.\<close>
fun staleItem :: "(nat \<Rightarrow> Time) \<Rightarrow> int32 \<Rightarrow> nat \<Rightarrow> NotificationRecordItem list \<Rightarrow> nat option" where
  "staleItem clock resendWait i [] = None"
| "staleItem clock resendWait i (ri # ris) =
     (case item_LastTransitionTime ri of
        None \<Rightarrow> Some i
      | Some ltt \<Rightarrow>
          if Time_After (clock i) (eol resendWait ltt) then Some i
          else staleItem clock resendWait (Suc i) ris)"

text \<open>The outer loop.\<close>
fun staleSlot :: "(nat \<Rightarrow> nat \<Rightarrow> Time) \<Rightarrow> nat \<Rightarrow> NotificationRecordByName list \<Rightarrow> (nat \<times> nat) option" where
  "staleSlot clock n [] = None"
| "staleSlot clock n (rn # rns) =
     (case staleItem (clock n) (rbn_ResendWait rn) 0 (rbn_NotificationRecordItems rn) of
        Some i \<Rightarrow> Some (n, i)
      | None \<Rightarrow> staleSlot clock (Suc n) rns)"

definition patchDoc :: "nat \<Rightarrow> nat \<Rightarrow> string" where
  "patchDoc notificationRecordByNameSlot notificationRecordItemSlot =
     ''[{\"op\": \"remove\", \"path\": \"/status/notificationRecordByName/'' @
     showNat notificationRecordByNameSlot @ ''/notificationRecordItems/'' @
     showNat notificationRecordItemSlot @ ''\"}]''"

definition fleetKey :: "ManagedFleetNotificationRecord \<Rightarrow> NamespacedName" where
  "fleetKey nr = \<lparr>nn_Namespace = mfnr_Namespace nr, nn_Name = mfnr_Name nr\<rparr>"

definition patchRemove :: "'s FleetClient \<Rightarrow> ManagedFleetNotificationRecord \<Rightarrow> nat \<Rightarrow> nat \<Rightarrow> ('s, unit) step" where
  "patchRemove r notificationRecord n i = fc_StatusPatch r (fleetKey notificationRecord) (patchDoc n i)"

text \<open>\<open>Reconcile\<close>; the result \<open>ctrl.Result{}\<close> carries nothing.\<close>
definition Reconcile :: "'s FleetClient \<Rightarrow> (nat \<Rightarrow> nat \<Rightarrow> Time) \<Rightarrow> NamespacedName \<Rightarrow> ('s, unit) step" where
  "Reconcile r clock request =
     andThen (fc_Get r request) (\<lambda>nr.
       case staleSlot clock 0 (records nr) of
         None \<Rightarrow> ok ()
       | Some (n, i) \<Rightarrow> patchRemove r nr n i)"

datatype event = CreateEvent | UpdateEvent | DeleteEvent | GenericEvent

text \<open>\<open>predicate.Funcs\<close> accepts an event whose function is not set.\<close>
primrec eventPredicates :: "event \<Rightarrow> bool" where
  "eventPredicates CreateEvent = True"
| "eventPredicates UpdateEvent = True"
| "eventPredicates DeleteEvent = False"
| "eventPredicates GenericEvent = True"

text \<open>\<open>SetupWithManager\<close>: the type of resource that is reconciled, and which of its events lead to a run.\<close>
record FleetWatches =
  fw_For :: string
  fw_EventFilter :: "event \<Rightarrow> bool"

definition SetupWithManager :: FleetWatches where
  "SetupWithManager = \<lparr>fw_For = ''ManagedFleetNotificationRecord'', fw_EventFilter = eventPredicates\<rparr>"

section \<open>What the controller relies on\<close>

text \<open>A JSON patch document (RFC 6902) that removes the value at a path; segments of a JSON
  pointer (RFC 6901) are separated by slashes.\<close>
definition removeDocument :: "string list \<Rightarrow> string" where
  "removeDocument path =
     ''[{\"op\": \"remove\", \"path\": \"'' @ concat (map (\<lambda>seg. CHR ''/'' # seg) path) @ ''\"}]''"

text \<open>The effect of removing item \<open>i\<close> of record \<open>n\<close>.\<close>
definition removeSlot :: "NotificationRecordByName list \<Rightarrow> nat \<Rightarrow> nat \<Rightarrow> NotificationRecordByName list" where
  "removeSlot rs n i =
     rs[n := (rs ! n)\<lparr>rbn_NotificationRecordItems :=
       take i (rbn_NotificationRecordItems (rs ! n)) @ drop (Suc i) (rbn_NotificationRecordItems (rs ! n))\<rparr>]"

definition slotExists :: "NotificationRecordByName list \<Rightarrow> nat \<Rightarrow> nat \<Rightarrow> bool" where
  "slotExists rs n i \<longleftrightarrow> n < length rs \<and> i < length (rbn_NotificationRecordItems (rs ! n))"

text \<open>The patch of item \<open>i\<close> of record \<open>n\<close> in the stored record \<open>key\<close> was carried out.\<close>
definition itemRemoved :: "NamespacedName \<Rightarrow> nat \<Rightarrow> nat \<Rightarrow> (NamespacedName \<Rightarrow> ManagedFleetNotificationRecord option) \<Rightarrow>
    (NamespacedName \<Rightarrow> ManagedFleetNotificationRecord option) \<Rightarrow> bool" where
  "itemRemoved key n i v v' \<longleftrightarrow>
     (\<exists>nr. v key = Some nr \<and> slotExists (records nr) n i \<and> v' = v(key \<mapsto> withRecords nr (removeSlot (records nr) n i)))"

definition itemPatch :: "nat \<Rightarrow> nat \<Rightarrow> string" where
  "itemPatch n i = removeDocument [''status'', ''notificationRecordByName'', showNat n, ''notificationRecordItems'', showNat i]"

text \<open>
  The documented behaviour of the API server, over the records it stores (\<open>view\<close>): a read returns
  the stored record and changes nothing; a status patch that removes an item does just that, if the item exists. A patch that is reported
  as failed may have been carried out, as when the answer is lost.
\<close>
definition fleet_api :: "'s FleetClient \<Rightarrow> ('s \<Rightarrow> NamespacedName \<Rightarrow> ManagedFleetNotificationRecord option) \<Rightarrow> bool" where
  "fleet_api c view \<longleftrightarrow>
     (\<forall>key s. view (snd (fc_Get c key s)) = view s) \<and>
     (\<forall>key s nr. fst (fc_Get c key s) = Inr nr \<longrightarrow> view s key = Some nr \<and> fleetKey nr = key) \<and>
     (\<forall>key n i s q s'. fc_StatusPatch c key (itemPatch n i) s = (q, s') \<longrightarrow>
        itemRemoved key n i (view s) (view s') \<or> (\<exists>e. q = Inl e) \<and> view s' = view s)"

text \<open>An API server without faults: reads and well-formed patches of stored records succeed.\<close>
definition fleet_api_up :: "'s FleetClient \<Rightarrow> ('s \<Rightarrow> NamespacedName \<Rightarrow> ManagedFleetNotificationRecord option) \<Rightarrow> bool" where
  "fleet_api_up c view \<longleftrightarrow> fleet_api c view \<and>
     (\<forall>key s nr. view s key = Some nr \<longrightarrow> fst (fc_Get c key s) = Inr nr) \<and>
     (\<forall>key n i s nr. view s key = Some nr \<and> slotExists (records nr) n i \<longrightarrow> fst (fc_StatusPatch c key (itemPatch n i) s) = Inr ())"

section \<open>Specification\<close>

text \<open>A stale item: never sent, or last sent longer ago than the resend wait plus 15 days.\<close>
definition stale :: "Time \<Rightarrow> int32 \<Rightarrow> NotificationRecordItem \<Rightarrow> bool" where
  "stale now resendWait ri =
     (case item_LastTransitionTime ri of
        None \<Rightarrow> True
      | Some ltt \<Rightarrow> ltt + sint (hours (resendWait + 360)) < now)"

text \<open>The first stale item, in the order of the records and of the items in them.\<close>
definition firstStale :: "(nat \<Rightarrow> nat \<Rightarrow> Time) \<Rightarrow> NotificationRecordByName list \<Rightarrow> nat \<Rightarrow> nat \<Rightarrow> bool" where
  "firstStale clock rs n i \<longleftrightarrow> slotExists rs n i \<and>
     stale (clock n i) (rbn_ResendWait (rs ! n)) (rbn_NotificationRecordItems (rs ! n) ! i) \<and>
     (\<forall>m j. slotExists rs m j \<and> (m < n \<or> m = n \<and> j < i) \<longrightarrow>
        \<not> stale (clock m j) (rbn_ResendWait (rs ! m)) (rbn_NotificationRecordItems (rs ! m) ! j))"

definition keepFresh :: "Time \<Rightarrow> NotificationRecordByName list \<Rightarrow> NotificationRecordByName list" where
  "keepFresh now rs = map (\<lambda>rn. rn\<lparr>rbn_NotificationRecordItems :=
     filter (\<lambda>ri. \<not> stale now (rbn_ResendWait rn) ri) (rbn_NotificationRecordItems rn)\<rparr>) rs"

definition itemCount :: "NotificationRecordByName list \<Rightarrow> nat" where
  "itemCount rs = sum_list (map (\<lambda>rn. length (rbn_NotificationRecordItems rn)) rs)"

definition staleCount :: "Time \<Rightarrow> NotificationRecordByName list \<Rightarrow> nat" where
  "staleCount now rs = sum_list (map (\<lambda>rn.
     length (filter (stale now (rbn_ResendWait rn)) (rbn_NotificationRecordItems rn))) rs)"

text \<open>A series of reconciliations with one clock reading.\<close>
fun reconciles :: "nat \<Rightarrow> 's FleetClient \<Rightarrow> Time \<Rightarrow> NamespacedName \<Rightarrow> ('s, unit) step" where
  "reconciles 0 c now key = ok ()"
| "reconciles (Suc k) c now key = andThen (Reconcile c (\<lambda>_ _. now) key) (\<lambda>_. reconciles k c now key)"

section \<open>The search for a stale item\<close>

lemma stale_iff: "stale now w ri \<longleftrightarrow>
    (case item_LastTransitionTime ri of None \<Rightarrow> True | Some ltt \<Rightarrow> Time_After now (eol w ltt))"
  by (simp add: stale_def eol_def Time_After_def Time_Add_def NotificationRecordStaleTimeoutInHour_def
      split: option.split)

lemma staleItem_Cons: "staleItem clock w i (ri # ris) =
    (if stale (clock i) w ri then Some i else staleItem clock w (Suc i) ris)"
  by (simp add: stale_iff split: option.split)

lemma staleItem_Some:
  assumes "staleItem clock w i ris = Some j"
  shows "\<exists>m. j = i + m \<and> m < length ris \<and> stale (clock j) w (ris ! m) \<and> (\<forall>k < m. \<not> stale (clock (i + k)) w (ris ! k))"
  using assms
proof (induction ris arbitrary: i)
  case (Cons ri ris)
  show ?case
  proof (cases "stale (clock i) w ri")
    case True
    with Cons.prems have "j = i" by (simp add: staleItem_Cons del: staleItem.simps)
    with True show ?thesis by (intro exI[of _ 0]) simp
  next
    case False
    with Cons.prems have "staleItem clock w (Suc i) ris = Some j" by (simp add: staleItem_Cons del: staleItem.simps)
    from Cons.IH[OF this] obtain m where "j = Suc i + m" "m < length ris" "stale (clock j) w (ris ! m)"
      "\<forall>k < m. \<not> stale (clock (Suc i + k)) w (ris ! k)" by blast
    with False show ?thesis by (intro exI[of _ "Suc m"]) (simp add: All_less_Suc2)
  qed
qed simp

lemma staleItem_None: "staleItem clock w i ris = None \<longleftrightarrow> (\<forall>k < length ris. \<not> stale (clock (i + k)) w (ris ! k))"
proof (induction ris arbitrary: i)
  case (Cons ri ris)
  show ?case
    by (simp add: staleItem_Cons Cons.IH All_less_Suc2 del: staleItem.simps)
qed simp

lemma staleSlot_Some:
  assumes "staleSlot clock n rs = Some (n', i)"
  shows "\<exists>m. n' = n + m \<and> firstStale (\<lambda>k. clock (n + k)) rs m i"
  using assms
proof (induction rs arbitrary: n)
  case (Cons rn rns)
  show ?case
  proof (cases "staleItem (clock n) (rbn_ResendWait rn) 0 (rbn_NotificationRecordItems rn)")
    case None
    with Cons.prems have "staleSlot clock (Suc n) rns = Some (n', i)" by simp
    from Cons.IH[OF this] obtain m where m: "n' = Suc n + m" "firstStale (\<lambda>k. clock (Suc n + k)) rns m i" by blast
    have "\<not> stale (clock (n + k) j) (rbn_ResendWait ((rn # rns) ! k)) (rbn_NotificationRecordItems ((rn # rns) ! k) ! j)"
      if "slotExists (rn # rns) k j" "k < Suc m \<or> k = Suc m \<and> j < i" for k j
    proof (cases k)
      case 0
      with that None show ?thesis by (simp add: staleItem_None slotExists_def)
    next
      case (Suc k')
      with that m(2) show ?thesis by (auto simp: firstStale_def slotExists_def)
    qed
    with m show ?thesis by (intro exI[of _ "Suc m"]) (auto simp: firstStale_def slotExists_def)
  next
    case (Some j)
    with Cons.prems have "j = i" "n' = n" by simp_all
    with staleItem_Some[OF Some] show ?thesis by (intro exI[of _ 0]) (auto simp: firstStale_def slotExists_def)
  qed
qed simp

lemma staleSlot_None: "staleSlot clock n rs = None \<longleftrightarrow>
    (\<forall>m i. slotExists rs m i \<longrightarrow>
       \<not> stale (clock (n + m) i) (rbn_ResendWait (rs ! m)) (rbn_NotificationRecordItems (rs ! m) ! i))"
proof (induction rs arbitrary: n)
  case (Cons rn rns)
  have slots: "slotExists (rn # rns) m i \<longleftrightarrow>
      (case m of 0 \<Rightarrow> i < length (rbn_NotificationRecordItems rn) | Suc m' \<Rightarrow> slotExists rns m' i)" for m i
    by (simp add: slotExists_def split: nat.split)
  have "staleSlot clock n (rn # rns) = None \<longleftrightarrow>
      staleItem (clock n) (rbn_ResendWait rn) 0 (rbn_NotificationRecordItems rn) = None \<and>
      staleSlot clock (Suc n) rns = None"
    by (simp split: option.split)
  also have "\<dots> \<longleftrightarrow> (\<forall>m i. slotExists (rn # rns) m i \<longrightarrow>
       \<not> stale (clock (n + m) i) (rbn_ResendWait ((rn # rns) ! m)) (rbn_NotificationRecordItems ((rn # rns) ! m) ! i))"
    unfolding slots staleItem_None Cons.IH
    using all_nat_split[of "\<lambda>m. \<forall>i. (case m of 0 \<Rightarrow> i < length (rbn_NotificationRecordItems rn) | Suc m' \<Rightarrow> slotExists rns m' i) \<longrightarrow>
       \<not> stale (clock (n + m) i) (rbn_ResendWait ((rn # rns) ! m)) (rbn_NotificationRecordItems ((rn # rns) ! m) ! i)"]
    by simp
  finally show ?case .
qed (simp add: slotExists_def)

section \<open>The patch\<close>

lemma patchDoc_eq: "patchDoc n i = itemPatch n i"
  by (simp add: patchDoc_def itemPatch_def removeDocument_def)

lemma filter_remove_nth:
  assumes "i < length xs"
  shows "\<not> P (xs ! i) \<Longrightarrow> filter P (take i xs @ drop (Suc i) xs) = filter P xs"
    and "length (filter P xs) = length (filter P (take i xs @ drop (Suc i) xs)) + (if P (xs ! i) then 1 else 0)"
proof -
  have "filter P xs = filter P (take i xs @ xs ! i # drop (Suc i) xs)"
    using assms by (simp add: id_take_nth_drop[symmetric])
  then show "\<not> P (xs ! i) \<Longrightarrow> filter P (take i xs @ drop (Suc i) xs) = filter P xs"
    and "length (filter P xs) = length (filter P (take i xs @ drop (Suc i) xs)) + (if P (xs ! i) then 1 else 0)"
    by simp_all
qed

lemma keepFresh_removeSlot:
  assumes "slotExists rs n i" and "stale now (rbn_ResendWait (rs ! n)) (rbn_NotificationRecordItems (rs ! n) ! i)"
  shows "keepFresh now (removeSlot rs n i) = keepFresh now rs"
    and "staleCount now rs = Suc (staleCount now (removeSlot rs n i))"
proof -
  let ?items = "rbn_NotificationRecordItems (rs ! n)" and ?w = "rbn_ResendWait (rs ! n)"
  from assms(1) have n: "n < length rs" and i: "i < length ?items" by (simp_all add: slotExists_def)
  have "filter (\<lambda>ri. \<not> stale now ?w ri) (take i ?items @ drop (Suc i) ?items) = filter (\<lambda>ri. \<not> stale now ?w ri) ?items"
    by (rule filter_remove_nth(1)[OF i]) (simp add: assms(2))
  then show "keepFresh now (removeSlot rs n i) = keepFresh now rs"
    unfolding keepFresh_def removeSlot_def map_update
    by (intro list_update_same_conv[THEN iffD2]) (simp_all add: n)
  let ?f = "\<lambda>rn. length (filter (stale now (rbn_ResendWait rn)) (rbn_NotificationRecordItems rn))"
  have "?f (rs ! n) = Suc (length (filter (stale now ?w) (take i ?items @ drop (Suc i) ?items)))"
    using filter_remove_nth(2)[OF i, of "stale now ?w"] assms(2) by simp
  moreover have "?f (rs ! n) \<le> sum_list (map ?f rs)"
    using n by (intro member_le_sum_list) auto
  ultimately show "staleCount now rs = Suc (staleCount now (removeSlot rs n i))"
    unfolding staleCount_def removeSlot_def map_update by (simp add: sum_list_update n)
qed

lemma keepFresh_id:
  assumes "staleSlot (\<lambda>_ _. now) 0 rs = None"
  shows "keepFresh now rs = rs \<and> staleCount now rs = 0"
proof -
  have fresh: "\<not> stale now (rbn_ResendWait rn) ri"
    if "rn \<in> set rs" "ri \<in> set (rbn_NotificationRecordItems rn)" for rn ri
    using that assms unfolding staleSlot_None slotExists_def by (metis in_set_conv_nth)
  then have "filter (\<lambda>ri. \<not> stale now (rbn_ResendWait rn) ri) (rbn_NotificationRecordItems rn) = rbn_NotificationRecordItems rn"
    if "rn \<in> set rs" for rn using that by (simp add: filter_id_conv)
  with fresh show ?thesis
    by (auto simp: keepFresh_def staleCount_def filter_empty_conv intro!: map_idI)
qed

lemma fleet_api_GetD:
  assumes "fleet_api c view" and "fc_Get c key s = (q, s')"
  shows "view s' = view s" and "q = Inr nr \<Longrightarrow> view s key = Some nr \<and> fleetKey nr = key"
  using assms unfolding fleet_api_def by (metis fst_conv snd_conv)+

lemma fleet_api_patchD:
  assumes "fleet_api c view" and "fc_StatusPatch c key (patchDoc n i) s = (q, s')"
  shows "itemRemoved key n i (view s) (view s') \<or> (\<exists>e. q = Inl e) \<and> view s' = view s"
  using assms unfolding fleet_api_def patchDoc_eq by blast

section \<open>One reconciliation\<close>

lemma Reconcile_outcome:
  assumes "fleet_api c view" and "Reconcile c clock key s = (q, s')"
  obtains (failed) e where "q = Inl e" "view s' = view s"
  | (clean) nr where "view s key = Some nr" "staleSlot clock 0 (records nr) = None" "q = Inr ()" "view s' = view s"
  | (removed) nr n i where "view s key = Some nr" "staleSlot clock 0 (records nr) = Some (n, i)"
      "itemRemoved key n i (view s) (view s')"
proof (cases "fc_Get c key s")
  case (Pair g s1)
  note get = fleet_api_GetD[OF assms(1) Pair]
  show thesis
  proof (cases g)
    case (Inl e)
    with Pair assms(2) get(1) failed show thesis by (auto simp: Reconcile_def andThen_def)
  next
    case (Inr nr)
    with get have nr: "view s key = Some nr" "fleetKey nr = key" "view s1 = view s" by auto
    show thesis
    proof (cases "staleSlot clock 0 (records nr)")
      case None
      with Pair Inr assms(2) nr clean show thesis by (auto simp: Reconcile_def andThen_def)
    next
      case (Some slot)
      then obtain n i where slot: "staleSlot clock 0 (records nr) = Some (n, i)" by (cases slot) auto
      with Pair Inr assms(2) nr have patch: "fc_StatusPatch c key (patchDoc n i) s1 = (q, s')"
        by (auto simp: Reconcile_def andThen_def patchRemove_def)
      from fleet_api_patchD[OF assms(1) patch] nr slot failed removed show thesis by auto
    qed
  qed
qed

text \<open>Without faults a stale item is removed.\<close>
lemma Reconcile_up:
  assumes up: "fleet_api_up c view" and at: "view s key = Some nr" and slot: "staleSlot clock 0 (records nr) = Some (n, i)"
  shows "\<exists>s'. Reconcile c clock key s = (Inr (), s') \<and> view s' = (view s)(key \<mapsto> withRecords nr (removeSlot (records nr) n i))"
proof -
  from up have api: "fleet_api c view" by (simp add: fleet_api_up_def)
  obtain s1 where get: "fc_Get c key s = (Inr nr, s1)"
    using up at unfolding fleet_api_up_def by (metis prod.collapse)
  with fleet_api_GetD[OF api get] have s1: "view s1 = view s" "fleetKey nr = key" by auto
  from staleSlot_Some[OF slot] have "slotExists (records nr) n i" by (simp add: firstStale_def)
  with up at s1(1) have "fst (fc_StatusPatch c key (patchDoc n i) s1) = Inr ()"
    unfolding fleet_api_up_def patchDoc_eq by metis
  then obtain s2 where patch: "fc_StatusPatch c key (patchDoc n i) s1 = (Inr (), s2)"
    by (cases "fc_StatusPatch c key (patchDoc n i) s1") simp
  with fleet_api_patchD[OF api patch] s1 at get slot show ?thesis
    by (auto simp: Reconcile_def andThen_def patchRemove_def itemRemoved_def)
qed

lemma reconciles_clean:
  assumes up: "fleet_api_up c view" and "view s key = Some nr" and "staleCount now (records nr) \<le> k"
  shows "\<exists>s'. reconciles k c now key s = (Inr (), s') \<and>
    view s' = (view s)(key \<mapsto> withRecords nr (keepFresh now (records nr)))"
  using assms(2,3)
proof (induction k arbitrary: s nr)
  case 0
  then have "keepFresh now (records nr) = records nr"
    by (auto simp: staleCount_def keepFresh_def filter_empty_conv filter_id_conv intro!: map_idI)
  with 0 show ?case by (simp add: fun_upd_idem)
next
  case (Suc k)
  from up have api: "fleet_api c view" by (simp add: fleet_api_up_def)
  obtain s1 where get: "fc_Get c key s = (Inr nr, s1)"
    using up Suc.prems(1) unfolding fleet_api_up_def by (metis prod.collapse)
  with fleet_api_GetD[OF api get] have s1: "view s1 = view s" "fleetKey nr = key" by auto
  show ?case
  proof (cases "staleSlot (\<lambda>_ _. now) 0 (records nr)")
    case None
    with keepFresh_id[OF None] Suc.IH[of s1 nr] s1 Suc.prems get show ?thesis
      by (simp add: Reconcile_def andThen_def)
  next
    case (Some slot)
    then obtain n i where slot: "staleSlot (\<lambda>_ _. now) 0 (records nr) = Some (n, i)" by (cases slot) auto
    from staleSlot_Some[OF slot] have st: "slotExists (records nr) n i"
      "stale now (rbn_ResendWait (records nr ! n)) (rbn_NotificationRecordItems (records nr ! n) ! i)" by (simp_all add: firstStale_def)
    let ?nr = "withRecords nr (removeSlot (records nr) n i)"
    obtain s2 where run: "Reconcile c (\<lambda>_ _. now) key s = (Inr (), s2)" and s2: "view s2 = (view s)(key \<mapsto> ?nr)"
      using Reconcile_up[OF up Suc.prems(1) slot] by blast
    from keepFresh_removeSlot[OF st] Suc.prems(2) have "staleCount now (records ?nr) \<le> k"
      "keepFresh now (records ?nr) = keepFresh now (records nr)" by simp_all
    with Suc.IH[of s2 ?nr] s2 run show ?thesis by (simp add: andThen_def cong: if_cong)
  qed
qed

section \<open>An API server in memory\<close>

text \<open>A client over a map of records, used in the witnesses: it satisfies \<open>fleet_api_up\<close>.\<close>
definition parseRemove :: "string \<Rightarrow> nat \<times> nat" where
  "parseRemove doc =
     (let t = drop (length ''[{\"op\": \"remove\", \"path\": \"/status/notificationRecordByName/'') doc;
          a = takeWhile (\<lambda>c. c \<noteq> CHR ''/'') t;
          u = drop (length a + length ''/notificationRecordItems/'') t;
          b = takeWhile (\<lambda>c. c \<noteq> CHR 0x22) u
      in (readNat a, readNat b))"

definition memView :: "(NamespacedName \<Rightarrow> ManagedFleetNotificationRecord option) \<Rightarrow>
    NamespacedName \<Rightarrow> ManagedFleetNotificationRecord option" where
  "memView s = (\<lambda>key. case s key of None \<Rightarrow> None | Some nr \<Rightarrow> if fleetKey nr = key then Some nr else None)"

definition memFleet :: "(NamespacedName \<Rightarrow> ManagedFleetNotificationRecord option) FleetClient" where
  "memFleet =
     \<lparr>fc_Get = (\<lambda>key s. case memView s key of
         Some nr \<Rightarrow> (Inr nr, s)
       | None \<Rightarrow> (Inl (NotFound ''not found''), s)),
      fc_StatusPatch = (\<lambda>key doc s. case memView s key of
         None \<Rightarrow> (Inl (NotFound ''not found''), s)
       | Some nr \<Rightarrow>
           let (n, i) = parseRemove doc in
           if slotExists (records nr) n i
           then (Inr (), s(key \<mapsto> withRecords nr (removeSlot (records nr) n i)))
           else (Inl (ApiError ''invalid patch''), s))\<rparr>"

lemma parseRemove_doc: "parseRemove (itemPatch n i) = (n, i)"
  by (simp add: parseRemove_def itemPatch_def removeDocument_def Let_def takeWhile_sep showNat_no_sep readNat_showNat)

lemma fleetKey_withRecords [simp]: "fleetKey (withRecords nr rs) = fleetKey nr"
  by (simp add: fleetKey_def withRecords_def)

lemma memView_key: "memView s key = Some nr \<Longrightarrow> fleetKey nr = key"
  by (auto simp: memView_def split: option.splits if_splits)

lemma memView_upd: "fleetKey nr = key \<Longrightarrow> memView (s(key \<mapsto> nr)) = (memView s)(key \<mapsto> nr)"
  by (auto simp: memView_def fun_eq_iff)

lemma memFleet_up: "fleet_api_up memFleet memView"
  unfolding fleet_api_up_def fleet_api_def
  by (auto simp: memFleet_def parseRemove_doc itemRemoved_def memView_upd memView_key split: option.splits prod.splits if_splits)

section \<open>Properties\<close>

text \<open>C26. Safety of the clean-up: whatever the API server answers, and also when a patch is carried out and reported as failed, one
  reconciliation removes nothing, or exactly one item of the requested record: the first one that is stale at the clock reading taken for it.
  When it succeeds without removing anything, no item of the record is stale.\<close>
theorem Reconcile_removes_only_stale:
  assumes "fleet_api c view" and "Reconcile c clock key s = (q, s')"
  shows "view s' = view s \<and> (q = Inr () \<longrightarrow> (\<exists>nr. view s key = Some nr \<and> (\<forall>n i. slotExists (records nr) n i \<longrightarrow>
       \<not> stale (clock n i) (rbn_ResendWait (records nr ! n)) (rbn_NotificationRecordItems (records nr ! n) ! i)))) \<or>
    (\<exists>nr n i. view s key = Some nr \<and> firstStale clock (records nr) n i \<and>
       view s' = (view s)(key \<mapsto> withRecords nr (removeSlot (records nr) n i)))"
  using assms
proof (cases rule: Reconcile_outcome)
  case (clean nr)
  then show ?thesis by (simp add: staleSlot_None)
next
  case (removed nr n i)
  with staleSlot_Some[OF removed(2)] show ?thesis by (auto simp: itemRemoved_def)
qed auto

text \<open>The sample record with one fresh and one never-sent item.\<close>
definition sampleStale :: ManagedFleetNotificationRecord where
  "sampleStale = withRecords (sampleFleet 24)
     [\<lparr>rbn_NotificationName = ''audit'', rbn_ResendWait = 24,
       rbn_NotificationRecordItems = [countItem True 5 (newItem ''hc-1''), newItem ''hc-2'']\<rparr>]"

definition sampleKey :: NamespacedName where
  "sampleKey = \<lparr>nn_Namespace = ''ns'', nn_Name = ''mc-1''\<rparr>"

lemma sampleStale_view: "memView [sampleKey \<mapsto> sampleStale] sampleKey = Some sampleStale"
  by (simp add: memView_def sampleStale_def fleetKey_def withRecords_def sampleFleet_def sampleKey_def)

text \<open>The fresh item is first in its record, the stale one second: the second goes.\<close>
lemma Reconcile_removes_only_stale_witness:
  "memView (snd (Reconcile memFleet (\<lambda>_ _. 5) sampleKey [sampleKey \<mapsto> sampleStale])) sampleKey =
     Some (withRecords sampleStale (removeSlot (records sampleStale) 0 1))"
proof -
  let ?s = "[sampleKey \<mapsto> sampleStale]"
  from memFleet_up have api: "fleet_api memFleet memView" by (simp add: fleet_api_up_def)
  have "sint (hours (24 + 360)) = 384 * hourNs" using sint_hours[of "24 + 360"] by (simp add: maxHours_def)
  then have items: "slotExists (records sampleStale) n i \<longleftrightarrow> n = 0 \<and> i < 2"
    "stale 5 (rbn_ResendWait (records sampleStale ! 0)) (rbn_NotificationRecordItems (records sampleStale ! 0) ! 0) \<longleftrightarrow> False"
    "stale 5 (rbn_ResendWait (records sampleStale ! 0)) (rbn_NotificationRecordItems (records sampleStale ! 0) ! 1)" for n i
    by (auto simp: sampleStale_def slotExists_def stale_def hourNs_def newItem_def)
  have first: "firstStale (\<lambda>_ _. 5) (records sampleStale) n i \<longleftrightarrow> n = 0 \<and> i = 1" for n i
    using items by (auto simp: firstStale_def less_2_cases_iff)
  have slot: "staleSlot (\<lambda>_ _. 5) 0 (records sampleStale) = Some (0, 1)"
  proof (cases "staleSlot (\<lambda>_ _. 5) 0 (records sampleStale)")
    case None
    with items show ?thesis unfolding staleSlot_None by (metis add_0 one_less_numeral_iff semiring_norm(76))
  next
    case (Some slot)
    with staleSlot_Some[of "\<lambda>_ _. 5" 0 "records sampleStale" "fst slot" "snd slot"] first show ?thesis by (cases slot) auto
  qed
  obtain s' where run: "Reconcile memFleet (\<lambda>_ _. 5) sampleKey ?s = (Inr (), s')"
    using Reconcile_up[OF memFleet_up, OF sampleStale_view, OF slot] by blast
  with Reconcile_removes_only_stale[OF api run] first items sampleStale_view show ?thesis by auto
qed

text \<open>C25. The clean-up converges: on an API server without faults, as many reconciliations as the record
  has stale items (or more) succeed and leave exactly the items that are not stale, in their order, and
  every other record unchanged.\<close>
theorem reconciles_keep_fresh:
  assumes "fleet_api_up c view" and "view s key = Some nr" and "staleCount now (records nr) \<le> k"
  shows "\<exists>s'. reconciles k c now key s = (Inr (), s') \<and>
    view s' = (view s)(key \<mapsto> withRecords nr (keepFresh now (records nr)))"
  by (rule reconciles_clean[OF assms])

lemma reconciles_keep_fresh_witness:
  "\<exists>s'. reconciles 1 memFleet 6 sampleKey [sampleKey \<mapsto> sampleStale] = (Inr (), s') \<and>
     fleet_view (the (memView s' sampleKey)) (''audit'', ''hc-2'') = None \<and>
     fleet_view (the (memView s' sampleKey)) (''audit'', ''hc-1'') \<noteq> None"
proof -
  have "sint (hours (24 + 360)) = 384 * hourNs" using sint_hours[of "24 + 360"] by (simp add: maxHours_def)
  then have "keepFresh 6 (records sampleStale) =
      [\<lparr>rbn_NotificationName = ''audit'', rbn_ResendWait = 24,
        rbn_NotificationRecordItems = [countItem True 5 (newItem ''hc-1'')]\<rparr>] \<and> staleCount 6 (records sampleStale) = 1"
    by (simp add: sampleStale_def keepFresh_def staleCount_def stale_def hourNs_def newItem_def)
  with reconciles_keep_fresh[of memFleet memView "[sampleKey \<mapsto> sampleStale]" sampleKey sampleStale 6 1, OF memFleet_up sampleStale_view] show ?thesis
    by (auto simp: rbns_view_Cons)
qed

text \<open>C38. The end of life of an item is computed exactly when the resend wait plus the 15 days of the timeout is at most 2562047 hours, either way, which is what a
  64-bit duration holds, and in no other case. Beyond that, up to 5124095 hours, the duration is negative; and where the sum of hours exceeds 32 bits
  it wraps around, and the duration is negative again. In both cases the loop picks an item at the very instant it was sent, so that
  its history is deleted at once.\<close>
theorem stale_bounds:
  assumes "item_LastTransitionTime ri = Some ltt"
  shows "(eol w ltt = ltt + (sint w + 360) * hourNs \<longleftrightarrow> - maxHours \<le> sint w + 360 \<and> sint w + 360 \<le> maxHours) \<and>
    (maxHours < sint w + 360 \<and> sint w + 360 \<le> 5124095 \<or> 2 ^ 31 \<le> sint w + 360 \<longrightarrow> staleItem (\<lambda>_. ltt) w 0 (ri # ris) = Some 0)"
proof -
  have b: "- 2147483648 \<le> sint w" "sint w \<le> 2147483647" using sint_ge[of w] sint_lt[of w] by simp_all
  have eol: "eol w ltt = ltt + sint (hours (w + 360))" by (simp add: eol_def Time_Add_def NotificationRecordStaleTimeoutInHour_def)
  have sum: "sint (w + 360) = sint w + 360" if "sint w + 360 < 2147483648"
    using that b by (simp add: sint_word_ariths signed_take_bit_int_eq_self)
  have exact: "eol w ltt = ltt + (sint w + 360) * hourNs" if "- maxHours \<le> sint w + 360" "sint w + 360 \<le> maxHours"
    using that sum sint_hours[of "w + 360"] by (simp add: eol maxHours_def)
  have "sint (hours (w + 360)) < 0" if "maxHours < sint w + 360 \<and> sint w + 360 \<le> 5124095 \<or> 2 ^ 31 \<le> sint w + 360"
  proof (cases "sint w + 360 < 2147483648")
    case True
    with that sum sint_hours_overflow[of "w + 360"] show ?thesis by simp
  next
    case False
    then have "sint (w + 360) = sint w + 360 - 4294967296" using b by (simp add: sint_word_ariths signed_wrap32)
    moreover from this False b have "- 2147483648 \<le> sint (w + 360)" "sint (w + 360) < - 2147483288" by simp_all
    ultimately show ?thesis using sint_hours_underflow[of "w + 360"] by simp
  qed
  with assms eol exact sint_hours_exact[of "w + 360" "sint w + 360"] show ?thesis by (auto simp: Time_After_def)
qed

lemma stale_bounds_witness:
  "eol 24 0 = 384 * hourNs \<and> staleItem (\<lambda>_. 0) 2561688 0 [countItem True 0 (newItem ''hc-1'')] = Some 0 \<and>
   staleItem (\<lambda>_. 0) 2147483647 0 [countItem True 0 (newItem ''hc-1'')] = Some 0"
  using stale_bounds[of "countItem True 0 (newItem ''hc-1'')" 0 24 "[]"] stale_bounds[of "countItem True 0 (newItem ''hc-1'')" 0 2561688 "[]"]
    stale_bounds[of "countItem True 0 (newItem ''hc-1'')" 0 2147483647 "[]"]
  by (simp add: maxHours_def del: staleItem.simps)

section \<open>Patches by position\<close>

text \<open>A client behind which another writer acts between the read and the patch of a reconciliation.\<close>
definition interrupted :: "'s FleetClient \<Rightarrow> ('s \<Rightarrow> 's) \<Rightarrow> 's FleetClient" where
  "interrupted c other = c\<lparr>fc_Get := \<lambda>key s. case fc_Get c key s of (q, s1) \<Rightarrow> (q, other s1)\<rparr>"

lemma removeItems_nth:
  assumes "wf_items ris" and "i < length ris"
  shows "removeItems ris (item_HostedClusterID (ris ! i)) = Some (take i ris @ drop (Suc i) ris)"
  using assms
proof (induction ris arbitrary: i)
  case (Cons ri ris)
  show ?case
  proof (cases i)
    case (Suc j)
    with Cons.prems have "item_HostedClusterID ri \<noteq> item_HostedClusterID (ris ! j)" by (auto simp: wf_items_def)
    with Suc Cons show ?thesis by (simp add: wf_items_def)
  qed simp
qed simp

text \<open>The method of the record removes by key what the patch removes by position.\<close>
lemma removeLoop_slot:
  assumes "wf_rbns rs" and "slotExists rs n i"
  shows "\<exists>rn. removeLoop rs (rbn_NotificationName (rs ! n)) (item_HostedClusterID (rbn_NotificationRecordItems (rs ! n) ! i)) =
    Some (rn, removeSlot rs n i)"
  using assms
proof (induction rs arbitrary: n)
  case (Cons r rs)
  show ?case
  proof (cases n)
    case 0
    with Cons.prems removeItems_nth[of "rbn_NotificationRecordItems r" i] show ?thesis
      by (simp add: wf_rbns_def slotExists_def removeSlot_def Let_def)
  next
    case (Suc m)
    with Cons.prems have "rbn_NotificationName r \<noteq> rbn_NotificationName (rs ! m)" by (auto simp: wf_rbns_def slotExists_def)
    moreover from Suc Cons.prems Cons.IH[of m] obtain rn where
      "removeLoop rs (rbn_NotificationName (rs ! m)) (item_HostedClusterID (rbn_NotificationRecordItems (rs ! m) ! i)) = Some (rn, removeSlot rs m i)"
      by (auto simp: wf_rbns_def slotExists_def)
    ultimately show ?thesis using Suc by (simp add: Let_def removeSlot_def)
  qed
qed (simp add: slotExists_def)

text \<open>C39. The removal by position races with the owner of the record: when the agent itself removes the item that a reconciliation has picked, between
  its read and its patch, and a further item follows in the same record, then the reconciliation succeeds and removes that item as well, whether it
  is stale or not. This holds for every record with unique keys, on an API server without faults.\<close>
theorem patch_by_position_races:
  assumes up: "fleet_api_up c view" and at: "view s key = Some nr" and wf: "wf_fleet nr"
    and slot: "staleSlot clock 0 (records nr) = Some (n, i)" and follows: "slotExists (records nr) n (Suc i)"
    and removal: "RemoveNotificationRecordItem (rbn_NotificationName (records nr ! n))
      (item_HostedClusterID (rbn_NotificationRecordItems (records nr ! n) ! i)) nr = (q, nr')"
    and other: "view (other (snd (fc_Get c key s))) = (view s)(key \<mapsto> nr')"
  shows "\<exists>s' z. Reconcile (interrupted c other) clock key s = (Inr (), s') \<and> view s' key = Some z \<and>
    rbn_NotificationRecordItems (records nr' ! n) = take i (rbn_NotificationRecordItems (records nr ! n)) @ drop (i + 1) (rbn_NotificationRecordItems (records nr ! n)) \<and>
    rbn_NotificationRecordItems (records z ! n) = take i (rbn_NotificationRecordItems (records nr ! n)) @ drop (i + 2) (rbn_NotificationRecordItems (records nr ! n))"
proof -
  let ?rs = "removeSlot (records nr) n i" and ?items = "rbn_NotificationRecordItems (records nr ! n)"
  from up have api: "fleet_api c view" by (simp add: fleet_api_up_def)
  obtain s1 where get: "fc_Get c key s = (Inr nr, s1)" using up at unfolding fleet_api_up_def by (metis prod.collapse)
  with fleet_api_GetD[OF api get] have key: "fleetKey nr = key" by blast
  from follows have n: "n < length (records nr)" "Suc i < length ?items" by (simp_all add: slotExists_def)
  then have "slotExists (records nr) n i" by (simp add: slotExists_def)
  with removeLoop_slot[of "records nr" n i] wf removal have nr': "nr' = withRecords nr ?rs"
    by (auto simp: wf_fleet_def RemoveNotificationRecordItem_def)
  have items: "rbn_NotificationRecordItems (?rs ! n) = take i ?items @ drop (Suc i) ?items" using n by (simp add: removeSlot_def)
  have exists: "slotExists ?rs n i" using n items by (simp add: slotExists_def) (simp add: removeSlot_def)
  let ?s2 = "other s1"
  have v2: "view ?s2 key = Some nr'" using other get by simp
  with up exists nr' have "fst (fc_StatusPatch c key (patchDoc n i) ?s2) = Inr ()" unfolding fleet_api_up_def patchDoc_eq by simp
  then obtain s' where patch: "fc_StatusPatch c key (patchDoc n i) ?s2 = (Inr (), s')"
    by (cases "fc_StatusPatch c key (patchDoc n i) ?s2") simp
  from fleet_api_patchD[OF api patch] v2 nr' have "view s' key = Some (withRecords nr' (removeSlot ?rs n i))" by (auto simp: itemRemoved_def)
  moreover have "rbn_NotificationRecordItems (removeSlot ?rs n i ! n) = take i ?items @ drop (Suc (Suc i)) ?items"
    using n items unfolding removeSlot_def[of ?rs] by (simp add: removeSlot_def min_def)
  moreover have "Reconcile (interrupted c other) clock key s = (Inr (), s')"
    using get slot patch key by (simp add: Reconcile_def andThen_def interrupted_def patchRemove_def)
  ultimately show ?thesis using items nr' by auto
qed

text \<open>A stale item, then one that was sent a moment ago. The agent removes the first, the reconciliation the second.\<close>
definition racedFleet :: ManagedFleetNotificationRecord where
  "racedFleet = withRecords (sampleFleet 24)
     [\<lparr>rbn_NotificationName = ''audit'', rbn_ResendWait = 24,
       rbn_NotificationRecordItems = [newItem ''hc-2'', countItem True 5 (newItem ''hc-1'')]\<rparr>]"

lemma patch_by_position_races_witness:
  "\<exists>s' z. Reconcile (interrupted memFleet (\<lambda>s. s(sampleKey \<mapsto> snd (RemoveNotificationRecordItem ''audit'' ''hc-2'' racedFleet)))) (\<lambda>_ _. 6)
       sampleKey [sampleKey \<mapsto> racedFleet] = (Inr (), s') \<and>
     memView s' sampleKey = Some z \<and> rbn_NotificationRecordItems (records z ! 0) = [] \<and>
     \<not> stale 6 24 (countItem True 5 (newItem ''hc-1''))"
proof -
  let ?s = "[sampleKey \<mapsto> racedFleet]" and ?nr = "snd (RemoveNotificationRecordItem ''audit'' ''hc-2'' racedFleet)"
  have key: "fleetKey racedFleet = sampleKey" by (simp add: racedFleet_def fleetKey_def withRecords_def sampleFleet_def sampleKey_def)
  then have view: "memView ?s sampleKey = Some racedFleet" by (simp add: memView_def)
  have nr: "?nr = withRecords racedFleet [\<lparr>rbn_NotificationName = ''audit'', rbn_ResendWait = 24, rbn_NotificationRecordItems = [countItem True 5 (newItem ''hc-1'')]\<rparr>]"
    by (simp add: racedFleet_def RemoveNotificationRecordItem_def Let_def)
  have "sint (hours (24 + 360)) = 384 * hourNs" using sint_hours[of "24 + 360"] by (simp add: maxHours_def)
  then have fresh: "\<not> stale 6 24 (countItem True 5 (newItem ''hc-1''))" by (simp add: stale_def hourNs_def)
  have "wf_fleet racedFleet" by (simp add: racedFleet_def wf_fleet_def wf_rbns_def wf_items_def)
  moreover have "staleSlot (\<lambda>_ _. 6) 0 (records racedFleet) = Some (0, 0)" by (simp add: racedFleet_def newItem_def)
  moreover have "slotExists (records racedFleet) 0 (Suc 0)" by (simp add: racedFleet_def slotExists_def)
  moreover have "RemoveNotificationRecordItem (rbn_NotificationName (records racedFleet ! 0))
      (item_HostedClusterID (rbn_NotificationRecordItems (records racedFleet ! 0) ! 0)) racedFleet =
      (fst (RemoveNotificationRecordItem ''audit'' ''hc-2'' racedFleet), ?nr)"
    by (simp add: racedFleet_def)
  moreover have "memView ((\<lambda>s. s(sampleKey \<mapsto> ?nr)) (snd (fc_Get memFleet sampleKey ?s))) = (memView ?s)(sampleKey \<mapsto> ?nr)"
    using view key by (simp add: memFleet_def nr memView_upd)
  ultimately have "\<exists>s' z. Reconcile (interrupted memFleet (\<lambda>s. s(sampleKey \<mapsto> ?nr))) (\<lambda>_ _. 6) sampleKey ?s = (Inr (), s') \<and>
      memView s' sampleKey = Some z \<and> rbn_NotificationRecordItems (records ?nr ! 0) = take 0 (rbn_NotificationRecordItems (records racedFleet ! 0)) @
        drop (0 + 1) (rbn_NotificationRecordItems (records racedFleet ! 0)) \<and>
      rbn_NotificationRecordItems (records z ! 0) = take 0 (rbn_NotificationRecordItems (records racedFleet ! 0)) @
        drop (0 + 2) (rbn_NotificationRecordItems (records racedFleet ! 0))"
    by (rule patch_by_position_races[OF memFleet_up, OF view])
  moreover have "drop 2 (rbn_NotificationRecordItems (records racedFleet ! 0)) = []" by (simp add: racedFleet_def)
  ultimately show ?thesis using fresh by auto
qed

end
