(* ===== verification/K8s_Client.thy ===== *)
theory K8s_Client
  imports K8s_Types
begin

text \<open>
  The interface of the operator to the cluster: the client of controller-runtime
  (\<open>client.Client\<close>) and what the handlers rely on of it.

  The client is not part of the repository. It is the parameter \<open>Client\<close>, over a state \<open>'s\<close> that
  stands for everything outside the operator. What the operator relies on is stated over a view
  \<open>'s \<Rightarrow> Cluster\<close> of that state: the stored objects, the writes accepted so far, and the gauges of
  the process. The predicates \<open>api\<close> (a call may fail at any time, and a failed write may still have
  been carried out) and \<open>api_up\<close> (no faults) are the documented behaviour of the API server for a
  client whose reads are up to date. The locale \<open>managed_resource\<close> states what makes a kind of resource
  fit for the scheme \<open>get, create or repair\<close> that the handlers share, and has its consequences.
\<close>

section \<open>Objects\<close>

datatype Kind =
    KDeployment | KConfigMap | KSecret | KService | KNetworkPolicy | KServiceMonitor
  | KPodDisruptionBudget | KOcmAgent | KProxy | KClusterVersion

datatype Object =
    ODeployment Deployment
  | OConfigMap ConfigMap
  | OSecret Secret
  | OService Service
  | ONetworkPolicy NetworkPolicy
  | OServiceMonitor ServiceMonitor
  | OPodDisruptionBudget PodDisruptionBudget
  | OOcmAgent OcmAgent
  | OProxy Proxy
  | OClusterVersion ClusterVersion

type_synonym Ref = "Kind \<times> NamespacedName"

primrec kindOf :: "Object \<Rightarrow> Kind" where
  "kindOf (ODeployment x) = KDeployment"
| "kindOf (OConfigMap x) = KConfigMap"
| "kindOf (OSecret x) = KSecret"
| "kindOf (OService x) = KService"
| "kindOf (ONetworkPolicy x) = KNetworkPolicy"
| "kindOf (OServiceMonitor x) = KServiceMonitor"
| "kindOf (OPodDisruptionBudget x) = KPodDisruptionBudget"
| "kindOf (OOcmAgent x) = KOcmAgent"
| "kindOf (OProxy x) = KProxy"
| "kindOf (OClusterVersion x) = KClusterVersion"

primrec metaOf :: "Object \<Rightarrow> ObjectMeta" where
  "metaOf (ODeployment x) = dep_Meta x"
| "metaOf (OConfigMap x) = cm_Meta x"
| "metaOf (OSecret x) = sec_Meta x"
| "metaOf (OService x) = svc_Meta x"
| "metaOf (ONetworkPolicy x) = np_Meta x"
| "metaOf (OServiceMonitor x) = sm_Meta x"
| "metaOf (OPodDisruptionBudget x) = pdb_Meta x"
| "metaOf (OOcmAgent x) = oa_Meta x"
| "metaOf (OProxy x) = px_Meta x"
| "metaOf (OClusterVersion x) = cv_Meta x"

primrec setMeta :: "Object \<Rightarrow> ObjectMeta \<Rightarrow> Object" where
  "setMeta (ODeployment x) m = ODeployment (x\<lparr>dep_Meta := m\<rparr>)"
| "setMeta (OConfigMap x) m = OConfigMap (x\<lparr>cm_Meta := m\<rparr>)"
| "setMeta (OSecret x) m = OSecret (x\<lparr>sec_Meta := m\<rparr>)"
| "setMeta (OService x) m = OService (x\<lparr>svc_Meta := m\<rparr>)"
| "setMeta (ONetworkPolicy x) m = ONetworkPolicy (x\<lparr>np_Meta := m\<rparr>)"
| "setMeta (OServiceMonitor x) m = OServiceMonitor (x\<lparr>sm_Meta := m\<rparr>)"
| "setMeta (OPodDisruptionBudget x) m = OPodDisruptionBudget (x\<lparr>pdb_Meta := m\<rparr>)"
| "setMeta (OOcmAgent x) m = OOcmAgent (x\<lparr>oa_Meta := m\<rparr>)"
| "setMeta (OProxy x) m = OProxy (x\<lparr>px_Meta := m\<rparr>)"
| "setMeta (OClusterVersion x) m = OClusterVersion (x\<lparr>cv_Meta := m\<rparr>)"

fun asDeployment :: "Object \<Rightarrow> Deployment option" where
  "asDeployment (ODeployment x) = Some x" | "asDeployment _ = None"

fun asConfigMap :: "Object \<Rightarrow> ConfigMap option" where
  "asConfigMap (OConfigMap x) = Some x" | "asConfigMap _ = None"

fun asSecret :: "Object \<Rightarrow> Secret option" where
  "asSecret (OSecret x) = Some x" | "asSecret _ = None"

fun asService :: "Object \<Rightarrow> Service option" where
  "asService (OService x) = Some x" | "asService _ = None"

fun asNetworkPolicy :: "Object \<Rightarrow> NetworkPolicy option" where
  "asNetworkPolicy (ONetworkPolicy x) = Some x" | "asNetworkPolicy _ = None"

fun asServiceMonitor :: "Object \<Rightarrow> ServiceMonitor option" where
  "asServiceMonitor (OServiceMonitor x) = Some x" | "asServiceMonitor _ = None"

fun asPodDisruptionBudget :: "Object \<Rightarrow> PodDisruptionBudget option" where
  "asPodDisruptionBudget (OPodDisruptionBudget x) = Some x" | "asPodDisruptionBudget _ = None"

fun asOcmAgent :: "Object \<Rightarrow> OcmAgent option" where
  "asOcmAgent (OOcmAgent x) = Some x" | "asOcmAgent _ = None"

fun asProxy :: "Object \<Rightarrow> Proxy option" where
  "asProxy (OProxy x) = Some x" | "asProxy _ = None"

fun asClusterVersion :: "Object \<Rightarrow> ClusterVersion option" where
  "asClusterVersion (OClusterVersion x) = Some x" | "asClusterVersion _ = None"

definition objRef :: "Object \<Rightarrow> Ref" where
  "objRef x = (kindOf x, metaKey (metaOf x))"

section \<open>The client\<close>

text \<open>\<open>Get\<close> finds the kind in the type of the variable it fills; here it is an argument. The other
  calls take the object.\<close>
record 's Client =
  c_Get :: "Kind \<Rightarrow> NamespacedName \<Rightarrow> ('s, Object) step"
  c_Create :: "Object \<Rightarrow> ('s, unit) step"
  c_Update :: "Object \<Rightarrow> ('s, unit) step"
  c_Delete :: "Object \<Rightarrow> ('s, unit) step"

text \<open>\<open>Get\<close> into a variable of the type that \<open>as\<close> projects to.\<close>
definition getAs :: "'s Client \<Rightarrow> Kind \<Rightarrow> (Object \<Rightarrow> 'o option) \<Rightarrow> NamespacedName \<Rightarrow> ('s, 'o) step" where
  "getAs c k as key = andThen (c_Get c k key) (\<lambda>x.
     case as x of Some y \<Rightarrow> ok y | None \<Rightarrow> fail (Errorf ''unexpected object type''))"

section \<open>The cluster\<close>

datatype Verb = Create | Update | Delete

record Cluster =
  cl_Objects :: "Ref \<Rightarrow> Object option"
  cl_Log :: "(Verb \<times> Ref) list"
  cl_Gauges :: "string \<times> string list \<Rightarrow> int option"

definition cl_write :: "Verb \<Rightarrow> Ref \<Rightarrow> Object option \<Rightarrow> Cluster \<Rightarrow> Cluster" where
  "cl_write v r x cl = cl\<lparr>cl_Objects := (cl_Objects cl)(r := x), cl_Log := cl_Log cl @ [(v, r)]\<rparr>"

text \<open>The server owns the UID and the resource version.\<close>
definition sameButServer :: "Object \<Rightarrow> Object \<Rightarrow> bool" where
  "sameButServer x x' \<longleftrightarrow> (\<exists>uid rv. x' = setMeta x ((metaOf x)\<lparr>om_UID := uid, om_ResourceVersion := rv\<rparr>))"

text \<open>An object that is being deleted goes away when its last finalizer does.\<close>
definition persisted :: "Object \<Rightarrow> Object option" where
  "persisted x = (if om_DeletionTimestamp (metaOf x) \<noteq> None \<and> om_Finalizers (metaOf x) = [] then None else Some x)"

text \<open>A delete request marks the object; without finalizers the object goes away at once.\<close>
definition marked :: "Time \<Rightarrow> string \<Rightarrow> Object \<Rightarrow> Object option" where
  "marked t rv x = persisted (setMeta x ((metaOf x)\<lparr>om_ResourceVersion := rv, om_DeletionTimestamp :=
     (case om_DeletionTimestamp (metaOf x) of None \<Rightarrow> Some t | Some t' \<Rightarrow> Some t')\<rparr>))"

definition createResults :: "Object \<Rightarrow> Cluster \<Rightarrow> Cluster set" where
  "createResults x cl = {cl_write Create (objRef x) (Some x') cl | x'.
     sameButServer x x' \<and> cl_Objects cl (objRef x) = None}"

definition updateResults :: "Object \<Rightarrow> Cluster \<Rightarrow> Cluster set" where
  "updateResults x cl = {cl_write Update (objRef x) (persisted x') cl | x'.
     sameButServer x x' \<and> cl_Objects cl (objRef x) \<noteq> None}"

definition deleteResults :: "Object \<Rightarrow> Cluster \<Rightarrow> Cluster set" where
  "deleteResults x cl = {cl_write Delete (objRef x) (marked t rv old) cl | old t rv.
     cl_Objects cl (objRef x) = Some old}"

text \<open>A request whose effect, when it is carried out, is one of \<open>W\<close>. It may fail, before or after it was
  carried out.\<close>
definition accepts :: "('s \<Rightarrow> Cluster) \<Rightarrow> ('s, unit) step \<Rightarrow> (Cluster \<Rightarrow> Cluster set) \<Rightarrow> 's \<Rightarrow> bool" where
  "accepts view m W s \<longleftrightarrow> (case m s of
     (Inr _, s') \<Rightarrow> view s' \<in> W (view s)
   | (Inl _, s') \<Rightarrow> view s' \<in> insert (view s) (W (view s)))"

text \<open>A request that does not touch the deletion mark of the stored object; only such updates, and
  creations of objects without that mark, are described.\<close>
definition keepsMark :: "Object \<Rightarrow> Cluster \<Rightarrow> bool" where
  "keepsMark x cl \<longleftrightarrow> (\<forall>old. cl_Objects cl (objRef x) = Some old \<longrightarrow>
     om_DeletionTimestamp (metaOf x) = om_DeletionTimestamp (metaOf old))"

definition api :: "'s Client \<Rightarrow> ('s \<Rightarrow> Cluster) \<Rightarrow> bool" where
  "api c view \<longleftrightarrow>
     (\<forall>k key s. view (snd (c_Get c k key s)) = view s) \<and>
     (\<forall>k key s x. fst (c_Get c k key s) = Inr x \<longrightarrow> cl_Objects (view s) (k, key) = Some x \<and> objRef x = (k, key) \<and>
        persisted x = Some x) \<and>
     (\<forall>k key s e. fst (c_Get c k key s) = Inl e \<longrightarrow> IsNotFound e \<longrightarrow> cl_Objects (view s) (k, key) = None) \<and>
     (\<forall>x s. om_DeletionTimestamp (metaOf x) = None \<longrightarrow> accepts view (c_Create c x) (createResults x) s) \<and>
     (\<forall>x s. keepsMark x (view s) \<longrightarrow> accepts view (c_Update c x) (updateResults x) s) \<and>
     (\<forall>x s. accepts view (c_Delete c x) (deleteResults x) s)"

text \<open>Without faults a read finds what is stored, and a write fails only when its object exists already
  (create), is missing (update, delete) or was changed since it was read (update).\<close>
definition api_up :: "'s Client \<Rightarrow> ('s \<Rightarrow> Cluster) \<Rightarrow> bool" where
  "api_up c view \<longleftrightarrow> api c view \<and>
     (\<forall>k key s x. cl_Objects (view s) (k, key) = Some x \<longrightarrow> fst (c_Get c k key s) = Inr x) \<and>
     (\<forall>k key s. cl_Objects (view s) (k, key) = None \<longrightarrow> (\<exists>e. fst (c_Get c k key s) = Inl e \<and> IsNotFound e)) \<and>
     (\<forall>x s. cl_Objects (view s) (objRef x) = None \<longrightarrow> om_DeletionTimestamp (metaOf x) = None \<longrightarrow>
        fst (c_Create c x s) = Inr ()) \<and>
     (\<forall>x s old. cl_Objects (view s) (objRef x) = Some old \<longrightarrow>
        om_ResourceVersion (metaOf x) = om_ResourceVersion (metaOf old) \<longrightarrow> fst (c_Update c x s) = Inr ()) \<and>
     (\<forall>x s old. cl_Objects (view s) (objRef x) = Some old \<longrightarrow> fst (c_Delete c x s) = Inr ())"

section \<open>Facts on objects\<close>

lemma setMeta_simps [simp]:
  "metaOf (setMeta x m) = m" "kindOf (setMeta x m) = kindOf x" "setMeta (setMeta x m) m' = setMeta x m'"
  "setMeta x (metaOf x) = x"
  by (cases x; simp)+

lemma objRef_setMeta: "objRef (setMeta x m) = (kindOf x, metaKey m)"
  by (simp add: objRef_def)

lemma sameButServer_ref: "sameButServer x x' \<Longrightarrow> objRef x' = objRef x"
  by (auto simp: sameButServer_def objRef_def metaKey_def)

lemma sameButServer_refl: "sameButServer x x"
  unfolding sameButServer_def
  by (intro exI[of _ "om_UID (metaOf x)"] exI[of _ "om_ResourceVersion (metaOf x)"]) simp

lemma same_persisted: "sameButServer x x' \<Longrightarrow> persisted x' = Some x' \<longleftrightarrow> persisted x = Some x"
  by (auto simp: sameButServer_def persisted_def)

lemma persisted_live: "om_DeletionTimestamp (metaOf x) = None \<Longrightarrow> persisted x = Some x"
  by (simp add: persisted_def)

lemma marked_no_finalizers: "om_Finalizers (metaOf x) = [] \<Longrightarrow> marked t rv x = None"
  by (simp add: marked_def persisted_def split: option.split)

lemma cl_write_simps [simp]:
  "cl_Objects (cl_write v r x cl) = (cl_Objects cl)(r := x)" "cl_Log (cl_write v r x cl) = cl_Log cl @ [(v, r)]"
  "cl_Gauges (cl_write v r x cl) = cl_Gauges cl"
  by (simp_all add: cl_write_def)

section \<open>Frames\<close>

text \<open>From \<open>cl\<close> to \<open>cl'\<close> only objects of \<open>R\<close> and gauges of \<open>G\<close> were written.\<close>
definition touches :: "Ref set \<Rightarrow> (string \<times> string list) set \<Rightarrow> Cluster \<Rightarrow> Cluster \<Rightarrow> bool" where
  "touches R G cl cl' \<longleftrightarrow> (\<forall>r. r \<notin> R \<longrightarrow> cl_Objects cl' r = cl_Objects cl r) \<and>
     (\<forall>g. g \<notin> G \<longrightarrow> cl_Gauges cl' g = cl_Gauges cl g) \<and>
     (\<exists>ws. cl_Log cl' = cl_Log cl @ ws \<and> (\<forall>w \<in> set ws. snd w \<in> R))"

lemma touches_refl [simp, intro]: "touches R G cl cl"
  by (simp add: touches_def)

lemma touches_trans: "touches R G a b \<Longrightarrow> touches S H b c \<Longrightarrow> touches (R \<union> S) (G \<union> H) a c"
proof -
  assume ab: "touches R G a b" and bc: "touches S H b c"
  obtain ws ws' where "cl_Log b = cl_Log a @ ws" "\<forall>w \<in> set ws. snd w \<in> R"
    "cl_Log c = cl_Log b @ ws'" "\<forall>w \<in> set ws'. snd w \<in> S" using ab bc unfolding touches_def by blast
  then have "cl_Log c = cl_Log a @ (ws @ ws') \<and> (\<forall>w \<in> set (ws @ ws'). snd w \<in> R \<union> S)"
    unfolding set_append ball_Un by (metis append.assoc UnI1 UnI2)
  moreover have "cl_Objects c r = cl_Objects a r" if "r \<notin> R \<union> S" for r
    using ab bc that unfolding touches_def by (metis UnI1 UnI2)
  moreover have "cl_Gauges c g = cl_Gauges a g" if "g \<notin> G \<union> H" for g
    using ab bc that unfolding touches_def by (metis UnI1 UnI2)
  ultimately show "touches (R \<union> S) (G \<union> H) a c" unfolding touches_def by blast
qed

lemma touches_mono: "touches R G a b \<Longrightarrow> R \<subseteq> S \<Longrightarrow> G \<subseteq> H \<Longrightarrow> touches S H a b"
  unfolding touches_def by (metis subsetD)

lemma touches_write: "r \<in> R \<Longrightarrow> touches R G cl (cl_write v r x cl)"
  by (auto simp: touches_def)

lemma touches_gauge: "g \<in> G \<Longrightarrow> touches R G cl (cl\<lparr>cl_Gauges := (cl_Gauges cl)(g := v)\<rparr>)"
  by (auto simp: touches_def)

lemma touches_objects: "touches R G a b \<Longrightarrow> r \<notin> R \<Longrightarrow> cl_Objects b r = cl_Objects a r"
  unfolding touches_def by blast

lemma touches_gauges: "touches R G a b \<Longrightarrow> g \<notin> G \<Longrightarrow> cl_Gauges b g = cl_Gauges a g"
  unfolding touches_def by blast

lemma touches_nothing: "touches {} G a b \<Longrightarrow> cl_Objects b = cl_Objects a \<and> cl_Log b = cl_Log a"
proof -
  assume t: "touches {} G a b"
  then have "cl_Objects b r = cl_Objects a r" for r by (rule touches_objects) simp
  moreover from t obtain ws where "cl_Log b = cl_Log a @ ws" "\<forall>w \<in> set ws. snd w \<in> {}"
    unfolding touches_def by blast
  then have "cl_Log b = cl_Log a" by (metis append_Nil2 emptyE last_in_set)
  ultimately show "cl_Objects b = cl_Objects a \<and> cl_Log b = cl_Log a" by (simp add: fun_eq_iff)
qed

lemma touches_empty: "touches {} {} a b \<Longrightarrow> b = a"
  using touches_nothing[of "{}" a b] touches_gauges[of "{}" "{}" a b]
  by (intro Cluster.equality) (simp_all add: fun_eq_iff)

lemma results_touch:
  "cl' \<in> createResults x cl \<Longrightarrow> touches {objRef x} {} cl cl'"
  "cl' \<in> updateResults x cl \<Longrightarrow> touches {objRef x} {} cl cl'"
  "cl' \<in> deleteResults x cl \<Longrightarrow> touches {objRef x} {} cl cl'"
  by (auto simp: createResults_def updateResults_def deleteResults_def intro: touches_write)

lemma accepts_Inr: "accepts view m W s \<Longrightarrow> m s = (Inr u, s') \<Longrightarrow> view s' \<in> W (view s)"
  by (simp add: accepts_def)

lemma accepts_touches:
  assumes "accepts view m W s" and "m s = (q, s')" and "\<And>cl'. cl' \<in> W (view s) \<Longrightarrow> touches R {} (view s) cl'"
  shows "touches R {} (view s) (view s')"
  using assms by (cases q) (auto simp: accepts_def)

text \<open>The outcomes of an update of a stored object.\<close>
lemma update_cases:
  assumes "api c view" and "c_Update c x s = (q, s')" and "cl_Objects (view s) (objRef x) = Some old"
    and "om_DeletionTimestamp (metaOf x) = om_DeletionTimestamp (metaOf old)"
  obtains (stored) z where "q = Inr ()" "sameButServer x z" "view s' = cl_write Update (objRef x) (persisted z) (view s)"
  | (failed) e where "q = Inl e" "touches {objRef x} {} (view s) (view s')"
proof -
  from assms(3,4) have "keepsMark x (view s)" by (simp add: keepsMark_def)
  with assms(1) have acc: "accepts view (c_Update c x) (updateResults x) s" by (simp add: api_def)
  show thesis
  proof (cases q)
    case (Inl e)
    from accepts_touches[OF acc assms(2), of "{objRef x}"] results_touch(2) have "touches {objRef x} {} (view s) (view s')" by metis
    with failed Inl show thesis by blast
  next
    case (Inr u)
    from accepts_Inr[OF acc] assms(2) Inr have "view s' \<in> updateResults x (view s)" by simp
    with stored Inr show thesis by (auto simp: updateResults_def)
  qed
qed

lemma update_up:
  assumes "api_up c view" and "cl_Objects (view s) (objRef x) = Some old" and "om_ResourceVersion (metaOf x) = om_ResourceVersion (metaOf old)"
  obtains s' where "c_Update c x s = (Inr (), s')"
  using assms unfolding api_up_def by (metis prod.collapse)

section \<open>The shared schemes\<close>

text \<open>Get the object; create it when it is missing, repair it when it differs. Returns whether it wrote.\<close>
definition ensureObject :: "'s Client \<Rightarrow> Kind \<Rightarrow> ('o \<Rightarrow> Object) \<Rightarrow> (Object \<Rightarrow> 'o option) \<Rightarrow> NamespacedName \<Rightarrow>
    (error + 'o) \<Rightarrow> ('o \<Rightarrow> bool) \<Rightarrow> ('o \<Rightarrow> 'o) \<Rightarrow> ('s, bool) step" where
  "ensureObject c k wrap as key prepared changed repair =
     onResult (getAs c k as key)
       (\<lambda>e. if IsNotFound e
            then (case prepared of
                    Inl e' \<Rightarrow> fail e'
                  | Inr x \<Rightarrow> andThen (c_Create c (wrap x)) (\<lambda>_. ok True))
            else fail e)
       (\<lambda>found. if changed found then andThen (c_Update c (wrap (repair found))) (\<lambda>_. ok True) else ok False)"

text \<open>Get the object and delete it when it is there.\<close>
definition deleteObject :: "'s Client \<Rightarrow> Kind \<Rightarrow> ('o \<Rightarrow> Object) \<Rightarrow> (Object \<Rightarrow> 'o option) \<Rightarrow> NamespacedName \<Rightarrow>
    ('s, unit) step" where
  "deleteObject c k wrap as key =
     onResult (getAs c k as key) (\<lambda>e. if IsNotFound e then ok () else fail e) (\<lambda>found. c_Delete c (wrap found))"

text \<open>Drop the result of a step.\<close>
abbreviation ignore :: "('s, 'a) step \<Rightarrow> ('s, unit) step" where
  "ignore m \<equiv> andThen m (\<lambda>_. ok ())"

text \<open>\<open>controllerutil.SetControllerReference\<close> on the metadata of an owner and of an object: it changes the
  owner references only, and refuses an owner in another namespace.\<close>
definition setref_ok :: "(ObjectMeta \<Rightarrow> ObjectMeta \<Rightarrow> error + ObjectMeta) \<Rightarrow> bool" where
  "setref_ok f \<longleftrightarrow> (\<forall>owner m m'. f owner m = Inr m' \<longrightarrow>
     (\<exists>refs. m' = m\<lparr>om_OwnerReferences := refs\<rparr> \<and>
        (\<exists>ref \<in> set refs. or_Name ref = om_Name owner \<and> or_UID ref = om_UID owner \<and> or_Controller ref)) \<and>
     (om_Namespace owner \<noteq> [] \<longrightarrow> om_Namespace m = om_Namespace owner))"

definition setref_up :: "(ObjectMeta \<Rightarrow> ObjectMeta \<Rightarrow> error + ObjectMeta) \<Rightarrow> bool" where
  "setref_up f \<longleftrightarrow> setref_ok f \<and> (\<forall>owner m.
     om_Namespace m = om_Namespace owner \<longrightarrow> om_OwnerReferences m = [] \<longrightarrow> (\<exists>m'. f owner m = Inr m'))"

lemma onResult_cases:
  assumes "onResult m h f s = (q, s'')"
  obtains (err) e s' where "m s = (Inl e, s')" "h e s' = (q, s'')"
  | (val) x s' where "m s = (Inr x, s')" "f x s' = (q, s'')"
  using assms by (auto simp: onResult_def split: prod.splits sum.splits)

text \<open>A kind of object: \<open>wrap\<close> and \<open>as\<close> embed it into the objects, \<open>put_meta\<close> sets its metadata.\<close>
locale object_kind =
  fixes kind :: Kind
    and wrap :: "'o \<Rightarrow> Object"
    and as :: "Object \<Rightarrow> 'o option"
    and put_meta :: "'o \<Rightarrow> ObjectMeta \<Rightarrow> 'o"
  assumes as_iff: "as x = Some y \<longleftrightarrow> x = wrap y"
    and kind_wrap: "kindOf (wrap y) = kind"
    and kind_only: "kindOf x = kind \<Longrightarrow> \<exists>y. x = wrap y"
    and setMeta_wrap: "setMeta (wrap y) m = wrap (put_meta y m)"
begin

lemma wrap_inj: "wrap y = wrap z \<Longrightarrow> y = z"
  by (metis as_iff option.inject)

lemma getAs_cases:
  assumes "api c view" and "getAs c kind as key s = (q, s')"
  obtains (found) y where "q = Inr y" "cl_Objects (view s) (kind, key) = Some (wrap y)" "objRef (wrap y) = (kind, key)"
      "persisted (wrap y) = Some (wrap y)" "view s' = view s"
  | (missing) e where "q = Inl e" "IsNotFound e" "cl_Objects (view s) (kind, key) = None" "view s' = view s"
  | (failed) e where "q = Inl e" "\<not> IsNotFound e" "view s' = view s"
proof -
  obtain r s1 where g: "c_Get c kind key s = (r, s1)" by fastforce
  from assms(1) g have v: "view s1 = view s" unfolding api_def by (metis snd_conv)
  show thesis
  proof (cases r)
    case (Inl e)
    with g assms(2) have "q = Inl e" "s' = s1" by (simp_all add: getAs_def andThen_def)
    moreover have "IsNotFound e \<Longrightarrow> cl_Objects (view s) (kind, key) = None"
      using assms(1) g Inl unfolding api_def by (metis fst_conv)
    ultimately show thesis using missing failed v by blast
  next
    case (Inr x)
    with assms(1) g have x: "cl_Objects (view s) (kind, key) = Some x" "objRef x = (kind, key)" "persisted x = Some x"
      unfolding api_def by (metis fst_conv)+
    then obtain y where y: "x = wrap y" using kind_only by (metis objRef_def fst_conv)
    moreover have "as (wrap y) = Some y" by (simp add: as_iff)
    ultimately have "q = Inr y" "s' = s1" using Inr g assms(2) by (simp_all add: getAs_def andThen_def)
    with found x y v show thesis by blast
  qed
qed

text \<open>The outcomes of \<open>deleteObject\<close>.\<close>
lemma delete_cases:
  assumes api: "api c view" and run: "deleteObject c kind wrap as key s = (q, s')"
  obtains (absent) "q = Inr ()" "cl_Objects (view s) (kind, key) = None" "view s' = view s"
  | (deleted) y t rv where "q = Inr ()" "cl_Objects (view s) (kind, key) = Some (wrap y)" "objRef (wrap y) = (kind, key)"
      "view s' = cl_write Delete (kind, key) (marked t rv (wrap y)) (view s)"
  | (failed) e where "q = Inl e" "touches {(kind, key)} {} (view s) (view s')"
  using run unfolding deleteObject_def
proof (cases rule: onResult_cases)
  case (err e s1)
  from api err(1) show thesis
    by (cases rule: getAs_cases) (use err(2) absent failed in auto)
next
  case (val y s1)
  from api val(1) obtain y: "cl_Objects (view s) (kind, key) = Some (wrap y)" "objRef (wrap y) = (kind, key)" "view s1 = view s"
    by (cases rule: getAs_cases) auto
  from api have acc: "accepts view (c_Delete c (wrap y)) (deleteResults (wrap y)) s1" by (simp add: api_def)
  show thesis
  proof (cases q)
    case (Inl e)
    have "touches {objRef (wrap y)} {} (view s1) (view s')" using accepts_touches[OF acc val(2)] results_touch(3) by metis
    with y have "touches {(kind, key)} {} (view s) (view s')" by simp
    with failed Inl show thesis by blast
  next
    case (Inr u)
    from accepts_Inr[OF acc] val(2) Inr y obtain t rv where
      "view s' = cl_write Delete (kind, key) (marked t rv (wrap y)) (view s)"
      by (auto simp: deleteResults_def)
    with deleted y Inr show thesis by auto
  qed
qed

lemma delete_touches:
  assumes "api c view" and "deleteObject c kind wrap as key s = (q, s')"
  shows "touches {(kind, key)} {} (view s) (view s')"
  using assms by (cases rule: delete_cases) (auto intro: touches_write)

text \<open>After a successful delete the object is gone, or it waits for its finalizers.\<close>
lemma delete_done:
  assumes "api c view" and "deleteObject c kind wrap as key s = (Inr (), s')"
    and "\<And>x. cl_Objects (view s) (kind, key) = Some x \<Longrightarrow> om_Finalizers (metaOf x) = []"
  shows "cl_Objects (view s') (kind, key) = None"
  using assms(1,2) by (cases rule: delete_cases) (use assms(3) in \<open>simp_all add: marked_no_finalizers\<close>)

lemma getAs_up:
  assumes up: "api_up c view"
  obtains (found) y s' where "getAs c kind as key s = (Inr y, s')" "cl_Objects (view s) (kind, key) = Some (wrap y)"
      "objRef (wrap y) = (kind, key)" "view s' = view s"
  | (missing) e s' where "getAs c kind as key s = (Inl e, s')" "IsNotFound e"
      "cl_Objects (view s) (kind, key) = None" "view s' = view s"
proof -
  obtain r s1 where g: "c_Get c kind key s = (r, s1)" by fastforce
  obtain q s2 where run: "getAs c kind as key s = (q, s2)" by fastforce
  from up have api: "api c view" by (simp add: api_up_def)
  from api run show thesis
  proof (cases rule: getAs_cases)
    case (failed e)
    from g run failed(1) have r: "r = Inl e \<or> (\<exists>x. r = Inr x)" by (cases r) (auto simp: getAs_def andThen_def)
    show thesis
    proof (cases "cl_Objects (view s) (kind, key)")
      case None
      with up g obtain e' where "r = Inl e'" "IsNotFound e'" unfolding api_up_def by (metis fst_conv)
      with r failed(2) show thesis by simp
    next
      case (Some x)
      with up g have rx: "r = Inr x" unfolding api_up_def by (metis fst_conv)
      with api g have "objRef x = (kind, key)" unfolding api_def by (metis fst_conv)
      with kind_only obtain y where "x = wrap y" by (metis objRef_def fst_conv)
      moreover have "as (wrap y) = Some y" for y by (simp add: as_iff)
      ultimately show thesis using rx g run failed(1) by (simp add: getAs_def andThen_def)
    qed
  qed (use run found missing in blast)+
qed

lemma delete_up:
  assumes "api_up c view"
  shows "\<exists>s'. deleteObject c kind wrap as key s = (Inr (), s')"
  using assms
proof (cases rule: getAs_up[where key = key and s = s])
  case (found y s1)
  with assms have "fst (c_Delete c (wrap y) s1) = Inr ()" by (simp add: api_up_def)
  with found show ?thesis by (simp add: deleteObject_def onResult_def) (metis prod.collapse)
next
  case (missing e s1)
  then show ?thesis by (simp add: deleteObject_def onResult_def)
qed

end

text \<open>
  A kind of resource the operator manages: \<open>matches\<close> is the check of an object found on the cluster,
  \<open>repair\<close> what the update sends, \<open>repairable\<close> when an update is enough, \<open>settles\<close> when the expected
  object passes its own check. Server-managed metadata and owner references do not matter to the check.
\<close>
locale managed_resource = object_kind kind wrap as put_meta
  for kind :: Kind and wrap :: "'o \<Rightarrow> Object" and as :: "Object \<Rightarrow> 'o option"
    and put_meta :: "'o \<Rightarrow> ObjectMeta \<Rightarrow> 'o" +
  fixes expected :: 'o
    and matches :: "'o \<Rightarrow> bool"
    and repair :: "'o \<Rightarrow> 'o"
    and repairable :: "'o \<Rightarrow> bool"
    and settles :: bool
  assumes meta_repair: "metaOf (wrap (repair y)) = metaOf (wrap y)"
    and repair_matches: "repairable y \<Longrightarrow> matches (repair y)"
    and server_matches: "matches (put_meta y ((metaOf (wrap y))\<lparr>om_UID := uid, om_ResourceVersion := rv\<rparr>)) = matches y"
    and expected_live: "om_DeletionTimestamp (metaOf (wrap expected)) = None"
    and expected_matches: "settles \<Longrightarrow> matches (put_meta expected ((metaOf (wrap expected))\<lparr>om_OwnerReferences := refs\<rparr>))"
begin

abbreviation ref :: Ref where
  "ref \<equiv> objRef (wrap expected)"

abbreviation key :: NamespacedName where
  "key \<equiv> metaKey (metaOf (wrap expected))"

lemma ref_eq: "ref = (kind, key)"
  by (simp add: objRef_def kind_wrap)

lemma same_matches: "sameButServer (wrap y) (wrap z) \<Longrightarrow> matches z = matches y"
  unfolding sameButServer_def setMeta_wrap using server_matches wrap_inj by metis

lemma same_wrap: "sameButServer (wrap y) x \<Longrightarrow> \<exists>z. x = wrap z \<and> matches z = matches y"
  using same_matches unfolding sameButServer_def setMeta_wrap by blast

text \<open>The outcomes of \<open>ensureObject\<close> for the object created with an owner reference or as it is.\<close>
lemma ensure_cases:
  assumes api: "api c view"
    and run: "ensureObject c kind wrap as key prepared (\<lambda>y. \<not> matches y) repair s = (q, s')"
    and prep: "\<And>x. prepared = Inr x \<Longrightarrow>
      \<exists>refs. x = put_meta expected ((metaOf (wrap expected))\<lparr>om_OwnerReferences := refs\<rparr>)"
  obtains (kept) y where "q = Inr False" "cl_Objects (view s) ref = Some (wrap y)" "matches y" "view s' = view s"
  | (created) z where "q = Inr True" "cl_Objects (view s) ref = None" "settles \<Longrightarrow> matches z"
      "view s' = cl_write Create ref (Some (wrap z)) (view s)" "\<exists>x. prepared = Inr x \<and> sameButServer (wrap x) (wrap z)"
  | (repaired) y z where "q = Inr True" "cl_Objects (view s) ref = Some (wrap y)" "\<not> matches y"
      "sameButServer (wrap (repair y)) (wrap z)" "repairable y \<Longrightarrow> matches z"
      "view s' = cl_write Update ref (Some (wrap z)) (view s)"
  | (failed) e where "q = Inl e" "touches {ref} {} (view s) (view s')"
  using run unfolding ensureObject_def
proof (cases rule: onResult_cases)
  case (err e s1)
  note get = err(1)
  from api get show thesis
  proof (cases rule: getAs_cases)
    case (missing e')
    show thesis
    proof (cases prepared)
      case (Inl e2)
      with err missing failed[of e2] show thesis by auto
    next
      case (Inr x)
      then obtain refs where x: "x = put_meta expected ((metaOf (wrap expected))\<lparr>om_OwnerReferences := refs\<rparr>)"
        using prep by blast
      have refx: "objRef (wrap x) = ref"
        unfolding x setMeta_wrap[symmetric] objRef_setMeta ref_eq by (simp add: kind_wrap metaKey_def)
      obtain r s2 where cr: "c_Create c (wrap x) s1 = (r, s2)" by fastforce
      have "om_DeletionTimestamp (metaOf (wrap x)) = None"
        unfolding x setMeta_wrap[symmetric] by (simp add: expected_live)
      with api have acc: "accepts view (c_Create c (wrap x)) (createResults (wrap x)) s1" by (simp add: api_def)
      show thesis
      proof (cases r)
        case (Inl e2)
        with accepts_touches[OF acc cr, of "{ref}"] refx results_touch(1) have "touches {ref} {} (view s1) (view s2)" by metis
        with Inl cr err missing Inr failed[of e2] show thesis by (auto simp: andThen_def)
      next
        case (Inr u)
        from accepts_Inr[OF acc] cr Inr obtain x' where x': "sameButServer (wrap x) x'"
          "view s2 = cl_write Create ref (Some x') (view s1)" by (auto simp: createResults_def refx)
        from same_wrap[OF x'(1)] obtain z where z: "x' = wrap z" "matches z = matches x" by blast
        with Inr cr err missing \<open>prepared = Inr x\<close> created[of z] x x' expected_matches show thesis
          by (simp add: andThen_def ref_eq)
      qed
    qed
  qed (use err failed in auto)
next
  case (val y s1)
  note get = val(1)
  from api get show thesis
  proof (cases rule: getAs_cases)
    case (found y')
    then have y: "cl_Objects (view s) ref = Some (wrap y)" "objRef (wrap y) = ref" "view s1 = view s"
      "persisted (wrap y) = Some (wrap y)" by (simp_all add: ref_eq)
    show thesis
    proof (cases "matches y")
      case True
      with val y kept show thesis by simp
    next
      case False
      have refr: "objRef (wrap (repair y)) = ref"
        using y(2) by (simp add: objRef_def kind_wrap meta_repair)
      obtain r s2 where up: "c_Update c (wrap (repair y)) s1 = (r, s2)" by fastforce
      have "keepsMark (wrap (repair y)) (view s1)" using y by (simp add: keepsMark_def refr meta_repair)
      with api have acc: "accepts view (c_Update c (wrap (repair y))) (updateResults (wrap (repair y))) s1"
        by (simp add: api_def)
      show thesis
      proof (cases r)
        case (Inl e2)
        with accepts_touches[OF acc up, of "{ref}"] refr results_touch(2) have "touches {ref} {} (view s1) (view s2)" by metis
        with Inl up val y False failed[of e2] show thesis by (auto simp: andThen_def)
      next
        case (Inr u)
        from accepts_Inr[OF acc] up Inr obtain x' where x': "sameButServer (wrap (repair y)) x'"
          "view s2 = cl_write Update ref (persisted x') (view s1)" by (auto simp: updateResults_def refr)
        from same_wrap[OF x'(1)] obtain z where z: "x' = wrap z" "matches z = matches (repair y)" by blast
        from same_persisted[OF x'(1)] y(4) have "persisted x' = Some x'" by (simp add: persisted_def meta_repair split: if_splits)
        with z Inr up val y False x' repair_matches repaired[of y z] show thesis by (simp add: andThen_def)
      qed
    qed
  qed simp_all
qed

lemma ensure_touches:
  assumes "api c view"
    and "ensureObject c kind wrap as key prepared (\<lambda>y. \<not> matches y) repair s = (q, s')"
    and "\<And>x. prepared = Inr x \<Longrightarrow> \<exists>refs. x = put_meta expected ((metaOf (wrap expected))\<lparr>om_OwnerReferences := refs\<rparr>)"
  shows "touches {ref} {} (view s) (view s')"
  using assms(1,2) by (rule ensure_cases) (use assms(3) in \<open>auto intro: touches_write\<close>)

text \<open>Success establishes the check, when an object that is found can be repaired.\<close>
lemma ensure_establishes:
  assumes "api c view"
    and "ensureObject c kind wrap as key prepared (\<lambda>y. \<not> matches y) repair s = (Inr b, s')"
    and "\<And>x. prepared = Inr x \<Longrightarrow> \<exists>refs. x = put_meta expected ((metaOf (wrap expected))\<lparr>om_OwnerReferences := refs\<rparr>)"
    and "\<And>y. cl_Objects (view s) ref = Some (wrap y) \<Longrightarrow> \<not> matches y \<Longrightarrow> repairable y"
    and "cl_Objects (view s) ref = None \<Longrightarrow> settles"
  shows "\<exists>z. cl_Objects (view s') ref = Some (wrap z) \<and> matches z"
  using assms(1,2) by (rule ensure_cases) (use assms(3,4,5) in auto)

text \<open>An object that passes the check is left alone: nothing is written.\<close>
lemma ensure_keeps:
  assumes "api c view" and "cl_Objects (view s) ref = Some (wrap y)" and "matches y"
    and run: "ensureObject c kind wrap as key prepared (\<lambda>y. \<not> matches y) repair s = (q, s')"
  shows "view s' = view s \<and> (\<forall>b. q = Inr b \<longrightarrow> \<not> b)"
  using run unfolding ensureObject_def
proof (cases rule: onResult_cases)
  case (err e s1)
  from assms(1) err(1) show ?thesis
    by (cases rule: getAs_cases) (use err(2) assms(2) ref_eq in auto)
next
  case (val y' s1)
  from assms(1) val(1) show ?thesis
  proof (cases rule: getAs_cases)
    case (found y2)
    with assms(2) ref_eq have "y' = y" using wrap_inj by auto
    with val found assms(3) show ?thesis by auto
  qed simp_all
qed

text \<open>Without faults it succeeds.\<close>
lemma ensure_up:
  assumes up: "api_up c view" and "prepared = Inr x"
    and "x = put_meta expected ((metaOf (wrap expected))\<lparr>om_OwnerReferences := refs\<rparr>)"
  shows "\<exists>b s'. ensureObject c kind wrap as key prepared (\<lambda>y. \<not> matches y) repair s = (Inr b, s')"
  using up
proof (cases rule: getAs_up[where key = key and s = s])
  case (found y s1)
  show ?thesis
  proof (cases "matches y")
    case True
    with found show ?thesis by (auto simp: ensureObject_def onResult_def)
  next
    case False
    have "objRef (wrap (repair y)) = (kind, key)" using found(3) by (simp add: objRef_def kind_wrap meta_repair)
    with found up have "fst (c_Update c (wrap (repair y)) s1) = Inr ()"
      unfolding api_up_def by (metis meta_repair)
    with found False show ?thesis
      by (cases "c_Update c (wrap (repair y)) s1") (auto simp: ensureObject_def onResult_def andThen_def)
  qed
next
  case (missing e s1)
  have "objRef (wrap x) = (kind, key)" "om_DeletionTimestamp (metaOf (wrap x)) = None"
    unfolding assms(3) setMeta_wrap[symmetric] objRef_setMeta by (simp_all add: kind_wrap metaKey_def expected_live)
  with missing up have "fst (c_Create c (wrap x) s1) = Inr ()" by (simp add: api_up_def)
  with missing assms(2) show ?thesis
    by (cases "c_Create c (wrap x) s1") (auto simp: ensureObject_def onResult_def andThen_def)
qed

end

text \<open>The kinds the operator handles.\<close>
interpretation dep: object_kind KDeployment ODeployment asDeployment "\<lambda>x m. x\<lparr>dep_Meta := m\<rparr>"
proof unfold_locales
  show "asDeployment x = Some y \<longleftrightarrow> x = ODeployment y" for x y by (cases x) auto
  show "\<exists>y. x = ODeployment y" if "kindOf x = KDeployment" for x using that by (cases x) auto
qed simp_all

interpretation cm: object_kind KConfigMap OConfigMap asConfigMap "\<lambda>x m. x\<lparr>cm_Meta := m\<rparr>"
proof unfold_locales
  show "asConfigMap x = Some y \<longleftrightarrow> x = OConfigMap y" for x y by (cases x) auto
  show "\<exists>y. x = OConfigMap y" if "kindOf x = KConfigMap" for x using that by (cases x) auto
qed simp_all

interpretation sec: object_kind KSecret OSecret asSecret "\<lambda>x m. x\<lparr>sec_Meta := m\<rparr>"
proof unfold_locales
  show "asSecret x = Some y \<longleftrightarrow> x = OSecret y" for x y by (cases x) auto
  show "\<exists>y. x = OSecret y" if "kindOf x = KSecret" for x using that by (cases x) auto
qed simp_all

interpretation svc: object_kind KService OService asService "\<lambda>x m. x\<lparr>svc_Meta := m\<rparr>"
proof unfold_locales
  show "asService x = Some y \<longleftrightarrow> x = OService y" for x y by (cases x) auto
  show "\<exists>y. x = OService y" if "kindOf x = KService" for x using that by (cases x) auto
qed simp_all

interpretation np: object_kind KNetworkPolicy ONetworkPolicy asNetworkPolicy "\<lambda>x m. x\<lparr>np_Meta := m\<rparr>"
proof unfold_locales
  show "asNetworkPolicy x = Some y \<longleftrightarrow> x = ONetworkPolicy y" for x y by (cases x) auto
  show "\<exists>y. x = ONetworkPolicy y" if "kindOf x = KNetworkPolicy" for x using that by (cases x) auto
qed simp_all

interpretation sm: object_kind KServiceMonitor OServiceMonitor asServiceMonitor "\<lambda>x m. x\<lparr>sm_Meta := m\<rparr>"
proof unfold_locales
  show "asServiceMonitor x = Some y \<longleftrightarrow> x = OServiceMonitor y" for x y by (cases x) auto
  show "\<exists>y. x = OServiceMonitor y" if "kindOf x = KServiceMonitor" for x using that by (cases x) auto
qed simp_all

interpretation pdb: object_kind KPodDisruptionBudget OPodDisruptionBudget asPodDisruptionBudget "\<lambda>x m. x\<lparr>pdb_Meta := m\<rparr>"
proof unfold_locales
  show "asPodDisruptionBudget x = Some y \<longleftrightarrow> x = OPodDisruptionBudget y" for x y by (cases x) auto
  show "\<exists>y. x = OPodDisruptionBudget y" if "kindOf x = KPodDisruptionBudget" for x using that by (cases x) auto
qed simp_all

interpretation oa: object_kind KOcmAgent OOcmAgent asOcmAgent "\<lambda>x m. x\<lparr>oa_Meta := m\<rparr>"
proof unfold_locales
  show "asOcmAgent x = Some y \<longleftrightarrow> x = OOcmAgent y" for x y by (cases x) auto
  show "\<exists>y. x = OOcmAgent y" if "kindOf x = KOcmAgent" for x using that by (cases x) auto
qed simp_all

interpretation px: object_kind KProxy OProxy asProxy "\<lambda>x m. x\<lparr>px_Meta := m\<rparr>"
proof unfold_locales
  show "asProxy x = Some y \<longleftrightarrow> x = OProxy y" for x y by (cases x) auto
  show "\<exists>y. x = OProxy y" if "kindOf x = KProxy" for x using that by (cases x) auto
qed simp_all

interpretation cv: object_kind KClusterVersion OClusterVersion asClusterVersion "\<lambda>x m. x\<lparr>cv_Meta := m\<rparr>"
proof unfold_locales
  show "asClusterVersion x = Some y \<longleftrightarrow> x = OClusterVersion y" for x y by (cases x) auto
  show "\<exists>y. x = OClusterVersion y" if "kindOf x = KClusterVersion" for x using that by (cases x) auto
qed simp_all

section \<open>A client in memory\<close>

text \<open>A client over a map of objects, used in the witnesses: it satisfies \<open>api_up\<close>.\<close>
definition memView :: "Cluster \<Rightarrow> Cluster" where
  "memView cl = cl\<lparr>cl_Objects := \<lambda>r. case cl_Objects cl r of
     None \<Rightarrow> None | Some x \<Rightarrow> if objRef x = r \<and> persisted x = Some x then Some x else None\<rparr>"

definition memClient :: "Cluster Client" where
  "memClient = \<lparr>
     c_Get = \<lambda>k key s. (case cl_Objects (memView s) (k, key) of
       None \<Rightarrow> (Inl (NotFound (nn_Name key)), s) | Some x \<Rightarrow> (Inr x, s)),
     c_Create = \<lambda>x s. (case cl_Objects (memView s) (objRef x) of
       None \<Rightarrow> (Inr (), cl_write Create (objRef x) (Some x) s) | Some _ \<Rightarrow> (Inl (ApiError ''already exists''), s)),
     c_Update = \<lambda>x s. (case cl_Objects (memView s) (objRef x) of
       None \<Rightarrow> (Inl (NotFound (om_Name (metaOf x))), s) | Some _ \<Rightarrow> (Inr (), cl_write Update (objRef x) (persisted x) s)),
     c_Delete = \<lambda>x s. (case cl_Objects (memView s) (objRef x) of
       None \<Rightarrow> (Inl (NotFound (om_Name (metaOf x))), s)
     | Some old \<Rightarrow> (Inr (), cl_write Delete (objRef x) (marked 0 (om_ResourceVersion (metaOf old)) old) s))\<rparr>"

lemma memView_Some: "cl_Objects (memView cl) r = Some x \<longleftrightarrow> cl_Objects cl r = Some x \<and> objRef x = r \<and> persisted x = Some x"
  by (simp add: memView_def split: option.split) blast

lemma memView_write:
  assumes "\<And>y. x = Some y \<Longrightarrow> objRef y = r \<and> persisted y = Some y"
  shows "memView (cl_write v r x cl) = cl_write v r x (memView cl)"
  using assms by (auto simp: memView_def cl_write_def fun_eq_iff split: option.split)

lemma persisted_SomeD: "persisted x = Some y \<Longrightarrow> y = x \<and> persisted y = Some y"
  by (auto simp: persisted_def split: if_splits)

lemma marked_SomeD: "marked t rv x = Some y \<Longrightarrow> objRef y = objRef x \<and> persisted y = Some y"
  unfolding marked_def using persisted_SomeD by (force simp: objRef_def metaKey_def)

lemma memClient_api: "api memClient memView"
  unfolding api_def
proof (intro conjI allI impI)
  fix x s
  show "accepts memView (c_Create memClient x) (createResults x) s" if "om_DeletionTimestamp (metaOf x) = None"
  proof -
    have "memView (cl_write Create (objRef x) (Some x) s) = cl_write Create (objRef x) (Some x) (memView s)"
      using that by (intro memView_write) (auto simp: persisted_live)
    with sameButServer_refl[of x] show ?thesis
      by (auto simp: accepts_def memClient_def createResults_def split: option.split)
  qed
  show "accepts memView (c_Update memClient x) (updateResults x) s"
  proof -
    have "memView (cl_write Update (objRef x) (persisted x) s) = cl_write Update (objRef x) (persisted x) (memView s)"
      by (intro memView_write) (auto dest: persisted_SomeD)
    with sameButServer_refl[of x] show ?thesis
      by (auto simp: accepts_def memClient_def updateResults_def split: option.split)
  qed
  show "accepts memView (c_Delete memClient x) (deleteResults x) s"
  proof (cases "cl_Objects (memView s) (objRef x)")
    case (Some old)
    let ?m = "marked 0 (om_ResourceVersion (metaOf old)) old"
    have "memView (cl_write Delete (objRef x) ?m s) = cl_write Delete (objRef x) ?m (memView s)"
      using Some by (intro memView_write) (auto simp: memView_Some dest: marked_SomeD)
    with Some show ?thesis by (auto simp: accepts_def memClient_def deleteResults_def)
  qed (simp add: accepts_def memClient_def)
qed (auto simp: memClient_def memView_Some split: option.splits)

lemma memClient_api_up: "api_up memClient memView"
  unfolding api_up_def using memClient_api by (auto simp: memClient_def)

end
