(* ===== verification/GoStrings.thy ===== *)
theory GoStrings
  imports GoFmt GoTime "HOL-Library.List_Lexorder" "HOL-Library.Char_ord"
begin

text \<open>
  The functions on strings of Go's standard library that the operator calls:
  \<open>strings.Join\<close>, \<open>filepath.Join\<close> (with \<open>filepath.Clean\<close> on a slash-separated path),
  \<open>url.ParseRequestURI\<close> (whether it accepts its argument) and
  \<open>time.Time.Format(time.RFC3339)\<close>. A string is its list of bytes.
\<close>

section \<open>strings.Join\<close>

fun strings_Join :: "string list \<Rightarrow> string \<Rightarrow> string" where
  "strings_Join [] sep = []"
| "strings_Join [x] sep = x"
| "strings_Join (x # y # zs) sep = x @ sep @ strings_Join (y # zs) sep"

fun splitOn :: "char \<Rightarrow> string \<Rightarrow> string list" where
  "splitOn c [] = [[]]"
| "splitOn c (x # xs) =
     (if x = c then [] # splitOn c xs
      else case splitOn c xs of [] \<Rightarrow> [[x]] | seg # segs \<Rightarrow> (x # seg) # segs)"

section \<open>filepath.Join\<close>

text \<open>\<open>filepath.Clean\<close> keeps a stack of path elements: empty and \<open>.\<close> elements are dropped, \<open>..\<close> removes
  the element before it; at the root it is dropped, in a relative path it stays.\<close>
fun cleanStack :: "bool \<Rightarrow> string list \<Rightarrow> string list \<Rightarrow> string list" where
  "cleanStack rooted stack [] = rev stack"
| "cleanStack rooted stack (e # es) =
     (if e = [] \<or> e = ''.'' then cleanStack rooted stack es
      else if e = ''..'' then
        (case stack of
           [] \<Rightarrow> if rooted then cleanStack rooted [] es else cleanStack rooted [e] es
         | t # ts \<Rightarrow> if t = ''..'' then cleanStack rooted (e # stack) es else cleanStack rooted ts es)
      else cleanStack rooted (e # stack) es)"

definition filepath_Clean :: "string \<Rightarrow> string" where
  "filepath_Clean p =
     (let rooted = (case p of [] \<Rightarrow> False | c # _ \<Rightarrow> c = CHR ''/'');
          body = strings_Join (cleanStack rooted [] (splitOn (CHR ''/'') p)) ''/''
      in if rooted then CHR ''/'' # body else if body = [] then ''.'' else body)"

definition filepath_Join :: "string list \<Rightarrow> string" where
  "filepath_Join elems =
     (let nonempty = dropWhile (\<lambda>e. e = []) elems
      in if nonempty = [] then [] else filepath_Clean (strings_Join nonempty ''/''))"

section \<open>url.ParseRequestURI\<close>

abbreviation between :: "char \<Rightarrow> char \<Rightarrow> char \<Rightarrow> bool" where
  "between lo hi c \<equiv> lo \<le> c \<and> c \<le> hi"

definition isLetter :: "char \<Rightarrow> bool" where
  "isLetter c \<longleftrightarrow> between (CHR ''a'') (CHR ''z'') c \<or> between (CHR ''A'') (CHR ''Z'') c"

definition isDigit :: "char \<Rightarrow> bool" where
  "isDigit c \<longleftrightarrow> between (CHR ''0'') (CHR ''9'') c"

definition isHex :: "char \<Rightarrow> bool" where
  "isHex c \<longleftrightarrow> isDigit c \<or> between (CHR ''a'') (CHR ''f'') c \<or> between (CHR ''A'') (CHR ''F'') c"

text \<open>\<open>stringContainsCTLByte\<close>\<close>
definition isCTL :: "char \<Rightarrow> bool" where
  "isCTL c \<longleftrightarrow> (of_char c :: nat) < 32 \<or> (of_char c :: nat) = 127"

text \<open>\<open>getScheme\<close>: the scheme and the rest, \<open>None\<close> for a missing protocol scheme.\<close>
fun schemeLoop :: "string \<Rightarrow> string \<Rightarrow> string \<Rightarrow> (string \<times> string) option" where
  "schemeLoop raw acc [] = Some ([], raw)"
| "schemeLoop raw acc (c # cs) =
     (if isLetter c then schemeLoop raw (acc @ [c]) cs
      else if isDigit c \<or> c \<in> set ''+-.'' then
        (if acc = [] then Some ([], raw) else schemeLoop raw (acc @ [c]) cs)
      else if c = CHR '':'' then (if acc = [] then None else Some (acc, cs))
      else Some ([], raw))"

text \<open>\<open>unescape\<close> accepts a path when every percent sign starts a two-digit escape.\<close>
fun validPathEscapes :: "string \<Rightarrow> bool" where
  "validPathEscapes [] = True"
| "validPathEscapes (c # cs) =
     (if c = CHR ''%'' then
        (case cs of a # b # rest \<Rightarrow> isHex a \<and> isHex b \<and> validPathEscapes rest | _ \<Rightarrow> False)
      else validPathEscapes cs)"

text \<open>A byte that may stand unescaped in a host: \<open>shouldEscape\<close> in mode \<open>encodeHost\<close>, and every
  byte from 0x80 on.\<close>
definition hostChar :: "char \<Rightarrow> bool" where
  "hostChar c \<longleftrightarrow> 128 \<le> (of_char c :: nat) \<or> isLetter c \<or> isDigit c \<or>
     c \<in> set ''!$&()*+,;=:[]<>-_.~'' \<or> c = CHR 0x27 \<or> c = CHR 0x22"

text \<open>In a host a percent escape is allowed only for non-ASCII bytes and for the percent sign.\<close>
fun validHostEscapes :: "string \<Rightarrow> bool" where
  "validHostEscapes [] = True"
| "validHostEscapes (c # cs) =
     (if c = CHR ''%'' then
        (case cs of
           a # b # rest \<Rightarrow> isHex a \<and> isHex b \<and>
             ((\<not> (isDigit a \<and> a < CHR ''8'')) \<or> a = CHR ''2'' \<and> b = CHR ''5'') \<and> validHostEscapes rest
         | _ \<Rightarrow> False)
      else hostChar c \<and> validHostEscapes cs)"

definition validOptionalPort :: "string \<Rightarrow> bool" where
  "validOptionalPort port =
     (case port of [] \<Rightarrow> True | c # cs \<Rightarrow> c = CHR '':'' \<and> list_all isDigit cs)"

text \<open>The suffix of a string from the first occurrence of a character on.\<close>
definition fromFirst :: "char \<Rightarrow> string \<Rightarrow> string" where
  "fromFirst c s = dropWhile (\<lambda>d. d \<noteq> c) s"

text \<open>\<open>parseHost\<close>. A bracketed IP literal is left to \<open>ipLiteral\<close>, which stands for the address parser of
  \<open>net/netip\<close>; a second colon in the host is refused.\<close>
definition validHost :: "(string \<Rightarrow> bool) \<Rightarrow> string \<Rightarrow> bool" where
  "validHost ipLiteral host =
     (if CHR ''['' \<in> set host then ipLiteral host
      else validOptionalPort (fromFirst (CHR '':'') host) \<and> validHostEscapes host)"

definition userinfoChar :: "char \<Rightarrow> bool" where
  "userinfoChar c \<longleftrightarrow> isLetter c \<or> isDigit c \<or> c \<in> set ''-._:~!$&()*+,;=%@'' \<or> c = CHR 0x27"

definition validAuthority :: "(string \<Rightarrow> bool) \<Rightarrow> string \<Rightarrow> bool" where
  "validAuthority ipLiteral authority =
     (if CHR ''@'' \<in> set authority then
        (let host = rev (takeWhile (\<lambda>c. c \<noteq> CHR ''@'') (rev authority));
             userinfo = butlast (rev (dropWhile (\<lambda>c. c \<noteq> CHR ''@'') (rev authority)))
         in validHost ipLiteral host \<and> list_all userinfoChar userinfo \<and> validPathEscapes userinfo)
      else validHost ipLiteral authority)"

text \<open>\<open>parse(rawURL, viaRequest = true)\<close>, its error only.\<close>
definition ParseRequestURI :: "(string \<Rightarrow> bool) \<Rightarrow> string \<Rightarrow> error option" where
  "ParseRequestURI ipLiteral raw =
     (let bad = (\<lambda>msg. Some (Errorf (''parse '' @ raw @ '': '' @ msg))) in
      if list_ex isCTL raw then bad ''net/url: invalid control character in URL''
      else if raw = [] then bad ''empty url''
      else if raw = ''*'' then None
      else case schemeLoop raw [] raw of
        None \<Rightarrow> bad ''missing protocol scheme''
      | Some (scheme, r) \<Rightarrow>
          let rest = takeWhile (\<lambda>c. c \<noteq> CHR ''?'') r in
          (case rest of
             CHR ''/'' # rest1 \<Rightarrow>
               (case rest1 of
                  CHR ''/'' # auth1 \<Rightarrow>
                    if scheme = [] then (if validPathEscapes rest then None else bad ''invalid URL escape'')
                    else let authority = takeWhile (\<lambda>c. c \<noteq> CHR ''/'') auth1;
                             path = dropWhile (\<lambda>c. c \<noteq> CHR ''/'') auth1
                         in if \<not> validAuthority ipLiteral authority then bad ''invalid host''
                            else if \<not> validPathEscapes path then bad ''invalid URL escape'' else None
                | _ \<Rightarrow> if validPathEscapes rest then None else bad ''invalid URL escape'')
           | _ \<Rightarrow> if scheme \<noteq> [] then None else bad ''invalid URI for request''))"

section \<open>time.RFC3339\<close>

text \<open>The civil date of a day, counted from 1 January 1970: days are regrouped into 400-year eras that
  start on 1 March, where the leap day is the last day of a year.\<close>
definition civilDate :: "int \<Rightarrow> int \<times> int \<times> int" where
  "civilDate day =
     (let z = day + 719468;
          era = z div 146097;
          doe = z mod 146097;
          yoe = (doe - doe div 1460 + doe div 36524 - doe div 146096) div 365;
          doy = doe - (365 * yoe + yoe div 4 - yoe div 100);
          mp = (5 * doy + 2) div 153;
          d = doy - (153 * mp + 2) div 5 + 1;
          m = (if mp < 10 then mp + 3 else mp - 9);
          y = yoe + era * 400 + (if m \<le> 2 then 1 else 0)
      in (y, m, d))"

definition pad :: "nat \<Rightarrow> int \<Rightarrow> string" where
  "pad width n =
     (let s = showNat (nat \<bar>n\<bar>)
      in (if n < 0 then ''-'' else []) @ replicate (width - length s) (CHR ''0'') @ s)"

text \<open>The time zone offset is in seconds east of UTC.\<close>
definition FormatRFC3339 :: "int \<Rightarrow> Time \<Rightarrow> string" where
  "FormatRFC3339 offset t =
     (let secs = t div 1000000000 + offset;
          (y, m, d) = civilDate (secs div 86400);
          tod = secs mod 86400;
          zone = (if offset = 0 then ''Z''
                  else (if offset < 0 then ''-'' else ''+'') @ pad 2 (\<bar>offset\<bar> div 60 div 60) @ '':'' @
                       pad 2 (\<bar>offset\<bar> div 60 mod 60))
      in pad 4 y @ ''-'' @ pad 2 m @ ''-'' @ pad 2 d @ ''T'' @ pad 2 (tod div 3600) @ '':'' @
         pad 2 (tod mod 3600 div 60) @ '':'' @ pad 2 (tod mod 60) @ zone)"

section \<open>Paths made of plain segments\<close>

definition pathSegment :: "string \<Rightarrow> bool" where
  "pathSegment e \<longleftrightarrow> e \<noteq> [] \<and> e \<noteq> ''.'' \<and> e \<noteq> ''..'' \<and> CHR ''/'' \<notin> set e"

lemma splitOn_plain: "c \<notin> set xs \<Longrightarrow> splitOn c xs = [xs]"
  by (induction xs) auto

lemma splitOn_sep: "c \<notin> set xs \<Longrightarrow> splitOn c (xs @ c # ys) = xs # splitOn c ys"
  by (induction xs) auto

lemma splitOn_Join: "es \<noteq> [] \<Longrightarrow> (\<And>e. e \<in> set es \<Longrightarrow> c \<notin> set e) \<Longrightarrow> splitOn c (strings_Join es [c]) = es"
  by (induction es "[c]" rule: strings_Join.induct) (auto simp: splitOn_plain splitOn_sep)

lemma cleanStack_plain: "list_all pathSegment es \<Longrightarrow> cleanStack rooted st es = rev st @ es"
  by (induction es arbitrary: st) (auto simp: pathSegment_def)

lemma Join_slashes: "es \<noteq> [] \<Longrightarrow> CHR ''/'' # strings_Join es ''/'' = concat (map (\<lambda>e. CHR ''/'' # e) es)"
  by (induction es "''/''" rule: strings_Join.induct) auto

lemma strings_Join_head: "strings_Join ((c # e) # es) sep = c # strings_Join (e # es) sep"
  by (cases es) auto

text \<open>Joining plain segments below a rooted one puts single slashes between them.\<close>
lemma filepath_Join_rooted:
  assumes "list_all pathSegment (e # es)"
  shows "filepath_Join ((CHR ''/'' # e) # es) = concat (map (\<lambda>x. CHR ''/'' # x) (e # es))"
proof -
  have "splitOn (CHR ''/'') (strings_Join (e # es) ''/'') = e # es"
    using assms by (intro splitOn_Join) (auto simp: pathSegment_def list_all_iff)
  then have "filepath_Clean (CHR ''/'' # strings_Join (e # es) ''/'') = CHR ''/'' # strings_Join (e # es) ''/''"
    using assms cleanStack_plain[OF assms, of True "[]"] cleanStack.simps(2)[of True "[]" "[]" "e # es"]
    by (simp add: filepath_Clean_def del: cleanStack.simps(2))
  then show ?thesis
    using Join_slashes[of "e # es"] by (simp add: filepath_Join_def strings_Join_head)
qed

lemma filepath_Join_sub:
  assumes "pathSegment (c # r)" and "list_all pathSegment es"
  shows "filepath_Join ((CHR ''/'' # c # r) # es) = (CHR ''/'' # c # r) @ concat (map (\<lambda>x. CHR ''/'' # x) es)"
  using assms by (simp add: filepath_Join_rooted)

section \<open>Service URLs\<close>

text \<open>The characters of Kubernetes object and namespace names (DNS-1123).\<close>
definition dnsChar :: "char \<Rightarrow> bool" where
  "dnsChar c \<longleftrightarrow> between (CHR ''a'') (CHR ''z'') c \<or> isDigit c \<or> c = CHR ''-'' \<or> c = CHR ''.''"

lemma dnsChar_props:
  assumes "dnsChar c"
  shows "\<not> isCTL c" "c \<noteq> CHR ''?''" "c \<noteq> CHR ''/''" "c \<noteq> CHR ''@''" "c \<noteq> CHR ''[''" "c \<noteq> CHR '':''" "c \<noteq> CHR ''%''" "hostChar c"
  using assms by (auto simp: dnsChar_def isDigit_def isCTL_def hostChar_def isLetter_def less_eq_char_def less_char_def)

lemma takeWhile_app: "(\<And>x. x \<in> set xs \<Longrightarrow> P x) \<Longrightarrow> takeWhile P (xs @ ys) = xs @ takeWhile P ys"
  by (induction xs) auto

lemma dropWhile_app: "(\<And>x. x \<in> set xs \<Longrightarrow> P x) \<Longrightarrow> dropWhile P (xs @ ys) = dropWhile P ys"
  by (induction xs) auto

lemma validHostEscapes_app: "(\<And>x. x \<in> set xs \<Longrightarrow> hostChar x \<and> x \<noteq> CHR ''%'') \<Longrightarrow>
    validHostEscapes (xs @ ys) = validHostEscapes ys"
  by (induction xs) auto

lemma ParseRequestURI_service:
  assumes "list_all dnsChar svc" and "list_all dnsChar ns"
  shows "ParseRequestURI ip (''http://'' @ svc @ ''.'' @ ns @ ''.svc.cluster.local:8081/alertmanager-receiver'') = None"
proof -
  let ?auth = "svc @ ''.'' @ ns @ ''.svc.cluster.local:8081''"
  let ?url = "''http://'' @ ?auth @ ''/alertmanager-receiver''"
  have dns: "dnsChar c" if "c \<in> set svc \<union> set ns" for c using assms that by (auto simp: list_all_iff)
  note d = dnsChar_props[OF dns]
  have ctl: "\<not> list_ex isCTL ?url"
    using d(1) by (auto simp: list_ex_iff isCTL_def)
  have sch: "schemeLoop ?url [] ?url = Some (''http'', ''//'' @ ?auth @ ''/alertmanager-receiver'')"
    by (simp add: isLetter_def less_eq_char_def isDigit_def)
  have q: "takeWhile (\<lambda>c. c \<noteq> CHR ''?'') (''//'' @ ?auth @ ''/alertmanager-receiver'') = ''//'' @ ?auth @ ''/alertmanager-receiver''"
    using d(2) by (auto simp: takeWhile_app)
  have a: "takeWhile (\<lambda>c. c \<noteq> CHR ''/'') (?auth @ ''/alertmanager-receiver'') = ?auth"
    and p: "dropWhile (\<lambda>c. c \<noteq> CHR ''/'') (?auth @ ''/alertmanager-receiver'') = ''/alertmanager-receiver''"
    using d(3) by (auto simp: takeWhile_app dropWhile_app)
  have "fromFirst (CHR '':'') ?auth = '':8081''"
    using d(6) by (auto simp: fromFirst_def dropWhile_app)
  moreover have "validHostEscapes ?auth"
    using d(7,8) by (auto simp: validHostEscapes_app hostChar_def isLetter_def isDigit_def less_eq_char_def)
  ultimately have v: "validAuthority ip ?auth"
    using d(4,5) by (auto simp: validAuthority_def validHost_def validOptionalPort_def isDigit_def less_eq_char_def)
  show ?thesis
    unfolding ParseRequestURI_def using ctl sch q a p v by (simp add: Let_def)
qed

end
