(* ===== verification/GoJson.thy ===== *)
theory GoJson
  imports GoStrings
begin

text \<open>
  \<open>json.Unmarshal\<close> into a \<open>map[string]interface{}\<close>, and the verb \<open>%v\<close> on the values it makes, as the
  operator uses them on the cluster pull secret. Input and strings are bytes. A syntax error, a
  value that is not an object and a number outside the range of \<open>float64\<close> are errors; invalid UTF-8 and
  lone surrogates in strings become U+FFFD; of two members with the same key the later one counts;
  arrays and objects nest at most 10000 deep.

  Numbers keep their literal. What \<open>strconv.ParseFloat\<close> and \<open>fmt\<close> make of it is the argument
  \<open>parseFloat\<close>: the text \<open>%v\<close> prints for the number, \<open>None\<close> when it is out of range.
\<close>

datatype json =
    JNull
  | JBool bool
  | JNum string
  | JStr string
  | JArr "json list"
  | JObj "(string \<times> json) list"

section \<open>Scanner\<close>

definition isWs :: "char \<Rightarrow> bool" where
  "isWs c \<longleftrightarrow> c = CHR '' '' \<or> c = CHR 0x09 \<or> c = CHR 0x0D \<or> c = CHR 0x0A"

definition skipWs :: "string \<Rightarrow> string" where
  "skipWs s = dropWhile isWs s"

abbreviation quote :: char where
  "quote \<equiv> CHR 0x22"

abbreviation backslash :: char where
  "backslash \<equiv> CHR 0x5C"

definition hexVal :: "char \<Rightarrow> nat" where
  "hexVal c = (if isDigit c then of_char c - 48
     else if between (CHR ''a'') (CHR ''f'') c then of_char c - 87 else of_char c - 55)"

text \<open>UTF-8 encoding of a code point below 0x110000.\<close>
definition utf8 :: "nat \<Rightarrow> string" where
  "utf8 r =
     (if r < 128 then [char_of r]
      else if r < 2048 then [char_of (192 + r div 64), char_of (128 + r mod 64)]
      else if r < 65536 then
        [char_of (224 + r div 4096), char_of (128 + r div 64 mod 64), char_of (128 + r mod 64)]
      else [char_of (240 + r div 262144), char_of (128 + r div 4096 mod 64),
            char_of (128 + r div 64 mod 64), char_of (128 + r mod 64)])"

definition replacement :: string where
  "replacement = utf8 65533"

definition inByte :: "nat \<Rightarrow> nat \<Rightarrow> char \<Rightarrow> bool" where
  "inByte lo hi c \<longleftrightarrow> lo \<le> (of_char c :: nat) \<and> (of_char c :: nat) \<le> hi"

text \<open>The four hexadecimal digits after \<open>\u\<close>, and what follows them.\<close>
definition getu4 :: "string \<Rightarrow> (nat \<times> string) option" where
  "getu4 s = (case s of
     a # b # c # d # r \<Rightarrow>
       if isHex a \<and> isHex b \<and> isHex c \<and> isHex d
       then Some (4096 * hexVal a + 256 * hexVal b + 16 * hexVal c + hexVal d, r) else None
   | _ \<Rightarrow> None)"

text \<open>A \<open>\u\<close> escape: a surrogate pair makes one code point, a lone surrogate U+FFFD.\<close>
definition unicodeEscape :: "string \<Rightarrow> (string \<times> string) option" where
  "unicodeEscape s = (case getu4 s of
     None \<Rightarrow> None
   | Some (u, r) \<Rightarrow>
       if 55296 \<le> u \<and> u < 57344 then
         (case r of
            x # y # r1 \<Rightarrow>
              if x = backslash \<and> y = CHR ''u'' then
                (case getu4 r1 of
                   Some (v, r2) \<Rightarrow>
                     if u < 56320 \<and> 56320 \<le> v \<and> v < 57344
                     then Some (utf8 ((u - 55296) * 1024 + (v - 56320) + 65536), r2)
                     else Some (replacement, r)
                 | None \<Rightarrow> Some (replacement, r))
              else Some (replacement, r)
          | _ \<Rightarrow> Some (replacement, r))
       else Some (utf8 u, r))"

definition simpleEscape :: "char \<Rightarrow> string option" where
  "simpleEscape e =
     (if e = quote \<or> e = backslash \<or> e = CHR ''/'' then Some [e]
      else if e = CHR ''b'' then Some [CHR 0x08]
      else if e = CHR ''f'' then Some [CHR 0x0C]
      else if e = CHR ''n'' then Some [CHR 0x0A]
      else if e = CHR ''r'' then Some [CHR 0x0D]
      else if e = CHR ''t'' then Some [CHR 0x09] else None)"

text \<open>One rune from 0x80 on: a well-formed UTF-8 sequence is kept, a stray byte becomes U+FFFD.\<close>
definition decodeRune :: "char \<Rightarrow> string \<Rightarrow> string \<times> string" where
  "decodeRune c cs =
     (let cont = inByte 128 191 in
      case cs of
        [] \<Rightarrow> (replacement, cs)
      | c1 # r1 \<Rightarrow>
          if inByte 194 223 c \<and> cont c1 then ([c, c1], r1)
          else case r1 of
            [] \<Rightarrow> (replacement, cs)
          | c2 # r2 \<Rightarrow>
              if cont c2 \<and> (inByte 224 224 c \<and> inByte 160 191 c1 \<or> inByte 237 237 c \<and> inByte 128 159 c1 \<or>
                   (inByte 225 236 c \<or> inByte 238 239 c) \<and> cont c1) then ([c, c1, c2], r2)
              else case r2 of
                [] \<Rightarrow> (replacement, cs)
              | c3 # r3 \<Rightarrow>
                  if cont c2 \<and> cont c3 \<and> (inByte 240 240 c \<and> inByte 144 191 c1 \<or>
                       inByte 241 243 c \<and> cont c1 \<or> inByte 244 244 c \<and> inByte 128 143 c1)
                  then ([c, c1, c2, c3], r3) else (replacement, cs))"

text \<open>One element of a string literal: the bytes it denotes and the input after it.\<close>
definition strStep :: "char \<Rightarrow> string \<Rightarrow> (string \<times> string) option" where
  "strStep c cs =
     (if c = backslash then
        (case cs of
           [] \<Rightarrow> None
         | e # r \<Rightarrow> if e = CHR ''u'' then unicodeEscape r
                   else (case simpleEscape e of None \<Rightarrow> None | Some b \<Rightarrow> Some (b, r)))
      else if (of_char c :: nat) < 32 then None
      else if (of_char c :: nat) < 128 then Some ([c], cs)
      else Some (decodeRune c cs))"

lemma getu4_length: "getu4 s = Some (u, r) \<Longrightarrow> length r \<le> length s"
  by (auto simp: getu4_def split: list.splits if_splits)

lemma unicodeEscape_length: "unicodeEscape s = Some (b, r) \<Longrightarrow> length r \<le> length s"
  by (auto simp: unicodeEscape_def split: list.splits if_splits option.splits dest!: getu4_length)

lemma decodeRune_length: "length (snd (decodeRune c cs)) \<le> length cs"
  by (simp add: decodeRune_def Let_def split: list.split)

lemma strStep_length: "strStep c cs = Some (b, r) \<Longrightarrow> length r \<le> length cs"
  using decodeRune_length[of c cs]
  by (auto simp: strStep_def split: if_splits option.splits list.splits dest!: unicodeEscape_length)

text \<open>The rest of a string literal after its opening quote.\<close>
function parseStr :: "string \<Rightarrow> (string \<times> string) option" where
  "parseStr [] = None"
| "parseStr (c # cs) =
     (if c = quote then Some ([], cs)
      else case strStep c cs of
        None \<Rightarrow> None
      | Some (b, r) \<Rightarrow> map_option (\<lambda>(t, r'). (b @ t, r')) (parseStr r))"
  by pat_completeness auto
termination
  by (relation "measure length") (auto dest: strStep_length)

definition parseExp :: "string \<Rightarrow> string \<Rightarrow> (string \<times> string) option" where
  "parseExp lit s = (case s of
     e # r \<Rightarrow>
       if e = CHR ''e'' \<or> e = CHR ''E'' then
         (let (sg, r1) = (case r of
                 x # r' \<Rightarrow> if x = CHR ''+'' \<or> x = CHR ''-'' then ([x], r') else ([], r)
               | [] \<Rightarrow> ([], r));
              ds = takeWhile isDigit r1
          in if ds = [] then None else Some (lit @ e # sg @ ds, dropWhile isDigit r1))
       else Some (lit, s)
   | [] \<Rightarrow> Some (lit, s))"

definition parseFrac :: "string \<Rightarrow> string \<Rightarrow> (string \<times> string) option" where
  "parseFrac lit s = (case s of
     p # r \<Rightarrow>
       if p = CHR ''.'' then
         (let ds = takeWhile isDigit r
          in if ds = [] then None else parseExp (lit @ p # ds) (dropWhile isDigit r))
       else parseExp lit s
   | [] \<Rightarrow> Some (lit, s))"

definition parseNumber :: "string \<Rightarrow> (string \<times> string) option" where
  "parseNumber s =
     (let (sg, s1) = (case s of x # r \<Rightarrow> if x = CHR ''-'' then ([x], r) else ([], s) | [] \<Rightarrow> ([], s))
      in case s1 of
           [] \<Rightarrow> None
         | c # r \<Rightarrow>
             if c = CHR ''0'' then parseFrac (sg @ [c]) r
             else if isDigit c then parseFrac (sg @ takeWhile isDigit s1) (dropWhile isDigit s1)
             else None)"

definition parseWord :: "string \<Rightarrow> json \<Rightarrow> string \<Rightarrow> (json \<times> string) option" where
  "parseWord w v s = (if take (length w) s = w then Some (v, drop (length w) s) else None)"

definition maxNestingDepth :: nat where
  "maxNestingDepth = 10000"

text \<open>The grammar of values. The first argument is fuel: no path of calls is longer than twice the
  length of the input (lemma \<open>parseDocument_fuel\<close>). The second is the nesting depth.\<close>
fun parseValue :: "nat \<Rightarrow> nat \<Rightarrow> string \<Rightarrow> (json \<times> string) option"
  and parseElems :: "nat \<Rightarrow> nat \<Rightarrow> string \<Rightarrow> (json list \<times> string) option"
  and parseMembers :: "nat \<Rightarrow> nat \<Rightarrow> string \<Rightarrow> ((string \<times> json) list \<times> string) option" where
  "parseValue 0 d s = None"
| "parseValue (Suc f) d s =
     (case skipWs s of
        [] \<Rightarrow> None
      | c # cs \<Rightarrow>
          if c = CHR ''{'' then
            (if maxNestingDepth \<le> d then None
             else case skipWs cs of
               [] \<Rightarrow> None
             | x # r \<Rightarrow> if x = CHR ''}'' then Some (JObj [], r)
                       else map_option (\<lambda>(ms, r'). (JObj ms, r')) (parseMembers f (Suc d) (x # r)))
          else if c = CHR ''['' then
            (if maxNestingDepth \<le> d then None
             else case skipWs cs of
               [] \<Rightarrow> None
             | x # r \<Rightarrow> if x = CHR '']'' then Some (JArr [], r)
                       else map_option (\<lambda>(vs, r'). (JArr vs, r')) (parseElems f (Suc d) (x # r)))
          else if c = quote then map_option (\<lambda>(t, r). (JStr t, r)) (parseStr cs)
          else if c = CHR ''n'' then parseWord ''null'' JNull (c # cs)
          else if c = CHR ''t'' then parseWord ''true'' (JBool True) (c # cs)
          else if c = CHR ''f'' then parseWord ''false'' (JBool False) (c # cs)
          else map_option (\<lambda>(lit, r). (JNum lit, r)) (parseNumber (c # cs)))"
| "parseElems 0 d s = None"
| "parseElems (Suc f) d s =
     (case parseValue f d s of
        None \<Rightarrow> None
      | Some (v, r) \<Rightarrow>
          (case skipWs r of
             [] \<Rightarrow> None
           | x # r' \<Rightarrow>
               if x = CHR '','' then map_option (\<lambda>(vs, r''). (v # vs, r'')) (parseElems f d r')
               else if x = CHR '']'' then Some ([v], r') else None))"
| "parseMembers 0 d s = None"
| "parseMembers (Suc f) d s =
     (case skipWs s of
        [] \<Rightarrow> None
      | q # cs \<Rightarrow>
          if q \<noteq> quote then None
          else case parseStr cs of
            None \<Rightarrow> None
          | Some (k, r) \<Rightarrow>
              (case skipWs r of
                 [] \<Rightarrow> None
               | x # r1 \<Rightarrow>
                   if x \<noteq> CHR '':'' then None
                   else case parseValue f d r1 of
                     None \<Rightarrow> None
                   | Some (v, r2) \<Rightarrow>
                       (case skipWs r2 of
                          [] \<Rightarrow> None
                        | y # r3 \<Rightarrow>
                            if y = CHR '','' then map_option (\<lambda>(ms, r4). ((k, v) # ms, r4)) (parseMembers f d r3)
                            else if y = CHR ''}'' then Some ([(k, v)], r3) else None)))"

text \<open>A whole document: one value, then only white space. \<open>2 * length s\<close> bounds the calls along
  one path, since \<open>parseElems\<close> passes its whole input on to \<open>parseValue\<close>.\<close>
definition parseDocument :: "string \<Rightarrow> json option" where
  "parseDocument s =
     (case parseValue (2 * length s + 1) 0 s of
        None \<Rightarrow> None
      | Some (v, r) \<Rightarrow> if skipWs r = [] then Some v else None)"

section \<open>Unmarshal and print\<close>

fun numbersOk :: "(string \<Rightarrow> string option) \<Rightarrow> json \<Rightarrow> bool" where
  "numbersOk pf (JNum lit) = (pf lit \<noteq> None)"
| "numbersOk pf (JArr vs) = (\<forall>v \<in> set vs. numbersOk pf v)"
| "numbersOk pf (JObj ms) = (\<forall>m \<in> set ms. numbersOk pf (snd m))"
| "numbersOk pf JNull = True"
| "numbersOk pf (JBool b) = True"
| "numbersOk pf (JStr t) = True"

text \<open>The members of the top-level object, in the order of the document; null makes the nil map.\<close>
definition Unmarshal :: "(string \<Rightarrow> string option) \<Rightarrow> string \<Rightarrow> error + (string \<times> json) list" where
  "Unmarshal pf data =
     (case parseDocument data of
        None \<Rightarrow> Inl (Errorf ''invalid JSON'')
      | Some v \<Rightarrow>
          if \<not> numbersOk pf v then Inl (Errorf ''json: cannot unmarshal number into Go value of type float64'')
          else case v of
            JObj ms \<Rightarrow> Inr ms
          | JNull \<Rightarrow> Inr []
          | _ \<Rightarrow> Inl (Errorf ''json: cannot unmarshal value into Go value of type map[string]interface {}''))"

text \<open>Indexing the Go map made of the members.\<close>
definition member :: "(string \<times> json) list \<Rightarrow> string \<Rightarrow> json option" where
  "member ms k = map_of (rev ms) k"

text \<open>\<open>fmt.Sprintf("%v", v)\<close>; maps print with sorted keys.\<close>
fun sprintV :: "(string \<Rightarrow> string option) \<Rightarrow> json \<Rightarrow> string" where
  "sprintV pf JNull = ''<nil>''"
| "sprintV pf (JBool b) = (if b then ''true'' else ''false'')"
| "sprintV pf (JNum lit) = (case pf lit of None \<Rightarrow> lit | Some t \<Rightarrow> t)"
| "sprintV pf (JStr t) = t"
| "sprintV pf (JArr vs) = ''['' @ strings_Join (map (\<lambda>v. sprintV pf v) vs) '' '' @ '']''"
| "sprintV pf (JObj ms) =
     (let printed = map (\<lambda>m. (fst m, sprintV pf (snd m))) ms;
          entry = (\<lambda>k. k @ '':'' @ (case map_of (rev printed) k of None \<Rightarrow> [] | Some t \<Rightarrow> t))
      in ''map['' @ strings_Join (map entry (sort (remdups (map fst ms)))) '' '' @ '']'')"

section \<open>The fuel is enough\<close>

lemma skipWs_length: "skipWs s = c # cs \<Longrightarrow> length cs < length s"
  by (metis length_Cons length_dropWhile_le less_eq_Suc_le skipWs_def)

lemma parseStr_length: "parseStr s = Some (t, r) \<Longrightarrow> length r < length s"
proof (induction s arbitrary: t r rule: parseStr.induct)
  case (2 c cs)
  show ?case
  proof (cases "c = quote")
    case False
    with 2(2) obtain b r1 t1 where b: "strStep c cs = Some (b, r1)" "parseStr r1 = Some (t1, r)"
      by (auto split: option.splits)
    from 2(1)[OF False b(1) refl b(2)] strStep_length[OF b(1)] show ?thesis by simp
  qed (use 2(2) in simp)
qed simp

lemma parseExp_length: "parseExp lit s = Some (t, r) \<Longrightarrow> length r \<le> length s"
  using length_dropWhile_le[of isDigit]
  by (auto simp: parseExp_def Let_def split: list.splits if_splits intro: le_SucI order_trans)

lemma parseFrac_length: "parseFrac lit s = Some (t, r) \<Longrightarrow> length r \<le> length s"
  using length_dropWhile_le[of isDigit]
  by (auto simp: parseFrac_def Let_def split: list.splits if_splits dest!: parseExp_length intro: le_SucI order_trans)

lemma parseNumber_length: "parseNumber s = Some (t, r) \<Longrightarrow> length r \<le> length s"
  using length_dropWhile_le[of isDigit "tl s"] length_dropWhile_le[of isDigit s]
  by (auto simp: parseNumber_def Let_def split: list.splits if_splits dest!: parseFrac_length intro: le_SucI)

lemma parseWord_length: "parseWord w v s = Some (t, r) \<Longrightarrow> length r \<le> length s"
  by (auto simp: parseWord_def split: if_splits)

lemmas json_lengths = parseStr_length parseNumber_length parseWord_length

lemma parse_length:
  "(parseValue f d s = Some (v, r) \<longrightarrow> length r \<le> length s) \<and>
   (parseElems f d s = Some (vs, r) \<longrightarrow> length r \<le> length s) \<and>
   (parseMembers f d s = Some (ms, r) \<longrightarrow> length r \<le> length s)"
proof (induction f arbitrary: d s v vs ms r)
  case (Suc f)
  have V: "length r \<le> length s" if "parseValue f d s = Some (v, r)" for d s v r using Suc that by blast
  have E: "length r \<le> length s" if "parseElems f d s = Some (v, r)" for d s v r using Suc that by blast
  have M: "length r \<le> length s" if "parseMembers f d s = Some (v, r)" for d s v r using Suc that by blast
  have "length r \<le> length s" if "parseValue (Suc f) d s = Some (v, r)"
    using that by (fastforce split: list.splits if_splits dest!: skipWs_length json_lengths E M)
  moreover have "length r \<le> length s" if "parseElems (Suc f) d s = Some (vs, r)"
    using that by (fastforce split: list.splits if_splits option.splits dest!: skipWs_length V E)
  moreover have "length r \<le> length s" if "parseMembers (Suc f) d s = Some (ms, r)"
    using that by (fastforce split: list.splits if_splits option.splits dest!: skipWs_length parseStr_length V M)
  ultimately show ?case by blast
qed simp

lemma parse_fuel:
  "(2 * length s < f \<and> 2 * length s < g \<longrightarrow> parseValue f d s = parseValue g d s) \<and>
   (2 * length s + 1 < f \<and> 2 * length s + 1 < g \<longrightarrow> parseElems f d s = parseElems g d s) \<and>
   (2 * length s < f \<and> 2 * length s < g \<longrightarrow> parseMembers f d s = parseMembers g d s)"
proof (induction f arbitrary: g d s)
  case (Suc f)
  show ?case
  proof (cases g)
    case (Suc g')
    have V: "parseValue f d t = parseValue g' d t" if "2 * length t < f" "2 * length t < g'" for d t
      using Suc.IH[of t g' d] that by blast
    have E: "parseElems f d t = parseElems g' d t" if "2 * length t + 1 < f" "2 * length t + 1 < g'" for d t
      using Suc.IH[of t g' d] that by blast
    have M: "parseMembers f d t = parseMembers g' d t" if "2 * length t < f" "2 * length t < g'" for d t
      using Suc.IH[of t g' d] that by blast
    have "parseValue (Suc f) d s = parseValue (Suc g') d s" if "2 * length s < Suc f" "2 * length s < Suc g'"
    proof -
      have "parseMembers f (Suc d) (x # r) = parseMembers g' (Suc d) (x # r) \<and>
          parseElems f (Suc d) (x # r) = parseElems g' (Suc d) (x # r)"
        if "skipWs s = c # cs" "skipWs cs = x # r" for c cs x r
        using skipWs_length[OF that(1)] skipWs_length[OF that(2)] \<open>2 * length s < Suc f\<close> \<open>2 * length s < Suc g'\<close>
        by (intro conjI M E) simp_all
      then show ?thesis by (simp split: list.split)
    qed
    moreover have "parseElems (Suc f) d s = parseElems (Suc g') d s"
      if "2 * length s + 1 < Suc f" "2 * length s + 1 < Suc g'"
    proof -
      have "parseElems f d r' = parseElems g' d r'"
        if "parseValue g' d s = Some (v, r)" "skipWs r = x # r'" for v r x r'
      proof -
        have "length r \<le> length s" using parse_length that(1) by blast
        with skipWs_length[OF that(2)] \<open>2 * length s + 1 < Suc f\<close> \<open>2 * length s + 1 < Suc g'\<close>
        show ?thesis by (intro E) simp_all
      qed
      moreover have "parseValue f d s = parseValue g' d s" using that by (intro V) simp_all
      ultimately show ?thesis by (simp split: list.split option.split prod.split)
    qed
    moreover have "parseMembers (Suc f) d s = parseMembers (Suc g') d s"
      if "2 * length s < Suc f" "2 * length s < Suc g'"
    proof -
      have "parseValue f d r1 = parseValue g' d r1 \<and>
          (\<forall>v r2 y r3. parseValue g' d r1 = Some (v, r2) \<and> skipWs r2 = y # r3 \<longrightarrow> parseMembers f d r3 = parseMembers g' d r3)"
        if "skipWs s = q # cs" "parseStr cs = Some (k, r)" "skipWs r = x # r1" for q cs k r x r1
      proof -
        from skipWs_length[OF that(1)] parseStr_length[OF that(2)] skipWs_length[OF that(3)]
        have "length r1 + 3 \<le> length s" by simp
        then show ?thesis using \<open>2 * length s < Suc f\<close> \<open>2 * length s < Suc g'\<close>
          by (fastforce intro: V M dest: skipWs_length parse_length[THEN conjunct1, THEN mp])
      qed
      then show ?thesis by (simp split: list.split option.split prod.split)
    qed
    ultimately show ?thesis using Suc by blast
  qed simp
qed simp

text \<open>More fuel than \<open>parseDocument\<close> gives does not change what it reads.\<close>
lemma parseDocument_fuel:
  assumes "2 * length s < f"
  shows "parseDocument s = (case parseValue f 0 s of
     None \<Rightarrow> None | Some (v, r) \<Rightarrow> if skipWs r = [] then Some v else None)"
  using parse_fuel[of s "2 * length s + 1" f 0] assms by (simp add: parseDocument_def)

end
