(* ===== verification/OAH_Consts.thy ===== *)
theory OAH_Consts
  imports K8s_Client GoJson
begin

text \<open>
  The constants and names of the handlers (\<^verbatim>\<open>pkg/consts/ocmagenthandler/ocmagenthandler.go\<close>,
  \<^verbatim>\<open>pkg/consts/controller/controller.go\<close>, \<^verbatim>\<open>pkg/util/namespace/namespace.go\<close>), the metrics of the
  operator (\<^verbatim>\<open>pkg/localmetrics/localmetrics.go\<close>), and the handler itself: its client and
  scheme, with the parts of its surroundings that its code calls.
\<close>

section \<open>Constants\<close>

definition OCMAgentNamespace :: string where
  "OCMAgentNamespace = ''openshift-ocm-agent-operator''"

definition OCMAgentDefaultNetworkPolicySuffix :: string where
  "OCMAgentDefaultNetworkPolicySuffix = ''-allow-only-alertmanager''"

definition OCMAgentRHOBSNetworkPolicySuffix :: string where
  "OCMAgentRHOBSNetworkPolicySuffix = ''-allow-rhobs-alertmanager''"

definition OCMAgentOBONetworkPolicySuffix :: string where
  "OCMAgentOBONetworkPolicySuffix = ''-allow-obo-alertmanager''"

definition OCMAgentMUONetworkPolicySuffix :: string where
  "OCMAgentMUONetworkPolicySuffix = ''-allow-muo-communication''"

definition OCMAgentPortName :: string where
  "OCMAgentPortName = ''ocm-agent''"

definition OCMAgentPort :: int32 where
  "OCMAgentPort = 8081"

definition OCMAgentMetricsPort :: int32 where
  "OCMAgentMetricsPort = 8383"

definition OCMAgentLivezPath :: string where
  "OCMAgentLivezPath = ''/livez''"

definition OCMAgentReadyzPath :: string where
  "OCMAgentReadyzPath = ''/readyz''"

definition OCMAgentServiceAccount :: string where
  "OCMAgentServiceAccount = ''ocm-agent''"

definition OCMAgentCommand :: string where
  "OCMAgentCommand = ''ocm-agent''"

definition OCMAgentServicePort :: int32 where
  "OCMAgentServicePort = 8081"

definition OCMAgentServiceURLKey :: string where
  "OCMAgentServiceURLKey = ''serviceURL''"

definition OCMAgentWebhookReceiverPath :: string where
  "OCMAgentWebhookReceiverPath = ''/alertmanager-receiver''"

definition OCMAgentServiceScheme :: string where
  "OCMAgentServiceScheme = ''http''"

definition OCMAgentMetricsServicePort :: int32 where
  "OCMAgentMetricsServicePort = 8383"

definition OCMAgentMetricsPortName :: string where
  "OCMAgentMetricsPortName = ''ocm-agent-metrics''"

definition OCMAgentSecretMountPath :: string where
  "OCMAgentSecretMountPath = ''/secrets''"

definition OCMAgentAccessTokenSecretKey :: string where
  "OCMAgentAccessTokenSecretKey = ''access_token''"

definition OCMAgentConfigMountPath :: string where
  "OCMAgentConfigMountPath = ''/configs''"

definition OCMAgentConfigServicesKey :: string where
  "OCMAgentConfigServicesKey = ''services''"

definition OCMAgentConfigURLKey :: string where
  "OCMAgentConfigURLKey = ''ocmBaseURL''"

definition OCMAgentConfigClusterID :: string where
  "OCMAgentConfigClusterID = ''clusterID''"

definition PullSecretKey :: string where
  "PullSecretKey = ''.dockerconfigjson''"

definition PullSecretAuthTokenKey :: string where
  "PullSecretAuthTokenKey = ''cloud.openshift.com''"

definition InjectCaBundleIndicator :: string where
  "InjectCaBundleIndicator = ''config.openshift.io/inject-trusted-cabundle''"

definition TrustedCaBundleConfigMapName :: string where
  "TrustedCaBundleConfigMapName = ''trusted-ca-bundle''"

definition ResourceLimitsCPU :: string where
  "ResourceLimitsCPU = ''50m''"

definition ResourceLimitsMemory :: string where
  "ResourceLimitsMemory = ''128Mi''"

definition ResourceRequestsCPU :: string where
  "ResourceRequestsCPU = ''1m''"

definition ResourceRequestsMemory :: string where
  "ResourceRequestsMemory = ''30Mi''"

definition ConfigMapSuffix :: string where
  "ConfigMapSuffix = ''-cm''"

definition PDBSuffix :: string where
  "PDBSuffix = ''-pdb''"

definition NamespaceMonitorng :: string where
  "NamespaceMonitorng = ''openshift-monitoring''"

definition NamespaceMUO :: string where
  "NamespaceMUO = ''openshift-managed-upgrade-operator''"

definition NamespaceRHOBS :: string where
  "NamespaceRHOBS = ''observatorium-mst-production''"

definition NamespaceOBO :: string where
  "NamespaceOBO = ''openshift-observability-operator''"

definition PullSecretNamespacedName :: NamespacedName where
  "PullSecretNamespacedName = \<lparr>nn_Namespace = ''openshift-config'', nn_Name = ''pull-secret''\<rparr>"

definition CAMOConfigMapNamespacedName :: NamespacedName where
  "CAMOConfigMapNamespacedName = \<lparr>nn_Namespace = ''openshift-monitoring'', nn_Name = ''ocm-agent''\<rparr>"

definition ProxyNamespacedName :: NamespacedName where
  "ProxyNamespacedName = \<lparr>nn_Namespace = '''', nn_Name = ''cluster''\<rparr>"

definition ReconcileOCMAgentFinalizer :: string where
  "ReconcileOCMAgentFinalizer = ''ocmagent.managed.openshift.io''"

text \<open>\<open>5 * time.Minute\<close>, in nanoseconds.\<close>
definition SyncPeriodDefault :: Duration where
  "SyncPeriodDefault = 5 * 60000000000"

section \<open>Names\<close>

text \<open>The environment of the process, as \<open>os.LookupEnv\<close> reads it.\<close>
type_synonym Env = "string \<Rightarrow> string option"

definition GetOperatorNamespace :: "Env \<Rightarrow> error + string" where
  "GetOperatorNamespace env =
     (let envVarOperatorNamespace = ''OPERATOR_NAMESPACE'' in
      case env envVarOperatorNamespace of
        None \<Rightarrow> Inl (Errorf (envVarOperatorNamespace @ '' must be set''))
      | Some ns \<Rightarrow> Inr ns)"

definition BuildNamespacedName :: "Env \<Rightarrow> string \<Rightarrow> NamespacedName" where
  "BuildNamespacedName env name =
     (let namespace = (case GetOperatorNamespace env of Inl err \<Rightarrow> OCMAgentNamespace | Inr ns \<Rightarrow> ns)
      in \<lparr>nn_Namespace = namespace, nn_Name = name\<rparr>)"

text \<open>\<open>ipLiteral\<close> stands for the address parser of the standard library, see \<open>ParseRequestURI\<close>.\<close>
definition BuildServiceURL :: "(string \<Rightarrow> bool) \<Rightarrow> string \<Rightarrow> string \<Rightarrow> error + string" where
  "BuildServiceURL ipLiteral ocmAgentSvcName ocmAgentNamespace =
     (let u = OCMAgentServiceScheme @ ''://'' @ ocmAgentSvcName @ ''.'' @ ocmAgentNamespace @
              ''.svc.cluster.local:'' @ showNat (unat OCMAgentServicePort) @ OCMAgentWebhookReceiverPath
      in case ParseRequestURI ipLiteral u of Some err \<Rightarrow> Inl err | None \<Rightarrow> Inr u)"

section \<open>Metrics\<close>

text \<open>Setting a gauge of the Prometheus library: its name, the values of its labels, its value.\<close>
type_synonym 's GaugeSet = "string \<Rightarrow> string list \<Rightarrow> int \<Rightarrow> 's \<Rightarrow> 's"

text \<open>The names the two gauges are registered under, with the values of their labels.\<close>
definition MetricPullSecretInvalid :: string where
  "MetricPullSecretInvalid = ''ocm_agent_operator_pull_secret_invalid''"

definition MetricOcmAgentResourceAbsent :: string where
  "MetricOcmAgentResourceAbsent = ''ocm_agent_operator_ocm_agent_resource_absent''"

definition UpdateMetricPullSecretInvalid :: "'s GaugeSet \<Rightarrow> string \<Rightarrow> ('s, unit) step" where
  "UpdateMetricPullSecretInvalid gaugeSet ocmAgentName = (\<lambda>s. (Inr (), gaugeSet MetricPullSecretInvalid [ocmAgentName] 1 s))"

definition UpdateMetricOcmAgentResourceAbsent :: "'s GaugeSet \<Rightarrow> ('s, unit) step" where
  "UpdateMetricOcmAgentResourceAbsent gaugeSet = (\<lambda>s. (Inr (), gaugeSet MetricOcmAgentResourceAbsent [] 1 s))"

definition ResetMetricPullSecretInvalid :: "'s GaugeSet \<Rightarrow> string \<Rightarrow> ('s, unit) step" where
  "ResetMetricPullSecretInvalid gaugeSet ocmAgentName = (\<lambda>s. (Inr (), gaugeSet MetricPullSecretInvalid [ocmAgentName] 0 s))"

definition ResetMetricOcmAgentResourceAbsent :: "'s GaugeSet \<Rightarrow> ('s, unit) step" where
  "ResetMetricOcmAgentResourceAbsent gaugeSet = (\<lambda>s. (Inr (), gaugeSet MetricOcmAgentResourceAbsent [] 0 s))"

section \<open>The handler\<close>

text \<open>
  \<open>ocmAgentHandler\<close>: the client, and the scheme as what \<open>controllerutil.SetControllerReference\<close>
  does with it (owner, object). The rest is what the code of the handlers reads or changes
  around it: the environment, the clock and its zone offset, the gauges of the Prometheus library, and the
  parsers for IP literals and numbers of the standard library.
\<close>
record 's ocmAgentHandler =
  h_Client :: "'s Client"
  h_SetControllerReference :: "ObjectMeta \<Rightarrow> ObjectMeta \<Rightarrow> error + ObjectMeta"
  h_Env :: Env
  h_Now :: "'s \<Rightarrow> Time"
  h_Zone :: int
  h_GaugeSet :: "'s GaugeSet"
  h_ipLiteral :: "string \<Rightarrow> bool"
  h_parseFloat :: "string \<Rightarrow> string option"

section \<open>What the handlers rely on\<close>

text \<open>Setting a gauge changes that gauge only.\<close>
definition gauges_ok :: "'s ocmAgentHandler \<Rightarrow> ('s \<Rightarrow> Cluster) \<Rightarrow> bool" where
  "gauges_ok h view \<longleftrightarrow> (\<forall>g ls v s. view (h_GaugeSet h g ls v s) =
     (view s)\<lparr>cl_Gauges := (cl_Gauges (view s))((g, ls) \<mapsto> v)\<rparr>)"

definition platform :: "'s ocmAgentHandler \<Rightarrow> ('s \<Rightarrow> Cluster) \<Rightarrow> bool" where
  "platform h view \<longleftrightarrow> api (h_Client h) view \<and> setref_ok (h_SetControllerReference h) \<and> gauges_ok h view"

text \<open>The same without faults.\<close>
definition platform_up :: "'s ocmAgentHandler \<Rightarrow> ('s \<Rightarrow> Cluster) \<Rightarrow> bool" where
  "platform_up h view \<longleftrightarrow> api_up (h_Client h) view \<and> setref_up (h_SetControllerReference h) \<and> gauges_ok h view"

lemma platform_up_platform: "platform_up h view \<Longrightarrow> platform h view"
  by (simp add: platform_up_def platform_def api_up_def setref_up_def)

lemma platform_api: "platform h view \<Longrightarrow> api (h_Client h) view"
  by (simp add: platform_def)

lemma platform_setref:
  "platform h view \<Longrightarrow> h_SetControllerReference h owner m = Inr m' \<Longrightarrow> \<exists>refs. m' = m\<lparr>om_OwnerReferences := refs\<rparr>"
  unfolding platform_def setref_ok_def by blast

lemma platform_gauge:
  "platform h view \<Longrightarrow> view (h_GaugeSet h g ls v s) = (view s)\<lparr>cl_Gauges := (cl_Gauges (view s))((g, ls) \<mapsto> v)\<rparr>"
  by (simp add: platform_def gauges_ok_def)

text \<open>The step \<open>SetControllerReference(&ocmAgent, &resource, scheme)\<close>, on the metadata of the resource.\<close>
definition setControllerReference :: "'s ocmAgentHandler \<Rightarrow> OcmAgent \<Rightarrow> ObjectMeta \<Rightarrow> ('s, ObjectMeta) step" where
  "setControllerReference h ocmAgent m =
     (case h_SetControllerReference h (oa_Meta ocmAgent) m of Inl e \<Rightarrow> fail e | Inr m' \<Rightarrow> ok m')"

section \<open>Facts on names\<close>

definition operatorNamespace :: "Env \<Rightarrow> string" where
  "operatorNamespace env = (case env ''OPERATOR_NAMESPACE'' of None \<Rightarrow> ''openshift-ocm-agent-operator'' | Some ns \<Rightarrow> ns)"

lemma BuildNamespacedName_eq: "BuildNamespacedName env name = \<lparr>nn_Namespace = operatorNamespace env, nn_Name = name\<rparr>"
  by (simp add: BuildNamespacedName_def GetOperatorNamespace_def operatorNamespace_def OCMAgentNamespace_def
      split: option.split)

lemma BuildNamespacedName_inject [simp]: "BuildNamespacedName env a = BuildNamespacedName env b \<longleftrightarrow> a = b"
  by (simp add: BuildNamespacedName_eq)

lemma BuildNamespacedName_fields [simp]:
  "nn_Name (BuildNamespacedName env a) = a" "nn_Namespace (BuildNamespacedName env a) = operatorNamespace env"
  by (simp_all add: BuildNamespacedName_eq)

lemma suffix_neq: "length b = length c \<Longrightarrow> b \<noteq> c \<Longrightarrow> (a :: string) @ b \<noteq> d @ c"
  by (metis append_eq_append_conv)

section \<open>A handler for the witnesses\<close>

definition memSetRef :: "ObjectMeta \<Rightarrow> ObjectMeta \<Rightarrow> error + ObjectMeta" where
  "memSetRef owner m = (if om_Namespace owner = om_Namespace m
     then Inr (m\<lparr>om_OwnerReferences := om_OwnerReferences m @
       [\<lparr>or_Name = om_Name owner, or_UID = om_UID owner, or_Controller = True\<rparr>]\<rparr>)
     else Inl (Errorf ''cross-namespace owner references are disallowed''))"

definition memHandler :: "Cluster ocmAgentHandler" where
  "memHandler = \<lparr>h_Client = memClient, h_SetControllerReference = memSetRef,
     h_Env = [''OPERATOR_NAMESPACE'' \<mapsto> ''openshift-ocm-agent-operator''], h_Now = (\<lambda>_. 0), h_Zone = 0,
     h_GaugeSet = (\<lambda>g ls v cl. cl\<lparr>cl_Gauges := (cl_Gauges cl)((g, ls) \<mapsto> v)\<rparr>),
     h_ipLiteral = (\<lambda>_. False), h_parseFloat = Some\<rparr>"

lemma memHandler_up: "platform_up memHandler memView"
  by (auto simp: platform_up_def memHandler_def memClient_api_up gauges_ok_def memView_def
      setref_up_def setref_ok_def memSetRef_def)

lemma memHandler_platform: "platform memHandler memView"
  by (rule platform_up_platform[OF memHandler_up])

section \<open>An agent and clusters for the witnesses\<close>

definition storeAll :: "Object list \<Rightarrow> Cluster" where
  "storeAll xs = \<lparr>cl_Objects = map_of (map (\<lambda>x. (objRef x, x)) xs), cl_Log = [], cl_Gauges = (\<lambda>_. None)\<rparr>"

definition sampleAgent :: OcmAgent where
  "sampleAgent = \<lparr>oa_Meta = newMeta \<lparr>nn_Namespace = ''openshift-ocm-agent-operator'', nn_Name = ''ocm-agent''\<rparr> None,
     oa_Spec = \<lparr>oas_AgentConfig = \<lparr>ac_OcmBaseUrl = ''https://api.openshift.com'', ac_Services = [''service_logs'', ''clusters_mgmt'']\<rparr>,
       oas_OcmAgentImage = ''quay.io/app-sre/ocm-agent:v1'', oas_TokenSecret = ''ocm-access-token'', oas_Replicas = 2, oas_FleetMode = False\<rparr>,
     oa_Status = \<lparr>oast_ServiceStatus = [], oast_AvailableReplicas = 0\<rparr>\<rparr>"

lemma memView_storeAll:
  assumes "list_all (\<lambda>x. persisted x = Some x) xs"
  shows "memView (storeAll xs) = storeAll xs"
proof -
  let ?m = "map_of (map (\<lambda>x. (objRef x, x)) xs)"
  have ok: "objRef x = r \<and> persisted x = Some x" if "?m r = Some x" for r x
    using map_of_SomeD[OF that] assms by (auto simp: list_all_iff)
  have "(case ?m r of None \<Rightarrow> None | Some x \<Rightarrow> if objRef x = r \<and> persisted x = Some x then Some x else None) = ?m r" for r
    using ok[of r] by (cases "?m r") simp_all
  then show ?thesis by (simp add: memView_def storeAll_def)
qed

lemma sampleAgent_fields [simp]:
  "oa_Name sampleAgent = ''ocm-agent''" "oa_Namespace sampleAgent = ''openshift-ocm-agent-operator''"
  "oa_FleetMode sampleAgent = False" "oa_TokenSecret sampleAgent = ''ocm-access-token''"
  "operatorNamespace (h_Env memHandler) = ''openshift-ocm-agent-operator''"
  by (simp_all add: sampleAgent_def newMeta_def memHandler_def operatorNamespace_def)

end
