(* ===== verification/Contracts.thy ===== *)
theory Contracts
  imports OAH_Consts
begin

text \<open>
  Contracts of the steps that the handlers are made of. \<open>ensures\<close> says of a step which objects and gauges
  it may write, what it establishes when it succeeds, and that it writes nothing where that
  holds already; contracts of steps with disjoint footprints compose. The resources that the
  operator owns get their contract from \<open>managed_resource\<close>.
\<close>

section \<open>Contracts\<close>

text \<open>
  The step \<open>m\<close> writes objects of \<open>R\<close> and gauges of \<open>G\<close> at most; from a cluster that is \<open>fit\<close> for it,
  success establishes \<open>goal\<close>; where \<open>goal\<close> holds it writes no object. Both predicates depend on the
  objects of \<open>R\<close> and of \<open>D\<close> (which the step reads) only.
\<close>
definition ensures :: "('s \<Rightarrow> Cluster) \<Rightarrow> ('s, unit) step \<Rightarrow> Ref set \<Rightarrow> (string \<times> string list) set \<Rightarrow> Ref set \<Rightarrow>
    (Cluster \<Rightarrow> bool) \<Rightarrow> (Cluster \<Rightarrow> bool) \<Rightarrow> bool" where
  "ensures view m R G D fit goal \<longleftrightarrow>
     (\<forall>s q s'. m s = (q, s') \<longrightarrow> touches R G (view s) (view s')) \<and>
     (\<forall>s s'. m s = (Inr (), s') \<longrightarrow> fit (view s) \<longrightarrow> goal (view s')) \<and>
     (\<forall>s q s'. m s = (q, s') \<longrightarrow> goal (view s) \<longrightarrow> touches {} G (view s) (view s')) \<and>
     (\<forall>cl cl'. (\<forall>r \<in> R \<union> D. cl_Objects cl' r = cl_Objects cl r) \<longrightarrow> (fit cl \<longrightarrow> fit cl') \<and> (goal cl \<longrightarrow> goal cl'))"

lemma ensuresI:
  assumes "\<And>s q s'. m s = (q, s') \<Longrightarrow> touches R G (view s) (view s')"
    and "\<And>s s'. m s = (Inr (), s') \<Longrightarrow> fit (view s) \<Longrightarrow> goal (view s')"
    and "\<And>s q s'. m s = (q, s') \<Longrightarrow> goal (view s) \<Longrightarrow> touches {} G (view s) (view s')"
    and "\<And>cl cl'. (\<And>r. r \<in> R \<union> D \<Longrightarrow> cl_Objects cl' r = cl_Objects cl r) \<Longrightarrow> fit cl \<Longrightarrow> fit cl'"
    and "\<And>cl cl'. (\<And>r. r \<in> R \<union> D \<Longrightarrow> cl_Objects cl' r = cl_Objects cl r) \<Longrightarrow> goal cl \<Longrightarrow> goal cl'"
  shows "ensures view m R G D fit goal"
  unfolding ensures_def using assms by blast

lemma ensures_touches: "ensures view m R G D fit goal \<Longrightarrow> m s = (q, s') \<Longrightarrow> touches R G (view s) (view s')"
  unfolding ensures_def by blast

lemma ensures_goal: "ensures view m R G D fit goal \<Longrightarrow> m s = (Inr (), s') \<Longrightarrow> fit (view s) \<Longrightarrow> goal (view s')"
  unfolding ensures_def by blast

lemma ensures_keeps: "ensures view m R G D fit goal \<Longrightarrow> m s = (q, s') \<Longrightarrow> goal (view s) \<Longrightarrow> touches {} G (view s) (view s')"
  unfolding ensures_def by blast

lemma ensures_local:
  assumes "ensures view m R G D fit goal" and "touches S H cl cl'" and "S \<inter> (R \<union> D) = {}"
  shows "fit cl \<Longrightarrow> fit cl'" and "goal cl \<Longrightarrow> goal cl'"
proof -
  from assms(2,3) have "\<forall>r \<in> R \<union> D. cl_Objects cl' r = cl_Objects cl r"
    using touches_objects[OF assms(2)] by blast
  with assms(1) show "fit cl \<Longrightarrow> fit cl'" "goal cl \<Longrightarrow> goal cl'" unfolding ensures_def by blast+
qed

lemma ensures_same:
  assumes "ensures view m R G D fit goal" and "\<And>r. r \<in> R \<union> D \<Longrightarrow> cl_Objects cl' r = cl_Objects cl r"
  shows "goal cl \<Longrightarrow> goal cl'"
  using assms unfolding ensures_def by blast

lemma ensures_ok: "ensures view (ok ()) {} {} {} (\<lambda>_. True) (\<lambda>_. True)"
  by (rule ensuresI) auto

text \<open>A stronger condition and an equivalent goal.\<close>
lemma ensures_weaken:
  assumes "ensures view m R G D fit goal" and "\<And>cl. fit' cl \<Longrightarrow> fit cl" and "\<And>cl. goal' cl \<longleftrightarrow> goal cl"
    and "\<And>cl cl'. (\<And>r. r \<in> R \<union> D \<Longrightarrow> cl_Objects cl' r = cl_Objects cl r) \<Longrightarrow> fit' cl \<Longrightarrow> fit' cl'"
  shows "ensures view m R G D fit' goal'"
  by (rule ensuresI)
    (use assms(4) in \<open>auto simp: assms(3) intro: assms(2) ensures_touches[OF assms(1)] ensures_goal[OF assms(1)]
       ensures_keeps[OF assms(1)] ensures_same[OF assms(1)]\<close>)

lemma andThen_cases:
  assumes "andThen m f s = (q, s'')"
  obtains (err) e where "m s = (Inl e, s'')" "q = Inl e"
  | (val) x s' where "m s = (Inr x, s')" "f x s' = (q, s'')"
  using assms by (auto simp: andThen_def split: prod.splits sum.splits)

text \<open>Sequencing: neither step writes what the other one works on.\<close>
lemma ensures_andThen:
  assumes m: "ensures view m R G D fit goal" and n: "ensures view n S H E fit' goal'"
    and disj: "R \<inter> (S \<union> E) = {}" "S \<inter> (R \<union> D) = {}"
  shows "ensures view (andThen m (\<lambda>_. n)) (R \<union> S) (G \<union> H) (D \<union> E) (\<lambda>cl. fit cl \<and> fit' cl) (\<lambda>cl. goal cl \<and> goal' cl)"
proof (rule ensuresI)
  fix s q s'' assume "andThen m (\<lambda>_. n) s = (q, s'')"
  then show "touches (R \<union> S) (G \<union> H) (view s) (view s'')"
  proof (cases rule: andThen_cases)
    case (err e)
    with ensures_touches[OF m] show ?thesis by (blast intro: touches_mono)
  next
    case (val x s')
    with ensures_touches[OF m] ensures_touches[OF n] show ?thesis by (blast intro: touches_trans)
  qed
next
  fix s s'' assume run: "andThen m (\<lambda>_. n) s = (Inr (), s'')" and fit: "fit (view s) \<and> fit' (view s)"
  from run obtain s' where s': "m s = (Inr (), s')" "n s' = (Inr (), s'')" by (auto simp: go_simps)
  note tm = ensures_touches[OF m s'(1)] and tn = ensures_touches[OF n s'(2)]
  have "goal (view s'')" using ensures_goal[OF m s'(1)] ensures_local(2)[OF m tn disj(2)] fit by blast
  moreover have "goal' (view s'')" using ensures_goal[OF n s'(2)] ensures_local(1)[OF n tm disj(1)] fit by blast
  ultimately show "goal (view s'') \<and> goal' (view s'')" ..
next
  fix s q s'' assume run: "andThen m (\<lambda>_. n) s = (q, s'')" and goal: "goal (view s) \<and> goal' (view s)"
  from run show "touches {} (G \<union> H) (view s) (view s'')"
  proof (cases rule: andThen_cases)
    case (err e)
    with ensures_keeps[OF m] goal show ?thesis by (blast intro: touches_mono)
  next
    case (val x s')
    from ensures_keeps[OF m val(1)] goal have tm: "touches {} G (view s) (view s')" by blast
    from ensures_local(2)[OF n tm] goal have "goal' (view s')" by simp
    from touches_trans[OF tm ensures_keeps[OF n val(2) this]] show ?thesis by simp
  qed
next
  fix cl cl' :: Cluster assume same: "\<And>r. r \<in> R \<union> S \<union> (D \<union> E) \<Longrightarrow> cl_Objects cl' r = cl_Objects cl r"
  then have "\<forall>r \<in> R \<union> D. cl_Objects cl' r = cl_Objects cl r" "\<forall>r \<in> S \<union> E. cl_Objects cl' r = cl_Objects cl r" by blast+
  with m n show "fit cl \<and> fit' cl \<Longrightarrow> fit cl' \<and> fit' cl'" "goal cl \<and> goal' cl \<Longrightarrow> goal cl' \<and> goal' cl'"
    unfolding ensures_def by blast+
qed

text \<open>A loop over items with disjoint footprints.\<close>
lemma ensures_forEach:
  assumes "\<And>x. x \<in> set xs \<Longrightarrow> ensures view (f x) (R x) G (D x) (fit x) (goal x)"
    and "\<And>x y. x \<in> set xs \<Longrightarrow> y \<in> set xs \<Longrightarrow> x \<noteq> y \<Longrightarrow> R x \<inter> (R y \<union> D y) = {}"
    and "distinct xs"
  shows "ensures view (forEach xs f) (\<Union> (R ` set xs)) (if xs = [] then {} else G) (\<Union> (D ` set xs))
    (\<lambda>cl. \<forall>x \<in> set xs. fit x cl) (\<lambda>cl. \<forall>x \<in> set xs. goal x cl)"
  using assms
proof (induction xs)
  case (Cons x xs)
  have ih: "ensures view (forEach xs f) (\<Union> (R ` set xs)) (if xs = [] then {} else G) (\<Union> (D ` set xs))
    (\<lambda>cl. \<forall>x \<in> set xs. fit x cl) (\<lambda>cl. \<forall>x \<in> set xs. goal x cl)"
    by (rule Cons.IH) (use Cons.prems in simp_all)
  have d: "R x \<inter> (R y \<union> D y) = {}" "R y \<inter> (R x \<union> D x) = {}" if "y \<in> set xs" for y
    using Cons.prems(2)[of x y] Cons.prems(2)[of y x] Cons.prems(3) that by auto
  have "ensures view (andThen (f x) (\<lambda>_. forEach xs f)) (R x \<union> \<Union> (R ` set xs)) (G \<union> (if xs = [] then {} else G))
    (D x \<union> \<Union> (D ` set xs)) (\<lambda>cl. fit x cl \<and> (\<forall>x \<in> set xs. fit x cl)) (\<lambda>cl. goal x cl \<and> (\<forall>x \<in> set xs. goal x cl))"
    by (rule ensures_andThen[OF _ ih]) (use Cons.prems(1) d in \<open>simp, blast+\<close>)
  then show ?case by (simp split: if_splits)
qed (simp add: ensures_ok)

lemma ensures_fail: "ensures view (fail e) {} {} {} (\<lambda>_. True) (\<lambda>_. False)"
  by (rule ensuresI) auto

text \<open>A read before a step, whose goal may depend on what was read.\<close>
context object_kind
begin

lemma getAs_view: "api c view \<Longrightarrow> getAs c kind as key s = (q, s') \<Longrightarrow> view s' = view s"
  by (auto elim: getAs_cases)

lemma getAs_Inr:
  assumes "api c view" and "getAs c kind as key s = (Inr y, s')"
  shows "cl_Objects (view s) (kind, key) = Some (wrap y)" and "view s' = view s"
  using assms by (auto elim: getAs_cases)

lemma ensures_read:
  assumes api: "api c view" and f: "\<And>y. ensures view (f y) R G D (fit y) (goal y)" and R: "(kind, key) \<notin> R"
  shows "ensures view (andThen (getAs c kind as key) f) R G (insert (kind, key) D)
    (\<lambda>cl. \<forall>y. cl_Objects cl (kind, key) = Some (wrap y) \<longrightarrow> fit y cl)
    (\<lambda>cl. \<exists>y. cl_Objects cl (kind, key) = Some (wrap y) \<and> goal y cl)"
proof (rule ensuresI)
  fix s q s'' assume run: "andThen (getAs c kind as key) f s = (q, s'')"
  then show "touches R G (view s) (view s'')"
  proof (cases rule: andThen_cases)
    case (err e)
    with getAs_view[OF api] show ?thesis by simp
  next
    case (val y s')
    with getAs_view[OF api val(1)] ensures_touches[OF f val(2)] show ?thesis by simp
  qed
  assume "\<exists>y. cl_Objects (view s) (kind, key) = Some (wrap y) \<and> goal y (view s)"
  then obtain y where y: "cl_Objects (view s) (kind, key) = Some (wrap y)" "goal y (view s)" by blast
  from run show "touches {} G (view s) (view s'')"
  proof (cases rule: andThen_cases)
    case (err e)
    with getAs_view[OF api] show ?thesis by simp
  next
    case (val y' s')
    from getAs_Inr[OF api val(1)] y(1) have "y' = y" "view s' = view s" using wrap_inj by auto
    with ensures_keeps[OF f val(2)] y(2) show ?thesis by simp
  qed
next
  fix s s'' assume run: "andThen (getAs c kind as key) f s = (Inr (), s'')"
    and fit: "\<forall>y. cl_Objects (view s) (kind, key) = Some (wrap y) \<longrightarrow> fit y (view s)"
  from run obtain y s' where y: "getAs c kind as key s = (Inr y, s')" "f y s' = (Inr (), s'')" by (auto simp: go_simps)
  note g = getAs_Inr[OF api y(1)]
  from ensures_goal[OF f y(2)] fit g have "goal y (view s'')" by simp
  moreover from touches_objects[OF ensures_touches[OF f y(2)] R] g have "cl_Objects (view s'') (kind, key) = Some (wrap y)" by simp
  ultimately show "\<exists>y. cl_Objects (view s'') (kind, key) = Some (wrap y) \<and> goal y (view s'')" by blast
next
  fix cl cl' :: Cluster assume "\<And>r. r \<in> R \<union> insert (kind, key) D \<Longrightarrow> cl_Objects cl' r = cl_Objects cl r"
  then have same: "\<forall>r \<in> R \<union> D. cl_Objects cl' r = cl_Objects cl r" "cl_Objects cl' (kind, key) = cl_Objects cl (kind, key)" by blast+
  have loc: "(fit y cl \<longrightarrow> fit y cl') \<and> (goal y cl \<longrightarrow> goal y cl')" for y
    using f[of y] same(1) unfolding ensures_def by blast
  show "\<forall>y. cl_Objects cl (kind, key) = Some (wrap y) \<longrightarrow> fit y cl \<Longrightarrow> \<forall>y. cl_Objects cl' (kind, key) = Some (wrap y) \<longrightarrow> fit y cl'"
    "\<exists>y. cl_Objects cl (kind, key) = Some (wrap y) \<and> goal y cl \<Longrightarrow> \<exists>y. cl_Objects cl' (kind, key) = Some (wrap y) \<and> goal y cl'"
    using loc same(2) by simp_all blast+
qed

end

text \<open>A step that behaves as one with a contract, or else fails without writing.\<close>
lemma ensures_or_fails:
  assumes "ensures view n R G D fit goal"
    and "\<And>s. m s = n s \<or> (\<exists>e s'. m s = (Inl e, s') \<and> view s' = view s)"
  shows "ensures view m R G D fit goal"
proof (rule ensuresI)
  fix s q s' assume run: "m s = (q, s')"
  then have or: "n s = (q, s') \<or> view s' = view s" using assms(2)[of s] by auto
  then show "touches R G (view s) (view s')" using ensures_touches[OF assms(1)] by auto
  show "touches {} G (view s) (view s')" if "goal (view s)" using or ensures_keeps[OF assms(1) _ that] by auto
next
  fix s s' assume "m s = (Inr (), s')" "fit (view s)"
  then show "goal (view s')" using assms(2)[of s] ensures_goal[OF assms(1)] by auto
next
  fix cl cl' :: Cluster assume same: "\<And>r. r \<in> R \<union> D \<Longrightarrow> cl_Objects cl' r = cl_Objects cl r"
  show "fit cl \<Longrightarrow> fit cl'" "goal cl \<Longrightarrow> goal cl'"
    using assms(1) same unfolding ensures_def by blast+
qed

section \<open>Owned resources\<close>

text \<open>The resource with the agent as its controller.\<close>
definition prepareOwned :: "'s ocmAgentHandler \<Rightarrow> OcmAgent \<Rightarrow> ('o \<Rightarrow> Object) \<Rightarrow> ('o \<Rightarrow> ObjectMeta \<Rightarrow> 'o) \<Rightarrow> 'o \<Rightarrow> error + 'o" where
  "prepareOwned h ocmAgent wrap put_meta x =
     (case h_SetControllerReference h (oa_Meta ocmAgent) (metaOf (wrap x)) of Inl e \<Rightarrow> Inl e | Inr m \<Rightarrow> Inr (put_meta x m))"

lemma owned_simps:
  "andThen (setControllerReference h a m) f =
     (case h_SetControllerReference h (oa_Meta a) m of Inl e \<Rightarrow> fail e | Inr m' \<Rightarrow> f m')"
  "(case prepareOwned h a wrap put x of Inl e \<Rightarrow> fail e | Inr y \<Rightarrow> g y) =
     (case h_SetControllerReference h (oa_Meta a) (metaOf (wrap x)) of Inl e \<Rightarrow> fail e | Inr m \<Rightarrow> g (put x m))"
  by (simp_all add: setControllerReference_def prepareOwned_def split: sum.split)

lemma ignore_onResult:
  "ignore (onResult m h f) = onResult m (\<lambda>e. ignore (h e)) (\<lambda>x. ignore (f x))"
  by (rule ext) (auto simp: onResult_def andThen_def split: prod.split sum.split)

lemma ignore_andThen: "ignore (andThen m f) = andThen m (\<lambda>x. ignore (f x))"
  by (rule ext) (auto simp: andThen_def split: prod.split sum.split)

lemma ignore_unit [simp]: "ignore (m :: ('s, unit) step) = m"
  by (rule ext) (auto simp: andThen_def split: prod.split sum.split)

lemma andThen_ok_right [simp]: "andThen m ok = m"
  by (rule ext) (auto simp: andThen_def split: prod.split sum.split)

text \<open>The shape in which the handlers write the scheme of \<open>ensureObject\<close>.\<close>
lemma ensureObject_handler:
  "ignore (ensureObject c k wrap as key prepared changed repair) =
     onResult (getAs c k as key)
       (\<lambda>e. if IsNotFound e then (case prepared of Inl e' \<Rightarrow> fail e' | Inr x \<Rightarrow> c_Create c (wrap x)) else fail e)
       (\<lambda>found. if changed found then c_Update c (wrap (repair found)) else ok ())"
  unfolding ensureObject_def ignore_onResult
  by (rule arg_cong2[where f = "onResult (getAs c k as key)"]; rule ext)
    (simp_all add: ignore_andThen del: ok_apply split: sum.split)

section \<open>Deletions\<close>

lemma deleteObject_handler:
  "deleteObject c k wrap as key = onResult (getAs c k as key)
     (\<lambda>e. if \<not> IsNotFound e then fail e else ok ()) (\<lambda>found. c_Delete c (wrap found))"
  unfolding deleteObject_def by (rule arg_cong2[where f = "onResult _"]) (simp_all add: fun_eq_iff)

definition noFinalizers :: "Ref \<Rightarrow> Cluster \<Rightarrow> bool" where
  "noFinalizers r cl \<longleftrightarrow> (\<forall>x. cl_Objects cl r = Some x \<longrightarrow> om_Finalizers (metaOf x) = [])"

definition absent :: "Ref \<Rightarrow> Cluster \<Rightarrow> bool" where
  "absent r cl \<longleftrightarrow> cl_Objects cl r = None"

context object_kind
begin

lemma delete_keeps:
  assumes "api c view" and "cl_Objects (view s) (kind, key) = None" and run: "deleteObject c kind wrap as key s = (q, s')"
  shows "view s' = view s"
  using run unfolding deleteObject_def
proof (cases rule: onResult_cases)
  case (err e s1)
  from assms(1) err(1) show ?thesis
    by (cases rule: getAs_cases) (use err(2) in auto)
next
  case (val y s1)
  from assms(1) val(1) show ?thesis
    by (cases rule: getAs_cases) (use assms(2) in auto)
qed

text \<open>The contract of a deletion.\<close>
lemma delete_ensures:
  assumes "api c view"
  shows "ensures view (deleteObject c kind wrap as key) {(kind, key)} {} {} (noFinalizers (kind, key)) (absent (kind, key))"
proof (rule ensuresI)
  fix s q s' assume run: "deleteObject c kind wrap as key s = (q, s')"
  from delete_touches[OF assms run] show "touches {(kind, key)} {} (view s) (view s')" .
  show "touches {} {} (view s) (view s')" if "absent (kind, key) (view s)"
    using delete_keeps[OF assms _ run] that by (simp add: absent_def)
next
  fix s s' assume "deleteObject c kind wrap as key s = (Inr (), s')" "noFinalizers (kind, key) (view s)"
  then show "absent (kind, key) (view s')"
    using delete_done[OF assms] unfolding noFinalizers_def absent_def by blast
qed (auto simp: noFinalizers_def absent_def)

end

section \<open>Success\<close>

text \<open>A step that succeeds from every state.\<close>
definition succeeds :: "('s, unit) step \<Rightarrow> bool" where
  "succeeds m \<longleftrightarrow> (\<forall>s. \<exists>s'. m s = (Inr (), s'))"

lemma succeeds_ok [simp]: "succeeds (ok ())"
  by (simp add: succeeds_def)

lemma succeeds_ignore: "(\<And>s. \<exists>b s'. m s = (Inr b, s')) \<Longrightarrow> succeeds (ignore m)"
  unfolding succeeds_def
proof
  fix s
  assume "\<And>s. \<exists>b s'. m s = (Inr b, s')"
  then obtain b s' where "m s = (Inr b, s')" by blast
  then show "\<exists>s'. ignore m s = (Inr (), s')" by (simp add: andThen_def)
qed

lemma succeeds_andThen: "succeeds m \<Longrightarrow> succeeds n \<Longrightarrow> succeeds (andThen m (\<lambda>_. n))"
  unfolding succeeds_def
proof
  fix s
  assume m: "\<forall>s. \<exists>s'. m s = (Inr (), s')" and n: "\<forall>s. \<exists>s'. n s = (Inr (), s')"
  from m obtain s' where "m s = (Inr (), s')" by blast
  with n show "\<exists>s'. andThen m (\<lambda>_. n) s = (Inr (), s')" by (simp add: andThen_def)
qed

lemma succeeds_forEach: "(\<And>x. x \<in> set xs \<Longrightarrow> succeeds (f x)) \<Longrightarrow> succeeds (forEach xs f)"
  by (induction xs) (auto intro: succeeds_andThen)

text \<open>A step that succeeds where a condition on the cluster holds, and one that keeps the condition.\<close>
definition works :: "('s \<Rightarrow> Cluster) \<Rightarrow> (Cluster \<Rightarrow> bool) \<Rightarrow> ('s, unit) step \<Rightarrow> bool" where
  "works view P m \<longleftrightarrow> (\<forall>s. P (view s) \<longrightarrow> (\<exists>s'. m s = (Inr (), s') \<and> P (view s')))"

lemma works_andThen: "works view P m \<Longrightarrow> works view P n \<Longrightarrow> works view P (andThen m (\<lambda>_. n))"
  unfolding works_def
proof (intro allI impI)
  fix s
  assume m: "\<forall>s. P (view s) \<longrightarrow> (\<exists>s'. m s = (Inr (), s') \<and> P (view s'))"
    and n: "\<forall>s. P (view s) \<longrightarrow> (\<exists>s'. n s = (Inr (), s') \<and> P (view s'))" and "P (view s)"
  then obtain s' where "m s = (Inr (), s')" "P (view s')" by blast
  with n show "\<exists>s'. andThen m (\<lambda>_. n) s = (Inr (), s') \<and> P (view s')" by (auto simp: andThen_def)
qed

lemma works_ok [simp]: "works view P (ok ())"
  by (simp add: works_def)

lemma works_forEach: "(\<And>x. x \<in> set xs \<Longrightarrow> works view P (f x)) \<Longrightarrow> works view P (forEach xs f)"
  by (induction xs) (auto intro: works_andThen)

lemma succeeds_works:
  assumes "succeeds m" and "ensures view m R G D fit goal"
    and "\<And>cl cl'. touches R G cl cl' \<Longrightarrow> P cl \<Longrightarrow> P cl'"
  shows "works view P m"
  using assms ensures_touches[OF assms(2)] unfolding works_def succeeds_def by metis

context managed_resource
begin

lemma owned_prepared:
  "platform h view \<Longrightarrow> prepareOwned h a wrap put_meta expected = Inr x \<Longrightarrow>
    \<exists>refs. x = put_meta expected ((metaOf (wrap expected))\<lparr>om_OwnerReferences := refs\<rparr>)"
  using platform_setref by (fastforce simp: prepareOwned_def split: sum.splits)

lemma owned_cases:
  assumes plat: "platform h view"
    and run: "ensureObject (h_Client h) kind wrap as key (prepareOwned h a wrap put_meta expected) (\<lambda>y. \<not> matches y) repair s = (q, s')"
  obtains (kept) y where "q = Inr False" "cl_Objects (view s) ref = Some (wrap y)" "matches y" "view s' = view s"
  | (created) z where "q = Inr True" "cl_Objects (view s) ref = None" "settles \<Longrightarrow> matches z"
      "view s' = cl_write Create ref (Some (wrap z)) (view s)"
      "\<exists>x. prepareOwned h a wrap put_meta expected = Inr x \<and> sameButServer (wrap x) (wrap z)"
  | (repaired) y z where "q = Inr True" "cl_Objects (view s) ref = Some (wrap y)" "\<not> matches y"
      "sameButServer (wrap (repair y)) (wrap z)" "repairable y \<Longrightarrow> matches z"
      "view s' = cl_write Update ref (Some (wrap z)) (view s)"
  | (failed) e where "q = Inl e" "touches {ref} {} (view s) (view s')"
  by (rule ensure_cases[OF platform_api[OF plat] run owned_prepared[OF plat]]) (auto intro: kept created repaired failed)

text \<open>The contract of a managed resource.\<close>
lemma resource_ensures:
  assumes api: "api c view"
    and prep: "\<And>x. prepared = Inr x \<Longrightarrow>
      \<exists>refs. x = put_meta expected ((metaOf (wrap expected))\<lparr>om_OwnerReferences := refs\<rparr>)"
  shows "ensures view (ignore (ensureObject c kind wrap as key prepared (\<lambda>y. \<not> matches y) repair)) {ref} {} {}
    (\<lambda>cl. (\<forall>y. cl_Objects cl ref = Some (wrap y) \<longrightarrow> \<not> matches y \<longrightarrow> repairable y) \<and> (cl_Objects cl ref = None \<longrightarrow> settles))
    (\<lambda>cl. \<exists>y. cl_Objects cl ref = Some (wrap y) \<and> matches y)"
proof (rule ensuresI)
  fix s q s' assume run: "ignore (ensureObject c kind wrap as key prepared (\<lambda>y. \<not> matches y) repair) s = (q, s')"
  then obtain q1 where q1: "ensureObject c kind wrap as key prepared (\<lambda>y. \<not> matches y) repair s = (q1, s')"
    by (auto elim!: andThen_cases)
  from ensure_touches[OF api q1 prep] show "touches {ref} {} (view s) (view s')" .
  show "touches {} {} (view s) (view s')" if "\<exists>y. cl_Objects (view s) ref = Some (wrap y) \<and> matches y"
    using that ensure_keeps[OF api _ _ q1] by auto
next
  fix s s' assume "ignore (ensureObject c kind wrap as key prepared (\<lambda>y. \<not> matches y) repair) s = (Inr (), s')"
    and fit: "(\<forall>y. cl_Objects (view s) ref = Some (wrap y) \<longrightarrow> \<not> matches y \<longrightarrow> repairable y) \<and> (cl_Objects (view s) ref = None \<longrightarrow> settles)"
  then obtain b where b: "ensureObject c kind wrap as key prepared (\<lambda>y. \<not> matches y) repair s = (Inr b, s')"
    by (auto simp: go_simps)
  from ensure_establishes[OF api b prep] fit show "\<exists>y. cl_Objects (view s') ref = Some (wrap y) \<and> matches y" by blast
qed auto

lemma owned_ensures:
  assumes "platform h view"
  shows "ensures view (ignore (ensureObject (h_Client h) kind wrap as key (prepareOwned h a wrap put_meta expected)
      (\<lambda>y. \<not> matches y) repair)) {ref} {} {}
    (\<lambda>cl. (\<forall>y. cl_Objects cl ref = Some (wrap y) \<longrightarrow> \<not> matches y \<longrightarrow> repairable y) \<and> (cl_Objects cl ref = None \<longrightarrow> settles))
    (\<lambda>cl. \<exists>y. cl_Objects cl ref = Some (wrap y) \<and> matches y)"
  by (rule resource_ensures[OF platform_api[OF assms] owned_prepared[OF assms]])

text \<open>Without faults an owned resource in the namespace of the agent is ensured.\<close>
lemma owned_up:
  assumes up: "platform_up h view" and "om_Namespace (metaOf (wrap expected)) = om_Namespace (oa_Meta a)"
    and "om_OwnerReferences (metaOf (wrap expected)) = []"
  shows "succeeds (ignore (ensureObject (h_Client h) kind wrap as key (prepareOwned h a wrap put_meta expected)
    (\<lambda>y. \<not> matches y) repair))"
proof (rule succeeds_ignore)
  fix s
  from up assms(2,3) obtain m where "h_SetControllerReference h (oa_Meta a) (metaOf (wrap expected)) = Inr m"
    by (force simp: platform_up_def setref_up_def)
  then have prep: "prepareOwned h a wrap put_meta expected = Inr (put_meta expected m)" by (simp add: prepareOwned_def)
  then obtain refs where "put_meta expected m = put_meta expected ((metaOf (wrap expected))\<lparr>om_OwnerReferences := refs\<rparr>)"
    using owned_prepared[OF platform_up_platform[OF up]] by blast
  from up have "api_up (h_Client h) view" by (simp add: platform_up_def)
  from ensure_up[OF this prep, of refs s] \<open>put_meta expected m = _\<close>
  show "\<exists>b s'. ensureObject (h_Client h) kind wrap as key (prepareOwned h a wrap put_meta expected)
      (\<lambda>y. \<not> matches y) repair s = (Inr b, s')" by blast
qed

end

end
