(* ===== verification/Deployments.thy ===== *)
theory Deployments
  imports Contracts
begin

text \<open>
  The deployment of the agent (\<^verbatim>\<open>pkg/ocmagenthandler/ocmagenthandler_deployment.go\<close>): its construction from
  the OcmAgent resource and the cluster proxy, the comparison with a deployment found on the cluster,
  and the restart of its pods.
\<close>

section \<open>Construction\<close>

definition buildOCMAgentArgs :: "OcmAgent \<Rightarrow> string list" where
  "buildOCMAgentArgs ocmAgent =
     (let configmapName = oa_Name ocmAgent @ ConfigMapSuffix;
          accessTokenPath = filepath_Join [OCMAgentSecretMountPath, oa_TokenSecret ocmAgent, OCMAgentAccessTokenSecretKey];
          configServicesPath = filepath_Join [OCMAgentConfigMountPath, configmapName, OCMAgentConfigServicesKey];
          configURLPath = filepath_Join [OCMAgentConfigMountPath, configmapName, OCMAgentConfigURLKey];
          clusterIDPath = filepath_Join [OCMAgentConfigMountPath, configmapName, OCMAgentConfigClusterID];
          command = [OCMAgentCommand, ''serve'', ''--services=@'' @ configServicesPath, ''--ocm-url=@'' @ configURLPath];
          command = (if \<not> oa_FleetMode ocmAgent
                     then command @ [''--cluster-id=@'' @ clusterIDPath, ''--access-token=@'' @ accessTokenPath] else command)
      in if oa_FleetMode ocmAgent then command @ [''--fleet-mode''] else command)"

text \<open>The volumes and mounts before they are sorted. The modes are 0640 and 0644 in octal.\<close>
definition agentVolumes :: "OcmAgent \<Rightarrow> Volume list" where
  "agentVolumes ocmAgent =
     [\<lparr>vol_Name = oa_TokenSecret ocmAgent, vol_Source = SecretVolumeSource (oa_TokenSecret ocmAgent) 416\<rparr>,
      \<lparr>vol_Name = oa_Name ocmAgent @ ConfigMapSuffix,
       vol_Source = ConfigMapVolumeSource (oa_Name ocmAgent @ ConfigMapSuffix) [] 420\<rparr>,
      \<lparr>vol_Name = TrustedCaBundleConfigMapName,
       vol_Source = ConfigMapVolumeSource TrustedCaBundleConfigMapName
         [\<lparr>kp_Key = ''ca-bundle.crt'', kp_Path = ''tls-ca-bundle.pem''\<rparr>] 420\<rparr>]"

definition agentMounts :: "OcmAgent \<Rightarrow> VolumeMount list" where
  "agentMounts ocmAgent =
     (let tokenSecretVolumeName = oa_TokenSecret ocmAgent;
          configVolumeName = oa_Name ocmAgent @ ConfigMapSuffix
      in [\<lparr>vm_Name = tokenSecretVolumeName,
           vm_MountPath = filepath_Join [OCMAgentSecretMountPath, tokenSecretVolumeName], vm_ReadOnly = False\<rparr>,
          \<lparr>vm_Name = configVolumeName,
           vm_MountPath = filepath_Join [OCMAgentConfigMountPath, configVolumeName], vm_ReadOnly = False\<rparr>,
          \<lparr>vm_Name = TrustedCaBundleConfigMapName,
           vm_MountPath = ''/etc/pki/ca-trust/extracted/pem'', vm_ReadOnly = True\<rparr>])"

definition agentProbe :: "string \<Rightarrow> Probe" where
  "agentProbe path = \<lparr>pr_HTTPGet = Some \<lparr>hg_Scheme = ''HTTP'', hg_Path = path, hg_Port = IntVal OCMAgentPort\<rparr>\<rparr>"

definition agentAffinity :: Affinity where
  "agentAffinity = \<lparr>
     aff_NodePreferred = Some [\<lparr>pst_Weight = 1,
       pst_MatchExpressions = [\<lparr>nsr_Key = ''node-role.kubernetes.io/infra'', nsr_Operator = ''Exists''\<rparr>]\<rparr>],
     aff_PodAntiPreferred = Some [\<lparr>wpat_Weight = 100,
       wpat_LabelSelector = Some \<lparr>ls_MatchLabels = oneLabel ''app'' ''ocm-agent''\<rparr>,
       wpat_TopologyKey = ''kubernetes.io/hostname''\<rparr>]\<rparr>"

definition agentTolerations :: "Toleration list" where
  "agentTolerations = [\<lparr>tol_Key = ''node-role.kubernetes.io/infra'', tol_Operator = ''Exists'', tol_Effect = ''NoSchedule''\<rparr>]"

definition agentContainer :: "OcmAgent \<Rightarrow> EnvVar list \<Rightarrow> VolumeMount list \<Rightarrow> string list \<Rightarrow>
    string gomap \<Rightarrow> string gomap \<Rightarrow> Container" where
  "agentContainer ocmAgent envVars volumeMounts ocmAgentCommand resourceLimits resourceRequests = \<lparr>
     c_Name = oa_Name ocmAgent,
     c_Image = oas_OcmAgentImage (oa_Spec ocmAgent),
     c_Command = ocmAgentCommand,
     c_Env = envVars,
     c_Ports = [\<lparr>cp_Name = OCMAgentPortName, cp_ContainerPort = OCMAgentPort\<rparr>],
     c_VolumeMounts = volumeMounts,
     c_ReadinessProbe = Some (agentProbe OCMAgentReadyzPath),
     c_LivenessProbe = Some (agentProbe OCMAgentLivezPath),
     c_Resources = \<lparr>rr_Limits = resourceLimits, rr_Requests = resourceRequests\<rparr>\<rparr>"

text \<open>\<open>sort.Slice\<close> sorts slices of this size by insertion, so it keeps the order of equal names.\<close>
definition buildOCMAgentDeployment :: "Env \<Rightarrow> OcmAgent \<Rightarrow> Deployment" where
  "buildOCMAgentDeployment env ocmAgent =
     (let namespacedName = BuildNamespacedName env (oa_Name ocmAgent);
          labels = oneLabel ''app'' (oa_Name ocmAgent);
          labelSelectors = \<lparr>ls_MatchLabels = labels\<rparr>;
          volumes = sort_key vol_Name (agentVolumes ocmAgent);
          volumeMounts = sort_key vm_Name (agentMounts ocmAgent);
          envVars = [\<lparr>ev_Name = ''HTTP_PROXY'', ev_Value = []\<rparr>, \<lparr>ev_Name = ''HTTPS_PROXY'', ev_Value = []\<rparr>,
            \<lparr>ev_Name = ''NO_PROXY'', ev_Value = []\<rparr>,
            \<lparr>ev_Name = ''OCM_AGENT_SECRET_NAME'', ev_Value = oa_TokenSecret ocmAgent\<rparr>,
            \<lparr>ev_Name = ''OCM_AGENT_CONFIGMAP_NAME'', ev_Value = oa_Name ocmAgent @ ConfigMapSuffix\<rparr>];
          resourceLimits = Some (fmupd ''cpu'' ResourceLimitsCPU (fmupd ''memory'' ResourceLimitsMemory fmempty));
          resourceRequests = Some (fmupd ''cpu'' ResourceRequestsCPU (fmupd ''memory'' ResourceRequestsMemory fmempty));
          ocmAgentCommand = buildOCMAgentArgs ocmAgent;
          replicas = oas_Replicas (oa_Spec ocmAgent)
      in \<lparr>dep_Meta = newMeta namespacedName labels,
          dep_Spec = \<lparr>
            ds_Replicas = Some replicas,
            ds_Selector = Some labelSelectors,
            ds_Template = \<lparr>
              pt_Labels = labels,
              pt_Annotations = None,
              pt_Spec = \<lparr>
                ps_Volumes = volumes,
                ps_ServiceAccountName = OCMAgentServiceAccount,
                ps_Affinity = Some agentAffinity,
                ps_Tolerations = agentTolerations,
                ps_Containers = [agentContainer ocmAgent envVars volumeMounts ocmAgentCommand resourceLimits resourceRequests]\<rparr>\<rparr>\<rparr>\<rparr>)"

section \<open>Comparison\<close>

text \<open>The loops over the containers: the first one with the name.\<close>
fun findContainer :: "string \<Rightarrow> Container list \<Rightarrow> Container option" where
  "findContainer containerName [] = None"
| "findContainer containerName (c # cs) = (if containerName = c_Name c then Some c else findContainer containerName cs)"

abbreviation containersOf :: "Deployment \<Rightarrow> Container list" where
  "containersOf d \<equiv> ps_Containers (pt_Spec (ds_Template (dep_Spec d)))"

text \<open>The expected container is read without a check of its probes: a nil probe there panics.\<close>
definition compareContainers :: "Deployment \<Rightarrow> Deployment \<Rightarrow> string \<Rightarrow> error + bool" where
  "compareContainers current expected containerName =
     (let probe = (\<lambda>p. case p of None \<Rightarrow> None | Some pr \<Rightarrow> pr_HTTPGet pr);
          (curImage, curReadiness, curLiveness, curEnvs) =
            (case findContainer containerName (containersOf current) of
               None \<Rightarrow> ([], None, None, [])
             | Some c \<Rightarrow> (c_Image c, probe (c_ReadinessProbe c), probe (c_LivenessProbe c), c_Env c));
          decide = (\<lambda>expImage expReadiness expLiveness expEnvs.
            if length curImage = 0 then True
            else curImage \<noteq> expImage \<or> curReadiness \<noteq> expReadiness \<or> curLiveness \<noteq> expLiveness \<or> curEnvs \<noteq> expEnvs)
      in case findContainer containerName (containersOf expected) of
           None \<Rightarrow> Inr (decide [] None None [])
         | Some c \<Rightarrow>
             (case (c_ReadinessProbe c, c_LivenessProbe c) of
                (Some r, Some l) \<Rightarrow> Inr (decide (c_Image c) (pr_HTTPGet r) (pr_HTTPGet l) (c_Env c))
              | _ \<Rightarrow> Inl (Panic ''nil pointer dereference'')))"

definition deploymentConfigChanged :: "Deployment \<Rightarrow> Deployment \<Rightarrow> OcmAgent \<Rightarrow> error + bool" where
  "deploymentConfigChanged current expected ocmAgent =
     (if om_Labels (dep_Meta current) \<noteq> om_Labels (dep_Meta expected) then Inr True
      else if pt_Labels (ds_Template (dep_Spec current)) \<noteq> pt_Labels (ds_Template (dep_Spec expected)) then Inr True
      else case compareContainers current expected (oa_Name ocmAgent) of
        Inl p \<Rightarrow> Inl p
      | Inr changed \<Rightarrow>
          if changed then Inr True
          else case (ds_Replicas (dep_Spec current), ds_Replicas (dep_Spec expected)) of
            (Some c, Some e) \<Rightarrow>
              if c \<noteq> e then Inr True
              else if ps_Affinity (pt_Spec (ds_Template (dep_Spec current))) \<noteq> ps_Affinity (pt_Spec (ds_Template (dep_Spec expected)))
              then Inr True
              else if ps_Tolerations (pt_Spec (ds_Template (dep_Spec current))) \<noteq> ps_Tolerations (pt_Spec (ds_Template (dep_Spec expected)))
              then Inr True
              else Inr False
          | _ \<Rightarrow> Inl (Panic ''nil pointer dereference''))"

section \<open>Operations\<close>

definition buildEnvVars :: "'s ocmAgentHandler \<Rightarrow> OcmAgent \<Rightarrow> ('s, EnvVar list) step" where
  "buildEnvVars h ocmAgent =
     andThen (getAs (h_Client h) KProxy asProxy ProxyNamespacedName) (\<lambda>proxy.
       let proxyStatus = px_Status proxy
       in ok [\<lparr>ev_Name = ''HTTP_PROXY'', ev_Value = px_HTTPProxy proxyStatus\<rparr>,
              \<lparr>ev_Name = ''HTTPS_PROXY'', ev_Value = px_HTTPSProxy proxyStatus\<rparr>,
              \<lparr>ev_Name = ''NO_PROXY'', ev_Value = px_NoProxy proxyStatus\<rparr>,
              \<lparr>ev_Name = ''OCM_AGENT_SECRET_NAME'', ev_Value = oa_TokenSecret ocmAgent\<rparr>,
              \<lparr>ev_Name = ''OCM_AGENT_CONFIGMAP_NAME'', ev_Value = oa_Name ocmAgent @ ConfigMapSuffix\<rparr>])"

text \<open>\<open>resource.Spec.Template.Spec.Containers[0].Env = envVars\<close>\<close>
definition withEnv :: "EnvVar list \<Rightarrow> Deployment \<Rightarrow> Deployment" where
  "withEnv envVars d = d\<lparr>dep_Spec := (dep_Spec d)\<lparr>ds_Template := (ds_Template (dep_Spec d))\<lparr>pt_Spec :=
     (pt_Spec (ds_Template (dep_Spec d)))\<lparr>ps_Containers :=
       (containersOf d)[0 := (containersOf d ! 0)\<lparr>c_Env := envVars\<rparr>]\<rparr>\<rparr>\<rparr>\<rparr>"

definition ensureDeployment :: "'s ocmAgentHandler \<Rightarrow> OcmAgent \<Rightarrow> ('s, unit) step" where
  "ensureDeployment h ocmAgent =
     (let namespacedName = BuildNamespacedName (h_Env h) (oa_Name ocmAgent)
      in andThen (buildEnvVars h ocmAgent) (\<lambda>envVars.
         let resource = withEnv envVars (buildOCMAgentDeployment (h_Env h) ocmAgent)
         in onResult (getAs (h_Client h) KDeployment asDeployment namespacedName)
              (\<lambda>err. if IsNotFound err
                     then andThen (setControllerReference h ocmAgent (dep_Meta resource))
                            (\<lambda>m. c_Create (h_Client h) (ODeployment (resource\<lparr>dep_Meta := m\<rparr>)))
                     else fail err)
              (\<lambda>foundResource.
                 case deploymentConfigChanged foundResource resource ocmAgent of
                   Inl p \<Rightarrow> fail p
                 | Inr changed \<Rightarrow>
                     if changed then c_Update (h_Client h) (ODeployment (foundResource\<lparr>dep_Spec := dep_Spec resource\<rparr>))
                     else ok ())))"

definition ensureDeploymentDeleted :: "'s ocmAgentHandler \<Rightarrow> OcmAgent \<Rightarrow> ('s, unit) step" where
  "ensureDeploymentDeleted h ocmAgent =
     (let namespacedName = BuildNamespacedName (h_Env h) (oa_Name ocmAgent)
      in onResult (getAs (h_Client h) KDeployment asDeployment namespacedName)
           (\<lambda>err. if \<not> IsNotFound err then fail err else ok ())
           (\<lambda>foundResource. c_Delete (h_Client h) (ODeployment foundResource)))"

text \<open>\<open>NamespacedName.String()\<close>\<close>
definition nnString :: "NamespacedName \<Rightarrow> string" where
  "nnString n = nn_Namespace n @ ''/'' @ nn_Name n"

text \<open>The annotation that makes Kubernetes roll the pods over; a nil map of annotations is made first.\<close>
definition annotateRestart :: "string \<Rightarrow> Deployment \<Rightarrow> Deployment" where
  "annotateRestart restartTime d =
     (let annotations = (case pt_Annotations (ds_Template (dep_Spec d)) of None \<Rightarrow> fmempty | Some m \<Rightarrow> m)
      in d\<lparr>dep_Spec := (dep_Spec d)\<lparr>ds_Template := (ds_Template (dep_Spec d))\<lparr>pt_Annotations :=
           Some (fmupd ''ocm-agent-operator/restartedAt'' restartTime annotations)\<rparr>\<rparr>\<rparr>)"

definition restartOCMAgentPods :: "'s ocmAgentHandler \<Rightarrow> OcmAgent \<Rightarrow> ('s, unit) step" where
  "restartOCMAgentPods h ocmAgent =
     (let namespacedName = BuildNamespacedName (h_Env h) (oa_Name ocmAgent)
      in onResult (getAs (h_Client h) KDeployment asDeployment namespacedName)
           (\<lambda>err. fail (Wrapped (''failed to get ocm-agent deployment '' @ nnString namespacedName) err))
           (\<lambda>foundDeployment s.
              let restartTime = FormatRFC3339 (h_Zone h) (h_Now h s)
              in onResult (c_Update (h_Client h) (ODeployment (annotateRestart restartTime foundDeployment)))
                   (\<lambda>err. fail (Wrapped (''failed to restart ocm-agent deployment '' @ nnString namespacedName) err))
                   (\<lambda>_. ok ()) s))"

section \<open>Specification\<close>

definition deploymentRef :: "Env \<Rightarrow> OcmAgent \<Rightarrow> Ref" where
  "deploymentRef env a = (KDeployment, BuildNamespacedName env (oa_Name a))"

definition proxyRef :: Ref where
  "proxyRef = (KProxy, ProxyNamespacedName)"

text \<open>The environment of the agent for a cluster proxy, and the deployment that goes with it.\<close>
definition envVarsFor :: "OcmAgent \<Rightarrow> ProxyStatus \<Rightarrow> EnvVar list" where
  "envVarsFor a px =
     [\<lparr>ev_Name = ''HTTP_PROXY'', ev_Value = px_HTTPProxy px\<rparr>, \<lparr>ev_Name = ''HTTPS_PROXY'', ev_Value = px_HTTPSProxy px\<rparr>,
      \<lparr>ev_Name = ''NO_PROXY'', ev_Value = px_NoProxy px\<rparr>,
      \<lparr>ev_Name = ''OCM_AGENT_SECRET_NAME'', ev_Value = oa_TokenSecret a\<rparr>,
      \<lparr>ev_Name = ''OCM_AGENT_CONFIGMAP_NAME'', ev_Value = oa_Name a @ ConfigMapSuffix\<rparr>]"

definition expectedDeployment :: "Env \<Rightarrow> OcmAgent \<Rightarrow> ProxyStatus \<Rightarrow> Deployment" where
  "expectedDeployment env a px = withEnv (envVarsFor a px) (buildOCMAgentDeployment env a)"

text \<open>What the operator manages of a deployment: the pods run the image of the agent with its probes and
  environment, in the right number, on the right nodes.\<close>
definition runsAgent :: "OcmAgent \<Rightarrow> ProxyStatus \<Rightarrow> Deployment \<Rightarrow> bool" where
  "runsAgent a px d \<longleftrightarrow>
     om_Labels (dep_Meta d) = oneLabel ''app'' (oa_Name a) \<and>
     pt_Labels (ds_Template (dep_Spec d)) = oneLabel ''app'' (oa_Name a) \<and>
     (\<exists>c. findContainer (oa_Name a) (containersOf d) = Some c \<and> c_Image c = oas_OcmAgentImage (oa_Spec a) \<and> c_Image c \<noteq> [] \<and>
        (\<exists>r l. c_ReadinessProbe c = Some r \<and> pr_HTTPGet r = pr_HTTPGet (agentProbe OCMAgentReadyzPath) \<and>
           c_LivenessProbe c = Some l \<and> pr_HTTPGet l = pr_HTTPGet (agentProbe OCMAgentLivezPath)) \<and>
        c_Env c = envVarsFor a px) \<and>
     ds_Replicas (dep_Spec d) = Some (oas_Replicas (oa_Spec a)) \<and>
     ps_Affinity (pt_Spec (ds_Template (dep_Spec d))) = Some agentAffinity \<and>
     ps_Tolerations (pt_Spec (ds_Template (dep_Spec d))) = [\<lparr>tol_Key = ''node-role.kubernetes.io/infra'',
       tol_Operator = ''Exists'', tol_Effect = ''NoSchedule''\<rparr>]"

definition deploymentOk :: "Env \<Rightarrow> OcmAgent \<Rightarrow> Cluster \<Rightarrow> bool" where
  "deploymentOk env a cl \<longleftrightarrow> (\<exists>px d. cl_Objects cl proxyRef = Some (OProxy px) \<and>
     cl_Objects cl (deploymentRef env a) = Some (ODeployment d) \<and> runsAgent a (px_Status px) d)"

text \<open>The image is set, and a deployment that is there has the expected labels.\<close>
definition deploymentFit :: "Env \<Rightarrow> OcmAgent \<Rightarrow> Cluster \<Rightarrow> bool" where
  "deploymentFit env a cl \<longleftrightarrow> oas_OcmAgentImage (oa_Spec a) \<noteq> [] \<and>
     (\<forall>d. cl_Objects cl (deploymentRef env a) = Some (ODeployment d) \<longrightarrow> om_Labels (dep_Meta d) = oneLabel ''app'' (oa_Name a))"

section \<open>Contracts\<close>

lemma expected_fields [simp]:
  "dep_Meta (expectedDeployment env a px) = newMeta (BuildNamespacedName env (oa_Name a)) (oneLabel ''app'' (oa_Name a))"
  "ds_Replicas (dep_Spec (expectedDeployment env a px)) = Some (oas_Replicas (oa_Spec a))"
  "pt_Labels (ds_Template (dep_Spec (expectedDeployment env a px))) = oneLabel ''app'' (oa_Name a)"
  "ps_Affinity (pt_Spec (ds_Template (dep_Spec (expectedDeployment env a px)))) = Some agentAffinity"
  "ps_Tolerations (pt_Spec (ds_Template (dep_Spec (expectedDeployment env a px)))) =
     [\<lparr>tol_Key = ''node-role.kubernetes.io/infra'', tol_Operator = ''Exists'', tol_Effect = ''NoSchedule''\<rparr>]"
  by (simp_all add: expectedDeployment_def withEnv_def buildOCMAgentDeployment_def agentContainer_def agentTolerations_def Let_def)

lemma expected_container:
  "\<exists>c. findContainer (oa_Name a) (containersOf (expectedDeployment env a px)) = Some c \<and>
     c_Image c = oas_OcmAgentImage (oa_Spec a) \<and> c_Env c = envVarsFor a px \<and>
     c_ReadinessProbe c = Some (agentProbe OCMAgentReadyzPath) \<and> c_LivenessProbe c = Some (agentProbe OCMAgentLivezPath)"
  by (simp add: expectedDeployment_def withEnv_def buildOCMAgentDeployment_def agentContainer_def Let_def)

lemma compareContainers_iff:
  "compareContainers d (expectedDeployment env a px) (oa_Name a) = Inr False \<longleftrightarrow>
     (\<exists>c. findContainer (oa_Name a) (containersOf d) = Some c \<and> c_Image c = oas_OcmAgentImage (oa_Spec a) \<and> c_Image c \<noteq> [] \<and>
        (\<exists>r l. c_ReadinessProbe c = Some r \<and> pr_HTTPGet r = pr_HTTPGet (agentProbe OCMAgentReadyzPath) \<and>
           c_LivenessProbe c = Some l \<and> pr_HTTPGet l = pr_HTTPGet (agentProbe OCMAgentLivezPath)) \<and>
        c_Env c = envVarsFor a px)"
proof -
  obtain e where e: "findContainer (oa_Name a) (containersOf (expectedDeployment env a px)) = Some e"
     "c_Image e = oas_OcmAgentImage (oa_Spec a)" "c_Env e = envVarsFor a px"
     "c_ReadinessProbe e = Some (agentProbe OCMAgentReadyzPath)" "c_LivenessProbe e = Some (agentProbe OCMAgentLivezPath)"
    using expected_container by blast
  have probe: "(case p of None \<Rightarrow> None | Some pr \<Rightarrow> pr_HTTPGet pr) = pr_HTTPGet (agentProbe path) \<longleftrightarrow>
      (\<exists>r. p = Some r \<and> pr_HTTPGet r = pr_HTTPGet (agentProbe path))" for p path
    by (cases p) (auto simp: agentProbe_def)
  show ?thesis
    by (cases "findContainer (oa_Name a) (containersOf d)") (auto simp: compareContainers_def Let_def e probe)
qed

lemma compareContainers_total:
  "\<exists>b. compareContainers d (expectedDeployment env a px) (oa_Name a) = Inr b"
  using expected_container[of a env px] by (auto simp: compareContainers_def Let_def split: prod.split)

lemma changed_iff: "deploymentConfigChanged d (expectedDeployment env a px) a = Inr False \<longleftrightarrow> runsAgent a px d"
proof -
  obtain b where b: "compareContainers d (expectedDeployment env a px) (oa_Name a) = Inr b"
    using compareContainers_total by blast
  have "runsAgent a px d \<longleftrightarrow> om_Labels (dep_Meta d) = oneLabel ''app'' (oa_Name a) \<and>
     pt_Labels (ds_Template (dep_Spec d)) = oneLabel ''app'' (oa_Name a) \<and> \<not> b \<and>
     ds_Replicas (dep_Spec d) = Some (oas_Replicas (oa_Spec a)) \<and>
     ps_Affinity (pt_Spec (ds_Template (dep_Spec d))) = Some agentAffinity \<and>
     ps_Tolerations (pt_Spec (ds_Template (dep_Spec d))) = [\<lparr>tol_Key = ''node-role.kubernetes.io/infra'',
       tol_Operator = ''Exists'', tol_Effect = ''NoSchedule''\<rparr>]"
    unfolding runsAgent_def compareContainers_iff[of d env a px, symmetric] b by simp
  then show ?thesis
    by (cases "ds_Replicas (dep_Spec d)") (simp_all add: deploymentConfigChanged_def b)
qed

text \<open>The comparison panics exactly on a deployment without a replica count that has passed the checks before it.\<close>
lemma changed_panics:
  "deploymentConfigChanged d (expectedDeployment env a px) a = Inl p \<Longrightarrow> ds_Replicas (dep_Spec d) = None"
  using compareContainers_total[of d env a px]
  by (cases "ds_Replicas (dep_Spec d)") (auto simp: deploymentConfigChanged_def split: if_splits)

interpretation deployment: managed_resource KDeployment ODeployment asDeployment "\<lambda>x m. x\<lparr>dep_Meta := m\<rparr>"
    "expectedDeployment env a px" "runsAgent a px" "\<lambda>x. x\<lparr>dep_Spec := dep_Spec (expectedDeployment env a px)\<rparr>"
    "\<lambda>x. oas_OcmAgentImage (oa_Spec a) \<noteq> [] \<and> om_Labels (dep_Meta x) = oneLabel ''app'' (oa_Name a)"
    "oas_OcmAgentImage (oa_Spec a) \<noteq> []" for env a px
proof unfold_locales
  fix y :: Deployment assume "oas_OcmAgentImage (oa_Spec a) \<noteq> [] \<and> om_Labels (dep_Meta y) = oneLabel ''app'' (oa_Name a)"
  then show "runsAgent a px (y\<lparr>dep_Spec := dep_Spec (expectedDeployment env a px)\<rparr>)"
    using expected_container[of a env px] by (auto simp: runsAgent_def)
next
  fix refs assume "oas_OcmAgentImage (oa_Spec a) \<noteq> []"
  then show "runsAgent a px ((expectedDeployment env a px)\<lparr>dep_Meta := (metaOf (ODeployment (expectedDeployment env a px)))\<lparr>om_OwnerReferences := refs\<rparr>\<rparr>)"
    using expected_container[of a env px] by (auto simp: runsAgent_def)
qed (simp_all add: runsAgent_def newMeta_def)

lemma deploymentRef_eq [simp]: "objRef (ODeployment (expectedDeployment env a px)) = deploymentRef env a"
  by (simp add: objRef_def deploymentRef_def)

text \<open>From the environment variables on, \<open>ensureDeployment\<close> is the shared scheme, or it panics.\<close>
lemma ensureDeployment_scheme:
  assumes "platform h view"
  shows "\<exists>f. ensureDeployment h a = andThen (getAs (h_Client h) KProxy asProxy ProxyNamespacedName) f \<and>
    (\<forall>px s. f px s = ignore (ensureObject (h_Client h) KDeployment ODeployment asDeployment (BuildNamespacedName (h_Env h) (oa_Name a))
       (prepareOwned h a ODeployment (\<lambda>x m. x\<lparr>dep_Meta := m\<rparr>) (expectedDeployment (h_Env h) a (px_Status px)))
       (\<lambda>x. \<not> runsAgent a (px_Status px) x)
       (\<lambda>x. x\<lparr>dep_Spec := dep_Spec (expectedDeployment (h_Env h) a (px_Status px))\<rparr>)) s \<or>
     (\<exists>e s'. f px s = (Inl e, s') \<and> view s' = view s))"
proof -
  let ?E = "\<lambda>px. expectedDeployment (h_Env h) a (px_Status px)"
  let ?f = "\<lambda>px. onResult (getAs (h_Client h) KDeployment asDeployment (BuildNamespacedName (h_Env h) (oa_Name a)))
      (\<lambda>err. if IsNotFound err then andThen (setControllerReference h a (dep_Meta (?E px)))
          (\<lambda>m. c_Create (h_Client h) (ODeployment ((?E px)\<lparr>dep_Meta := m\<rparr>))) else fail err)
      (\<lambda>found. case deploymentConfigChanged found (?E px) a of Inl p \<Rightarrow> fail p
         | Inr changed \<Rightarrow> if changed then c_Update (h_Client h) (ODeployment (found\<lparr>dep_Spec := dep_Spec (?E px)\<rparr>)) else ok ())"
  have "ensureDeployment h a = andThen (getAs (h_Client h) KProxy asProxy ProxyNamespacedName) ?f"
    unfolding ensureDeployment_def buildEnvVars_def envVarsFor_def[symmetric] expectedDeployment_def Let_def
    by (rule ext) (auto simp: andThen_def split: prod.split sum.split)
  moreover have "?f px s = ignore (ensureObject (h_Client h) KDeployment ODeployment asDeployment (BuildNamespacedName (h_Env h) (oa_Name a))
       (prepareOwned h a ODeployment (\<lambda>x m. x\<lparr>dep_Meta := m\<rparr>) (?E px)) (\<lambda>x. \<not> runsAgent a (px_Status px) x)
       (\<lambda>x. x\<lparr>dep_Spec := dep_Spec (?E px)\<rparr>)) s \<or> (\<exists>e s'. ?f px s = (Inl e, s') \<and> view s' = view s)" for px s
  proof (cases "getAs (h_Client h) KDeployment asDeployment (BuildNamespacedName (h_Env h) (oa_Name a)) s")
    case (Pair q s1)
    show ?thesis
    proof (cases q)
      case (Inl e)
      with Pair show ?thesis unfolding ensureObject_handler owned_simps by (simp add: onResult_def)
    next
      case (Inr d)
      show ?thesis
      proof (cases "deploymentConfigChanged d (?E px) a")
        case (Inl p)
        with Inr Pair dep.getAs_view[OF platform_api[OF assms] Pair] show ?thesis by (simp add: onResult_def)
      next
        case (Inr b)
        have "b \<longleftrightarrow> \<not> runsAgent a (px_Status px) d"
          using changed_iff[of d "h_Env h" a "px_Status px"] Inr by auto
        with Inr Pair \<open>q = Inr d\<close> show ?thesis unfolding ensureObject_handler by (simp add: onResult_def)
      qed
    qed
  qed
  ultimately show ?thesis by blast
qed

lemma ensureDeployment_ensures:
  assumes "platform h view"
  shows "ensures view (ensureDeployment h a) {deploymentRef (h_Env h) a} {} {proxyRef} (deploymentFit (h_Env h) a) (deploymentOk (h_Env h) a)"
proof -
  from ensureDeployment_scheme[OF assms, of a] obtain f where
    f: "ensureDeployment h a = andThen (getAs (h_Client h) KProxy asProxy ProxyNamespacedName) f"
    and step: "\<And>px s. f px s = ignore (ensureObject (h_Client h) KDeployment ODeployment asDeployment (BuildNamespacedName (h_Env h) (oa_Name a))
       (prepareOwned h a ODeployment (\<lambda>x m. x\<lparr>dep_Meta := m\<rparr>) (expectedDeployment (h_Env h) a (px_Status px)))
       (\<lambda>x. \<not> runsAgent a (px_Status px) x)
       (\<lambda>x. x\<lparr>dep_Spec := dep_Spec (expectedDeployment (h_Env h) a (px_Status px))\<rparr>)) s \<or>
     (\<exists>e s'. f px s = (Inl e, s') \<and> view s' = view s)" by blast
  have "ensures view (f px) {deploymentRef (h_Env h) a} {} {}
     (\<lambda>cl. (\<forall>y. cl_Objects cl (deploymentRef (h_Env h) a) = Some (ODeployment y) \<longrightarrow> \<not> runsAgent a (px_Status px) y \<longrightarrow>
         oas_OcmAgentImage (oa_Spec a) \<noteq> [] \<and> om_Labels (dep_Meta y) = oneLabel ''app'' (oa_Name a)) \<and>
       (cl_Objects cl (deploymentRef (h_Env h) a) = None \<longrightarrow> oas_OcmAgentImage (oa_Spec a) \<noteq> []))
     (\<lambda>cl. \<exists>y. cl_Objects cl (deploymentRef (h_Env h) a) = Some (ODeployment y) \<and> runsAgent a (px_Status px) y)" for px
    using deployment.owned_ensures[OF assms, of "h_Env h" a "px_Status px" a]
    by (intro ensures_or_fails[OF _ step]) simp
  from px.ensures_read[OF platform_api[OF assms] this, of ProxyNamespacedName]
  have "ensures view (ensureDeployment h a) {deploymentRef (h_Env h) a} {} {proxyRef}
     (\<lambda>cl. \<forall>px. cl_Objects cl proxyRef = Some (OProxy px) \<longrightarrow>
       (\<forall>y. cl_Objects cl (deploymentRef (h_Env h) a) = Some (ODeployment y) \<longrightarrow> \<not> runsAgent a (px_Status px) y \<longrightarrow>
         oas_OcmAgentImage (oa_Spec a) \<noteq> [] \<and> om_Labels (dep_Meta y) = oneLabel ''app'' (oa_Name a)) \<and>
       (cl_Objects cl (deploymentRef (h_Env h) a) = None \<longrightarrow> oas_OcmAgentImage (oa_Spec a) \<noteq> []))
     (\<lambda>cl. \<exists>px. cl_Objects cl proxyRef = Some (OProxy px) \<and>
       (\<exists>y. cl_Objects cl (deploymentRef (h_Env h) a) = Some (ODeployment y) \<and> runsAgent a (px_Status px) y))"
    unfolding f proxyRef_def by (simp add: deploymentRef_def)
  then show ?thesis
    unfolding deploymentOk_def[abs_def] deploymentFit_def[abs_def]
    by (rule ensures_weaken) auto
qed

lemma ensureDeploymentDeleted_ensures:
  assumes "platform h view"
  shows "ensures view (ensureDeploymentDeleted h a) {deploymentRef (h_Env h) a} {} {}
    (noFinalizers (deploymentRef (h_Env h) a)) (absent (deploymentRef (h_Env h) a))"
  using dep.delete_ensures[OF platform_api[OF assms], of "BuildNamespacedName (h_Env h) (oa_Name a)"]
  by (simp add: ensureDeploymentDeleted_def deleteObject_handler deploymentRef_def)

text \<open>The stored deployment, if there is one, has a replica count: the API server fills it in.\<close>
definition replicasSet :: "Env \<Rightarrow> OcmAgent \<Rightarrow> Cluster \<Rightarrow> bool" where
  "replicasSet env a cl \<longleftrightarrow> (\<forall>d. cl_Objects cl (deploymentRef env a) = Some (ODeployment d) \<longrightarrow> ds_Replicas (dep_Spec d) \<noteq> None)"

lemma ensureDeployment_up:
  assumes up: "platform_up h view" and ns: "oa_Namespace a = operatorNamespace (h_Env h)"
    and px: "cl_Objects (view s) proxyRef = Some (OProxy px)" and rep: "replicasSet (h_Env h) a (view s)"
  shows "\<exists>s'. ensureDeployment h a s = (Inr (), s')"
proof -
  let ?E = "expectedDeployment (h_Env h) a (px_Status px)" and ?key = "BuildNamespacedName (h_Env h) (oa_Name a)"
  from up have apiup: "api_up (h_Client h) view" by (simp add: platform_up_def)
  from apiup obtain s1 where s1: "getAs (h_Client h) KProxy asProxy ProxyNamespacedName s = (Inr px, s1)" "view s1 = view s"
    by (rule px.getAs_up[where key = ProxyNamespacedName and s = s]) (use px in \<open>auto simp: proxyRef_def\<close>)
  have run: "ensureDeployment h a s = onResult (getAs (h_Client h) KDeployment asDeployment ?key)
      (\<lambda>err. if IsNotFound err then andThen (setControllerReference h a (dep_Meta ?E))
          (\<lambda>m. c_Create (h_Client h) (ODeployment (?E\<lparr>dep_Meta := m\<rparr>))) else fail err)
      (\<lambda>found. case deploymentConfigChanged found ?E a of Inl p \<Rightarrow> fail p
         | Inr changed \<Rightarrow> if changed then c_Update (h_Client h) (ODeployment (found\<lparr>dep_Spec := dep_Spec ?E\<rparr>)) else ok ()) s1"
    unfolding ensureDeployment_def buildEnvVars_def envVarsFor_def[symmetric] expectedDeployment_def Let_def
    by (simp add: andThen_def s1)
  from apiup show ?thesis
  proof (cases rule: dep.getAs_up[where key = ?key and s = s1])
    case (found d s2)
    with rep s1(2) have "ds_Replicas (dep_Spec d) \<noteq> None" by (auto simp: replicasSet_def deploymentRef_def)
    then obtain b where b: "deploymentConfigChanged d ?E a = Inr b" using changed_panics[of d "h_Env h" a "px_Status px"]
      by (cases "deploymentConfigChanged d ?E a") auto
    have "cl_Objects (view s2) (objRef (ODeployment (d\<lparr>dep_Spec := dep_Spec ?E\<rparr>))) = Some (ODeployment d)"
      using found by (simp add: objRef_def)
    from update_up[OF apiup this] obtain s3 where "c_Update (h_Client h) (ODeployment (d\<lparr>dep_Spec := dep_Spec ?E\<rparr>)) s2 = (Inr (), s3)"
      by auto
    with b found(1) show ?thesis unfolding run by (simp add: onResult_def)
  next
    case (missing e s2)
    from up ns obtain m where m: "h_SetControllerReference h (oa_Meta a) (dep_Meta ?E) = Inr m"
      by (fastforce simp: platform_up_def setref_up_def)
    from platform_setref[OF platform_up_platform[OF up] m] obtain refs where "m = (dep_Meta ?E)\<lparr>om_OwnerReferences := refs\<rparr>" by blast
    then have "objRef (ODeployment (?E\<lparr>dep_Meta := m\<rparr>)) = (KDeployment, ?key)" "om_DeletionTimestamp m = None"
      by (simp_all add: objRef_def metaKey_def newMeta_def)
    with missing apiup have "fst (c_Create (h_Client h) (ODeployment (?E\<lparr>dep_Meta := m\<rparr>)) s2) = Inr ()" by (simp add: api_up_def)
    with missing(1,2) m show ?thesis unfolding run owned_simps
      by (simp add: onResult_def) (metis prod.collapse)
  qed
qed

section \<open>Restarts\<close>

text \<open>The time of the last restart that a deployment carries.\<close>
definition restartedAt :: "Deployment \<Rightarrow> string option" where
  "restartedAt d = goLookup (pt_Annotations (ds_Template (dep_Spec d))) ''ocm-agent-operator/restartedAt''"

lemma annotateRestart_simps [simp]:
  "dep_Meta (annotateRestart t d) = dep_Meta d" "restartedAt (annotateRestart t d) = Some t"
  "runsAgent a px (annotateRestart t d) = runsAgent a px d"
  by (simp_all add: annotateRestart_def Let_def restartedAt_def goLookup_def runsAgent_def)

lemma restart_cases:
  assumes plat: "platform h view" and run: "restartOCMAgentPods h a s = (q, s')"
  obtains (restarted) d z t where "q = Inr ()" "cl_Objects (view s) (deploymentRef (h_Env h) a) = Some (ODeployment d)"
      "sameButServer (ODeployment (annotateRestart t d)) (ODeployment z)"
      "view s' = cl_write Update (deploymentRef (h_Env h) a) (Some (ODeployment z)) (view s)"
  | (failed) m e where "q = Inl (Wrapped m e)" "touches {deploymentRef (h_Env h) a} {} (view s) (view s')"
  using run unfolding restartOCMAgentPods_def Let_def
proof (cases rule: onResult_cases)
  case (err e s1)
  with dep.getAs_view[OF platform_api[OF plat] err(1)] failed show thesis by auto
next
  case (val d s1)
  from platform_api[OF plat] val(1) have g: "cl_Objects (view s) (deploymentRef (h_Env h) a) = Some (ODeployment d)"
    "objRef (ODeployment d) = deploymentRef (h_Env h) a" "persisted (ODeployment d) = Some (ODeployment d)" "view s1 = view s"
    by (auto elim!: dep.getAs_cases simp: deploymentRef_def)
  let ?t = "FormatRFC3339 (h_Zone h) (h_Now h s1)"
  obtain r s2 where up: "c_Update (h_Client h) (ODeployment (annotateRestart ?t d)) s1 = (r, s2)" by fastforce
  have ref: "objRef (ODeployment (annotateRestart ?t d)) = deploymentRef (h_Env h) a" using g(2) by (simp add: objRef_def)
  with g have st: "cl_Objects (view s1) (objRef (ODeployment (annotateRestart ?t d))) = Some (ODeployment d)" by simp
  from platform_api[OF plat] up st show thesis
  proof (rule update_cases)
    fix z assume z: "r = Inr ()" "sameButServer (ODeployment (annotateRestart ?t d)) z"
      "view s2 = cl_write Update (objRef (ODeployment (annotateRestart ?t d))) (persisted z) (view s1)"
    from dep.kind_only[of z] z(2) obtain z' where z': "z = ODeployment z'" by (auto simp: sameButServer_def)
    from g(3) have "persisted (ODeployment (annotateRestart ?t d)) = Some (ODeployment (annotateRestart ?t d))"
      by (simp add: persisted_def split: if_splits)
    with same_persisted[OF z(2)] have "persisted z = Some z" by simp
    with z z' ref g up val(2) restarted[of d ?t z'] show thesis by (simp add: onResult_def)
  next
    fix e assume "r = Inl e" "touches {objRef (ODeployment (annotateRestart ?t d))} {} (view s1) (view s2)"
    with ref g(4) up val(2) failed show thesis by (auto simp: onResult_def)
  qed simp
qed

lemma restart_touches:
  assumes "platform h view" and "restartOCMAgentPods h a s = (q, s')"
  shows "touches {deploymentRef (h_Env h) a} {} (view s) (view s')"
  using assms by (cases rule: restart_cases) (auto intro: touches_write)

text \<open>A restart does not disturb a deployment that is as expected.\<close>
lemma restart_keeps_ok:
  assumes "platform h view" and "restartOCMAgentPods h a s = (Inr (), s')" and "deploymentOk (h_Env h) a (view s)"
  shows "deploymentOk (h_Env h) a (view s')"
  using assms(1,2)
proof (cases rule: restart_cases)
  case (restarted d z t)
  from assms(3) restarted(2) obtain px where "cl_Objects (view s) proxyRef = Some (OProxy px)" "runsAgent a (px_Status px) d"
    by (auto simp: deploymentOk_def)
  moreover from restarted(3) deployment.same_matches[of "annotateRestart t d" z a "px_Status px"] have "runsAgent a (px_Status px) z = runsAgent a (px_Status px) d" by simp
  moreover have "proxyRef \<noteq> deploymentRef (h_Env h) a" by (simp add: proxyRef_def deploymentRef_def)
  ultimately show ?thesis using restarted(4) by (auto simp: deploymentOk_def)
qed simp

lemma restart_up:
  assumes up: "platform_up h view" and d: "cl_Objects (view s) (deploymentRef (h_Env h) a) = Some (ODeployment d)"
  shows "\<exists>s'. restartOCMAgentPods h a s = (Inr (), s')"
proof -
  from up have api: "api_up (h_Client h) view" by (simp add: platform_up_def)
  then obtain s1 where s1: "getAs (h_Client h) KDeployment asDeployment (BuildNamespacedName (h_Env h) (oa_Name a)) s = (Inr d, s1)"
    "objRef (ODeployment d) = deploymentRef (h_Env h) a" "view s1 = view s"
    by (rule dep.getAs_up[where key = "BuildNamespacedName (h_Env h) (oa_Name a)" and s = s]) (use d in \<open>auto simp: deploymentRef_def\<close>)
  let ?x = "ODeployment (annotateRestart (FormatRFC3339 (h_Zone h) (h_Now h s1)) d)"
  have "cl_Objects (view s1) (objRef ?x) = Some (ODeployment d)" using s1(2,3) d by (simp add: objRef_def)
  from update_up[OF api this] obtain s2 where "c_Update (h_Client h) ?x s1 = (Inr (), s2)" by auto
  with s1(1) show ?thesis by (simp add: restartOCMAgentPods_def onResult_def Let_def)
qed

section \<open>Properties\<close>

text \<open>C22. The check of a stored deployment is exactly the specification: it asks for an update exactly when the deployment does not
  run the agent as specified. The only other outcome is a crash, on a deployment without a replica count whose
  labels and container are as expected.\<close>
theorem deployment_check_exact:
  "deploymentConfigChanged d (withEnv (envVarsFor a px) (buildOCMAgentDeployment env a)) a =
     (if ds_Replicas (dep_Spec d) = None \<and> runsAgent a px (d\<lparr>dep_Spec := (dep_Spec d)\<lparr>ds_Replicas := Some (oas_Replicas (oa_Spec a)),
           ds_Template := (ds_Template (dep_Spec d))\<lparr>pt_Spec := (pt_Spec (ds_Template (dep_Spec d)))\<lparr>ps_Affinity := Some agentAffinity,
             ps_Tolerations := [\<lparr>tol_Key = ''node-role.kubernetes.io/infra'', tol_Operator = ''Exists'', tol_Effect = ''NoSchedule''\<rparr>]\<rparr>\<rparr>\<rparr>\<rparr>)
      then Inl (Panic ''nil pointer dereference'') else Inr (\<not> runsAgent a px d))"
proof -
  obtain b where b: "compareContainers d (expectedDeployment env a px) (oa_Name a) = Inr b" using compareContainers_total by blast
  note iff = compareContainers_iff[of d env a px, unfolded b]
  show ?thesis
    unfolding expectedDeployment_def[symmetric] deploymentConfigChanged_def b using iff
    by (cases "ds_Replicas (dep_Spec d)"; cases b) (auto simp: runsAgent_def)
qed

text \<open>The agent in the other mode.\<close>
definition switchFleetMode :: "OcmAgent \<Rightarrow> OcmAgent" where
  "switchFleetMode a = a\<lparr>oa_Spec := (oa_Spec a)\<lparr>oas_FleetMode := \<not> oa_FleetMode a\<rparr>\<rparr>"

text \<open>A change of the mode does not reach a running agent: the commands of the two modes differ, but a deployment made for
  one mode passes the check for the other, so that it is left as it is.\<close>
theorem fleet_switch_unnoticed:
  assumes "oas_OcmAgentImage (oa_Spec a) \<noteq> []"
  shows "deploymentConfigChanged (withEnv (envVarsFor a px) (buildOCMAgentDeployment env a))
      (withEnv (envVarsFor (switchFleetMode a) px) (buildOCMAgentDeployment env (switchFleetMode a))) (switchFleetMode a) = Inr False \<and>
    buildOCMAgentArgs (switchFleetMode a) \<noteq> buildOCMAgentArgs a"
proof
  have "runsAgent a px (expectedDeployment env a px)" 
    using assms expected_container[of a env px] by (auto simp: runsAgent_def)
  then have "runsAgent (switchFleetMode a) px (expectedDeployment env a px)"
    by (simp add: runsAgent_def switchFleetMode_def envVarsFor_def)
  then show "deploymentConfigChanged (withEnv (envVarsFor a px) (buildOCMAgentDeployment env a))
      (withEnv (envVarsFor (switchFleetMode a) px) (buildOCMAgentDeployment env (switchFleetMode a))) (switchFleetMode a) = Inr False"
    unfolding expectedDeployment_def[symmetric] changed_iff .
  show "buildOCMAgentArgs (switchFleetMode a) \<noteq> buildOCMAgentArgs a"
    by (simp add: buildOCMAgentArgs_def switchFleetMode_def Let_def)
qed

theorem fleet_switch_unnoticed_witness:
  "deploymentConfigChanged (withEnv (envVarsFor sampleAgent \<lparr>px_HTTPProxy = [], px_HTTPSProxy = [], px_NoProxy = []\<rparr>)
       (buildOCMAgentDeployment (h_Env memHandler) sampleAgent))
     (withEnv (envVarsFor (switchFleetMode sampleAgent) \<lparr>px_HTTPProxy = [], px_HTTPSProxy = [], px_NoProxy = []\<rparr>)
       (buildOCMAgentDeployment (h_Env memHandler) (switchFleetMode sampleAgent))) (switchFleetMode sampleAgent) = Inr False"
  using fleet_switch_unnoticed[of sampleAgent] by (simp add: sampleAgent_def)

text \<open>The files that the command of the agent refers to, by flag: the volume and the key in it.\<close>
definition argumentFiles :: "OcmAgent \<Rightarrow> (string \<times> string \<times> string) set" where
  "argumentFiles a = {(''--services=@'', oa_Name a @ ConfigMapSuffix, OCMAgentConfigServicesKey),
      (''--ocm-url=@'', oa_Name a @ ConfigMapSuffix, OCMAgentConfigURLKey)} \<union>
     (if oa_FleetMode a then {} else {(''--cluster-id=@'', oa_Name a @ ConfigMapSuffix, OCMAgentConfigClusterID),
        (''--access-token=@'', oa_TokenSecret a, OCMAgentAccessTokenSecretKey)})"

text \<open>Every file argument of the agent points into one of its volumes: it is the mount path of the volume, a slash and the
  key, and the volume is the one of the config map or of the token secret of that name. The names are
  names of Kubernetes objects, which are plain path segments.\<close>
theorem agent_arguments_resolve:
  assumes "pathSegment (oa_Name a @ ConfigMapSuffix)" and "pathSegment (oa_TokenSecret a)"
    and "(flag, vol, key) \<in> argumentFiles a"
  shows "\<exists>c m v. containersOf (buildOCMAgentDeployment env a) = [c] \<and> m \<in> set (c_VolumeMounts c) \<and> vm_Name m = vol \<and>
    flag @ vm_MountPath m @ ''/'' @ key \<in> set (c_Command c) \<and>
    v \<in> set (ps_Volumes (pt_Spec (ds_Template (dep_Spec (buildOCMAgentDeployment env a))))) \<and> vol_Name v = vol \<and>
    vol_Source v \<in> {SecretVolumeSource vol 416, ConfigMapVolumeSource vol [] 420}"
proof -
  have join: "filepath_Join [''/secrets'', x, y] = ''/secrets/'' @ x @ ''/'' @ y" "filepath_Join [''/secrets'', x] = ''/secrets/'' @ x"
    "filepath_Join [''/configs'', x, y] = ''/configs/'' @ x @ ''/'' @ y" "filepath_Join [''/configs'', x] = ''/configs/'' @ x"
    if "pathSegment x" "pathSegment y" for x y
    using that by (simp_all add: filepath_Join_sub pathSegment_def)
  have keys: "pathSegment OCMAgentConfigServicesKey" "pathSegment OCMAgentConfigURLKey" "pathSegment OCMAgentConfigClusterID"
    "pathSegment OCMAgentAccessTokenSecretKey"
    by (simp_all add: pathSegment_def OCMAgentConfigServicesKey_def OCMAgentConfigURLKey_def OCMAgentConfigClusterID_def OCMAgentAccessTokenSecretKey_def)
  note j1 = join[OF assms(1)] and j2 = join[OF assms(2) keys(4)]
  obtain c where c: "containersOf (buildOCMAgentDeployment env a) = [c]" "set (c_VolumeMounts c) = set (agentMounts a)"
    "c_Command c = buildOCMAgentArgs a" "set (ps_Volumes (pt_Spec (ds_Template (dep_Spec (buildOCMAgentDeployment env a))))) = set (agentVolumes a)"
    by (simp add: buildOCMAgentDeployment_def agentContainer_def Let_def)
  let ?cm = "oa_Name a @ ConfigMapSuffix"
  define cmMount where "cmMount = \<lparr>vm_Name = ?cm, vm_MountPath = ''/configs/'' @ ?cm, vm_ReadOnly = False\<rparr>"
  define tokenMount where "tokenMount = \<lparr>vm_Name = oa_TokenSecret a, vm_MountPath = ''/secrets/'' @ oa_TokenSecret a, vm_ReadOnly = False\<rparr>"
  have mounts: "cmMount \<in> set (agentMounts a)" "tokenMount \<in> set (agentMounts a)"
    using j1(4)[OF keys(1)] j2(2) by (simp_all add: agentMounts_def Let_def OCMAgentSecretMountPath_def OCMAgentConfigMountPath_def
        cmMount_def tokenMount_def)
  have args: "''--services=@'' @ vm_MountPath cmMount @ ''/'' @ OCMAgentConfigServicesKey \<in> set (buildOCMAgentArgs a)"
    "''--ocm-url=@'' @ vm_MountPath cmMount @ ''/'' @ OCMAgentConfigURLKey \<in> set (buildOCMAgentArgs a)"
    "oa_FleetMode a \<or> ''--cluster-id=@'' @ vm_MountPath cmMount @ ''/'' @ OCMAgentConfigClusterID \<in> set (buildOCMAgentArgs a)"
    "oa_FleetMode a \<or> ''--access-token=@'' @ vm_MountPath tokenMount @ ''/'' @ OCMAgentAccessTokenSecretKey \<in> set (buildOCMAgentArgs a)"
    using j1(3)[OF keys(1)] j1(3)[OF keys(2)] j1(3)[OF keys(3)] j2(1)
    by (simp_all add: buildOCMAgentArgs_def Let_def OCMAgentSecretMountPath_def OCMAgentConfigMountPath_def cmMount_def tokenMount_def)
  have names: "vm_Name cmMount = ?cm" "vm_Name tokenMount = oa_TokenSecret a" by (simp_all add: cmMount_def tokenMount_def)
  have "\<exists>m \<in> set (agentMounts a). vm_Name m = vol \<and> flag @ vm_MountPath m @ ''/'' @ key \<in> set (buildOCMAgentArgs a)"
    using assms(3) mounts args names unfolding argumentFiles_def by (elim UnE insertE emptyE) (auto split: if_splits)
  moreover have "\<exists>v \<in> set (agentVolumes a). vol_Name v = vol \<and> vol_Source v \<in> {SecretVolumeSource vol 416, ConfigMapVolumeSource vol [] 420}"
    using assms(3) by (auto simp: argumentFiles_def agentVolumes_def split: if_splits)
  ultimately show ?thesis using c by simp blast
qed

theorem agent_arguments_resolve_witness:
  "\<exists>c m v. containersOf (buildOCMAgentDeployment (h_Env memHandler) sampleAgent) = [c] \<and> m \<in> set (c_VolumeMounts c) \<and> vm_Name m = ''ocm-access-token'' \<and>
    ''--access-token=@'' @ vm_MountPath m @ ''/access_token'' \<in> set (c_Command c) \<and>
    v \<in> set (ps_Volumes (pt_Spec (ds_Template (dep_Spec (buildOCMAgentDeployment (h_Env memHandler) sampleAgent))))) \<and> vol_Name v = ''ocm-access-token'' \<and>
    vol_Source v \<in> {SecretVolumeSource ''ocm-access-token'' 416, ConfigMapVolumeSource ''ocm-access-token'' [] 420}"
  using agent_arguments_resolve[of sampleAgent "''--access-token=@''" "''ocm-access-token''" OCMAgentAccessTokenSecretKey "h_Env memHandler"]
  by (simp add: pathSegment_def ConfigMapSuffix_def argumentFiles_def OCMAgentAccessTokenSecretKey_def)

end
