(* ===== verification/Secrets.thy ===== *)
theory Secrets
  imports Contracts
begin

text \<open>
  The access token secret of the agent (\<^verbatim>\<open>pkg/ocmagenthandler/ocmagenthandler_secret.go\<close>): the token is
  read from the pull secret of the cluster, a JSON document, and copied into a secret of its own. In fleet
  mode the secret must be there already.
\<close>

section \<open>Model\<close>

definition buildOCMAgentAccessTokenSecret :: "Env \<Rightarrow> string \<Rightarrow> OcmAgent \<Rightarrow> Secret" where
  "buildOCMAgentAccessTokenSecret env accessToken ocmAgent =
     (let namespacedName = BuildNamespacedName env (oa_TokenSecret ocmAgent)
      in \<lparr>sec_Meta = newMeta namespacedName None, sec_Data = oneLabel OCMAgentAccessTokenSecretKey accessToken\<rparr>)"

abbreviation quoted :: "string \<Rightarrow> string" where
  "quoted s \<equiv> CHR 0x27 # s @ [CHR 0x27]"

text \<open>What \<open>fetchAccessTokenPullSecret\<close> does with the pull secret it has read.\<close>
definition accessTokenOf :: "(string \<Rightarrow> string option) \<Rightarrow> Secret \<Rightarrow> error + string" where
  "accessTokenOf parseFloat foundResource =
     (case goLookup (sec_Data foundResource) PullSecretKey of
        None \<Rightarrow> Inl (Errorf (''pull secret missing required key '' @ quoted PullSecretKey))
      | Some pullSecret \<Rightarrow>
     (case Unmarshal parseFloat pullSecret of
        Inl err \<Rightarrow> Inl err
      | Inr dockerConfig \<Rightarrow>
     (case member dockerConfig ''auths'' of
        None \<Rightarrow> Inl (Errorf ''unable to find auths section in pull secret'')
      | Some authConfig \<Rightarrow>
     (case authConfig of
        JObj authConfigMap \<Rightarrow>
          (case member authConfigMap PullSecretAuthTokenKey of
             None \<Rightarrow> Inl (Errorf (''unable to find pull secret auth key '' @ quoted PullSecretAuthTokenKey @ '' in pull secret''))
           | Some apiConfigVal \<Rightarrow>
          (case apiConfigVal of
             JObj apiConfig \<Rightarrow>
               (case member apiConfig ''auth'' of
                  None \<Rightarrow> Inl (Errorf ''unable to find access auth token in pull secret'')
                | Some accessToken \<Rightarrow> Inr (sprintV parseFloat accessToken))
           | _ \<Rightarrow> Inl (Errorf ''unable to cast api config to map[string]interface{}'')))
      | _ \<Rightarrow> Inl (Errorf ''unable to cast auths to map[string]interface{}'')))))"

definition fetchAccessTokenPullSecret :: "'s ocmAgentHandler \<Rightarrow> ('s, string) step" where
  "fetchAccessTokenPullSecret h =
     andThen (getAs (h_Client h) KSecret asSecret PullSecretNamespacedName) (\<lambda>foundResource.
       case accessTokenOf (h_parseFloat h) foundResource of Inl err \<Rightarrow> fail err | Inr token \<Rightarrow> ok token)"

text \<open>Returns whether the secret was created or updated.\<close>
definition ensureAccessTokenSecret :: "'s ocmAgentHandler \<Rightarrow> OcmAgent \<Rightarrow> ('s, bool) step" where
  "ensureAccessTokenSecret h ocmAgent =
     (let namespacedName = BuildNamespacedName (h_Env h) (oa_TokenSecret ocmAgent)
      in onResult (fetchAccessTokenPullSecret h)
           (\<lambda>err. andThen (UpdateMetricPullSecretInvalid (h_GaugeSet h) (oa_Name ocmAgent)) (\<lambda>_. fail err))
           (\<lambda>clusterPullSecret.
              andThen (ResetMetricPullSecretInvalid (h_GaugeSet h) (oa_Name ocmAgent)) (\<lambda>_.
              let resource = buildOCMAgentAccessTokenSecret (h_Env h) clusterPullSecret ocmAgent
              in onResult (getAs (h_Client h) KSecret asSecret namespacedName)
                   (\<lambda>err. if IsNotFound err
                          then andThen (setControllerReference h ocmAgent (sec_Meta resource)) (\<lambda>m.
                               andThen (c_Create (h_Client h) (OSecret (resource\<lparr>sec_Meta := m\<rparr>))) (\<lambda>_. ok True))
                          else fail err)
                   (\<lambda>foundResource.
                      if sec_Data foundResource \<noteq> sec_Data resource
                      then andThen (c_Update (h_Client h) (OSecret (foundResource\<lparr>sec_Data := sec_Data resource\<rparr>))) (\<lambda>_. ok True)
                      else ok False))))"

definition ensureFleetClientSecret :: "'s ocmAgentHandler \<Rightarrow> OcmAgent \<Rightarrow> ('s, unit) step" where
  "ensureFleetClientSecret h ocmAgent =
     (let namespacedName = BuildNamespacedName (h_Env h) (oa_TokenSecret ocmAgent)
      in onResult (getAs (h_Client h) KSecret asSecret namespacedName)
           (\<lambda>err. if IsNotFound err then fail err else fail err)
           (\<lambda>foundResource. ok ()))"

definition ensureAccessTokenSecretDeleted :: "'s ocmAgentHandler \<Rightarrow> OcmAgent \<Rightarrow> ('s, unit) step" where
  "ensureAccessTokenSecretDeleted h ocmAgent =
     (let namespacedName = BuildNamespacedName (h_Env h) (oa_TokenSecret ocmAgent)
      in onResult (getAs (h_Client h) KSecret asSecret namespacedName)
           (\<lambda>err. if \<not> IsNotFound err then fail err else ok ())
           (\<lambda>foundResource. c_Delete (h_Client h) (OSecret foundResource)))"

section \<open>Specification\<close>

definition tokenRef :: "Env \<Rightarrow> OcmAgent \<Rightarrow> Ref" where
  "tokenRef env a = (KSecret, BuildNamespacedName env (oa_TokenSecret a))"

definition pullRef :: Ref where
  "pullRef = (KSecret, PullSecretNamespacedName)"

text \<open>The token that the pull secret on the cluster holds.\<close>
definition clusterToken :: "'s ocmAgentHandler \<Rightarrow> Cluster \<Rightarrow> error + string" where
  "clusterToken h cl = (case cl_Objects cl pullRef of
     Some (OSecret x) \<Rightarrow> accessTokenOf (h_parseFloat h) x | _ \<Rightarrow> Inl (NotFound (nn_Name PullSecretNamespacedName)))"

text \<open>The secret of the agent holds that token.\<close>
definition secretOk :: "'s ocmAgentHandler \<Rightarrow> OcmAgent \<Rightarrow> Cluster \<Rightarrow> bool" where
  "secretOk h a cl \<longleftrightarrow> (\<exists>tok. clusterToken h cl = Inr tok \<and>
     (\<exists>x. cl_Objects cl (tokenRef (h_Env h) a) = Some (OSecret x) \<and> sec_Data x = oneLabel OCMAgentAccessTokenSecretKey tok))"

section \<open>Reading the pull secret\<close>

text \<open>The token is the member \<open>auth\<close> of the registry \<open>cloud.openshift.com\<close>, whatever else the document and the entry hold.\<close>
lemma accessTokenOf_entry:
  assumes "goLookup (sec_Data x) ''.dockerconfigjson'' = Some text" and "Unmarshal pf text = Inr doc"
    and "member doc ''auths'' = Some (JObj auths)" and "member auths ''cloud.openshift.com'' = Some (JObj entry)"
    and "member entry ''auth'' = Some (JStr tok)"
  shows "accessTokenOf pf x = Inr tok"
  using assms by (simp add: accessTokenOf_def PullSecretKey_def PullSecretAuthTokenKey_def)

section \<open>Contracts\<close>

interpretation token: managed_resource KSecret OSecret asSecret "\<lambda>x m. x\<lparr>sec_Meta := m\<rparr>"
    "buildOCMAgentAccessTokenSecret env tok a" "\<lambda>x. sec_Data x = sec_Data (buildOCMAgentAccessTokenSecret env tok a)"
    "\<lambda>x. x\<lparr>sec_Data := sec_Data (buildOCMAgentAccessTokenSecret env tok a)\<rparr>" "\<lambda>_. True" True for env tok a
  by unfold_locales (simp_all add: buildOCMAgentAccessTokenSecret_def newMeta_def Let_def)

lemma token_build [simp]:
  "sec_Meta (buildOCMAgentAccessTokenSecret env tok a) = newMeta (BuildNamespacedName env (oa_TokenSecret a)) None"
  "sec_Data (buildOCMAgentAccessTokenSecret env tok a) = oneLabel OCMAgentAccessTokenSecretKey tok"
  "objRef (OSecret (buildOCMAgentAccessTokenSecret env tok a)) = tokenRef env a"
  by (simp_all add: buildOCMAgentAccessTokenSecret_def objRef_def tokenRef_def Let_def)

text \<open>The second half of \<open>ensureAccessTokenSecret\<close>, from the token on.\<close>
abbreviation storeToken :: "'s ocmAgentHandler \<Rightarrow> OcmAgent \<Rightarrow> string \<Rightarrow> ('s, bool) step" where
  "storeToken h a tok \<equiv> ensureObject (h_Client h) KSecret OSecret asSecret (BuildNamespacedName (h_Env h) (oa_TokenSecret a))
     (prepareOwned h a OSecret (\<lambda>x m. x\<lparr>sec_Meta := m\<rparr>) (buildOCMAgentAccessTokenSecret (h_Env h) tok a))
     (\<lambda>x. \<not> sec_Data x = sec_Data (buildOCMAgentAccessTokenSecret (h_Env h) tok a))
     (\<lambda>x. x\<lparr>sec_Data := sec_Data (buildOCMAgentAccessTokenSecret (h_Env h) tok a)\<rparr>)"

lemma ensureAccessTokenSecret_scheme:
  "ensureAccessTokenSecret h a = onResult (fetchAccessTokenPullSecret h)
     (\<lambda>err. andThen (UpdateMetricPullSecretInvalid (h_GaugeSet h) (oa_Name a)) (\<lambda>_. fail err))
     (\<lambda>tok. andThen (ResetMetricPullSecretInvalid (h_GaugeSet h) (oa_Name a)) (\<lambda>_. storeToken h a tok))"
  unfolding ensureAccessTokenSecret_def Let_def ensureObject_def owned_simps metaOf.simps by (rule refl)

lemma fetch_cases:
  assumes "platform h view" and "fetchAccessTokenPullSecret h s = (q, s')"
  obtains (token) tok where "q = Inr tok" "clusterToken h (view s) = Inr tok" "view s' = view s"
  | (failed) e where "q = Inl e" "view s' = view s"
proof -
  from assms(2) show thesis
    unfolding fetchAccessTokenPullSecret_def
  proof (cases rule: andThen_cases)
    case (err e)
    with sec.getAs_view[OF platform_api[OF assms(1)] err(1)] failed show thesis by simp
  next
    case (val x s1)
    note g = sec.getAs_Inr[OF platform_api[OF assms(1)] val(1)]
    then have "clusterToken h (view s) = accessTokenOf (h_parseFloat h) x" by (simp add: clusterToken_def pullRef_def)
    moreover have "(q, s') = (accessTokenOf (h_parseFloat h) x, s1)"
      using val(2) by (simp split: sum.splits)
    ultimately have q: "clusterToken h (view s) = q" "view s' = view s" using g(2) by simp_all
    show thesis
    proof (cases q)
      case (Inl e)
      with q(2) show thesis by (intro failed)
    next
      case (Inr tok)
      with q show thesis by (intro token) simp_all
    qed
  qed
qed

lemma storeToken_touches:
  assumes "platform h view" and "storeToken h a tok s = (q, s')"
  shows "touches {tokenRef (h_Env h) a} {} (view s) (view s')"
  by (rule token.owned_cases[OF assms(1), of "h_Env h" tok a a s q s']) (use assms(2) in \<open>auto intro: touches_write\<close>)

lemma storeToken_goal:
  assumes "platform h view" and "storeToken h a tok s = (Inr b, s')"
  shows "\<exists>y. cl_Objects (view s') (tokenRef (h_Env h) a) = Some (OSecret y) \<and> sec_Data y = oneLabel OCMAgentAccessTokenSecretKey tok"
  by (rule token.owned_cases[OF assms(1), of "h_Env h" tok a a s "Inr b" s']) (use assms(2) in auto)

text \<open>The outcomes of \<open>ensureAccessTokenSecret\<close>. The gauge tells whether a token could be read.\<close>
lemma secret_cases:
  assumes "platform h view" and "ensureAccessTokenSecret h a s = (q, s')"
  obtains (nofetch) e where "q = Inl e"
      "view s' = (view s)\<lparr>cl_Gauges := (cl_Gauges (view s))((MetricPullSecretInvalid, [oa_Name a]) \<mapsto> 1)\<rparr>"
  | (fetched) tok s1 where "clusterToken h (view s) = Inr tok"
      "view s1 = (view s)\<lparr>cl_Gauges := (cl_Gauges (view s))((MetricPullSecretInvalid, [oa_Name a]) \<mapsto> 0)\<rparr>"
      "storeToken h a tok s1 = (q, s')"
  using assms(2) unfolding ensureAccessTokenSecret_scheme
proof (cases rule: onResult_cases)
  case (err e s1)
  with fetch_cases[OF assms(1) err(1)] have "view s1 = view s" by auto
  with err nofetch platform_gauge[OF assms(1)] show thesis
    by (simp add: UpdateMetricPullSecretInvalid_def andThen_def) metis
next
  case (val tok s1)
  with fetch_cases[OF assms(1) val(1)] have "view s1 = view s" "clusterToken h (view s) = Inr tok" by auto
  moreover from val(2) have "storeToken h a tok (h_GaugeSet h MetricPullSecretInvalid [oa_Name a] 0 s1) = (q, s')"
    by (simp add: ResetMetricPullSecretInvalid_def andThen_def)
  ultimately show thesis using fetched platform_gauge[OF assms(1)] by metis
qed

abbreviation secretGauge :: "OcmAgent \<Rightarrow> string \<times> string list" where
  "secretGauge a \<equiv> (MetricPullSecretInvalid, [oa_Name a])"

lemma ensureAccessTokenSecret_ensures:
  assumes plat: "platform h view" and ne: "tokenRef (h_Env h) a \<noteq> pullRef"
  shows "ensures view (ignore (ensureAccessTokenSecret h a)) {tokenRef (h_Env h) a} {secretGauge a} {pullRef} (\<lambda>_. True) (secretOk h a)"
proof (rule ensuresI)
  fix s q s' assume "ignore (ensureAccessTokenSecret h a) s = (q, s')"
  then obtain q1 where run: "ensureAccessTokenSecret h a s = (q1, s')" and q: "\<And>u. q = Inr u \<Longrightarrow> \<exists>b. q1 = Inr b"
    by (auto elim!: andThen_cases)
  from plat run show "touches {tokenRef (h_Env h) a} {secretGauge a} (view s) (view s')"
  proof (cases rule: secret_cases)
    case (fetched tok s1)
    note storeToken_touches[OF plat fetched(3)]
    from touches_trans[OF touches_gauge[of "secretGauge a" "{secretGauge a}" "{}" "view s"] this[unfolded fetched(2)]] show ?thesis
      by simp
  qed (simp add: touches_gauge)
  assume ok: "secretOk h a (view s)"
  from plat run show "touches {} {secretGauge a} (view s) (view s')"
  proof (cases rule: secret_cases)
    case (fetched tok s1)
    with ok obtain x where "cl_Objects (view s1) (tokenRef (h_Env h) a) = Some (OSecret x)" "sec_Data x = oneLabel OCMAgentAccessTokenSecretKey tok"
      by (auto simp: secretOk_def)
    with token.ensure_keeps[OF platform_api[OF plat], of s1 "h_Env h" tok a x] fetched(3) have "view s' = view s1" by simp
    with fetched(2) show ?thesis by (simp add: touches_gauge)
  qed (simp add: touches_gauge)
next
  fix s s' assume "ignore (ensureAccessTokenSecret h a) s = (Inr (), s')"
  then obtain b where run: "ensureAccessTokenSecret h a s = (Inr b, s')" by (auto simp: go_simps)
  from plat run show "secretOk h a (view s')"
  proof (cases rule: secret_cases)
    case (fetched tok s1)
    from touches_objects[OF storeToken_touches[OF plat fetched(3)], of pullRef] fetched(1,2) ne
    have "clusterToken h (view s') = Inr tok" by (simp add: clusterToken_def)
    moreover note storeToken_goal[OF plat fetched(3)]
    ultimately show ?thesis unfolding secretOk_def by blast
  qed simp
qed (auto simp: secretOk_def clusterToken_def)

text \<open>It reports an update exactly when it wrote to the cluster.\<close>
lemma ensureAccessTokenSecret_reports:
  assumes plat: "platform h view" and run: "ensureAccessTokenSecret h a s = (Inr b, s')"
  shows "b \<longleftrightarrow> cl_Log (view s') \<noteq> cl_Log (view s)"
  using assms
proof (cases rule: secret_cases)
  case (fetched tok s1)
  from plat have "b \<longleftrightarrow> cl_Log (view s') \<noteq> cl_Log (view s1)"
    by (rule token.owned_cases[of h view "h_Env h" tok a a s1 "Inr b" s']) (use fetched(3) in auto)
  with fetched(2) show ?thesis by simp
qed simp

text \<open>No report means that no object has changed.\<close>
lemma ensureAccessTokenSecret_silent:
  assumes plat: "platform h view" and run: "ensureAccessTokenSecret h a s = (Inr False, s')"
  shows "cl_Objects (view s') = cl_Objects (view s)"
  using assms
proof (cases rule: secret_cases)
  case (fetched tok s1)
  from plat have "view s' = view s1"
    by (rule token.owned_cases[of h view "h_Env h" tok a a s1 "Inr False" s']) (use fetched(3) in auto)
  with fetched(2) show ?thesis by simp
qed simp

lemma ensureFleetClientSecret_view:
  assumes "platform h view" and "ensureFleetClientSecret h a s = (q, s')"
  shows "view s' = view s" and "q = Inr () \<Longrightarrow> \<exists>x. cl_Objects (view s) (tokenRef (h_Env h) a) = Some (OSecret x)"
proof -
  from assms(2) obtain r s1 where g: "getAs (h_Client h) KSecret asSecret (BuildNamespacedName (h_Env h) (oa_TokenSecret a)) s = (r, s1)"
    and rest: "s' = s1" "q = Inr () \<Longrightarrow> \<exists>x. r = Inr x"
    unfolding ensureFleetClientSecret_def Let_def by (cases rule: onResult_cases) auto
  show "view s' = view s" using sec.getAs_view[OF platform_api[OF assms(1)] g] rest by simp
  show "\<exists>x. cl_Objects (view s) (tokenRef (h_Env h) a) = Some (OSecret x)" if "q = Inr ()"
    using sec.getAs_Inr(1)[OF platform_api[OF assms(1)]] g rest(2)[OF that] by (auto simp: tokenRef_def)
qed

lemma ensureAccessTokenSecretDeleted_ensures:
  assumes "platform h view"
  shows "ensures view (ensureAccessTokenSecretDeleted h a) {tokenRef (h_Env h) a} {} {}
    (noFinalizers (tokenRef (h_Env h) a)) (absent (tokenRef (h_Env h) a))"
  using sec.delete_ensures[OF platform_api[OF assms], of "BuildNamespacedName (h_Env h) (oa_TokenSecret a)"]
  by (simp add: ensureAccessTokenSecretDeleted_def deleteObject_handler tokenRef_def)

lemma ensureAccessTokenSecret_up:
  assumes up: "platform_up h view" and ns: "oa_Namespace a = operatorNamespace (h_Env h)" and tok: "clusterToken h (view s) = Inr tok"
  shows "\<exists>b s'. ensureAccessTokenSecret h a s = (Inr b, s')"
proof -
  from tok obtain x where x: "cl_Objects (view s) pullRef = Some (OSecret x)" "accessTokenOf (h_parseFloat h) x = Inr tok"
    by (auto simp: clusterToken_def split: option.splits Object.splits)
  from up have "api_up (h_Client h) view" by (simp add: platform_up_def)
  then obtain s1 where s1: "getAs (h_Client h) KSecret asSecret PullSecretNamespacedName s = (Inr x, s1)"
    by (rule sec.getAs_up[where key = PullSecretNamespacedName and s = s]) (use x(1) in \<open>auto simp: pullRef_def\<close>)
  then have f: "fetchAccessTokenPullSecret h s = (Inr tok, s1)" by (simp add: fetchAccessTokenPullSecret_def andThen_def x(2))
  let ?s2 = "h_GaugeSet h MetricPullSecretInvalid [oa_Name a] 0 s1"
  from token.owned_up[OF up, of "h_Env h" tok a a] ns have "succeeds (ignore (storeToken h a tok))" by simp
  then obtain s3 where "ignore (storeToken h a tok) ?s2 = (Inr (), s3)" unfolding succeeds_def by blast
  then obtain b where b: "storeToken h a tok ?s2 = (Inr b, s3)" by (auto simp: go_simps)
  have "ensureAccessTokenSecret h a s = storeToken h a tok ?s2"
    unfolding ensureAccessTokenSecret_scheme by (simp add: onResult_def f andThen_def ResetMetricPullSecretInvalid_def)
  with b show ?thesis by simp
qed

section \<open>Properties\<close>

lemma parse_null_token:
  "parseDocument ''{\"auths\":{\"cloud.openshift.com\":{\"auth\":null}}}'' =
     Some (JObj [(''auths'', JObj [(''cloud.openshift.com'', JObj [(''auth'', JNull)])])])"
  by code_simp

text \<open>A pull secret whose token is the JSON value null is accepted: the agent gets the five characters that Go
  prints for nil as its token, and no error is reported.\<close>
theorem null_token_accepted:
  "accessTokenOf parseFloat \<lparr>sec_Meta = m, sec_Data = oneLabel PullSecretKey ''{\"auths\":{\"cloud.openshift.com\":{\"auth\":null}}}''\<rparr> = Inr ''<nil>''"
  by (simp add: accessTokenOf_def goLookup_def oneLabel_def Unmarshal_def parse_null_token member_def PullSecretAuthTokenKey_def)

end
