(* ===== verification/Services.thy ===== *)
theory Services
  imports Contracts
begin

text \<open>
  The two services of the agent (\<^verbatim>\<open>pkg/ocmagenthandler/ocmagenthandler_service.go\<close>): the webhook
  receiver and the metrics endpoint. An update replaces the specification of a service only, while the
  check compares its labels too; the contract of \<open>ensureService\<close> says what follows from that.
\<close>

section \<open>Model\<close>

definition buildOCMAgentService :: "Env \<Rightarrow> OcmAgent \<Rightarrow> Service" where
  "buildOCMAgentService env ocmAgent =
     (let namespacedName = BuildNamespacedName env (oa_Name ocmAgent);
          labels = oneLabel ''app'' (oa_Name ocmAgent)
      in \<lparr>svc_Meta = newMeta namespacedName None,
          svc_Spec = \<lparr>ss_Selector = labels,
            ss_Ports = [\<lparr>sp_Name = OCMAgentPortName, sp_Protocol = ''TCP'', sp_Port = OCMAgentServicePort,
              sp_TargetPort = IntVal OCMAgentPort\<rparr>]\<rparr>\<rparr>)"

definition buildOCMAgentMetricsService :: "Env \<Rightarrow> OcmAgent \<Rightarrow> Service" where
  "buildOCMAgentMetricsService env ocmAgent =
     (let metricsSVCname = oa_Name ocmAgent @ ''-metrics'';
          namespacedName = BuildNamespacedName env metricsSVCname;
          labels = oneLabel ''app'' (oa_Name ocmAgent)
      in \<lparr>svc_Meta = newMeta namespacedName labels,
          svc_Spec = \<lparr>ss_Selector = labels,
            ss_Ports = [\<lparr>sp_Name = OCMAgentMetricsPortName, sp_Protocol = ''TCP'', sp_Port = OCMAgentMetricsServicePort,
              sp_TargetPort = IntVal OCMAgentMetricsPort\<rparr>]\<rparr>\<rparr>)"

definition serviceConfigChanged :: "Service \<Rightarrow> Service \<Rightarrow> bool" where
  "serviceConfigChanged current expected =
     (let changed = False;
          changed = (if om_Labels (svc_Meta current) \<noteq> om_Labels (svc_Meta expected) then True else changed);
          changed = (if ss_Selector (svc_Spec current) \<noteq> ss_Selector (svc_Spec expected) then True else changed);
          changed = (if ss_Ports (svc_Spec current) \<noteq> ss_Ports (svc_Spec expected) then True else changed)
      in changed)"

text \<open>The body of the loop of \<open>ensureService\<close>. The variable \<open>foundResource\<close> is shared by the iterations, but
  each \<open>Get\<close> replaces it.\<close>
definition ensureOneService :: "'s ocmAgentHandler \<Rightarrow> OcmAgent \<Rightarrow> Service \<Rightarrow> ('s, unit) step" where
  "ensureOneService h ocmAgent svc =
     (let namespacedName = BuildNamespacedName (h_Env h) (om_Name (svc_Meta svc))
      in onResult (getAs (h_Client h) KService asService namespacedName)
           (\<lambda>err. if IsNotFound err
                  then andThen (setControllerReference h ocmAgent (svc_Meta svc))
                         (\<lambda>m. c_Create (h_Client h) (OService (svc\<lparr>svc_Meta := m\<rparr>)))
                  else fail err)
           (\<lambda>foundResource. if serviceConfigChanged foundResource svc
                  then c_Update (h_Client h) (OService (foundResource\<lparr>svc_Spec := svc_Spec svc\<rparr>))
                  else ok ()))"

definition ensureService :: "'s ocmAgentHandler \<Rightarrow> OcmAgent \<Rightarrow> ('s, unit) step" where
  "ensureService h ocmAgent =
     (let oaSvc = buildOCMAgentService (h_Env h) ocmAgent;
          oaMetricsSvc = buildOCMAgentMetricsService (h_Env h) ocmAgent
      in forEach [oaSvc, oaMetricsSvc] (ensureOneService h ocmAgent))"

text \<open>The loop of \<open>ensureServiceDeleted\<close>: a service that is not found ends the whole function.\<close>
fun serviceDeleteLoop :: "'s ocmAgentHandler \<Rightarrow> string list \<Rightarrow> ('s, unit) step" where
  "serviceDeleteLoop h [] = ok ()"
| "serviceDeleteLoop h (svcName # svcNames) =
     (let namespacedName = BuildNamespacedName (h_Env h) svcName
      in onResult (getAs (h_Client h) KService asService namespacedName)
           (\<lambda>err. if \<not> IsNotFound err then fail err else ok ())
           (\<lambda>foundResource. andThen (c_Delete (h_Client h) (OService foundResource))
              (\<lambda>_. serviceDeleteLoop h svcNames)))"

definition ensureServiceDeleted :: "'s ocmAgentHandler \<Rightarrow> OcmAgent \<Rightarrow> ('s, unit) step" where
  "ensureServiceDeleted h ocmAgent = serviceDeleteLoop h [oa_Name ocmAgent, oa_Name ocmAgent @ ''-metrics'']"

section \<open>Contracts\<close>

definition serviceRef :: "Env \<Rightarrow> OcmAgent \<Rightarrow> Ref" where
  "serviceRef env a = (KService, BuildNamespacedName env (oa_Name a))"

definition metricsRef :: "Env \<Rightarrow> OcmAgent \<Rightarrow> Ref" where
  "metricsRef env a = (KService, BuildNamespacedName env (oa_Name a @ ''-metrics''))"

text \<open>The stored service agrees with the expected one in what the operator manages.\<close>
definition serviceOk :: "Service \<Rightarrow> Cluster \<Rightarrow> bool" where
  "serviceOk svc cl \<longleftrightarrow> (\<exists>x. cl_Objects cl (objRef (OService svc)) = Some (OService x) \<and>
     om_Labels (svc_Meta x) = om_Labels (svc_Meta svc) \<and> svc_Spec x = svc_Spec svc)"

definition servicesOk :: "Env \<Rightarrow> OcmAgent \<Rightarrow> Cluster \<Rightarrow> bool" where
  "servicesOk env a cl \<longleftrightarrow> serviceOk (buildOCMAgentService env a) cl \<and> serviceOk (buildOCMAgentMetricsService env a) cl"

text \<open>A service that is there has the expected labels.\<close>
definition labelled :: "Service \<Rightarrow> Cluster \<Rightarrow> bool" where
  "labelled svc cl \<longleftrightarrow> (\<forall>x. cl_Objects cl (objRef (OService svc)) = Some (OService x) \<longrightarrow>
     om_Labels (svc_Meta x) = om_Labels (svc_Meta svc))"

definition servicesLabelled :: "Env \<Rightarrow> OcmAgent \<Rightarrow> Cluster \<Rightarrow> bool" where
  "servicesLabelled env a cl \<longleftrightarrow> labelled (buildOCMAgentService env a) cl \<and> labelled (buildOCMAgentMetricsService env a) cl"

lemma serviceConfigChanged_iff:
  "serviceConfigChanged x svc \<longleftrightarrow> \<not> (om_Labels (svc_Meta x) = om_Labels (svc_Meta svc) \<and> svc_Spec x = svc_Spec svc)"
  by (auto simp: serviceConfigChanged_def)

text \<open>A service the operator builds: fresh metadata for its name.\<close>
definition freshService :: "NamespacedName \<Rightarrow> string gomap \<Rightarrow> ServiceSpec \<Rightarrow> Service" where
  "freshService n labels spec = \<lparr>svc_Meta = newMeta n labels, svc_Spec = spec\<rparr>"

lemma freshService_simps [simp]:
  "svc_Meta (freshService n labels spec) = newMeta n labels" "svc_Spec (freshService n labels spec) = spec"
  "objRef (OService (freshService n labels spec)) = (KService, n)"
  by (simp_all add: freshService_def objRef_def)

interpretation service: managed_resource KService OService asService "\<lambda>x m. x\<lparr>svc_Meta := m\<rparr>"
    "freshService n labels spec" "\<lambda>x. \<not> serviceConfigChanged x (freshService n labels spec)"
    "\<lambda>x. x\<lparr>svc_Spec := spec\<rparr>" "\<lambda>x. om_Labels (svc_Meta x) = labels" True for n labels spec
  by unfold_locales (simp_all add: freshService_def serviceConfigChanged_iff newMeta_def)

lemma services_fresh:
  "\<exists>spec. buildOCMAgentService env a = freshService (BuildNamespacedName env (oa_Name a)) None spec"
  "\<exists>spec. buildOCMAgentMetricsService env a =
     freshService (BuildNamespacedName env (oa_Name a @ ''-metrics'')) (oneLabel ''app'' (oa_Name a)) spec"
  by (simp_all add: buildOCMAgentService_def buildOCMAgentMetricsService_def freshService_def Let_def)

lemma service_refs [simp]:
  "objRef (OService (buildOCMAgentService env a)) = serviceRef env a"
  "objRef (OService (buildOCMAgentMetricsService env a)) = metricsRef env a"
  using services_fresh[of env a] by (auto simp: serviceRef_def metricsRef_def)

lemma service_refs_distinct: "serviceRef env a \<noteq> metricsRef env a"
  by (simp add: serviceRef_def metricsRef_def)

lemma ensureOneService_scheme:
  assumes "n = BuildNamespacedName (h_Env h) name"
  shows "ensureOneService h a (freshService n labels spec) = ignore (ensureObject (h_Client h) KService OService asService n
     (prepareOwned h a OService (\<lambda>x m. x\<lparr>svc_Meta := m\<rparr>) (freshService n labels spec))
     (\<lambda>x. \<not> \<not> serviceConfigChanged x (freshService n labels spec)) (\<lambda>x. x\<lparr>svc_Spec := spec\<rparr>))"
  unfolding ensureObject_handler ensureOneService_def owned_simps Let_def metaOf.simps not_not freshService_simps
  by (simp add: assms)

lemma ensureOneService_ensures:
  assumes "platform h view" and "n = BuildNamespacedName (h_Env h) name" and "svc = freshService n labels spec"
  shows "ensures view (ensureOneService h a svc) {objRef (OService svc)} {} {} (labelled svc) (serviceOk svc)"
proof -
  have fit: "(\<lambda>cl. (\<forall>y. cl_Objects cl (KService, n) = Some (OService y) \<longrightarrow>
      \<not> \<not> serviceConfigChanged y svc \<longrightarrow> om_Labels (svc_Meta y) = labels) \<and> (cl_Objects cl (KService, n) = None \<longrightarrow> True)) = labelled svc"
    by (auto simp: fun_eq_iff labelled_def serviceConfigChanged_iff assms(3))
  have goal: "(\<lambda>cl. \<exists>y. cl_Objects cl (KService, n) = Some (OService y) \<and> \<not> serviceConfigChanged y svc) = serviceOk svc"
    by (auto simp: fun_eq_iff serviceOk_def serviceConfigChanged_iff assms(3))
  from service.owned_ensures[OF assms(1), of n labels spec a] show ?thesis
    unfolding assms(3)[symmetric] fit[symmetric] goal[symmetric]
    using ensureOneService_scheme[OF assms(2), of a labels spec] assms(2,3) by simp
qed

lemma ensureService_ensures:
  assumes "platform h view"
  shows "ensures view (ensureService h a) {serviceRef (h_Env h) a, metricsRef (h_Env h) a} {} {}
    (servicesLabelled (h_Env h) a) (servicesOk (h_Env h) a)"
proof -
  let ?x = "buildOCMAgentService (h_Env h) a" and ?y = "buildOCMAgentMetricsService (h_Env h) a"
  from services_fresh(1)[of "h_Env h" a] have 1: "ensures view (ensureOneService h a ?x) {serviceRef (h_Env h) a} {} {} (labelled ?x) (serviceOk ?x)"
    using ensureOneService_ensures[OF assms refl] service_refs(1)[of "h_Env h" a] by metis
  from services_fresh(2)[of "h_Env h" a] have 2: "ensures view (ensureOneService h a ?y) {metricsRef (h_Env h) a} {} {} (labelled ?y) (serviceOk ?y)"
    using ensureOneService_ensures[OF assms refl] service_refs(2)[of "h_Env h" a] by metis
  have "ensures view (andThen (ensureOneService h a ?x) (\<lambda>_. ensureOneService h a ?y))
     ({serviceRef (h_Env h) a} \<union> {metricsRef (h_Env h) a}) ({} \<union> {}) ({} \<union> {})
     (\<lambda>cl. labelled ?x cl \<and> labelled ?y cl) (\<lambda>cl. serviceOk ?x cl \<and> serviceOk ?y cl)"
    by (rule ensures_andThen[OF 1 2]) (use service_refs_distinct service_refs_distinct[symmetric] in auto)
  moreover have "ensureService h a = andThen (ensureOneService h a ?x) (\<lambda>_. ensureOneService h a ?y)"
    by (simp add: ensureService_def Let_def)
  ultimately show ?thesis
    by (simp add: servicesLabelled_def[abs_def] servicesOk_def[abs_def] insert_commute)
qed

lemma ensureService_up:
  assumes "platform_up h view" and "oa_Namespace a = operatorNamespace (h_Env h)"
  shows "succeeds (ensureService h a)"
proof -
  have "succeeds (ensureOneService h a svc)" if "svc = freshService (BuildNamespacedName (h_Env h) name) labels spec" for svc name labels spec
    using service.owned_up[OF assms(1), of "BuildNamespacedName (h_Env h) name" labels spec a] assms(2)
    by (simp add: that ensureOneService_scheme[OF refl])
  with services_fresh[of "h_Env h" a] show ?thesis
    unfolding ensureService_def Let_def by (intro succeeds_forEach) auto
qed

section \<open>Deletion\<close>

abbreviation deleteService :: "'s ocmAgentHandler \<Rightarrow> string \<Rightarrow> ('s, unit) step" where
  "deleteService h name \<equiv> deleteObject (h_Client h) KService OService asService (BuildNamespacedName (h_Env h) name)"

lemma serviceDeleteLoop_one: "serviceDeleteLoop h [name] = deleteService h name"
  by (simp add: deleteObject_handler)

lemma serviceDeleteLoop_missing:
  assumes "platform h view" and "cl_Objects (view s) (KService, BuildNamespacedName (h_Env h) name) = None"
    and "serviceDeleteLoop h (name # names) s = (q, s')"
  shows "view s' = view s"
  using assms(3) unfolding serviceDeleteLoop.simps Let_def
proof (cases rule: onResult_cases)
  case (err e s1)
  with svc.getAs_view[OF platform_api[OF assms(1)] err(1)] show ?thesis by (auto split: if_splits)
next
  case (val x s1)
  with svc.getAs_Inr[OF platform_api[OF assms(1)] val(1)] assms(2) show ?thesis by simp
qed

lemma serviceDeleteLoop_found:
  assumes "platform h view" and "cl_Objects (view s) (KService, BuildNamespacedName (h_Env h) name) = Some x"
  shows "serviceDeleteLoop h (name # names) s = andThen (deleteService h name) (\<lambda>_. serviceDeleteLoop h names) s"
proof -
  obtain q s1 where g: "getAs (h_Client h) KService asService (BuildNamespacedName (h_Env h) name) s = (q, s1)" by fastforce
  from platform_api[OF assms(1)] g show ?thesis
    by (cases rule: svc.getAs_cases) (use g assms(2) in \<open>simp_all add: deleteObject_def onResult_def andThen_def\<close>)
qed

lemma ensureServiceDeleted_ensures:
  assumes "platform h view"
  shows "ensures view (ensureServiceDeleted h a) {serviceRef (h_Env h) a, metricsRef (h_Env h) a} {} {}
    (\<lambda>cl. noFinalizers (serviceRef (h_Env h) a) cl \<and> noFinalizers (metricsRef (h_Env h) a) cl \<and>
      (absent (serviceRef (h_Env h) a) cl \<longrightarrow> absent (metricsRef (h_Env h) a) cl))
    (\<lambda>cl. absent (serviceRef (h_Env h) a) cl \<and> absent (metricsRef (h_Env h) a) cl)"
proof -
  let ?r = "serviceRef (h_Env h) a" and ?r' = "metricsRef (h_Env h) a"
  let ?n = "andThen (deleteService h (oa_Name a)) (\<lambda>_. deleteService h (oa_Name a @ ''-metrics''))"
  have n: "ensures view ?n ({?r} \<union> {?r'}) ({} \<union> {}) ({} \<union> {}) (\<lambda>cl. noFinalizers ?r cl \<and> noFinalizers ?r' cl) (\<lambda>cl. absent ?r cl \<and> absent ?r' cl)"
    unfolding serviceRef_def metricsRef_def
    by (rule ensures_andThen[OF svc.delete_ensures[OF platform_api[OF assms]] svc.delete_ensures[OF platform_api[OF assms]]]) simp_all
  have cases: "absent ?r (view s) \<and> view s' = view s \<or> \<not> absent ?r (view s) \<and> ?n s = (q, s')"
    if "ensureServiceDeleted h a s = (q, s')" for s q s'
  proof (cases "cl_Objects (view s) ?r")
    case None
    with that serviceDeleteLoop_missing[OF assms] show ?thesis by (simp add: ensureServiceDeleted_def serviceRef_def absent_def del: serviceDeleteLoop.simps)
  next
    case (Some x)
    with that serviceDeleteLoop_found[OF assms, of s "oa_Name a" x "[oa_Name a @ ''-metrics'']"] show ?thesis
      by (simp add: ensureServiceDeleted_def serviceRef_def absent_def serviceDeleteLoop_one del: serviceDeleteLoop.simps)
  qed
  show ?thesis
  proof (rule ensuresI)
    fix s q s' assume run: "ensureServiceDeleted h a s = (q, s')"
    show "touches {?r, ?r'} {} (view s) (view s')"
      using cases[OF run] ensures_touches[OF n, of s q s'] by (auto simp: insert_commute)
    show "touches {} {} (view s) (view s')" if "absent ?r (view s) \<and> absent ?r' (view s)"
      using cases[OF run] that by auto
  next
    fix s s' assume run: "ensureServiceDeleted h a s = (Inr (), s')"
      and "noFinalizers ?r (view s) \<and> noFinalizers ?r' (view s) \<and> (absent ?r (view s) \<longrightarrow> absent ?r' (view s))"
    then show "absent ?r (view s') \<and> absent ?r' (view s')" using cases[OF run] ensures_goal[OF n, of s s'] by auto
  qed (simp_all add: noFinalizers_def absent_def)
qed

section \<open>Properties\<close>

text \<open>When the webhook service is gone already, deleting the services stops there: it reports success and leaves
  the metrics service on the cluster.\<close>
theorem metrics_service_survives:
  assumes "platform h view" and "cl_Objects (view s) (serviceRef (h_Env h) a) = None"
    and "cl_Objects (view s) (metricsRef (h_Env h) a) = Some x"
    and "ensureServiceDeleted h a s = (q, s')"
  shows "cl_Objects (view s') (metricsRef (h_Env h) a) = Some x \<and> cl_Log (view s') = cl_Log (view s)"
  using serviceDeleteLoop_missing[OF assms(1) _ assms(4)[unfolded ensureServiceDeleted_def]] assms(2,3)
  by (simp add: serviceRef_def)

theorem metrics_service_survives_witness:
  "\<exists>q s'. ensureServiceDeleted memHandler sampleAgent (storeAll [OService (buildOCMAgentMetricsService (h_Env memHandler) sampleAgent)]) = (q, s') \<and>
     cl_Objects (memView s') (metricsRef (h_Env memHandler) sampleAgent) =
       Some (OService (buildOCMAgentMetricsService (h_Env memHandler) sampleAgent)) \<and> cl_Log (memView s') = []"
proof -
  let ?x = "OService (buildOCMAgentMetricsService (h_Env memHandler) sampleAgent)"
  let ?s = "storeAll [?x]"
  obtain q s' where run: "ensureServiceDeleted memHandler sampleAgent ?s = (q, s')" by fastforce
  have v: "memView ?s = ?s" by (rule memView_storeAll) (simp add: persisted_def buildOCMAgentMetricsService_def newMeta_def Let_def)
  have "cl_Objects (memView ?s) (serviceRef (h_Env memHandler) sampleAgent) = None"
    "cl_Objects (memView ?s) (metricsRef (h_Env memHandler) sampleAgent) = Some ?x"
    unfolding v using service_refs_distinct by (simp_all add: storeAll_def)
  from metrics_service_survives[OF memHandler_platform this run] run show ?thesis unfolding v by (auto simp: storeAll_def)
qed

text \<open>Drift of labels is detected but not repaired: while the labels of the stored webhook service differ from
  the expected ones (none), every successful run writes to it again and leaves the labels as they are.\<close>
theorem service_label_drift:
  assumes "platform h view"
    and "cl_Objects (view s) (serviceRef (h_Env h) a) = Some (OService x)" and "om_Labels (svc_Meta x) \<noteq> None"
    and "ensureService h a s = (Inr (), s')"
  shows "(\<exists>y. cl_Objects (view s') (serviceRef (h_Env h) a) = Some (OService y) \<and> om_Labels (svc_Meta y) = om_Labels (svc_Meta x)) \<and>
    (Update, serviceRef (h_Env h) a) \<in> set (drop (length (cl_Log (view s))) (cl_Log (view s')))"
proof -
  let ?svc = "buildOCMAgentService (h_Env h) a"
  from services_fresh(1)[of "h_Env h" a] obtain spec where
    svc: "?svc = freshService (BuildNamespacedName (h_Env h) (oa_Name a)) None spec" by blast
  let ?y = "buildOCMAgentMetricsService (h_Env h) a"
  from assms(4) obtain s1 where s1: "ensureOneService h a ?svc s = (Inr (), s1)" "ensureOneService h a ?y s1 = (Inr (), s')"
    by (auto simp: ensureService_def Let_def go_simps)
  from services_fresh(2)[of "h_Env h" a] have y: "ensures view (ensureOneService h a ?y) {metricsRef (h_Env h) a} {} {} (labelled ?y) (serviceOk ?y)"
    using ensureOneService_ensures[OF assms(1) refl] service_refs(2)[of "h_Env h" a] by metis
  from s1(1) obtain b where run: "ensureObject (h_Client h) KService OService asService (BuildNamespacedName (h_Env h) (oa_Name a))
      (prepareOwned h a OService (\<lambda>x m. x\<lparr>svc_Meta := m\<rparr>) ?svc) (\<lambda>x. \<not> \<not> serviceConfigChanged x ?svc) (\<lambda>x. x\<lparr>svc_Spec := spec\<rparr>) s = (Inr b, s1)"
    unfolding svc ensureOneService_scheme[OF refl] by (auto simp: go_simps)
  have "\<exists>z. om_Labels (svc_Meta z) = om_Labels (svc_Meta x) \<and> view s1 = cl_write Update (serviceRef (h_Env h) a) (Some (OService z)) (view s)"
  proof (rule service.owned_cases[OF assms(1), of "BuildNamespacedName (h_Env h) (oa_Name a)" None spec a s "Inr b" s1])
    fix y z assume "cl_Objects (view s) (objRef (OService (freshService (BuildNamespacedName (h_Env h) (oa_Name a)) None spec))) = Some (OService y)"
      "sameButServer (OService (y\<lparr>svc_Spec := spec\<rparr>)) (OService z)"
      "view s1 = cl_write Update (objRef (OService (freshService (BuildNamespacedName (h_Env h) (oa_Name a)) None spec))) (Some (OService z)) (view s)"
    with assms(2) show ?thesis by (intro exI[of _ z]) (auto simp: sameButServer_def serviceRef_def)
  qed (use run assms(2,3) svc in \<open>auto simp: serviceRef_def serviceConfigChanged_iff\<close>)
  then obtain z where z: "om_Labels (svc_Meta z) = om_Labels (svc_Meta x)"
    "view s1 = cl_write Update (serviceRef (h_Env h) a) (Some (OService z)) (view s)" by blast
  from ensures_touches[OF y s1(2)] have t: "touches {metricsRef (h_Env h) a} {} (view s1) (view s')" .
  from touches_objects[OF t, of "serviceRef (h_Env h) a"] z(2) service_refs_distinct[of "h_Env h" a]
  have "cl_Objects (view s') (serviceRef (h_Env h) a) = Some (OService z)" by simp
  moreover from t z(2) obtain ws where "cl_Log (view s') = (cl_Log (view s) @ [(Update, serviceRef (h_Env h) a)]) @ ws"
    unfolding touches_def by auto
  ultimately show ?thesis using z(1) by simp
qed

theorem service_label_drift_witness:
  "\<exists>x s'. om_Labels (svc_Meta x) = oneLabel ''team'' ''sre'' \<and> ensureService memHandler sampleAgent (storeAll [OService x]) = (Inr (), s') \<and>
     (\<exists>y. cl_Objects (memView s') (serviceRef (h_Env memHandler) sampleAgent) = Some (OService y) \<and> om_Labels (svc_Meta y) = oneLabel ''team'' ''sre'')"
proof -
  let ?svc = "buildOCMAgentService (h_Env memHandler) sampleAgent"
  let ?x = "?svc\<lparr>svc_Meta := (svc_Meta ?svc)\<lparr>om_Labels := oneLabel ''team'' ''sre''\<rparr>\<rparr>"
  let ?s = "storeAll [OService ?x]"
  obtain s' where run: "ensureService memHandler sampleAgent ?s = (Inr (), s')"
    using ensureService_up[OF memHandler_up, of sampleAgent] by (auto simp: succeeds_def)
  have v: "memView ?s = ?s" by (rule memView_storeAll) (simp add: persisted_def buildOCMAgentService_def newMeta_def Let_def)
  have "objRef (OService ?x) = serviceRef (h_Env memHandler) sampleAgent"
    using service_refs(1)[of "h_Env memHandler" sampleAgent] by (simp add: objRef_def metaKey_def)
  then have "cl_Objects (memView ?s) (serviceRef (h_Env memHandler) sampleAgent) = Some (OService ?x)"
    unfolding v by (simp add: storeAll_def)
  from service_label_drift[OF memHandler_platform this _ run] have
    "\<exists>y. cl_Objects (memView s') (serviceRef (h_Env memHandler) sampleAgent) = Some (OService y) \<and> om_Labels (svc_Meta y) = oneLabel ''team'' ''sre''"
    by (simp add: oneLabel_def)
  with run show ?thesis by (intro exI[of _ ?x] exI[of _ s']) simp
qed

end
