(* ===== verification/ConfigMaps.thy ===== *)
theory ConfigMaps
  imports Contracts
begin

text \<open>
  The config maps of the agent (\<^verbatim>\<open>pkg/ocmagenthandler/ocmagenthandler_configmap.go\<close>): its configuration,
  the service URL for the configure-alertmanager-operator (CAMO), and the trusted CA bundle, which
  the cluster network operator fills in.
\<close>

section \<open>Model\<close>

definition buildOCMAgentConfigMap :: "Env \<Rightarrow> OcmAgent \<Rightarrow> string \<Rightarrow> ConfigMap" where
  "buildOCMAgentConfigMap env ocmAgent clusterId =
     (let namespacedName = BuildNamespacedName env (oa_Name ocmAgent @ ConfigMapSuffix);
          CMData = fmupd OCMAgentConfigURLKey (ac_OcmBaseUrl (oas_AgentConfig (oa_Spec ocmAgent)))
                  (fmupd OCMAgentConfigServicesKey (strings_Join (ac_Services (oas_AgentConfig (oa_Spec ocmAgent))) '','') fmempty);
          CMData = (if clusterId \<noteq> [] then fmupd OCMAgentConfigClusterID clusterId CMData else CMData)
      in \<lparr>cm_Meta = newMeta namespacedName None, cm_Data = Some CMData\<rparr>)"

definition buildTrustedCaConfigMap :: "Env \<Rightarrow> ConfigMap" where
  "buildTrustedCaConfigMap env =
     (let namespacedName = BuildNamespacedName env TrustedCaBundleConfigMapName;
          labels = oneLabel InjectCaBundleIndicator ''true''
      in \<lparr>cm_Meta = newMeta namespacedName labels, cm_Data = None\<rparr>)"

definition buildCAMOConfigMap :: "(string \<Rightarrow> bool) \<Rightarrow> OcmAgent \<Rightarrow> error + ConfigMap" where
  "buildCAMOConfigMap ipLiteral ocmAgent =
     (case BuildServiceURL ipLiteral (oa_Name ocmAgent) (oa_Namespace ocmAgent) of
        Inl err \<Rightarrow> Inl err
      | Inr oaServiceURL \<Rightarrow> Inr \<lparr>cm_Meta = newMeta CAMOConfigMapNamespacedName None,
          cm_Data = oneLabel OCMAgentServiceURLKey oaServiceURL\<rparr>)"

definition fetchClusterVersion :: "'s ocmAgentHandler \<Rightarrow> ('s, ClusterVersion) step" where
  "fetchClusterVersion h = getAs (h_Client h) KClusterVersion asClusterVersion \<lparr>nn_Namespace = [], nn_Name = ''version''\<rparr>"

definition ensureConfigMap :: "'s ocmAgentHandler \<Rightarrow> OcmAgent \<Rightarrow> ConfigMap \<Rightarrow> bool \<Rightarrow> ('s, unit) step" where
  "ensureConfigMap h ocmAgent cm manager =
     (let namespacedName = \<lparr>nn_Namespace = om_Namespace (cm_Meta cm), nn_Name = om_Name (cm_Meta cm)\<rparr>
      in onResult (getAs (h_Client h) KConfigMap asConfigMap namespacedName)
           (\<lambda>err. if IsNotFound err
                  then andThen (if manager then setControllerReference h ocmAgent (cm_Meta cm) else ok (cm_Meta cm))
                         (\<lambda>m. c_Create (h_Client h) (OConfigMap (cm\<lparr>cm_Meta := m\<rparr>)))
                  else fail err)
           (\<lambda>foundResource.
              if om_Name (cm_Meta cm) \<noteq> TrustedCaBundleConfigMapName
              then if cm_Data foundResource \<noteq> cm_Data cm
                   then c_Update (h_Client h) (OConfigMap (foundResource\<lparr>cm_Data := cm_Data cm\<rparr>))
                   else ok ()
              else ok ()))"

definition ensureAllConfigMaps :: "'s ocmAgentHandler \<Rightarrow> OcmAgent \<Rightarrow> ('s, unit) step" where
  "ensureAllConfigMaps h ocmAgent =
     andThen (fetchClusterVersion h) (\<lambda>cv.
       let clusterID = cv_ClusterID cv;
           oaCM = (if oa_FleetMode ocmAgent then buildOCMAgentConfigMap (h_Env h) ocmAgent []
                   else buildOCMAgentConfigMap (h_Env h) ocmAgent clusterID)
       in andThen (ensureConfigMap h ocmAgent oaCM True) (\<lambda>_.
          andThen (if \<not> oa_FleetMode ocmAgent
                   then (case buildCAMOConfigMap (h_ipLiteral h) ocmAgent of
                           Inl err \<Rightarrow> fail err
                         | Inr camoCM \<Rightarrow> ensureConfigMap h ocmAgent camoCM False)
                   else ok ()) (\<lambda>_.
          ensureConfigMap h ocmAgent (buildTrustedCaConfigMap (h_Env h)) True)))"

definition ensureConfigMapDeleted :: "'s ocmAgentHandler \<Rightarrow> NamespacedName \<Rightarrow> ('s, unit) step" where
  "ensureConfigMapDeleted h n =
     onResult (getAs (h_Client h) KConfigMap asConfigMap n)
       (\<lambda>err. if \<not> IsNotFound err then fail err else ok ())
       (\<lambda>foundResource. c_Delete (h_Client h) (OConfigMap foundResource))"

definition ensureAllConfigMapsDeleted :: "'s ocmAgentHandler \<Rightarrow> OcmAgent \<Rightarrow> ('s, unit) step" where
  "ensureAllConfigMapsDeleted h ocmAgent =
     (let cmsToDelete = [BuildNamespacedName (h_Env h) (oa_Name ocmAgent), CAMOConfigMapNamespacedName]
      in forEach cmsToDelete (ensureConfigMapDeleted h))"

section \<open>Specification\<close>

definition configRef :: "Env \<Rightarrow> OcmAgent \<Rightarrow> Ref" where
  "configRef env a = (KConfigMap, BuildNamespacedName env (oa_Name a @ ConfigMapSuffix))"

definition camoRef :: Ref where
  "camoRef = (KConfigMap, CAMOConfigMapNamespacedName)"

definition trustRef :: "Env \<Rightarrow> Ref" where
  "trustRef env = (KConfigMap, BuildNamespacedName env TrustedCaBundleConfigMapName)"

definition versionRef :: Ref where
  "versionRef = (KClusterVersion, \<lparr>nn_Namespace = [], nn_Name = ''version''\<rparr>)"

definition cmDataAt :: "Ref \<Rightarrow> string gomap \<Rightarrow> Cluster \<Rightarrow> bool" where
  "cmDataAt r d cl \<longleftrightarrow> (\<exists>x. cl_Objects cl r = Some (OConfigMap x) \<and> cm_Data x = d)"

text \<open>The cluster ID that the agent gets: none in fleet mode.\<close>
definition agentClusterID :: "OcmAgent \<Rightarrow> Cluster \<Rightarrow> string option" where
  "agentClusterID a cl = (case cl_Objects cl versionRef of
     Some (OClusterVersion cv) \<Rightarrow> Some (if oa_FleetMode a then [] else cv_ClusterID cv) | _ \<Rightarrow> None)"

text \<open>All config maps are in place: the configuration, outside fleet mode the service URL, and a config map for the
  CA bundle, whatever it holds.\<close>
definition configMapsOk :: "'s ocmAgentHandler \<Rightarrow> OcmAgent \<Rightarrow> Cluster \<Rightarrow> bool" where
  "configMapsOk h a cl \<longleftrightarrow>
     (\<exists>cid. agentClusterID a cl = Some cid \<and>
        cmDataAt (configRef (h_Env h) a) (cm_Data (buildOCMAgentConfigMap (h_Env h) a cid)) cl) \<and>
     (\<not> oa_FleetMode a \<longrightarrow> (\<exists>url. BuildServiceURL (h_ipLiteral h) (oa_Name a) (oa_Namespace a) = Inr url \<and>
        cmDataAt camoRef (oneLabel OCMAgentServiceURLKey url) cl)) \<and>
     (\<exists>x. cl_Objects cl (trustRef (h_Env h)) = Some (OConfigMap x))"

definition configMapRefs :: "Env \<Rightarrow> OcmAgent \<Rightarrow> Ref set" where
  "configMapRefs env a = {configRef env a, trustRef env} \<union> (if oa_FleetMode a then {} else {camoRef})"

section \<open>Contracts\<close>

text \<open>The check of \<open>ensureConfigMap\<close>; the config map of the CA bundle is never checked.\<close>
definition cmMatches :: "ConfigMap \<Rightarrow> ConfigMap \<Rightarrow> bool" where
  "cmMatches cm found \<longleftrightarrow> om_Name (cm_Meta cm) = TrustedCaBundleConfigMapName \<or> cm_Data found = cm_Data cm"

text \<open>The parameters of a config map, with fresh metadata made for its name.\<close>
definition freshCM :: "NamespacedName \<Rightarrow> string gomap \<Rightarrow> string gomap \<Rightarrow> ConfigMap" where
  "freshCM n labels d = \<lparr>cm_Meta = newMeta n labels, cm_Data = d\<rparr>"

interpretation config: managed_resource KConfigMap OConfigMap asConfigMap "\<lambda>x m. x\<lparr>cm_Meta := m\<rparr>"
    "freshCM n labels d" "cmMatches (freshCM n labels d)" "\<lambda>x. x\<lparr>cm_Data := d\<rparr>" "\<lambda>_. True" True for n labels d
  by unfold_locales (simp_all add: freshCM_def cmMatches_def newMeta_def)

lemma freshCM_simps [simp]:
  "cm_Meta (freshCM n labels d) = newMeta n labels" "cm_Data (freshCM n labels d) = d"
  "objRef (OConfigMap (freshCM n labels d)) = (KConfigMap, n)"
  by (simp_all add: freshCM_def objRef_def)

lemma ensureConfigMap_scheme:
  "ensureConfigMap h a (freshCM n labels d) manager = ignore (ensureObject (h_Client h) KConfigMap OConfigMap asConfigMap n
     (if manager then prepareOwned h a OConfigMap (\<lambda>x m. x\<lparr>cm_Meta := m\<rparr>) (freshCM n labels d) else Inr (freshCM n labels d))
     (\<lambda>x. \<not> cmMatches (freshCM n labels d) x) (\<lambda>x. x\<lparr>cm_Data := d\<rparr>))"
proof -
  have k: "\<lparr>nn_Namespace = om_Namespace (cm_Meta (freshCM n labels d)), nn_Name = om_Name (cm_Meta (freshCM n labels d))\<rparr> = n"
    by simp
  have self: "(freshCM n labels d)\<lparr>cm_Meta := newMeta n labels\<rparr> = freshCM n labels d" by (simp add: freshCM_def)
  have chk: "(if om_Name (cm_Meta (freshCM n labels d)) \<noteq> TrustedCaBundleConfigMapName
      then if cm_Data x \<noteq> cm_Data (freshCM n labels d) then u else ok () else ok ()) =
      (if \<not> cmMatches (freshCM n labels d) x then u else ok ())" for x u
    by (simp add: cmMatches_def)
  show ?thesis
    unfolding ensureObject_handler ensureConfigMap_def Let_def k chk
    by (rule arg_cong2[where f = "onResult _"]) (simp_all add: fun_eq_iff owned_simps self)
qed

lemma ensureConfigMap_ensures:
  assumes "platform h view"
  shows "ensures view (ensureConfigMap h a (freshCM n labels d) manager) {(KConfigMap, n)} {} {} (\<lambda>_. True)
    (\<lambda>cl. \<exists>x. cl_Objects cl (KConfigMap, n) = Some (OConfigMap x) \<and> cmMatches (freshCM n labels d) x)"
proof -
  let ?prep = "if manager then prepareOwned h a OConfigMap (\<lambda>x m. x\<lparr>cm_Meta := m\<rparr>) (freshCM n labels d) else Inr (freshCM n labels d)"
  have "\<exists>refs. x = (freshCM n labels d)\<lparr>cm_Meta := (metaOf (OConfigMap (freshCM n labels d)))\<lparr>om_OwnerReferences := refs\<rparr>\<rparr>"
    if "?prep = Inr x" for x
    using that config.owned_prepared[OF assms, of a n labels d x]
    by (cases manager) (auto simp: freshCM_def newMeta_def intro: exI[of _ "[]"])
  from config.resource_ensures[OF platform_api[OF assms] this] show ?thesis
    by (simp add: ensureConfigMap_scheme)
qed

lemma last_neq: "c \<noteq> d \<Longrightarrow> xs @ [c] \<noteq> ys @ [d]"
  by simp

lemma config_refs_distinct:
  "configRef env a \<noteq> trustRef env" "configRef env a \<noteq> camoRef" "camoRef \<noteq> trustRef env"
  using last_neq[of "CHR ''m''" "CHR ''e''" "oa_Name a @ ''-c''" "''trusted-ca-bundl''"]
    last_neq[of "CHR ''m''" "CHR ''t''" "oa_Name a @ ''-c''" "''ocm-agen''"]
  by (auto simp: configRef_def trustRef_def camoRef_def BuildNamespacedName_eq ConfigMapSuffix_def
      TrustedCaBundleConfigMapName_def CAMOConfigMapNamespacedName_def)

lemma agent_name_plain: "oa_Name a @ ConfigMapSuffix \<noteq> TrustedCaBundleConfigMapName"
  using last_neq[of "CHR ''m''" "CHR ''e''" "oa_Name a @ ''-c''" "''trusted-ca-bundl''"]
  by (simp add: ConfigMapSuffix_def TrustedCaBundleConfigMapName_def)

lemma configmaps_fresh:
  "buildOCMAgentConfigMap env a cid = freshCM (BuildNamespacedName env (oa_Name a @ ConfigMapSuffix)) None
     (cm_Data (buildOCMAgentConfigMap env a cid))"
  "buildTrustedCaConfigMap env = freshCM (BuildNamespacedName env TrustedCaBundleConfigMapName) (oneLabel InjectCaBundleIndicator ''true'') None"
  "buildCAMOConfigMap ip a = (case BuildServiceURL ip (oa_Name a) (oa_Namespace a) of Inl err \<Rightarrow> Inl err
     | Inr url \<Rightarrow> Inr (freshCM CAMOConfigMapNamespacedName None (oneLabel OCMAgentServiceURLKey url)))"
  by (simp_all add: buildOCMAgentConfigMap_def buildTrustedCaConfigMap_def buildCAMOConfigMap_def freshCM_def Let_def split: sum.split)

lemma ensureAgentConfigMap_ensures:
  assumes "platform h view"
  shows "ensures view (ensureConfigMap h a (buildOCMAgentConfigMap (h_Env h) a cid) True) {configRef (h_Env h) a} {} {} (\<lambda>_. True)
    (cmDataAt (configRef (h_Env h) a) (cm_Data (buildOCMAgentConfigMap (h_Env h) a cid)))"
proof -
  obtain d where d: "buildOCMAgentConfigMap (h_Env h) a cid = freshCM (BuildNamespacedName (h_Env h) (oa_Name a @ ConfigMapSuffix)) None d"
    using configmaps_fresh(1) by blast
  from ensureConfigMap_ensures[OF assms, of a "BuildNamespacedName (h_Env h) (oa_Name a @ ConfigMapSuffix)" None d True]
  show ?thesis by (simp add: d cmMatches_def configRef_def cmDataAt_def[abs_def] agent_name_plain)
qed

lemma ensureCAMOConfigMap_ensures:
  assumes "platform h view"
  shows "ensures view (ensureConfigMap h a (freshCM CAMOConfigMapNamespacedName None (oneLabel OCMAgentServiceURLKey url)) False)
    {camoRef} {} {} (\<lambda>_. True) (cmDataAt camoRef (oneLabel OCMAgentServiceURLKey url))"
  using ensureConfigMap_ensures[OF assms, of a CAMOConfigMapNamespacedName None "oneLabel OCMAgentServiceURLKey url" False]
  by (simp add: cmMatches_def camoRef_def cmDataAt_def[abs_def] CAMOConfigMapNamespacedName_def TrustedCaBundleConfigMapName_def)

lemma ensureTrustedCaConfigMap_ensures:
  assumes "platform h view"
  shows "ensures view (ensureConfigMap h a (buildTrustedCaConfigMap (h_Env h)) True) {trustRef (h_Env h)} {} {} (\<lambda>_. True)
    (\<lambda>cl. \<exists>x. cl_Objects cl (trustRef (h_Env h)) = Some (OConfigMap x))"
  using ensureConfigMap_ensures[OF assms, of a "BuildNamespacedName (h_Env h) TrustedCaBundleConfigMapName"
      "oneLabel InjectCaBundleIndicator ''true''" None True]
  by (simp add: cmMatches_def trustRef_def configmaps_fresh(2))

lemma ensureAllConfigMaps_ensures:
  assumes "platform h view"
  shows "ensures view (ensureAllConfigMaps h a) (configMapRefs (h_Env h) a) {} {versionRef} (\<lambda>_. True) (configMapsOk h a)"
proof -
  let ?env = "h_Env h"
  let ?camo = "if \<not> oa_FleetMode a then (case buildCAMOConfigMap (h_ipLiteral h) a of
      Inl err \<Rightarrow> fail err | Inr camoCM \<Rightarrow> ensureConfigMap h a camoCM False) else ok ()"
  let ?url = "BuildServiceURL (h_ipLiteral h) (oa_Name a) (oa_Namespace a)"
  let ?camoGoal = "\<lambda>cl. \<not> oa_FleetMode a \<longrightarrow> (\<exists>url. ?url = Inr url \<and> cmDataAt camoRef (oneLabel OCMAgentServiceURLKey url) cl)"
  have camo: "ensures view ?camo (if oa_FleetMode a then {} else {camoRef}) {} {} (\<lambda>_. True) ?camoGoal"
  proof (cases ?url)
    case (Inl err)
    have "ensures view (fail err) {camoRef} {} {} (\<lambda>_. True) (\<lambda>_. False)"
      using ensures_fail[of view err] by (auto simp: ensures_def intro: touches_mono)
    with Inl ensures_ok[of view] show ?thesis by (simp add: configmaps_fresh(3))
  next
    case (Inr url)
    with ensureCAMOConfigMap_ensures[OF assms, of a url] ensures_ok[of view] show ?thesis by (simp add: configmaps_fresh(3))
  qed
  let ?cid = "\<lambda>cv. if oa_FleetMode a then [] else cv_ClusterID cv"
  let ?body = "\<lambda>cv. andThen (ensureConfigMap h a (buildOCMAgentConfigMap ?env a (?cid cv)) True)
      (\<lambda>_. andThen ?camo (\<lambda>_. ensureConfigMap h a (buildTrustedCaConfigMap ?env) True))"
  have body: "ensures view (?body cv) (configMapRefs ?env a) {} {} (\<lambda>_. True)
      (\<lambda>cl. cmDataAt (configRef ?env a) (cm_Data (buildOCMAgentConfigMap ?env a (?cid cv))) cl \<and> ?camoGoal cl \<and>
        (\<exists>x. cl_Objects cl (trustRef ?env) = Some (OConfigMap x)))" for cv
  proof -
    have 1: "ensures view (andThen ?camo (\<lambda>_. ensureConfigMap h a (buildTrustedCaConfigMap ?env) True))
        ((if oa_FleetMode a then {} else {camoRef}) \<union> {trustRef ?env}) ({} \<union> {}) ({} \<union> {}) (\<lambda>cl. True \<and> True)
        (\<lambda>cl. ?camoGoal cl \<and> (\<exists>x. cl_Objects cl (trustRef ?env) = Some (OConfigMap x)))"
      by (rule ensures_andThen[OF camo ensureTrustedCaConfigMap_ensures[OF assms]]) (use config_refs_distinct[symmetric] config_refs_distinct in auto)
    have "ensures view (?body cv) ({configRef ?env a} \<union> ((if oa_FleetMode a then {} else {camoRef}) \<union> {trustRef ?env}))
        ({} \<union> ({} \<union> {})) ({} \<union> ({} \<union> {})) (\<lambda>cl. True \<and> True \<and> True)
        (\<lambda>cl. cmDataAt (configRef ?env a) (cm_Data (buildOCMAgentConfigMap ?env a (?cid cv))) cl \<and> ?camoGoal cl \<and>
          (\<exists>x. cl_Objects cl (trustRef ?env) = Some (OConfigMap x)))"
      by (rule ensures_andThen[OF ensureAgentConfigMap_ensures[OF assms] 1]) (use config_refs_distinct[symmetric] config_refs_distinct in auto)
    then show ?thesis by (simp add: configMapRefs_def Un_commute insert_commute)
  qed
  have "ensures view (andThen (fetchClusterVersion h) ?body) (configMapRefs ?env a) {} {versionRef}
     (\<lambda>cl. \<forall>y. cl_Objects cl versionRef = Some (OClusterVersion y) \<longrightarrow> True)
     (\<lambda>cl. \<exists>y. cl_Objects cl versionRef = Some (OClusterVersion y) \<and>
       cmDataAt (configRef ?env a) (cm_Data (buildOCMAgentConfigMap ?env a (?cid y))) cl \<and> ?camoGoal cl \<and>
        (\<exists>x. cl_Objects cl (trustRef ?env) = Some (OConfigMap x)))"
    unfolding fetchClusterVersion_def versionRef_def
    by (rule cv.ensures_read[OF platform_api[OF assms] body]) (simp add: configMapRefs_def configRef_def trustRef_def camoRef_def)
  moreover have "ensureAllConfigMaps h a = andThen (fetchClusterVersion h) ?body"
    unfolding ensureAllConfigMaps_def Let_def by (rule arg_cong[where f = "andThen _"]) (simp add: fun_eq_iff)
  moreover have "configMapsOk h a = (\<lambda>cl. \<exists>y. cl_Objects cl versionRef = Some (OClusterVersion y) \<and>
       cmDataAt (configRef ?env a) (cm_Data (buildOCMAgentConfigMap ?env a (?cid y))) cl \<and> ?camoGoal cl \<and>
        (\<exists>x. cl_Objects cl (trustRef ?env) = Some (OConfigMap x)))"
    by (auto simp: configMapsOk_def agentClusterID_def fun_eq_iff split: option.splits Object.splits)
  ultimately show ?thesis by simp
qed

lemma ensureConfigMap_up:
  assumes up: "platform_up h view" and "manager \<Longrightarrow> nn_Namespace n = oa_Namespace a"
  shows "succeeds (ensureConfigMap h a (freshCM n labels d) manager)"
proof (cases manager)
  case True
  with config.owned_up[OF up, of n labels d a] assms(2) show ?thesis by (simp add: ensureConfigMap_scheme)
next
  case False
  from up have api: "api_up (h_Client h) view" by (simp add: platform_up_def)
  have self: "freshCM n labels d = (freshCM n labels d)\<lparr>cm_Meta := (metaOf (OConfigMap (freshCM n labels d)))\<lparr>om_OwnerReferences := []\<rparr>\<rparr>"
    by (simp add: freshCM_def newMeta_def)
  from config.ensure_up[OF api refl self]
  have "\<exists>b s'. ensureObject (h_Client h) KConfigMap OConfigMap asConfigMap n (Inr (freshCM n labels d))
      (\<lambda>x. \<not> cmMatches (freshCM n labels d) x) (\<lambda>x. x\<lparr>cm_Data := d\<rparr>) s = (Inr b, s')" for s by simp
  with False show ?thesis by (simp add: ensureConfigMap_scheme succeeds_ignore)
qed

lemma ensureAllConfigMaps_up:
  assumes up: "platform_up h view" and ns: "oa_Namespace a = operatorNamespace (h_Env h)"
    and cv: "cl_Objects (view s) versionRef = Some (OClusterVersion cv)"
    and url: "oa_FleetMode a \<or> BuildServiceURL (h_ipLiteral h) (oa_Name a) (oa_Namespace a) = Inr url"
  shows "\<exists>s'. ensureAllConfigMaps h a s = (Inr (), s')"
proof -
  from up have "api_up (h_Client h) view" by (simp add: platform_up_def)
  then obtain s1 where s1: "fetchClusterVersion h s = (Inr cv, s1)"
    unfolding fetchClusterVersion_def
    by (rule cv.getAs_up[where key = "\<lparr>nn_Namespace = [], nn_Name = ''version''\<rparr>" and s = s]) (use cv in \<open>auto simp: versionRef_def\<close>)
  have "succeeds (ensureConfigMap h a (buildOCMAgentConfigMap (h_Env h) a cid) True)" for cid
  proof -
    obtain d where "buildOCMAgentConfigMap (h_Env h) a cid = freshCM (BuildNamespacedName (h_Env h) (oa_Name a @ ConfigMapSuffix)) None d"
      using configmaps_fresh(1) by blast
    with ensureConfigMap_up[OF up] ns show ?thesis by simp
  qed
  moreover have "succeeds (if \<not> oa_FleetMode a then (case buildCAMOConfigMap (h_ipLiteral h) a of
      Inl err \<Rightarrow> fail err | Inr camoCM \<Rightarrow> ensureConfigMap h a camoCM False) else ok ())"
    using url ensureConfigMap_up[OF up] by (auto simp: configmaps_fresh(3))
  moreover have "succeeds (ensureConfigMap h a (buildTrustedCaConfigMap (h_Env h)) True)"
    unfolding configmaps_fresh(2) by (rule ensureConfigMap_up[OF up]) (simp add: ns)
  ultimately have "succeeds (andThen (ensureConfigMap h a (if oa_FleetMode a then buildOCMAgentConfigMap (h_Env h) a []
        else buildOCMAgentConfigMap (h_Env h) a (cv_ClusterID cv)) True)
      (\<lambda>_. andThen (if \<not> oa_FleetMode a then (case buildCAMOConfigMap (h_ipLiteral h) a of
        Inl err \<Rightarrow> fail err | Inr camoCM \<Rightarrow> ensureConfigMap h a camoCM False) else ok ())
      (\<lambda>_. ensureConfigMap h a (buildTrustedCaConfigMap (h_Env h)) True)))"
    by (intro succeeds_andThen) (cases "oa_FleetMode a"; simp)+
  then show ?thesis unfolding succeeds_def ensureAllConfigMaps_def Let_def by (simp add: andThen_def[of "fetchClusterVersion h"] s1)
qed

section \<open>Deletion\<close>

text \<open>The config maps that are deleted.\<close>
definition deletedConfigMapRefs :: "Env \<Rightarrow> OcmAgent \<Rightarrow> Ref set" where
  "deletedConfigMapRefs env a = {(KConfigMap, BuildNamespacedName env (oa_Name a)), camoRef}"

lemma ensureAllConfigMapsDeleted_ensures:
  assumes plat: "platform h view" and ne: "BuildNamespacedName (h_Env h) (oa_Name a) \<noteq> CAMOConfigMapNamespacedName"
  shows "ensures view (ensureAllConfigMapsDeleted h a) (deletedConfigMapRefs (h_Env h) a) {} {}
    (\<lambda>cl. \<forall>r \<in> deletedConfigMapRefs (h_Env h) a. noFinalizers r cl) (\<lambda>cl. \<forall>r \<in> deletedConfigMapRefs (h_Env h) a. absent r cl)"
proof -
  have del: "ensureConfigMapDeleted h n = deleteObject (h_Client h) KConfigMap OConfigMap asConfigMap n" for n
    by (simp add: ensureConfigMapDeleted_def deleteObject_handler)
  note d = cm.delete_ensures[OF platform_api[OF plat]]
  have "ensures view (andThen (ensureConfigMapDeleted h (BuildNamespacedName (h_Env h) (oa_Name a))) (\<lambda>_. ensureConfigMapDeleted h CAMOConfigMapNamespacedName))
     ({(KConfigMap, BuildNamespacedName (h_Env h) (oa_Name a))} \<union> {(KConfigMap, CAMOConfigMapNamespacedName)}) ({} \<union> {}) ({} \<union> {})
     (\<lambda>cl. noFinalizers (KConfigMap, BuildNamespacedName (h_Env h) (oa_Name a)) cl \<and> noFinalizers (KConfigMap, CAMOConfigMapNamespacedName) cl)
     (\<lambda>cl. absent (KConfigMap, BuildNamespacedName (h_Env h) (oa_Name a)) cl \<and> absent (KConfigMap, CAMOConfigMapNamespacedName) cl)"
    unfolding del by (rule ensures_andThen[OF d d]) (use ne in auto)
  then show ?thesis
    by (simp add: ensureAllConfigMapsDeleted_def deletedConfigMapRefs_def camoRef_def insert_commute conj_commute)
qed

section \<open>Properties\<close>

text \<open>C35. What the agent reads from its configuration is what the OcmAgent resource says: after a successful run the stored
  list of services, split at its commas, is the list in the resource, the URL is the one there, and the cluster ID
  is that of the cluster, outside fleet mode and when the cluster has one.\<close>
theorem agent_config_roundtrip:
  assumes "platform h view" and "ensureAllConfigMaps h a s = (Inr (), s')"
    and "ac_Services (oas_AgentConfig (oa_Spec a)) \<noteq> []" and "\<forall>e \<in> set (ac_Services (oas_AgentConfig (oa_Spec a))). CHR '','' \<notin> set e"
  shows "\<exists>x v cv. cl_Objects (view s') (configRef (h_Env h) a) = Some (OConfigMap x) \<and> cl_Objects (view s') versionRef = Some (OClusterVersion cv) \<and>
    goLookup (cm_Data x) OCMAgentConfigServicesKey = Some v \<and> splitOn (CHR '','') v = ac_Services (oas_AgentConfig (oa_Spec a)) \<and>
    goLookup (cm_Data x) OCMAgentConfigURLKey = Some (ac_OcmBaseUrl (oas_AgentConfig (oa_Spec a))) \<and>
    goLookup (cm_Data x) OCMAgentConfigClusterID =
      (if oa_FleetMode a \<or> cv_ClusterID cv = [] then None else Some (cv_ClusterID cv))"
proof -
  from ensures_goal[OF ensureAllConfigMaps_ensures[OF assms(1)] assms(2)] have "configMapsOk h a (view s')" by simp
  then obtain cid x where cid: "agentClusterID a (view s') = Some cid" and x: "cl_Objects (view s') (configRef (h_Env h) a) = Some (OConfigMap x)"
    "cm_Data x = cm_Data (buildOCMAgentConfigMap (h_Env h) a cid)" by (auto simp: configMapsOk_def cmDataAt_def)
  from cid obtain cv where cv: "cl_Objects (view s') versionRef = Some (OClusterVersion cv)" "cid = (if oa_FleetMode a then [] else cv_ClusterID cv)"
    by (auto simp: agentClusterID_def split: option.splits Object.splits)
  have "splitOn (CHR '','') (strings_Join (ac_Services (oas_AgentConfig (oa_Spec a))) '','') = ac_Services (oas_AgentConfig (oa_Spec a))"
    using assms(3,4) by (intro splitOn_Join) auto
  with x cv show ?thesis
    by (simp add: buildOCMAgentConfigMap_def goLookup_def OCMAgentConfigServicesKey_def OCMAgentConfigURLKey_def OCMAgentConfigClusterID_def Let_def)
qed

theorem agent_config_roundtrip_witness:
  "\<exists>s' x v. ensureAllConfigMaps memHandler (sampleAgent\<lparr>oa_Spec := (oa_Spec sampleAgent)\<lparr>oas_FleetMode := True\<rparr>\<rparr>)
       (storeAll [OClusterVersion \<lparr>cv_Meta = newMeta \<lparr>nn_Namespace = [], nn_Name = ''version''\<rparr> None, cv_ClusterID = ''c-1''\<rparr>]) = (Inr (), s') \<and>
     cl_Objects (memView s') (configRef (h_Env memHandler) sampleAgent) = Some (OConfigMap x) \<and>
     goLookup (cm_Data x) OCMAgentConfigServicesKey = Some v \<and> splitOn (CHR '','') v = [''service_logs'', ''clusters_mgmt''] \<and>
     goLookup (cm_Data x) OCMAgentConfigClusterID = None"
proof -
  let ?a = "sampleAgent\<lparr>oa_Spec := (oa_Spec sampleAgent)\<lparr>oas_FleetMode := True\<rparr>\<rparr>"
  let ?cv = "\<lparr>cv_Meta = newMeta \<lparr>nn_Namespace = [], nn_Name = ''version''\<rparr> None, cv_ClusterID = ''c-1''\<rparr>"
  let ?s = "storeAll [OClusterVersion ?cv]"
  have "memView ?s = ?s" by (rule memView_storeAll) (simp add: persisted_def newMeta_def)
  then have "cl_Objects (memView ?s) versionRef = Some (OClusterVersion ?cv)"
    by (simp add: storeAll_def versionRef_def objRef_def)
  moreover have "oa_Namespace ?a = operatorNamespace (h_Env memHandler)" using sampleAgent_fields(2,5) by simp
  ultimately obtain s' where s': "ensureAllConfigMaps memHandler ?a ?s = (Inr (), s')"
    using ensureAllConfigMaps_up[OF memHandler_up, of ?a ?s ?cv undefined] by auto
  have "ac_Services (oas_AgentConfig (oa_Spec ?a)) = [''service_logs'', ''clusters_mgmt'']" by (simp add: sampleAgent_def)
  with agent_config_roundtrip[OF memHandler_platform s'] obtain x v where
    "cl_Objects (memView s') (configRef (h_Env memHandler) sampleAgent) = Some (OConfigMap x)" "goLookup (cm_Data x) OCMAgentConfigServicesKey = Some v" "splitOn (CHR '','') v = [''service_logs'', ''clusters_mgmt'']"
    "goLookup (cm_Data x) OCMAgentConfigClusterID = None" by (auto simp: configRef_def)
  with s' show ?thesis by blast
qed

text \<open>The run up to the config map for the CA bundle does not write that one.\<close>
lemma ensureAllConfigMaps_parts:
  assumes plat: "platform h view" and run: "ensureAllConfigMaps h a s = (q, s')"
  shows "\<exists>s1. touches {configRef (h_Env h) a, camoRef} {} (view s) (view s1) \<and>
    (view s' = view s1 \<or> ensureConfigMap h a (buildTrustedCaConfigMap (h_Env h)) True s1 = (q, s'))"
  using run unfolding ensureAllConfigMaps_def Let_def
proof (cases rule: andThen_cases)
  case (err e)
  with cv.getAs_view[OF platform_api[OF plat]] show ?thesis by (force simp: fetchClusterVersion_def)
next
  case (val v s0)
  have v0: "view s0 = view s" using cv.getAs_view[OF platform_api[OF plat]] val(1) by (force simp: fetchClusterVersion_def)
  let ?cm = "if oa_FleetMode a then buildOCMAgentConfigMap (h_Env h) a [] else buildOCMAgentConfigMap (h_Env h) a (cv_ClusterID v)"
  have t1: "touches {configRef (h_Env h) a, camoRef} {} (view s) (view s1)" if "ensureConfigMap h a ?cm True s0 = (q1, s1)" for q1 s1
    using ensures_touches[OF ensureAgentConfigMap_ensures[OF plat], of a _ s0 q1 s1] that v0 by (auto intro: touches_mono split: if_splits)
  from val(2) show ?thesis
  proof (cases rule: andThen_cases)
    case (err e)
    with t1 show ?thesis by blast
  next
    case (val u s1)
    let ?camo = "if \<not> oa_FleetMode a then (case buildCAMOConfigMap (h_ipLiteral h) a of Inl err \<Rightarrow> fail err
       | Inr camoCM \<Rightarrow> ensureConfigMap h a camoCM False) else ok ()"
    have t2: "touches {configRef (h_Env h) a, camoRef} {} (view s) (view s2)" if "?camo s1 = (q2, s2)" for q2 s2
    proof -
      have "touches {camoRef} {} (view s1) (view s2)"
        using that ensures_touches[OF ensureCAMOConfigMap_ensures[OF plat], of a _ s1 q2 s2] by (auto simp: configmaps_fresh(3) split: if_splits sum.splits)
      from touches_trans[OF t1[OF val(1)] this] show ?thesis by (simp add: insert_absorb)
    qed
    from val(2) show ?thesis
      by (cases rule: andThen_cases) (use t2 in blast)+
  qed
qed

text \<open>A config map for the CA bundle that exists is never written to: the operator makes it, and from then on its data
  belongs to the network operator that injects the certificates. This holds for every outcome of the run.\<close>
theorem trusted_ca_kept:
  assumes "platform h view" and "cl_Objects (view s) (trustRef (h_Env h)) = Some (OConfigMap x)"
    and "ensureAllConfigMaps h a s = (q, s')"
  shows "cl_Objects (view s') (trustRef (h_Env h)) = Some (OConfigMap x)"
proof -
  from ensureAllConfigMaps_parts[OF assms(1,3)] obtain s1 where t: "touches {configRef (h_Env h) a, camoRef} {} (view s) (view s1)"
    and r: "view s' = view s1 \<or> ensureConfigMap h a (buildTrustedCaConfigMap (h_Env h)) True s1 = (q, s')" by blast
  have "cl_Objects (view s1) (trustRef (h_Env h)) = cl_Objects (view s) (trustRef (h_Env h))"
    by (rule touches_objects[OF t]) (use config_refs_distinct[symmetric] in auto)
  moreover from r have "cl_Objects (view s') = cl_Objects (view s1)"
    using ensures_keeps[OF ensureTrustedCaConfigMap_ensures[OF assms(1)], of a s1 q s'] touches_nothing assms(2) calculation by auto
  ultimately show ?thesis using assms(2) by simp
qed

theorem trusted_ca_kept_witness:
  "\<exists>q s'. ensureAllConfigMaps memHandler sampleAgent (storeAll [OConfigMap (buildTrustedCaConfigMap (h_Env memHandler))]) = (q, s') \<and>
     cl_Objects (memView s') (trustRef (h_Env memHandler)) = Some (OConfigMap (buildTrustedCaConfigMap (h_Env memHandler)))"
proof -
  let ?x = "buildTrustedCaConfigMap (h_Env memHandler)"
  let ?s = "storeAll [OConfigMap ?x]"
  obtain q s' where run: "ensureAllConfigMaps memHandler sampleAgent ?s = (q, s')" by fastforce
  have "memView ?s = ?s" by (rule memView_storeAll) (simp add: configmaps_fresh(2) persisted_def newMeta_def freshCM_def)
  then have "cl_Objects (memView ?s) (trustRef (h_Env memHandler)) = Some (OConfigMap ?x)"
    by (simp add: storeAll_def configmaps_fresh(2) trustRef_def)
  from trusted_ca_kept[OF memHandler_platform this run] run show ?thesis by blast
qed

end
