(* ===== verification/NetworkPolicies.thy ===== *)
theory NetworkPolicies
  imports Contracts
begin

text \<open>
  The network policies of the agent (\<^verbatim>\<open>pkg/ocmagenthandler/ocmagenthandler_networkpolicy.go\<close>): one
  policy per namespace that may talk to the agent.
\<close>

section \<open>Model\<close>

definition buildNetworkPolicyName :: "Env \<Rightarrow> OcmAgent \<Rightarrow> string \<Rightarrow> NamespacedName" where
  "buildNetworkPolicyName env ocmAgent namespace =
     (if namespace = NamespaceMonitorng then BuildNamespacedName env (oa_Name ocmAgent @ OCMAgentDefaultNetworkPolicySuffix)
      else if namespace = NamespaceRHOBS then BuildNamespacedName env (oa_Name ocmAgent @ OCMAgentRHOBSNetworkPolicySuffix)
      else if namespace = NamespaceMUO then BuildNamespacedName env (oa_Name ocmAgent @ OCMAgentMUONetworkPolicySuffix)
      else if namespace = NamespaceOBO then BuildNamespacedName env (oa_Name ocmAgent @ OCMAgentOBONetworkPolicySuffix)
      else \<lparr>nn_Namespace = [], nn_Name = []\<rparr>)"

definition buildNetworkPolicy :: "Env \<Rightarrow> OcmAgent \<Rightarrow> string \<Rightarrow> NetworkPolicy" where
  "buildNetworkPolicy env ocmAgent namespace =
     (let namespacedName = buildNetworkPolicyName env ocmAgent namespace;
          namespaceSelector = \<lparr>ls_MatchLabels = oneLabel ''kubernetes.io/metadata.name'' namespace\<rparr>
      in \<lparr>np_Meta = newMeta namespacedName (oneLabel ''app'' (oa_Name ocmAgent)),
          np_Spec = \<lparr>
            nps_PodSelector = \<lparr>ls_MatchLabels = oneLabel ''app'' (oa_Name ocmAgent)\<rparr>,
            nps_Ingress = [\<lparr>npir_From = [\<lparr>npp_NamespaceSelector = Some namespaceSelector\<rparr>]\<rparr>],
            nps_PolicyTypes = [''Ingress'']\<rparr>\<rparr>)"

definition ensureNetworkPolicy :: "'s ocmAgentHandler \<Rightarrow> OcmAgent \<Rightarrow> string \<Rightarrow> ('s, unit) step" where
  "ensureNetworkPolicy h ocmAgent namespace =
     (let namespacedName = buildNetworkPolicyName (h_Env h) ocmAgent namespace;
          resource = buildNetworkPolicy (h_Env h) ocmAgent namespace
      in onResult (getAs (h_Client h) KNetworkPolicy asNetworkPolicy namespacedName)
           (\<lambda>err. if IsNotFound err
                  then andThen (setControllerReference h ocmAgent (np_Meta resource))
                         (\<lambda>m. c_Create (h_Client h) (ONetworkPolicy (resource\<lparr>np_Meta := m\<rparr>)))
                  else fail err)
           (\<lambda>foundResource. if np_Spec foundResource \<noteq> np_Spec resource
                  then c_Update (h_Client h) (ONetworkPolicy (foundResource\<lparr>np_Spec := np_Spec resource\<rparr>))
                  else ok ()))"

text \<open>The list that \<open>ensureAllNetworkPolicies\<close> and \<open>ensureAllNetworkPoliciesDeleted\<close> both build.\<close>
definition policyNamespaces :: "OcmAgent \<Rightarrow> string list" where
  "policyNamespaces ocmAgent =
     (if oa_FleetMode ocmAgent then [NamespaceMonitorng, NamespaceRHOBS, NamespaceOBO]
      else [NamespaceMonitorng, NamespaceMUO])"

definition ensureAllNetworkPolicies :: "'s ocmAgentHandler \<Rightarrow> OcmAgent \<Rightarrow> ('s, unit) step" where
  "ensureAllNetworkPolicies h ocmAgent = forEach (policyNamespaces ocmAgent) (ensureNetworkPolicy h ocmAgent)"

definition ensureNetworkPolicyDeleted :: "'s ocmAgentHandler \<Rightarrow> OcmAgent \<Rightarrow> string \<Rightarrow> ('s, unit) step" where
  "ensureNetworkPolicyDeleted h ocmAgent namespace =
     (let namespacedName = buildNetworkPolicyName (h_Env h) ocmAgent namespace
      in onResult (getAs (h_Client h) KNetworkPolicy asNetworkPolicy namespacedName)
           (\<lambda>err. if \<not> IsNotFound err then fail err else ok ())
           (\<lambda>foundResource. c_Delete (h_Client h) (ONetworkPolicy foundResource)))"

definition ensureAllNetworkPoliciesDeleted :: "'s ocmAgentHandler \<Rightarrow> OcmAgent \<Rightarrow> ('s, unit) step" where
  "ensureAllNetworkPoliciesDeleted h ocmAgent = forEach (policyNamespaces ocmAgent) (ensureNetworkPolicyDeleted h ocmAgent)"

section \<open>Specification\<close>

definition policyRef :: "Env \<Rightarrow> OcmAgent \<Rightarrow> string \<Rightarrow> Ref" where
  "policyRef env a ns = (KNetworkPolicy, buildNetworkPolicyName env a ns)"

text \<open>The stored policy has the expected specification.\<close>
definition policyOk :: "Env \<Rightarrow> OcmAgent \<Rightarrow> string \<Rightarrow> Cluster \<Rightarrow> bool" where
  "policyOk env a ns cl \<longleftrightarrow> (\<exists>x. cl_Objects cl (policyRef env a ns) = Some (ONetworkPolicy x) \<and>
     np_Spec x = np_Spec (buildNetworkPolicy env a ns))"

text \<open>The semantics of label selectors and of ingress rules: an object with the given labels is selected; a
  policy admits traffic to a pod from a namespace, each given by its labels.\<close>
definition selects :: "LabelSelector \<Rightarrow> string gomap \<Rightarrow> bool" where
  "selects sel labels = (case ls_MatchLabels sel of
     None \<Rightarrow> True
   | Some m \<Rightarrow> (\<forall>k \<in> fset (fmdom m). fmlookup m k = goLookup labels k))"

definition admits :: "NetworkPolicy \<Rightarrow> string gomap \<Rightarrow> string gomap \<Rightarrow> bool" where
  "admits np pod ns \<longleftrightarrow> ''Ingress'' \<in> set (nps_PolicyTypes (np_Spec np)) \<and> selects (nps_PodSelector (np_Spec np)) pod \<and>
     (\<exists>rule \<in> set (nps_Ingress (np_Spec np)). npir_From rule = [] \<or>
        (\<exists>peer \<in> set (npir_From rule). \<exists>sel. npp_NamespaceSelector peer = Some sel \<and> selects sel ns))"

text \<open>Policies add up: a pod of the agent may be reached from a namespace with the given labels when some stored policy in the namespace of the
  operator admits it.\<close>
definition reachable :: "Env \<Rightarrow> OcmAgent \<Rightarrow> Cluster \<Rightarrow> string gomap \<Rightarrow> bool" where
  "reachable env a cl labels \<longleftrightarrow> (\<exists>n x. cl_Objects cl (KNetworkPolicy, \<lparr>nn_Namespace = operatorNamespace env, nn_Name = n\<rparr>) = Some (ONetworkPolicy x) \<and>
     admits x (oneLabel ''app'' (oa_Name a)) labels)"

section \<open>Contracts\<close>

lemmas namespace_defs = NamespaceMonitorng_def NamespaceRHOBS_def NamespaceMUO_def NamespaceOBO_def

lemmas policy_suffix_defs = OCMAgentDefaultNetworkPolicySuffix_def OCMAgentRHOBSNetworkPolicySuffix_def
  OCMAgentMUONetworkPolicySuffix_def OCMAgentOBONetworkPolicySuffix_def

lemma policyRef_distinct:
  assumes "ns \<in> set (policyNamespaces a)" and "ns' \<in> set (policyNamespaces b)" and "ns \<noteq> ns'"
  shows "policyRef env c ns \<noteq> policyRef env c ns'"
proof -
  have "set (policyNamespaces x) \<subseteq> {NamespaceMonitorng, NamespaceRHOBS, NamespaceMUO, NamespaceOBO}" for x
    by (simp add: policyNamespaces_def)
  with assms(1,2) have "ns \<in> {NamespaceMonitorng, NamespaceRHOBS, NamespaceMUO, NamespaceOBO}"
    "ns' \<in> {NamespaceMonitorng, NamespaceRHOBS, NamespaceMUO, NamespaceOBO}" by blast+
  with assms(3) show ?thesis
    by (auto simp: policyRef_def buildNetworkPolicyName_def namespace_defs policy_suffix_defs)
qed

lemma policyNamespaces_distinct: "distinct (policyNamespaces a)"
  by (simp add: policyNamespaces_def namespace_defs)

interpretation policy: managed_resource KNetworkPolicy ONetworkPolicy asNetworkPolicy "\<lambda>x m. x\<lparr>np_Meta := m\<rparr>"
    "buildNetworkPolicy env a ns" "\<lambda>x. np_Spec x = np_Spec (buildNetworkPolicy env a ns)"
    "\<lambda>x. x\<lparr>np_Spec := np_Spec (buildNetworkPolicy env a ns)\<rparr>" "\<lambda>_. True" True for env a ns
  by unfold_locales (simp_all add: buildNetworkPolicy_def newMeta_def Let_def)

lemma np_Meta_build [simp]: "np_Meta (buildNetworkPolicy env a ns) = newMeta (buildNetworkPolicyName env a ns) (oneLabel ''app'' (oa_Name a))"
  by (simp add: buildNetworkPolicy_def)

lemma policyRef_eq: "objRef (ONetworkPolicy (buildNetworkPolicy env a ns)) = policyRef env a ns"
  by (simp add: objRef_def policyRef_def)

lemma ensureNetworkPolicy_scheme:
  "ensureNetworkPolicy h a ns = ignore (ensureObject (h_Client h) KNetworkPolicy ONetworkPolicy asNetworkPolicy
     (buildNetworkPolicyName (h_Env h) a ns)
     (prepareOwned h a ONetworkPolicy (\<lambda>x m. x\<lparr>np_Meta := m\<rparr>) (buildNetworkPolicy (h_Env h) a ns))
     (\<lambda>x. \<not> np_Spec x = np_Spec (buildNetworkPolicy (h_Env h) a ns))
     (\<lambda>x. x\<lparr>np_Spec := np_Spec (buildNetworkPolicy (h_Env h) a ns)\<rparr>))"
  unfolding ensureObject_handler ensureNetworkPolicy_def owned_simps Let_def metaOf.simps by (rule refl)

lemma ensureNetworkPolicy_ensures:
  assumes "platform h view"
  shows "ensures view (ensureNetworkPolicy h a ns) {policyRef (h_Env h) a ns} {} {} (\<lambda>_. True) (policyOk (h_Env h) a ns)"
  using policy.owned_ensures[OF assms, of "h_Env h" a ns a]
  by (simp add: ensureNetworkPolicy_scheme policyRef_eq policyOk_def[abs_def])

text \<open>The policies of an agent, all of them.\<close>
definition policyRefs :: "Env \<Rightarrow> OcmAgent \<Rightarrow> Ref set" where
  "policyRefs env a = policyRef env a ` set (policyNamespaces a)"

definition policiesOk :: "Env \<Rightarrow> OcmAgent \<Rightarrow> Cluster \<Rightarrow> bool" where
  "policiesOk env a cl \<longleftrightarrow> (\<forall>ns \<in> set (policyNamespaces a). policyOk env a ns cl)"

lemma ensureAllNetworkPolicies_ensures:
  assumes "platform h view"
  shows "ensures view (ensureAllNetworkPolicies h a) (policyRefs (h_Env h) a) {} {} (\<lambda>_. True) (policiesOk (h_Env h) a)"
proof -
  have "ensures view (forEach (policyNamespaces a) (ensureNetworkPolicy h a))
      (\<Union> ((\<lambda>ns. {policyRef (h_Env h) a ns}) ` set (policyNamespaces a))) (if policyNamespaces a = [] then {} else {})
      (\<Union> ((\<lambda>_. {}) ` set (policyNamespaces a)))
      (\<lambda>cl. \<forall>ns \<in> set (policyNamespaces a). True) (\<lambda>cl. \<forall>ns \<in> set (policyNamespaces a). policyOk (h_Env h) a ns cl)"
    by (rule ensures_forEach[OF ensureNetworkPolicy_ensures[OF assms] _ policyNamespaces_distinct])
      (use policyRef_distinct in simp)
  then show ?thesis
    by (simp add: ensureAllNetworkPolicies_def policyRefs_def policiesOk_def[abs_def] UNION_singleton_eq_range)
qed

lemma ensureAllNetworkPolicies_up:
  assumes "platform_up h view" and "oa_Namespace a = operatorNamespace (h_Env h)"
  shows "succeeds (ensureAllNetworkPolicies h a)"
  unfolding ensureAllNetworkPolicies_def
proof (rule succeeds_forEach)
  fix ns assume "ns \<in> set (policyNamespaces a)"
  with assms(2) have "nn_Namespace (buildNetworkPolicyName (h_Env h) a ns) = oa_Namespace a"
    by (auto simp: buildNetworkPolicyName_def policyNamespaces_def split: if_splits)
  with policy.owned_up[OF assms(1), of "h_Env h" a ns a] show "succeeds (ensureNetworkPolicy h a ns)"
    by (simp add: ensureNetworkPolicy_scheme)
qed

lemma ensureAllNetworkPoliciesDeleted_ensures:
  assumes "platform h view"
  shows "ensures view (ensureAllNetworkPoliciesDeleted h a) (policyRefs (h_Env h) a) {} {}
    (\<lambda>cl. \<forall>ns \<in> set (policyNamespaces a). noFinalizers (policyRef (h_Env h) a ns) cl)
    (\<lambda>cl. \<forall>r \<in> policyRefs (h_Env h) a. absent r cl)"
proof -
  have del: "ensureNetworkPolicyDeleted h a ns =
      deleteObject (h_Client h) KNetworkPolicy ONetworkPolicy asNetworkPolicy (buildNetworkPolicyName (h_Env h) a ns)" for ns
    by (simp add: ensureNetworkPolicyDeleted_def deleteObject_handler)
  have "ensures view (forEach (policyNamespaces a) (ensureNetworkPolicyDeleted h a))
      (\<Union> ((\<lambda>ns. {policyRef (h_Env h) a ns}) ` set (policyNamespaces a))) (if policyNamespaces a = [] then {} else {})
      (\<Union> ((\<lambda>_. {}) ` set (policyNamespaces a)))
      (\<lambda>cl. \<forall>ns \<in> set (policyNamespaces a). noFinalizers (policyRef (h_Env h) a ns) cl)
      (\<lambda>cl. \<forall>ns \<in> set (policyNamespaces a). absent (policyRef (h_Env h) a ns) cl)"
    by (rule ensures_forEach[OF _ _ policyNamespaces_distinct])
      (use policyRef_distinct np.delete_ensures[OF platform_api[OF assms]] in \<open>simp_all add: del policyRef_def\<close>)
  then show ?thesis
    by (simp add: ensureAllNetworkPoliciesDeleted_def policyRefs_def UNION_singleton_eq_range)
qed

section \<open>Properties\<close>

lemma admits_build:
  assumes "np_Spec x = np_Spec (buildNetworkPolicy env a ns)"
  shows "admits x (oneLabel ''app'' (oa_Name a)) labels \<longleftrightarrow> goLookup labels ''kubernetes.io/metadata.name'' = Some ns"
  unfolding admits_def assms by (auto simp: buildNetworkPolicy_def Let_def selects_def oneLabel_def goLookup_def)

text \<open>The namespaces that are meant to reach the agent.\<close>
definition allowedNamespaces :: "OcmAgent \<Rightarrow> string set" where
  "allowedNamespaces a =
     (if oa_FleetMode a then {''openshift-monitoring'', ''observatorium-mst-production'', ''openshift-observability-operator''}
      else {''openshift-monitoring'', ''openshift-managed-upgrade-operator''})"

lemma allowed_policies: "set (policyNamespaces a) = allowedNamespaces a"
  by (simp add: policyNamespaces_def allowedNamespaces_def namespace_defs)

lemma policyRef_namespace:
  assumes "ns \<in> set (policyNamespaces a)"
  shows "\<exists>n. policyRef env a ns = (KNetworkPolicy, \<lparr>nn_Namespace = operatorNamespace env, nn_Name = n\<rparr>)"
  using assms by (auto simp: policyRef_def buildNetworkPolicyName_def policyNamespaces_def BuildNamespacedName_eq split: if_splits)

text \<open>From where the agent can be reached.\<close>
lemma policies_reach:
  assumes plat: "platform h view" and run: "ensureAllNetworkPolicies h a s = (Inr (), s')"
  shows "reachable (h_Env h) a (view s') labels \<longleftrightarrow>
    (\<exists>ns. goLookup labels ''kubernetes.io/metadata.name'' = Some ns \<and> ns \<in> allowedNamespaces a) \<or>
    (\<exists>n x. (KNetworkPolicy, \<lparr>nn_Namespace = operatorNamespace (h_Env h), nn_Name = n\<rparr>) \<notin> policyRefs (h_Env h) a \<and>
       cl_Objects (view s) (KNetworkPolicy, \<lparr>nn_Namespace = operatorNamespace (h_Env h), nn_Name = n\<rparr>) = Some (ONetworkPolicy x) \<and>
       admits x (oneLabel ''app'' (oa_Name a)) labels)"
proof -
  let ?ref = "\<lambda>n. (KNetworkPolicy, \<lparr>nn_Namespace = operatorNamespace (h_Env h), nn_Name = n\<rparr>)"
  let ?in = "\<exists>ns. goLookup labels ''kubernetes.io/metadata.name'' = Some ns \<and> ns \<in> set (policyNamespaces a)"
  note e = ensureAllNetworkPolicies_ensures[OF plat, of a]
  have ok: "\<exists>x. cl_Objects (view s') (policyRef (h_Env h) a ns) = Some (ONetworkPolicy x) \<and>
      (admits x (oneLabel ''app'' (oa_Name a)) labels \<longleftrightarrow> goLookup labels ''kubernetes.io/metadata.name'' = Some ns)" if "ns \<in> set (policyNamespaces a)" for ns
    using ensures_goal[OF e run] that admits_build by (fastforce simp: policiesOk_def policyOk_def)
  have old: "cl_Objects (view s') (?ref n) = cl_Objects (view s) (?ref n)" if "?ref n \<notin> policyRefs (h_Env h) a" for n
    by (rule touches_objects[OF ensures_touches[OF e run] that])
  have "reachable (h_Env h) a (view s') labels \<longleftrightarrow> ?in \<or> (\<exists>n x. ?ref n \<notin> policyRefs (h_Env h) a \<and>
      cl_Objects (view s) (?ref n) = Some (ONetworkPolicy x) \<and> admits x (oneLabel ''app'' (oa_Name a)) labels)"
  proof
    assume "reachable (h_Env h) a (view s') labels"
    then obtain n x where x: "cl_Objects (view s') (?ref n) = Some (ONetworkPolicy x)" "admits x (oneLabel ''app'' (oa_Name a)) labels"
      by (auto simp: reachable_def)
    show "?in \<or> (\<exists>n x. ?ref n \<notin> policyRefs (h_Env h) a \<and> cl_Objects (view s) (?ref n) = Some (ONetworkPolicy x) \<and>
      admits x (oneLabel ''app'' (oa_Name a)) labels)"
    proof (cases "?ref n \<in> policyRefs (h_Env h) a")
      case True
      then obtain ns where "ns \<in> set (policyNamespaces a)" "?ref n = policyRef (h_Env h) a ns" by (auto simp: policyRefs_def)
      with ok x show ?thesis by fastforce
    qed (use old x in auto)
  next
    assume "?in \<or> (\<exists>n x. ?ref n \<notin> policyRefs (h_Env h) a \<and> cl_Objects (view s) (?ref n) = Some (ONetworkPolicy x) \<and>
      admits x (oneLabel ''app'' (oa_Name a)) labels)"
    then show "reachable (h_Env h) a (view s') labels"
      unfolding reachable_def using ok old policyRef_namespace[of _ a "h_Env h"] by metis
  qed
  then show ?thesis by (simp add: allowed_policies)
qed

text \<open>C34. Once the network policies are ensured, the pods of the agent can be reached from the monitoring stack, and from the upgrade
  operator or, in fleet mode, the two observability stacks; from any other namespace only if a stored policy that is not one of those
  that were ensured lets it through, and did so before. All policies stored in the namespace of the operator are counted.\<close>
theorem network_policies_admit:
  assumes plat: "platform h view" and run: "ensureAllNetworkPolicies h a s = (Inr (), s')"
  shows "reachable (h_Env h) a (view s') labels \<longleftrightarrow>
    (\<exists>ns. goLookup labels ''kubernetes.io/metadata.name'' = Some ns \<and> ns \<in>
      (if oa_FleetMode a then {''openshift-monitoring'', ''observatorium-mst-production'', ''openshift-observability-operator''}
       else {''openshift-monitoring'', ''openshift-managed-upgrade-operator''})) \<or>
    (\<exists>n x. (KNetworkPolicy, \<lparr>nn_Namespace = operatorNamespace (h_Env h), nn_Name = n\<rparr>) \<notin> policyRefs (h_Env h) a \<and>
       cl_Objects (view s) (KNetworkPolicy, \<lparr>nn_Namespace = operatorNamespace (h_Env h), nn_Name = n\<rparr>) = Some (ONetworkPolicy x) \<and>
       admits x (oneLabel ''app'' (oa_Name a)) labels)"
  unfolding policies_reach[OF assms] allowedNamespaces_def ..

theorem network_policies_admit_witness:
  "\<exists>s'. ensureAllNetworkPolicies memHandler sampleAgent (storeAll []) = (Inr (), s') \<and>
     reachable (h_Env memHandler) sampleAgent (memView s') (oneLabel ''kubernetes.io/metadata.name'' ''openshift-managed-upgrade-operator'') \<and>
     \<not> reachable (h_Env memHandler) sampleAgent (memView s') (oneLabel ''kubernetes.io/metadata.name'' ''openshift-observability-operator'')"
proof -
  obtain s' where s': "ensureAllNetworkPolicies memHandler sampleAgent (storeAll []) = (Inr (), s')"
    using ensureAllNetworkPolicies_up[OF memHandler_up, of sampleAgent] by (auto simp: succeeds_def)
  have v: "memView (storeAll []) = storeAll []" by (rule memView_storeAll) simp
  from network_policies_admit[OF memHandler_platform s'] s' show ?thesis
    unfolding v by (auto simp: goLookup_def oneLabel_def storeAll_def sampleAgent_def)
qed

text \<open>The policies of the other mode are not removed: after a switch of the fleet mode the namespaces of both modes reach the agent.\<close>
lemma switch_keeps_policies:
  assumes plat: "platform h view" and run: "ensureAllNetworkPolicies h a s = (Inr (), s')"
    and before: "policiesOk (h_Env h) b (view s)" and same: "oa_Name b = oa_Name a"
    and ns: "ns \<in> allowedNamespaces a \<union> allowedNamespaces b"
  shows "reachable (h_Env h) a (view s') (oneLabel ''kubernetes.io/metadata.name'' ns)"
proof (cases "ns \<in> allowedNamespaces a")
  case True
  then show ?thesis
    unfolding policies_reach[OF plat run] by (auto simp: goLookup_def oneLabel_def)
next
  case False
  with ns have b: "ns \<in> set (policyNamespaces b)" by (simp add: allowed_policies)
  have ref: "policyRef (h_Env h) b ns = policyRef (h_Env h) a ns" using same by (simp add: policyRef_def buildNetworkPolicyName_def)
  from b before obtain x where x: "cl_Objects (view s) (policyRef (h_Env h) b ns) = Some (ONetworkPolicy x)"
      "np_Spec x = np_Spec (buildNetworkPolicy (h_Env h) b ns)" by (auto simp: policiesOk_def policyOk_def)
  have "policyRef (h_Env h) a ns \<notin> policyRefs (h_Env h) a"
    using policyRef_distinct[OF b, of _ a "h_Env h" a] False allowed_policies[of a] by (auto simp: policyRefs_def)
  moreover have "admits x (oneLabel ''app'' (oa_Name a)) (oneLabel ''kubernetes.io/metadata.name'' ns)"
    using admits_build[OF x(2)] same by (simp add: goLookup_def oneLabel_def)
  ultimately show ?thesis
    unfolding policies_reach[OF plat run] using x(1) policyRef_namespace[OF b, of "h_Env h"] ref by metis
qed

end
