(* ===== verification/ServiceMonitors.thy ===== *)
theory ServiceMonitors
  imports Contracts
begin

text \<open>
  The service monitor of the agent (\<^verbatim>\<open>pkg/ocmagenthandler/ocmagenthandler_servicemonitor.go\<close>) and its pod
  disruption budget (\<^verbatim>\<open>pkg/ocmagenthandler/ocmagenthandler_pdb.go\<close>): two resources of one object each.
\<close>

section \<open>Service monitor\<close>

definition buildOCMAgentServiceMonitor :: "Env \<Rightarrow> OcmAgent \<Rightarrow> ServiceMonitor" where
  "buildOCMAgentServiceMonitor env ocmAgent =
     (let namespacedName = BuildNamespacedName env (oa_Name ocmAgent @ ''-metrics'');
          labels = oneLabel ''app'' (oa_Name ocmAgent)
      in \<lparr>sm_Meta = newMeta namespacedName None,
          sm_Spec = \<lparr>sms_Selector = \<lparr>ls_MatchLabels = labels\<rparr>,
            sms_Endpoints = [\<lparr>ep_Port = OCMAgentMetricsPortName, ep_Path = ''/metrics''\<rparr>]\<rparr>\<rparr>)"

definition ensureServiceMonitor :: "'s ocmAgentHandler \<Rightarrow> OcmAgent \<Rightarrow> ('s, unit) step" where
  "ensureServiceMonitor h ocmAgent =
     (let namespacedName = BuildNamespacedName (h_Env h) (oa_Name ocmAgent @ ''-metrics'');
          resource = buildOCMAgentServiceMonitor (h_Env h) ocmAgent
      in onResult (getAs (h_Client h) KServiceMonitor asServiceMonitor namespacedName)
           (\<lambda>err. if IsNotFound err
                  then andThen (setControllerReference h ocmAgent (sm_Meta resource))
                         (\<lambda>m. c_Create (h_Client h) (OServiceMonitor (resource\<lparr>sm_Meta := m\<rparr>)))
                  else fail err)
           (\<lambda>foundResource. if sm_Spec foundResource \<noteq> sm_Spec resource
                  then c_Update (h_Client h) (OServiceMonitor (foundResource\<lparr>sm_Spec := sm_Spec resource\<rparr>))
                  else ok ()))"

definition ensureServiceMonitorDeleted :: "'s ocmAgentHandler \<Rightarrow> OcmAgent \<Rightarrow> ('s, unit) step" where
  "ensureServiceMonitorDeleted h ocmAgent =
     (let namespacedName = BuildNamespacedName (h_Env h) (oa_Name ocmAgent @ ''-metrics'')
      in onResult (getAs (h_Client h) KServiceMonitor asServiceMonitor namespacedName)
           (\<lambda>err. if \<not> IsNotFound err then fail err else ok ())
           (\<lambda>foundResource. c_Delete (h_Client h) (OServiceMonitor foundResource)))"

section \<open>Pod disruption budget\<close>

definition buildOCMAgentPodDisruptionBudget :: "Env \<Rightarrow> OcmAgent \<Rightarrow> PodDisruptionBudget" where
  "buildOCMAgentPodDisruptionBudget env ocmAgent =
     (let namespacedName = BuildNamespacedName env (oa_Name ocmAgent @ PDBSuffix)
      in \<lparr>pdb_Meta = newMeta namespacedName None,
          pdb_Spec = \<lparr>pdbs_MinAvailable = Some (IntVal 1),
            pdbs_Selector = Some \<lparr>ls_MatchLabels = oneLabel ''app'' (oa_Name ocmAgent)\<rparr>\<rparr>\<rparr>)"

definition ensurePodDisruptionBudget :: "'s ocmAgentHandler \<Rightarrow> OcmAgent \<Rightarrow> ('s, unit) step" where
  "ensurePodDisruptionBudget h ocmAgent =
     (let pdb = buildOCMAgentPodDisruptionBudget (h_Env h) ocmAgent
      in onResult (getAs (h_Client h) KPodDisruptionBudget asPodDisruptionBudget
             \<lparr>nn_Namespace = om_Namespace (pdb_Meta pdb), nn_Name = om_Name (pdb_Meta pdb)\<rparr>)
           (\<lambda>err. if IsNotFound err
                  then andThen (setControllerReference h ocmAgent (pdb_Meta pdb))
                         (\<lambda>m. c_Create (h_Client h) (OPodDisruptionBudget (pdb\<lparr>pdb_Meta := m\<rparr>)))
                  else fail err)
           (\<lambda>foundPDB. if pdb_Spec foundPDB \<noteq> pdb_Spec pdb
                  then c_Update (h_Client h) (OPodDisruptionBudget (foundPDB\<lparr>pdb_Spec := pdb_Spec pdb\<rparr>))
                  else ok ()))"

definition ensurePodDisruptionBudgetDeleted :: "'s ocmAgentHandler \<Rightarrow> OcmAgent \<Rightarrow> ('s, unit) step" where
  "ensurePodDisruptionBudgetDeleted h ocmAgent =
     (let pdb = buildOCMAgentPodDisruptionBudget (h_Env h) ocmAgent
      in onResult (getAs (h_Client h) KPodDisruptionBudget asPodDisruptionBudget
             \<lparr>nn_Namespace = om_Namespace (pdb_Meta pdb), nn_Name = om_Name (pdb_Meta pdb)\<rparr>)
           (\<lambda>err. if IsNotFound err then ok () else fail err)
           (\<lambda>foundPDB. c_Delete (h_Client h) (OPodDisruptionBudget foundPDB)))"

section \<open>Contracts\<close>

definition monitorRef :: "Env \<Rightarrow> OcmAgent \<Rightarrow> Ref" where
  "monitorRef env a = (KServiceMonitor, BuildNamespacedName env (oa_Name a @ ''-metrics''))"

definition monitorOk :: "Env \<Rightarrow> OcmAgent \<Rightarrow> Cluster \<Rightarrow> bool" where
  "monitorOk env a cl \<longleftrightarrow> (\<exists>x. cl_Objects cl (monitorRef env a) = Some (OServiceMonitor x) \<and>
     sm_Spec x = sm_Spec (buildOCMAgentServiceMonitor env a))"

definition budgetRef :: "Env \<Rightarrow> OcmAgent \<Rightarrow> Ref" where
  "budgetRef env a = (KPodDisruptionBudget, BuildNamespacedName env (oa_Name a @ PDBSuffix))"

definition budgetOk :: "Env \<Rightarrow> OcmAgent \<Rightarrow> Cluster \<Rightarrow> bool" where
  "budgetOk env a cl \<longleftrightarrow> (\<exists>x. cl_Objects cl (budgetRef env a) = Some (OPodDisruptionBudget x) \<and>
     pdb_Spec x = pdb_Spec (buildOCMAgentPodDisruptionBudget env a))"

interpretation monitor: managed_resource KServiceMonitor OServiceMonitor asServiceMonitor "\<lambda>x m. x\<lparr>sm_Meta := m\<rparr>"
    "buildOCMAgentServiceMonitor env a" "\<lambda>x. sm_Spec x = sm_Spec (buildOCMAgentServiceMonitor env a)"
    "\<lambda>x. x\<lparr>sm_Spec := sm_Spec (buildOCMAgentServiceMonitor env a)\<rparr>" "\<lambda>_. True" True for env a
  by unfold_locales (simp_all add: buildOCMAgentServiceMonitor_def newMeta_def Let_def)

interpretation budget: managed_resource KPodDisruptionBudget OPodDisruptionBudget asPodDisruptionBudget "\<lambda>x m. x\<lparr>pdb_Meta := m\<rparr>"
    "buildOCMAgentPodDisruptionBudget env a" "\<lambda>x. pdb_Spec x = pdb_Spec (buildOCMAgentPodDisruptionBudget env a)"
    "\<lambda>x. x\<lparr>pdb_Spec := pdb_Spec (buildOCMAgentPodDisruptionBudget env a)\<rparr>" "\<lambda>_. True" True for env a
  by unfold_locales (simp_all add: buildOCMAgentPodDisruptionBudget_def newMeta_def Let_def)

lemma sm_Meta_build [simp]: "sm_Meta (buildOCMAgentServiceMonitor env a) = newMeta (BuildNamespacedName env (oa_Name a @ ''-metrics'')) None"
  by (simp add: buildOCMAgentServiceMonitor_def Let_def)

lemma pdb_Meta_build [simp]: "pdb_Meta (buildOCMAgentPodDisruptionBudget env a) = newMeta (BuildNamespacedName env (oa_Name a @ PDBSuffix)) None"
  by (simp add: buildOCMAgentPodDisruptionBudget_def Let_def)

lemma resource_refs:
  "objRef (OServiceMonitor (buildOCMAgentServiceMonitor env a)) = monitorRef env a"
  "objRef (OPodDisruptionBudget (buildOCMAgentPodDisruptionBudget env a)) = budgetRef env a"
  by (simp_all add: objRef_def monitorRef_def budgetRef_def)

lemma ensureServiceMonitor_scheme:
  "ensureServiceMonitor h a = ignore (ensureObject (h_Client h) KServiceMonitor OServiceMonitor asServiceMonitor
     (BuildNamespacedName (h_Env h) (oa_Name a @ ''-metrics''))
     (prepareOwned h a OServiceMonitor (\<lambda>x m. x\<lparr>sm_Meta := m\<rparr>) (buildOCMAgentServiceMonitor (h_Env h) a))
     (\<lambda>x. \<not> sm_Spec x = sm_Spec (buildOCMAgentServiceMonitor (h_Env h) a))
     (\<lambda>x. x\<lparr>sm_Spec := sm_Spec (buildOCMAgentServiceMonitor (h_Env h) a)\<rparr>))"
  unfolding ensureObject_handler ensureServiceMonitor_def owned_simps Let_def metaOf.simps by (rule refl)

lemma ensurePodDisruptionBudget_scheme:
  "ensurePodDisruptionBudget h a = ignore (ensureObject (h_Client h) KPodDisruptionBudget OPodDisruptionBudget asPodDisruptionBudget
     (BuildNamespacedName (h_Env h) (oa_Name a @ PDBSuffix))
     (prepareOwned h a OPodDisruptionBudget (\<lambda>x m. x\<lparr>pdb_Meta := m\<rparr>) (buildOCMAgentPodDisruptionBudget (h_Env h) a))
     (\<lambda>x. \<not> pdb_Spec x = pdb_Spec (buildOCMAgentPodDisruptionBudget (h_Env h) a))
     (\<lambda>x. x\<lparr>pdb_Spec := pdb_Spec (buildOCMAgentPodDisruptionBudget (h_Env h) a)\<rparr>))"
  unfolding ensureObject_handler ensurePodDisruptionBudget_def owned_simps Let_def metaOf.simps
  by (simp add: BuildNamespacedName_eq)

lemma ensureServiceMonitor_ensures:
  assumes "platform h view"
  shows "ensures view (ensureServiceMonitor h a) {monitorRef (h_Env h) a} {} {} (\<lambda>_. True) (monitorOk (h_Env h) a)"
  using monitor.owned_ensures[OF assms, of "h_Env h" a a]
  by (simp add: ensureServiceMonitor_scheme resource_refs monitorOk_def[abs_def])

lemma ensurePodDisruptionBudget_ensures:
  assumes "platform h view"
  shows "ensures view (ensurePodDisruptionBudget h a) {budgetRef (h_Env h) a} {} {} (\<lambda>_. True) (budgetOk (h_Env h) a)"
  using budget.owned_ensures[OF assms, of "h_Env h" a a]
  by (simp add: ensurePodDisruptionBudget_scheme resource_refs budgetOk_def[abs_def])

lemma ensureServiceMonitor_up:
  assumes "platform_up h view" and "oa_Namespace a = operatorNamespace (h_Env h)"
  shows "succeeds (ensureServiceMonitor h a)" and "succeeds (ensurePodDisruptionBudget h a)"
  using monitor.owned_up[OF assms(1), of "h_Env h" a a] budget.owned_up[OF assms(1), of "h_Env h" a a] assms(2)
  by (simp_all add: ensureServiceMonitor_scheme ensurePodDisruptionBudget_scheme)

lemma ensureServiceMonitorDeleted_ensures:
  assumes "platform h view"
  shows "ensures view (ensureServiceMonitorDeleted h a) {monitorRef (h_Env h) a} {} {}
    (noFinalizers (monitorRef (h_Env h) a)) (absent (monitorRef (h_Env h) a))"
  using sm.delete_ensures[OF platform_api[OF assms], of "BuildNamespacedName (h_Env h) (oa_Name a @ ''-metrics'')"]
  by (simp add: ensureServiceMonitorDeleted_def deleteObject_handler monitorRef_def)

lemma ensurePodDisruptionBudgetDeleted_ensures:
  assumes "platform h view"
  shows "ensures view (ensurePodDisruptionBudgetDeleted h a) {budgetRef (h_Env h) a} {} {}
    (noFinalizers (budgetRef (h_Env h) a)) (absent (budgetRef (h_Env h) a))"
  using pdb.delete_ensures[OF platform_api[OF assms], of "BuildNamespacedName (h_Env h) (oa_Name a @ PDBSuffix)"]
  by (simp add: ensurePodDisruptionBudgetDeleted_def deleteObject_def budgetRef_def BuildNamespacedName_eq)

end
