(* ===== verification/Handler.thy ===== *)
theory Handler
  imports Deployments Secrets Services ConfigMaps NetworkPolicies ServiceMonitors
begin

text \<open>
  The handler (\<^verbatim>\<open>pkg/ocmagenthandler/ocmagenthandler.go\<close>): all resources of an agent are ensured, the
  secret first, or removed. The contracts of the components compose here.
\<close>

section \<open>Model\<close>

definition EnsureOCMAgentResourcesExist :: "'s ocmAgentHandler \<Rightarrow> OcmAgent \<Rightarrow> ('s, unit) step" where
  "EnsureOCMAgentResourcesExist h ocmAgent =
     andThen (if \<not> oa_FleetMode ocmAgent then ensureAccessTokenSecret h ocmAgent
              else andThen (ensureFleetClientSecret h ocmAgent) (\<lambda>_. ok False)) (\<lambda>secretUpdated.
       let ensureFuncs = [ensureDeployment, ensureAllConfigMaps, ensureService, ensureAllNetworkPolicies, ensureServiceMonitor];
           ensureFuncs = (if sint (oas_Replicas (oa_Spec ocmAgent)) > 1 then ensureFuncs @ [ensurePodDisruptionBudget] else ensureFuncs)
       in andThen (forEach ensureFuncs (\<lambda>fn. fn h ocmAgent)) (\<lambda>_.
          if secretUpdated then restartOCMAgentPods h ocmAgent else ok ()))"

definition EnsureOCMAgentResourcesAbsent :: "'s ocmAgentHandler \<Rightarrow> OcmAgent \<Rightarrow> ('s, unit) step" where
  "EnsureOCMAgentResourcesAbsent h ocmAgent =
     (let ensureFuncs = [ensureDeploymentDeleted, ensureServiceDeleted, ensureAllConfigMapsDeleted,
            ensureAllNetworkPoliciesDeleted, ensureServiceMonitorDeleted, ensurePodDisruptionBudgetDeleted];
          ensureFuncs = (if \<not> oa_FleetMode ocmAgent then ensureFuncs @ [ensureAccessTokenSecretDeleted] else ensureFuncs)
      in forEach ensureFuncs (\<lambda>fn. fn h ocmAgent))"

section \<open>Specification\<close>

text \<open>More than one replica.\<close>
definition replicated :: "OcmAgent \<Rightarrow> bool" where
  "replicated a \<longleftrightarrow> 1 < sint (oas_Replicas (oa_Spec a))"

text \<open>What the ensure functions after the secret manage.\<close>
definition bodyRefs :: "Env \<Rightarrow> OcmAgent \<Rightarrow> Ref set" where
  "bodyRefs env a = {deploymentRef env a} \<union> configMapRefs env a \<union> {serviceRef env a, metricsRef env a} \<union>
     policyRefs env a \<union> {monitorRef env a} \<union> (if replicated a then {budgetRef env a} else {})"

definition bodyOk :: "'s ocmAgentHandler \<Rightarrow> OcmAgent \<Rightarrow> Cluster \<Rightarrow> bool" where
  "bodyOk h a cl \<longleftrightarrow> deploymentOk (h_Env h) a cl \<and> configMapsOk h a cl \<and> servicesOk (h_Env h) a cl \<and>
     policiesOk (h_Env h) a cl \<and> monitorOk (h_Env h) a cl \<and> (replicated a \<longrightarrow> budgetOk (h_Env h) a cl)"

text \<open>The labels of what is there are as expected, and the image is set: an update can repair the rest.\<close>
definition bodyFit :: "'s ocmAgentHandler \<Rightarrow> OcmAgent \<Rightarrow> Cluster \<Rightarrow> bool" where
  "bodyFit h a cl \<longleftrightarrow> deploymentFit (h_Env h) a cl \<and> servicesLabelled (h_Env h) a cl"

text \<open>The secret of the agent: outside fleet mode the token of the cluster, in fleet mode any secret.\<close>
definition credentialsOk :: "'s ocmAgentHandler \<Rightarrow> OcmAgent \<Rightarrow> Cluster \<Rightarrow> bool" where
  "credentialsOk h a cl \<longleftrightarrow>
     (if oa_FleetMode a then \<exists>x. cl_Objects cl (tokenRef (h_Env h) a) = Some (OSecret x) else secretOk h a cl)"

text \<open>Everything an agent needs is in place.\<close>
definition deployed :: "'s ocmAgentHandler \<Rightarrow> OcmAgent \<Rightarrow> Cluster \<Rightarrow> bool" where
  "deployed h a cl \<longleftrightarrow> credentialsOk h a cl \<and> bodyOk h a cl"

text \<open>The objects the operator may write for an agent, and the gauge.\<close>
definition agentRefs :: "Env \<Rightarrow> OcmAgent \<Rightarrow> Ref set" where
  "agentRefs env a = bodyRefs env a \<union> (if oa_FleetMode a then {} else {tokenRef env a})"

definition agentGauges :: "OcmAgent \<Rightarrow> (string \<times> string list) set" where
  "agentGauges a = (if oa_FleetMode a then {} else {secretGauge a})"

section \<open>The ensure functions after the secret\<close>

definition ensureBody :: "'s ocmAgentHandler \<Rightarrow> OcmAgent \<Rightarrow> ('s, unit) step" where
  "ensureBody h a = forEach ([ensureDeployment, ensureAllConfigMaps, ensureService, ensureAllNetworkPolicies, ensureServiceMonitor] @
     (if replicated a then [ensurePodDisruptionBudget] else [])) (\<lambda>fn. fn h a)"

lemma EnsureExist_body:
  "EnsureOCMAgentResourcesExist h a =
     andThen (if \<not> oa_FleetMode a then ensureAccessTokenSecret h a
              else andThen (ensureFleetClientSecret h a) (\<lambda>_. ok False)) (\<lambda>secretUpdated.
       andThen (ensureBody h a) (\<lambda>_. if secretUpdated then restartOCMAgentPods h a else ok ()))"
  by (simp add: EnsureOCMAgentResourcesExist_def ensureBody_def replicated_def Let_def)

text \<open>Objects of different kinds do not interfere.\<close>
definition kinds :: "Ref set \<Rightarrow> Kind set" where
  "kinds R = fst ` R"

lemma kinds_disjoint: "kinds R \<inter> kinds S = {} \<Longrightarrow> R \<inter> S = {}"
  by (auto simp: kinds_def)

lemma not_kinds: "fst r \<notin> kinds R \<Longrightarrow> r \<notin> R"
  unfolding kinds_def by blast

lemma kinds_simps [simp]:
  "kinds {} = {}" "kinds (insert r R) = insert (fst r) (kinds R)" "kinds (R \<union> S) = kinds R \<union> kinds S"
  by (auto simp: kinds_def)

lemma kinds_refs [simp]:
  "fst (deploymentRef env a) = KDeployment" "kinds (configMapRefs env a) = {KConfigMap}" "fst (serviceRef env a) = KService"
  "fst (metricsRef env a) = KService" "kinds (policyRefs env a) = {KNetworkPolicy}" "fst (monitorRef env a) = KServiceMonitor"
  "fst (budgetRef env a) = KPodDisruptionBudget" "fst (tokenRef env a) = KSecret" "fst pullRef = KSecret"
  "fst versionRef = KClusterVersion" "fst proxyRef = KProxy"
  by (auto simp: deploymentRef_def kinds_def configMapRefs_def configRef_def trustRef_def camoRef_def serviceRef_def
      metricsRef_def policyRefs_def policyRef_def policyNamespaces_def monitorRef_def budgetRef_def tokenRef_def pullRef_def
      versionRef_def proxyRef_def)

lemma ensures_andThen_kinds:
  assumes "ensures view m R G D fit goal" and "ensures view n S H E fit' goal'"
    and "kinds R \<inter> kinds (S \<union> E) = {}" and "kinds S \<inter> kinds (R \<union> D) = {}"
  shows "ensures view (andThen m (\<lambda>_. n)) (R \<union> S) (G \<union> H) (D \<union> E) (\<lambda>cl. fit cl \<and> fit' cl) (\<lambda>cl. goal cl \<and> goal' cl)"
  by (rule ensures_andThen[OF assms(1,2)]) (use assms(3,4) in \<open>auto intro!: kinds_disjoint\<close>)

lemma ensureBody_ensures:
  assumes plat: "platform h view"
  shows "ensures view (ensureBody h a) (bodyRefs (h_Env h) a) {} {proxyRef, versionRef} (bodyFit h a) (bodyOk h a)"
proof -
  let ?env = "h_Env h"
  have last: "ensures view (forEach (if replicated a then [ensurePodDisruptionBudget] else []) (\<lambda>fn. fn h a))
      (if replicated a then {budgetRef ?env a} else {}) {} {} (\<lambda>_. True) (\<lambda>cl. replicated a \<longrightarrow> budgetOk ?env a cl)"
    using ensurePodDisruptionBudget_ensures[OF plat, of a] ensures_ok[of view] by (cases "replicated a") simp_all
  note e5 = ensures_andThen_kinds[OF ensureServiceMonitor_ensures[OF plat, of a] last]
  note e4 = ensures_andThen_kinds[OF ensureAllNetworkPolicies_ensures[OF plat, of a] e5]
  note e3 = ensures_andThen_kinds[OF ensureService_ensures[OF plat, of a] e4]
  note e2 = ensures_andThen_kinds[OF ensureAllConfigMaps_ensures[OF plat, of a] e3]
  note e1 = ensures_andThen_kinds[OF ensureDeployment_ensures[OF plat, of a] e2]
  from e1 have "ensures view (ensureBody h a)
     ({deploymentRef ?env a} \<union> (configMapRefs ?env a \<union> ({serviceRef ?env a, metricsRef ?env a} \<union>
       (policyRefs ?env a \<union> ({monitorRef ?env a} \<union> (if replicated a then {budgetRef ?env a} else {})))))) {} {proxyRef, versionRef}
     (\<lambda>cl. deploymentFit ?env a cl \<and> servicesLabelled ?env a cl)
     (\<lambda>cl. deploymentOk ?env a cl \<and> configMapsOk h a cl \<and> servicesOk ?env a cl \<and> policiesOk ?env a cl \<and>
       monitorOk ?env a cl \<and> (replicated a \<longrightarrow> budgetOk ?env a cl))"
    by (simp add: ensureBody_def insert_commute)
  moreover have "{deploymentRef ?env a} \<union> (configMapRefs ?env a \<union> ({serviceRef ?env a, metricsRef ?env a} \<union>
       (policyRefs ?env a \<union> ({monitorRef ?env a} \<union> (if replicated a then {budgetRef ?env a} else {}))))) = bodyRefs ?env a"
    unfolding bodyRefs_def by blast
  ultimately show ?thesis by (simp add: bodyFit_def[abs_def] bodyOk_def[abs_def])
qed

text \<open>The parts other than the deployment do not depend on it.\<close>
lemma bodyOk_other:
  assumes plat: "platform h view" and t: "touches {deploymentRef (h_Env h) a} G cl cl'"
  shows "configMapsOk h a cl \<Longrightarrow> configMapsOk h a cl'" "servicesOk (h_Env h) a cl \<Longrightarrow> servicesOk (h_Env h) a cl'"
    "policiesOk (h_Env h) a cl \<Longrightarrow> policiesOk (h_Env h) a cl'" "monitorOk (h_Env h) a cl \<Longrightarrow> monitorOk (h_Env h) a cl'"
    "budgetOk (h_Env h) a cl \<Longrightarrow> budgetOk (h_Env h) a cl'"
  by (erule ensures_local(2)[OF ensureAllConfigMaps_ensures[OF plat] t, rotated]
      ensures_local(2)[OF ensureService_ensures[OF plat] t, rotated]
      ensures_local(2)[OF ensureAllNetworkPolicies_ensures[OF plat] t, rotated]
      ensures_local(2)[OF ensureServiceMonitor_ensures[OF plat] t, rotated]
      ensures_local(2)[OF ensurePodDisruptionBudget_ensures[OF plat] t, rotated], intro kinds_disjoint, simp)+

section \<open>The credentials\<close>

definition ensureCredentials :: "'s ocmAgentHandler \<Rightarrow> OcmAgent \<Rightarrow> ('s, bool) step" where
  "ensureCredentials h a = (if \<not> oa_FleetMode a then ensureAccessTokenSecret h a
     else andThen (ensureFleetClientSecret h a) (\<lambda>_. ok False))"

text \<open>The secret that the credentials are read from.\<close>
definition sourceRef :: "Env \<Rightarrow> OcmAgent \<Rightarrow> Ref" where
  "sourceRef env a = (if oa_FleetMode a then tokenRef env a else pullRef)"

text \<open>The agent does not use the pull secret of the cluster as its own secret.\<close>
definition ownSecret :: "Env \<Rightarrow> OcmAgent \<Rightarrow> bool" where
  "ownSecret env a \<longleftrightarrow> oa_FleetMode a \<or> tokenRef env a \<noteq> pullRef"

lemma ensureCredentials_ensures:
  assumes "platform h view" and "ownSecret (h_Env h) a"
  shows "ensures view (ignore (ensureCredentials h a)) (if oa_FleetMode a then {} else {tokenRef (h_Env h) a}) (agentGauges a)
    {sourceRef (h_Env h) a} (\<lambda>_. True) (credentialsOk h a)"
proof (cases "oa_FleetMode a")
  case True
  have fleet: "ignore (ensureCredentials h a) = ensureFleetClientSecret h a"
    using True by (simp add: ensureCredentials_def ignore_andThen del: ok_apply)
  show ?thesis
    unfolding fleet using True ensureFleetClientSecret_view[OF assms(1)]
    by (intro ensuresI) (auto simp: credentialsOk_def sourceRef_def)
next
  case False
  with assms(2) ensureAccessTokenSecret_ensures[OF assms(1), of a] show ?thesis
    by (simp add: ensureCredentials_def agentGauges_def sourceRef_def credentialsOk_def[abs_def] ownSecret_def)
qed

lemma ensureCredentials_reports:
  assumes "platform h view" and "ensureCredentials h a s = (Inr b, s')"
  shows "b \<longleftrightarrow> cl_Log (view s') \<noteq> cl_Log (view s)"
proof (cases "oa_FleetMode a")
  case True
  with assms(2) ensureFleetClientSecret_view(1)[OF assms(1)] show ?thesis by (auto simp: ensureCredentials_def go_simps)
next
  case False
  with assms(2) ensureAccessTokenSecret_reports[OF assms(1)] show ?thesis by (simp add: ensureCredentials_def)
qed

section \<open>All resources\<close>

lemma exist_cases:
  assumes "EnsureOCMAgentResourcesExist h a s = (q, s')"
  obtains (nosecret) e where "q = Inl e" "ensureCredentials h a s = (Inl e, s')"
  | (nobody) b s1 e where "q = Inl e" "ensureCredentials h a s = (Inr b, s1)" "ensureBody h a s1 = (Inl e, s')"
  | (restart) s1 s2 where "ensureCredentials h a s = (Inr True, s1)" "ensureBody h a s1 = (Inr (), s2)" "restartOCMAgentPods h a s2 = (q, s')"
  | (norestart) s1 where "q = Inr ()" "ensureCredentials h a s = (Inr False, s1)" "ensureBody h a s1 = (Inr (), s')"
proof -
  from assms have "andThen (ensureCredentials h a) (\<lambda>secretUpdated. andThen (ensureBody h a)
      (\<lambda>_. if secretUpdated then restartOCMAgentPods h a else ok ())) s = (q, s')"
    by (simp add: EnsureExist_body ensureCredentials_def)
  then show thesis
  proof (cases rule: andThen_cases)
    case (err e)
    with nosecret show thesis by blast
  next
    case (val b s1)
    from val(2) show thesis
    proof (cases rule: andThen_cases)
      case (err e)
      with nobody val show thesis by blast
    next
      case (val u s2)
      with restart norestart \<open>ensureCredentials h a s = _\<close> show thesis by (cases b) auto
    qed
  qed
qed

lemma body_kinds: "kinds (bodyRefs env a) \<subseteq> {KDeployment, KConfigMap, KService, KNetworkPolicy, KServiceMonitor, KPodDisruptionBudget}"
  by (simp add: bodyRefs_def)

lemma bodyRefs_apart: "bodyRefs env a \<inter> {tokenRef env a, pullRef, proxyRef, versionRef} = {}"
  using body_kinds[of env a] by (intro kinds_disjoint) auto

lemma ignore_Inr: "m s = (Inr b, s') \<Longrightarrow> ignore m s = (Inr (), s')"
  by (simp add: andThen_def)

lemma ignore_Inl: "m s = (Inl e, s') \<Longrightarrow> ignore m s = (Inl e, s')"
  by (simp add: andThen_def)

text \<open>The contract of \<open>EnsureOCMAgentResourcesExist\<close>.\<close>
lemma EnsureExist_ensures:
  assumes plat: "platform h view" and own: "ownSecret (h_Env h) a"
  shows "ensures view (EnsureOCMAgentResourcesExist h a) (agentRefs (h_Env h) a) (agentGauges a)
    {sourceRef (h_Env h) a, proxyRef, versionRef} (bodyFit h a) (deployed h a)"
proof -
  let ?env = "h_Env h"
  let ?T = "if oa_FleetMode a then {} else {tokenRef ?env a}"
  note credInr = ignore_Inr[of "ensureCredentials h a"] and credInl = ignore_Inl[of "ensureCredentials h a"]
  note cr = ensureCredentials_ensures[OF plat own] and bd = ensureBody_ensures[OF plat, of a]
  have depl: "deploymentRef ?env a \<in> bodyRefs ?env a" by (simp add: bodyRefs_def)
  have apart: "bodyRefs ?env a \<inter> (?T \<union> {sourceRef ?env a}) = {}" "?T \<inter> (bodyRefs ?env a \<union> {proxyRef, versionRef}) = {}"
    using bodyRefs_apart[of ?env a] kinds_disjoint[of "{tokenRef ?env a}" "{proxyRef, versionRef}"]
    by (auto simp: sourceRef_def)
  have rs: "touches (bodyRefs ?env a) {} (view t) (view t')" if "restartOCMAgentPods h a t = (r, t')" for t r t'
    using restart_touches[OF plat that] depl by (blast intro: touches_mono)
  show ?thesis
  proof (rule ensuresI)
    fix s q s' assume run: "EnsureOCMAgentResourcesExist h a s = (q, s')"
    note tr = touches_trans[where G = "agentGauges a" and H = "{}", simplified]
    have agent: "agentRefs ?env a = ?T \<union> bodyRefs ?env a" by (auto simp: agentRefs_def)
    from run show "touches (agentRefs ?env a) (agentGauges a) (view s) (view s')"
    proof (cases rule: exist_cases)
      case (nosecret e)
      from ensures_touches[OF cr credInl[OF nosecret(2)]] show ?thesis unfolding agent by (blast intro: touches_mono)
    next
      case (nobody b s1 e)
      from tr[OF ensures_touches[OF cr credInr[OF nobody(2)]] ensures_touches[OF bd nobody(3)]] show ?thesis unfolding agent .
    next
      case (restart s1 s2)
      from tr[OF tr[OF ensures_touches[OF cr credInr[OF restart(1)]] ensures_touches[OF bd restart(2)]] rs[OF restart(3)]]
      show ?thesis unfolding agent by (simp add: Un_assoc)
    next
      case (norestart s1)
      from tr[OF ensures_touches[OF cr credInr[OF norestart(2)]] ensures_touches[OF bd norestart(3)]] show ?thesis unfolding agent .
    qed
    assume goal: "deployed h a (view s)"
    have kept: "touches {} (agentGauges a) (view s) (view s1) \<and> bodyOk h a (view s1) \<and> \<not> b" if c: "ensureCredentials h a s = (Inr b, s1)" for b s1
    proof -
      from goal have "credentialsOk h a (view s)" "bodyOk h a (view s)" by (simp_all add: deployed_def)
      note k = ensures_keeps[OF cr credInr[OF c] this(1)]
      from touches_nothing[OF k] ensureCredentials_reports[OF plat c] have "\<not> b" by simp
      with k ensures_local(2)[OF bd k] \<open>bodyOk h a (view s)\<close> show ?thesis by simp
    qed
    from run show "touches {} (agentGauges a) (view s) (view s')"
    proof (cases rule: exist_cases)
      case (nosecret e)
      from ensures_keeps[OF cr credInl[OF nosecret(2)]] goal show ?thesis by (simp add: deployed_def)
    next
      case (nobody b s1 e)
      with kept[OF nobody(2)] ensures_keeps[OF bd nobody(3)] tr[of "{}" "view s" "view s1" "{}" "view s'"] show ?thesis by auto
    next
      case (restart s1 s2)
      with kept[OF restart(1)] show ?thesis by simp
    next
      case (norestart s1)
      with kept[OF norestart(2)] ensures_keeps[OF bd norestart(3)] tr[of "{}" "view s" "view s1" "{}" "view s'"] show ?thesis by auto
    qed
  next
    fix s s' assume run: "EnsureOCMAgentResourcesExist h a s = (Inr (), s')" and fit: "bodyFit h a (view s)"
    have both: "credentialsOk h a (view s2) \<and> bodyOk h a (view s2)"
      if c: "ensureCredentials h a s = (Inr b, s1)" "ensureBody h a s1 = (Inr (), s2)" for b s1 s2
    proof
      note tc = ensures_touches[OF cr credInr[OF c(1)]] and tb = ensures_touches[OF bd c(2)]
      show "credentialsOk h a (view s2)"
        using ensures_goal[OF cr credInr[OF c(1)]] ensures_local(2)[OF cr tb apart(1)] by simp
      show "bodyOk h a (view s2)"
        using ensures_goal[OF bd c(2)] ensures_local(1)[OF bd tc apart(2)] fit by simp
    qed
    from run show "deployed h a (view s')"
    proof (cases rule: exist_cases)
      case (restart s1 s2)
      note d = both[OF restart(1,2)] and t = restart_touches[OF plat restart(3)]
      have "credentialsOk h a (view s')"
        using ensures_local(2)[OF cr rs[OF restart(3)] apart(1)] d by simp
      moreover have "bodyOk h a (view s')"
        using d restart_keeps_ok[OF plat restart(3)] bodyOk_other[OF plat t] by (simp add: bodyOk_def)
      ultimately show ?thesis by (simp add: deployed_def)
    next
      case (norestart s1)
      from both[OF norestart(2,3)] show ?thesis by (simp add: deployed_def)
    qed simp_all
  next
    fix cl cl' :: Cluster assume same: "\<And>r. r \<in> agentRefs ?env a \<union> {sourceRef ?env a, proxyRef, versionRef} \<Longrightarrow> cl_Objects cl' r = cl_Objects cl r"
    then have "\<forall>r \<in> bodyRefs ?env a \<union> {proxyRef, versionRef}. cl_Objects cl' r = cl_Objects cl r"
      "\<forall>r \<in> ?T \<union> {sourceRef ?env a}. cl_Objects cl' r = cl_Objects cl r" by (auto simp: agentRefs_def)
    with cr bd show "bodyFit h a cl \<Longrightarrow> bodyFit h a cl'" "deployed h a cl \<Longrightarrow> deployed h a cl'"
      unfolding ensures_def deployed_def by blast+
  qed
qed

section \<open>Success without faults\<close>

text \<open>What an agent needs of its cluster: the proxy and version resources, a secret to read its credentials from, and names
  that make a service URL. The API server has set the replica count of a stored deployment.\<close>
definition prerequisites :: "'s ocmAgentHandler \<Rightarrow> OcmAgent \<Rightarrow> Cluster \<Rightarrow> bool" where
  "prerequisites h a cl \<longleftrightarrow>
     (\<exists>px. cl_Objects cl proxyRef = Some (OProxy px)) \<and> (\<exists>cv. cl_Objects cl versionRef = Some (OClusterVersion cv)) \<and>
     (if oa_FleetMode a then \<exists>x. cl_Objects cl (tokenRef (h_Env h) a) = Some (OSecret x)
      else (\<exists>tok. clusterToken h cl = Inr tok) \<and>
           (\<exists>url. BuildServiceURL (h_ipLiteral h) (oa_Name a) (oa_Namespace a) = Inr url)) \<and>
     replicasSet (h_Env h) a cl"

lemma ensureCredentials_up:
  assumes "platform_up h view" and "oa_Namespace a = operatorNamespace (h_Env h)" and "prerequisites h a (view s)"
  shows "\<exists>b s'. ensureCredentials h a s = (Inr b, s')"
proof (cases "oa_FleetMode a")
  case True
  with assms(3) obtain x where x: "cl_Objects (view s) (tokenRef (h_Env h) a) = Some (OSecret x)" by (auto simp: prerequisites_def)
  from assms(1) have "api_up (h_Client h) view" by (simp add: platform_up_def)
  then obtain s1 where "getAs (h_Client h) KSecret asSecret (BuildNamespacedName (h_Env h) (oa_TokenSecret a)) s = (Inr x, s1)"
    by (rule sec.getAs_up[where key = "BuildNamespacedName (h_Env h) (oa_TokenSecret a)" and s = s]) (use x in \<open>auto simp: tokenRef_def\<close>)
  with True show ?thesis by (auto simp: ensureCredentials_def ensureFleetClientSecret_def onResult_def andThen_def)
next
  case False
  with assms ensureAccessTokenSecret_up[OF assms(1,2)] show ?thesis by (auto simp: ensureCredentials_def prerequisites_def)
qed

lemma ensureBody_up:
  assumes up: "platform_up h view" and ns: "oa_Namespace a = operatorNamespace (h_Env h)"
    and px: "cl_Objects (view s) proxyRef = Some (OProxy px)" and cv: "cl_Objects (view s) versionRef = Some (OClusterVersion cv)"
    and url: "oa_FleetMode a \<or> BuildServiceURL (h_ipLiteral h) (oa_Name a) (oa_Namespace a) = Inr url"
    and rep: "replicasSet (h_Env h) a (view s)"
  shows "\<exists>s'. ensureBody h a s = (Inr (), s')"
proof -
  let ?P = "\<lambda>cl. \<exists>cv. cl_Objects cl versionRef = Some (OClusterVersion cv)"
  note plat = platform_up_platform[OF up]
  have keep: "?P cl'" if "touches R G cl cl'" "KClusterVersion \<notin> kinds R" "?P cl" for R G cl cl'
  proof -
    from that(2) have "versionRef \<notin> R" by (intro not_kinds) simp
    with touches_objects[OF that(1)] that(3) show ?thesis by simp
  qed
  have "works view ?P (ensureAllConfigMaps h a)"
    unfolding works_def
  proof (intro allI impI)
    fix s assume P: "?P (view s)"
    then obtain s' where s': "ensureAllConfigMaps h a s = (Inr (), s')" using ensureAllConfigMaps_up[OF up ns _ url] by blast
    with keep[OF ensures_touches[OF ensureAllConfigMaps_ensures[OF plat] s']] P
    show "\<exists>s'. ensureAllConfigMaps h a s = (Inr (), s') \<and> ?P (view s')" by auto
  qed
  moreover have "works view ?P (ensureService h a)" "works view ?P (ensureAllNetworkPolicies h a)"
    "works view ?P (ensureServiceMonitor h a)" "works view ?P (ensurePodDisruptionBudget h a)"
    by (rule succeeds_works[OF ensureService_up[OF up ns] ensureService_ensures[OF plat]]
        succeeds_works[OF ensureAllNetworkPolicies_up[OF up ns] ensureAllNetworkPolicies_ensures[OF plat]]
        succeeds_works[OF ensureServiceMonitor_up(1)[OF up ns] ensureServiceMonitor_ensures[OF plat]]
        succeeds_works[OF ensureServiceMonitor_up(2)[OF up ns] ensurePodDisruptionBudget_ensures[OF plat]], erule keep, simp, assumption)+
  ultimately have rest: "works view ?P (forEach ([ensureAllConfigMaps, ensureService, ensureAllNetworkPolicies, ensureServiceMonitor] @
      (if replicated a then [ensurePodDisruptionBudget] else [])) (\<lambda>fn. fn h a))"
    by (intro works_forEach) (auto split: if_splits)
  from ensureDeployment_up[OF up ns px rep] obtain s1 where s1: "ensureDeployment h a s = (Inr (), s1)" by blast
  from keep[OF ensures_touches[OF ensureDeployment_ensures[OF plat] s1]] cv have "?P (view s1)" by simp
  with rest obtain s2 where "forEach ([ensureAllConfigMaps, ensureService, ensureAllNetworkPolicies, ensureServiceMonitor] @
      (if replicated a then [ensurePodDisruptionBudget] else [])) (\<lambda>fn. fn h a) s1 = (Inr (), s2)" unfolding works_def by blast
  with s1 show ?thesis by (simp add: ensureBody_def andThen_def[of "ensureDeployment h a"])
qed

lemma EnsureExist_up:
  assumes up: "platform_up h view" and ns: "oa_Namespace a = operatorNamespace (h_Env h)" and own: "ownSecret (h_Env h) a"
    and fit: "bodyFit h a (view s)" and pre: "prerequisites h a (view s)"
  shows "\<exists>s'. EnsureOCMAgentResourcesExist h a s = (Inr (), s')"
proof -
  note plat = platform_up_platform[OF up]
  from ensureCredentials_up[OF up ns pre] obtain b s1 where c: "ensureCredentials h a s = (Inr b, s1)" by blast
  from ensures_touches[OF ensureCredentials_ensures[OF plat own] ignore_Inr[of "ensureCredentials h a", OF c]]
  have t: "touches (if oa_FleetMode a then {} else {tokenRef (h_Env h) a}) (agentGauges a) (view s) (view s1)" .
  have same: "cl_Objects (view s1) r = cl_Objects (view s) r" if "fst r \<noteq> KSecret" for r
    by (rule touches_objects[OF t]) (use that in auto)
  have "replicasSet (h_Env h) a (view s1)" "bodyFit h a (view s1)"
    using pre fit same[of "deploymentRef (h_Env h) a"] same[of "serviceRef (h_Env h) a"] same[of "metricsRef (h_Env h) a"]
    by (simp_all add: prerequisites_def replicasSet_def bodyFit_def deploymentFit_def servicesLabelled_def labelled_def)
  moreover obtain px cv url where "cl_Objects (view s1) proxyRef = Some (OProxy px)" "cl_Objects (view s1) versionRef = Some (OClusterVersion cv)"
    "oa_FleetMode a \<or> BuildServiceURL (h_ipLiteral h) (oa_Name a) (oa_Namespace a) = Inr url"
    using pre same[of proxyRef] same[of versionRef] by (auto simp: prerequisites_def split: if_splits)
  ultimately obtain s2 where s2: "ensureBody h a s1 = (Inr (), s2)" using ensureBody_up[OF up ns] by blast
  from ensures_goal[OF ensureBody_ensures[OF plat] s2 \<open>bodyFit h a (view s1)\<close>] obtain d where
    "cl_Objects (view s2) (deploymentRef (h_Env h) a) = Some (ODeployment d)" by (auto simp: bodyOk_def deploymentOk_def)
  from restart_up[OF up this] obtain s3 where s3: "restartOCMAgentPods h a s2 = (Inr (), s3)" by blast
  have "EnsureOCMAgentResourcesExist h a s = (if b then restartOCMAgentPods h a else ok ()) s2"
    using c s2 unfolding EnsureExist_body ensureCredentials_def[symmetric] by (simp add: andThen_def)
  with s3 show ?thesis by (cases b) auto
qed

text \<open>What an agent needs and gets does not depend on the client.\<close>
lemma client_irrelevant:
  "bodyFit (h\<lparr>h_Client := c\<rparr>) a cl = bodyFit h a cl" "prerequisites (h\<lparr>h_Client := c\<rparr>) a cl = prerequisites h a cl"
  "deployed (h\<lparr>h_Client := c\<rparr>) a cl = deployed h a cl"
proof -
  have "clusterToken (h\<lparr>h_Client := c\<rparr>) cl = clusterToken h cl" by (simp add: clusterToken_def split: option.split Object.split)
  then show "bodyFit (h\<lparr>h_Client := c\<rparr>) a cl = bodyFit h a cl" "prerequisites (h\<lparr>h_Client := c\<rparr>) a cl = prerequisites h a cl"
    "deployed (h\<lparr>h_Client := c\<rparr>) a cl = deployed h a cl"
    by (simp_all add: bodyFit_def prerequisites_def deployed_def credentialsOk_def secretOk_def bodyOk_def configMapsOk_def)
qed

end
