(* ===== verification/Removal.thy ===== *)
theory Removal
  imports Handler
begin

text \<open>
  Removing an agent (\<open>EnsureOCMAgentResourcesAbsent\<close> of \<^verbatim>\<open>pkg/ocmagenthandler/ocmagenthandler.go\<close>): the contract of a
  single run, and what is left of it when runs fail half-way and are retried.
\<close>

section \<open>Removal\<close>

text \<open>What the removal deletes. This is not all that the operator makes for the agent, see \<open>leftRefs\<close>.\<close>
definition absentRefs :: "Env \<Rightarrow> OcmAgent \<Rightarrow> Ref set" where
  "absentRefs env a = {deploymentRef env a, serviceRef env a, metricsRef env a} \<union> deletedConfigMapRefs env a \<union> policyRefs env a \<union>
     {monitorRef env a, budgetRef env a} \<union> (if oa_FleetMode a then {} else {tokenRef env a})"

text \<open>What the operator makes for the agent and the removal never deletes: the configuration of the agent, whose name has a
  suffix that the removal forgets, and the config map for the CA bundle. Both carry an owner reference, so they are left to the garbage collector of the
  API server.\<close>
definition leftRefs :: "Env \<Rightarrow> OcmAgent \<Rightarrow> Ref set" where
  "leftRefs env a = {configRef env a, trustRef env}"

text \<open>Nothing holds the objects back, and the metrics service is not left alone.\<close>
definition removable :: "Env \<Rightarrow> OcmAgent \<Rightarrow> Cluster \<Rightarrow> bool" where
  "removable env a cl \<longleftrightarrow> (\<forall>r \<in> absentRefs env a. noFinalizers r cl) \<and>
     (absent (serviceRef env a) cl \<longrightarrow> absent (metricsRef env a) cl)"

text \<open>All objects but the services.\<close>
definition otherRefs :: "Env \<Rightarrow> OcmAgent \<Rightarrow> Ref set" where
  "otherRefs env a = {deploymentRef env a} \<union> deletedConfigMapRefs env a \<union> policyRefs env a \<union>
     {monitorRef env a, budgetRef env a} \<union> (if oa_FleetMode a then {} else {tokenRef env a})"

text \<open>The contract of the removal, from one of the deletion of the services.\<close>
lemma EnsureAbsent_services:
  assumes plat: "platform h view" and ne: "BuildNamespacedName (h_Env h) (oa_Name a) \<noteq> CAMOConfigMapNamespacedName"
    and svc: "ensures view (ensureServiceDeleted h a) {serviceRef (h_Env h) a, metricsRef (h_Env h) a} {} {} sfit sgoal"
  shows "ensures view (EnsureOCMAgentResourcesAbsent h a) (absentRefs (h_Env h) a) {} {}
    (\<lambda>cl. (\<forall>r \<in> otherRefs (h_Env h) a. noFinalizers r cl) \<and> sfit cl) (\<lambda>cl. (\<forall>r \<in> otherRefs (h_Env h) a. absent r cl) \<and> sgoal cl)"
proof -
  let ?env = "h_Env h"
  let ?T = "if oa_FleetMode a then {} else {tokenRef ?env a}"
  have k: "kinds (deletedConfigMapRefs ?env a) = {KConfigMap}" by (auto simp: deletedConfigMapRefs_def camoRef_def)
  have last: "ensures view (forEach (if \<not> oa_FleetMode a then [ensureAccessTokenSecretDeleted] else []) (\<lambda>fn. fn h a)) ?T {} {}
      (\<lambda>cl. \<forall>r \<in> ?T. noFinalizers r cl) (\<lambda>cl. \<forall>r \<in> ?T. absent r cl)"
    using ensureAccessTokenSecretDeleted_ensures[OF plat, of a] ensures_ok[of view] by (cases "oa_FleetMode a") simp_all
  note e6 = ensures_andThen_kinds[OF ensurePodDisruptionBudgetDeleted_ensures[OF plat, of a] last]
  note e5 = ensures_andThen_kinds[OF ensureServiceMonitorDeleted_ensures[OF plat, of a] e6]
  note e4 = ensures_andThen_kinds[OF ensureAllNetworkPoliciesDeleted_ensures[OF plat, of a] e5]
  note e3 = ensures_andThen_kinds[OF ensureAllConfigMapsDeleted_ensures[OF plat ne] e4]
  note e2 = ensures_andThen_kinds[OF svc e3]
  note e1 = ensures_andThen_kinds[OF ensureDeploymentDeleted_ensures[OF plat, of a] e2]
  have run: "EnsureOCMAgentResourcesAbsent h a = andThen (ensureDeploymentDeleted h a) (\<lambda>_. andThen (ensureServiceDeleted h a)
      (\<lambda>_. andThen (ensureAllConfigMapsDeleted h a) (\<lambda>_. andThen (ensureAllNetworkPoliciesDeleted h a)
      (\<lambda>_. andThen (ensureServiceMonitorDeleted h a) (\<lambda>_. andThen (ensurePodDisruptionBudgetDeleted h a)
      (\<lambda>_. forEach (if \<not> oa_FleetMode a then [ensureAccessTokenSecretDeleted] else []) (\<lambda>fn. fn h a)))))))"
    by (simp add: EnsureOCMAgentResourcesAbsent_def)
  have refs: "{deploymentRef ?env a} \<union> ({serviceRef ?env a, metricsRef ?env a} \<union> (deletedConfigMapRefs ?env a \<union> (policyRefs ?env a \<union>
      ({monitorRef ?env a} \<union> ({budgetRef ?env a} \<union> ?T))))) = absentRefs ?env a"
    unfolding absentRefs_def by blast
  from e1 have "ensures view (EnsureOCMAgentResourcesAbsent h a) (absentRefs ?env a) {} {}
      (\<lambda>cl. noFinalizers (deploymentRef ?env a) cl \<and> sfit cl \<and> (\<forall>r \<in> deletedConfigMapRefs ?env a. noFinalizers r cl) \<and>
         (\<forall>ns \<in> set (policyNamespaces a). noFinalizers (policyRef ?env a ns) cl) \<and> noFinalizers (monitorRef ?env a) cl \<and>
         noFinalizers (budgetRef ?env a) cl \<and> (\<forall>r \<in> ?T. noFinalizers r cl))
      (\<lambda>cl. absent (deploymentRef ?env a) cl \<and> sgoal cl \<and>
         (\<forall>r \<in> deletedConfigMapRefs ?env a. absent r cl) \<and> (\<forall>r \<in> policyRefs ?env a. absent r cl) \<and> absent (monitorRef ?env a) cl \<and>
         absent (budgetRef ?env a) cl \<and> (\<forall>r \<in> ?T. absent r cl))"
    unfolding run refs by (simp add: k)
  moreover have "(\<lambda>cl. noFinalizers (deploymentRef ?env a) cl \<and> sfit cl \<and> (\<forall>r \<in> deletedConfigMapRefs ?env a. noFinalizers r cl) \<and>
         (\<forall>ns \<in> set (policyNamespaces a). noFinalizers (policyRef ?env a ns) cl) \<and> noFinalizers (monitorRef ?env a) cl \<and>
         noFinalizers (budgetRef ?env a) cl \<and> (\<forall>r \<in> ?T. noFinalizers r cl)) = (\<lambda>cl. (\<forall>r \<in> otherRefs ?env a. noFinalizers r cl) \<and> sfit cl)"
    "(\<lambda>cl. absent (deploymentRef ?env a) cl \<and> sgoal cl \<and>
         (\<forall>r \<in> deletedConfigMapRefs ?env a. absent r cl) \<and> (\<forall>r \<in> policyRefs ?env a. absent r cl) \<and> absent (monitorRef ?env a) cl \<and>
         absent (budgetRef ?env a) cl \<and> (\<forall>r \<in> ?T. absent r cl)) = (\<lambda>cl. (\<forall>r \<in> otherRefs ?env a. absent r cl) \<and> sgoal cl)"
    by (auto simp: otherRefs_def policyRefs_def fun_eq_iff)
  ultimately show ?thesis by simp
qed

lemma absentRefs_split: "absentRefs env a = otherRefs env a \<union> {serviceRef env a, metricsRef env a}"
  by (auto simp: absentRefs_def otherRefs_def)

text \<open>Everything else that the operator makes is deleted.\<close>
lemma agentRefs_deleted: "agentRefs env a \<subseteq> leftRefs env a \<union> absentRefs env a"
  by (auto simp: agentRefs_def bodyRefs_def configMapRefs_def leftRefs_def absentRefs_def deletedConfigMapRefs_def split: if_splits)

lemma leftRefs_apart:
  assumes "oa_Name a \<noteq> TrustedCaBundleConfigMapName"
  shows "leftRefs env a \<inter> absentRefs env a = {}"
proof -
  have cm: "r \<in> deletedConfigMapRefs env a" if "r \<in> absentRefs env a" "fst r = KConfigMap" for r
    using that by (auto simp: absentRefs_def policyRefs_def policyRef_def deploymentRef_def serviceRef_def metricsRef_def monitorRef_def
        budgetRef_def tokenRef_def split: if_splits)
  have "leftRefs env a \<inter> deletedConfigMapRefs env a = {}"
    using config_refs_distinct[symmetric] config_refs_distinct assms
    by (simp add: leftRefs_def deletedConfigMapRefs_def) (simp add: configRef_def trustRef_def BuildNamespacedName_eq ConfigMapSuffix_def)
  with cm show ?thesis by (auto simp: leftRefs_def configRef_def trustRef_def)
qed

text \<open>A single run removes everything that is \<open>removable\<close>.\<close>
lemma EnsureAbsent_ensures:
  assumes "platform h view" and "BuildNamespacedName (h_Env h) (oa_Name a) \<noteq> CAMOConfigMapNamespacedName"
  shows "ensures view (EnsureOCMAgentResourcesAbsent h a) (absentRefs (h_Env h) a) {} {} (removable (h_Env h) a)
    (\<lambda>cl. \<forall>r \<in> absentRefs (h_Env h) a. absent r cl)"
  by (rule ensures_weaken[OF EnsureAbsent_services[OF assms ensureServiceDeleted_ensures[OF assms(1)]]])
    (auto simp: removable_def absentRefs_split noFinalizers_def absent_def)

text \<open>The deletions of single objects are instances of the shared scheme.\<close>
lemma deletion_schemes:
  "ensureDeploymentDeleted h a = deleteObject (h_Client h) KDeployment ODeployment asDeployment (BuildNamespacedName (h_Env h) (oa_Name a))"
  "ensureServiceMonitorDeleted h a =
     deleteObject (h_Client h) KServiceMonitor OServiceMonitor asServiceMonitor (BuildNamespacedName (h_Env h) (oa_Name a @ ''-metrics''))"
  "ensurePodDisruptionBudgetDeleted h a =
     deleteObject (h_Client h) KPodDisruptionBudget OPodDisruptionBudget asPodDisruptionBudget (BuildNamespacedName (h_Env h) (oa_Name a @ PDBSuffix))"
  "ensureAccessTokenSecretDeleted h a = deleteObject (h_Client h) KSecret OSecret asSecret (BuildNamespacedName (h_Env h) (oa_TokenSecret a))"
  "ensureConfigMapDeleted h n = deleteObject (h_Client h) KConfigMap OConfigMap asConfigMap n"
  "ensureNetworkPolicyDeleted h a ns =
     deleteObject (h_Client h) KNetworkPolicy ONetworkPolicy asNetworkPolicy (buildNetworkPolicyName (h_Env h) a ns)"
  unfolding ensureDeploymentDeleted_def ensureServiceMonitorDeleted_def ensureAccessTokenSecretDeleted_def
    ensureConfigMapDeleted_def ensureNetworkPolicyDeleted_def ensurePodDisruptionBudgetDeleted_def Let_def deleteObject_handler[symmetric]
  by (simp_all add: deleteObject_def BuildNamespacedName_eq)

lemma serviceDeleteLoop_up: "platform_up h view \<Longrightarrow> succeeds (serviceDeleteLoop h names)"
proof (induction names)
  case (Cons name names)
  show ?case
    unfolding succeeds_def
  proof
    fix s
    show "\<exists>s'. serviceDeleteLoop h (name # names) s = (Inr (), s')"
    proof (cases "cl_Objects (view s) (KService, BuildNamespacedName (h_Env h) name)")
      case None
      from Cons.prems have "api_up (h_Client h) view" by (simp add: platform_up_def)
      then show ?thesis
        by (rule svc.getAs_up[where key = "BuildNamespacedName (h_Env h) name" and s = s]) (use None in \<open>auto simp: onResult_def\<close>)
    next
      case (Some x)
      from Cons.prems have api: "api_up (h_Client h) view" by (simp add: platform_up_def)
      have "succeeds (deleteService h name)"
        using svc.delete_up[OF api] unfolding succeeds_def by blast
      with Cons succeeds_andThen have "succeeds (andThen (deleteService h name) (\<lambda>_. serviceDeleteLoop h names))" by blast
      with serviceDeleteLoop_found[OF platform_up_platform[OF Cons.prems] Some] show ?thesis by (simp add: succeeds_def)
    qed
  qed
qed simp

text \<open>Without faults the removal succeeds.\<close>
lemma EnsureAbsent_up:
  assumes up: "platform_up h view"
  shows "succeeds (EnsureOCMAgentResourcesAbsent h a)"
proof -
  from up have api: "api_up (h_Client h) view" by (simp add: platform_up_def)
  have "succeeds (ensureDeploymentDeleted h a)" "succeeds (ensureServiceMonitorDeleted h a)"
    "succeeds (ensurePodDisruptionBudgetDeleted h a)" "succeeds (ensureAccessTokenSecretDeleted h a)"
    "succeeds (ensureConfigMapDeleted h n)" "succeeds (ensureNetworkPolicyDeleted h a ns)" for n ns
    unfolding deletion_schemes succeeds_def using dep.delete_up[OF api] sm.delete_up[OF api] pdb.delete_up[OF api]
      sec.delete_up[OF api] cm.delete_up[OF api] np.delete_up[OF api] by blast+
  moreover have "succeeds (ensureServiceDeleted h a)"
    unfolding ensureServiceDeleted_def by (rule serviceDeleteLoop_up[OF up])
  moreover from calculation have "succeeds (ensureAllConfigMapsDeleted h a)" "succeeds (ensureAllNetworkPoliciesDeleted h a)"
    unfolding ensureAllConfigMapsDeleted_def ensureAllNetworkPoliciesDeleted_def Let_def by (intro succeeds_forEach; simp)+
  ultimately show ?thesis
    unfolding EnsureOCMAgentResourcesAbsent_def Let_def by (intro succeeds_forEach) (auto split: if_splits)
qed

section \<open>Removal with retries\<close>

text \<open>
  A run that fails after it deleted the webhook service leaves a cluster that is not \<open>removable\<close>: the next run
  does not reach the metrics service. The other objects do go away, whatever was removed before.
\<close>

lemma ensureServiceDeleted_first:
  assumes plat: "platform h view"
  shows "ensures view (ensureServiceDeleted h a) {serviceRef (h_Env h) a, metricsRef (h_Env h) a} {} {}
    (noFinalizers (serviceRef (h_Env h) a)) (absent (serviceRef (h_Env h) a))"
proof (rule ensuresI)
  fix s q s' assume run: "ensureServiceDeleted h a s = (q, s')"
  from ensures_touches[OF ensureServiceDeleted_ensures[OF plat] run]
  show "touches {serviceRef (h_Env h) a, metricsRef (h_Env h) a} {} (view s) (view s')" .
  show "touches {} {} (view s) (view s')" if "absent (serviceRef (h_Env h) a) (view s)"
    using serviceDeleteLoop_missing[OF plat _ run[unfolded ensureServiceDeleted_def]] that by (simp add: absent_def serviceRef_def)
next
  fix s s' assume run: "ensureServiceDeleted h a s = (Inr (), s')" and fin: "noFinalizers (serviceRef (h_Env h) a) (view s)"
  show "absent (serviceRef (h_Env h) a) (view s')"
  proof (cases "cl_Objects (view s) (serviceRef (h_Env h) a)")
    case None
    with serviceDeleteLoop_missing[OF plat _ run[unfolded ensureServiceDeleted_def]] show ?thesis
      by (simp add: absent_def serviceRef_def)
  next
    case (Some x)
    note del = svc.delete_ensures[OF platform_api[OF plat]]
    from run Some obtain s1 where s1: "deleteService h (oa_Name a) s = (Inr (), s1)"
        "deleteService h (oa_Name a @ ''-metrics'') s1 = (Inr (), s')"
      unfolding ensureServiceDeleted_def
      by (auto simp: serviceRef_def serviceDeleteLoop_found[OF plat] serviceDeleteLoop_one andThen_Inr simp del: serviceDeleteLoop.simps)
    from ensures_goal[OF del s1(1)] fin have "absent (serviceRef (h_Env h) a) (view s1)" by (simp add: serviceRef_def)
    moreover have "cl_Objects (view s') (serviceRef (h_Env h) a) = cl_Objects (view s1) (serviceRef (h_Env h) a)"
      by (rule touches_objects[OF ensures_touches[OF del s1(2)]]) (simp add: serviceRef_def)
    ultimately show ?thesis by (simp add: absent_def)
  qed
qed (simp_all add: noFinalizers_def absent_def)

text \<open>What is removed even when runs fail and are retried.\<close>
definition removedRefs :: "Env \<Rightarrow> OcmAgent \<Rightarrow> Ref set" where
  "removedRefs env a = absentRefs env a - {metricsRef env a}"

definition unheld :: "Env \<Rightarrow> OcmAgent \<Rightarrow> Cluster \<Rightarrow> bool" where
  "unheld env a cl \<longleftrightarrow> (\<forall>r \<in> absentRefs env a. noFinalizers r cl)"

lemma removedRefs_split: "removedRefs env a = insert (serviceRef env a) (otherRefs env a)"
proof -
  have "metricsRef env a \<notin> otherRefs env a"
    by (rule not_kinds) (auto simp: otherRefs_def deletedConfigMapRefs_def camoRef_def)
  then show ?thesis using service_refs_distinct[of env a] by (auto simp: removedRefs_def absentRefs_split)
qed

text \<open>Of all that is made for the agent and all that the removal deletes, three objects may be left.\<close>
lemma removedRefs_made:
  "agentRefs env a \<union> absentRefs env a - {configRef env a, trustRef env, metricsRef env a} \<subseteq> removedRefs env a"
  using agentRefs_deleted[of env a] by (auto simp: removedRefs_def leftRefs_def)

lemma EnsureAbsent_retried:
  assumes "platform h view" and "BuildNamespacedName (h_Env h) (oa_Name a) \<noteq> CAMOConfigMapNamespacedName"
  shows "ensures view (EnsureOCMAgentResourcesAbsent h a) (absentRefs (h_Env h) a) {} {} (unheld (h_Env h) a)
    (\<lambda>cl. \<forall>r \<in> removedRefs (h_Env h) a. absent r cl)"
  by (rule ensures_weaken[OF EnsureAbsent_services[OF assms ensureServiceDeleted_first[OF assms(1)]]])
    (auto simp: unheld_def absentRefs_split removedRefs_split noFinalizers_def absent_def)

text \<open>A deletion only takes objects away, or marks them; it adds no finalizer.\<close>
definition releases :: "Cluster \<Rightarrow> Cluster \<Rightarrow> bool" where
  "releases cl cl' \<longleftrightarrow> (\<forall>r. (noFinalizers r cl \<longrightarrow> noFinalizers r cl') \<and> (absent r cl \<longrightarrow> absent r cl'))"

lemma releases_refl [simp]: "releases cl cl"
  by (simp add: releases_def)

lemma releases_trans: "releases a b \<Longrightarrow> releases b c \<Longrightarrow> releases a c"
  by (auto simp: releases_def)

lemma releases_absent: "releases cl cl' \<Longrightarrow> absent r cl \<Longrightarrow> absent r cl'"
  unfolding releases_def by blast

lemma releases_unheld: "releases cl cl' \<Longrightarrow> unheld env a cl \<Longrightarrow> unheld env a cl'"
  unfolding releases_def unheld_def by blast

lemma deleteResults_release: "cl' \<in> deleteResults x cl \<Longrightarrow> releases cl cl'"
  by (auto simp: deleteResults_def releases_def noFinalizers_def absent_def marked_no_finalizers split: if_splits)

text \<open>A step that releases, whatever its outcome.\<close>
definition releasing :: "('s \<Rightarrow> Cluster) \<Rightarrow> ('s, unit) step \<Rightarrow> bool" where
  "releasing view m \<longleftrightarrow> (\<forall>s q s'. m s = (q, s') \<longrightarrow> releases (view s) (view s'))"

context object_kind
begin

lemma delete_releases:
  assumes "api c view" and run: "deleteObject c kind wrap as key s = (q, s')"
  shows "releases (view s) (view s')"
  using run unfolding deleteObject_def
proof (cases rule: onResult_cases)
  case (err e s1)
  with getAs_view[OF assms(1) err(1)] show ?thesis by (auto split: if_splits)
next
  case (val y s1)
  from assms(1) have acc: "accepts view (c_Delete c (wrap y)) (deleteResults (wrap y)) s1" by (simp add: api_def)
  with val(2) have "view s' \<in> insert (view s1) (deleteResults (wrap y) (view s1))" by (auto simp: accepts_def split: sum.splits)
  with deleteResults_release getAs_view[OF assms(1) val(1)] show ?thesis by auto
qed

lemma delete_releasing: "api c view \<Longrightarrow> releasing view (deleteObject c kind wrap as key)"
  unfolding releasing_def by (intro allI impI) (rule delete_releases)

end

lemma serviceDeleteLoop_releases:
  assumes "platform h view"
  shows "serviceDeleteLoop h names s = (q, s') \<Longrightarrow> releases (view s) (view s')"
proof (induction names arbitrary: s)
  case (Cons name names)
  show ?case
  proof (cases "cl_Objects (view s) (KService, BuildNamespacedName (h_Env h) name)")
    case None
    with serviceDeleteLoop_missing[OF assms None Cons.prems] show ?thesis by simp
  next
    case (Some x)
    from Cons.prems have "andThen (deleteService h name) (\<lambda>_. serviceDeleteLoop h names) s = (q, s')"
      using serviceDeleteLoop_found[OF assms Some] by simp
    then show ?thesis
    proof (cases rule: andThen_cases)
      case (err e)
      with svc.delete_releases[OF platform_api[OF assms]] show ?thesis by blast
    next
      case (val u s1)
      with svc.delete_releases[OF platform_api[OF assms] val(1)] Cons.IH releases_trans show ?thesis by blast
    qed
  qed
qed simp

lemma releasing_forEach:
  assumes "\<And>x. x \<in> set xs \<Longrightarrow> releasing view (f x)"
  shows "releasing view (forEach xs f)"
  unfolding releasing_def
proof (intro allI impI)
  fix s q s' assume "forEach xs f s = (q, s')"
  then show "releases (view s) (view s')"
    by (rule forEach_rel[where R = "\<lambda>s s'. releases (view s) (view s')"])
      (use assms releases_trans in \<open>auto simp: releasing_def\<close>)
qed

lemma EnsureAbsent_releases:
  assumes plat: "platform h view"
  shows "releasing view (EnsureOCMAgentResourcesAbsent h a)"
proof -
  note api = platform_api[OF plat]
  have one: "releasing view (ensureDeploymentDeleted h a)" "releasing view (ensureServiceMonitorDeleted h a)"
    "releasing view (ensurePodDisruptionBudgetDeleted h a)" "releasing view (ensureAccessTokenSecretDeleted h a)"
    "releasing view (ensureConfigMapDeleted h n)" "releasing view (ensureNetworkPolicyDeleted h a ns)" for n ns
    unfolding deletion_schemes
    by (rule dep.delete_releasing[OF api] sm.delete_releasing[OF api] pdb.delete_releasing[OF api] sec.delete_releasing[OF api]
        cm.delete_releasing[OF api] np.delete_releasing[OF api])+
  have "releasing view (ensureServiceDeleted h a)"
    unfolding ensureServiceDeleted_def releasing_def using serviceDeleteLoop_releases[OF plat] by blast
  moreover have "releasing view (ensureAllConfigMapsDeleted h a)" "releasing view (ensureAllNetworkPoliciesDeleted h a)"
    unfolding ensureAllConfigMapsDeleted_def ensureAllNetworkPoliciesDeleted_def Let_def
    by (rule releasing_forEach, rule one)+
  ultimately show ?thesis
    unfolding EnsureOCMAgentResourcesAbsent_def Let_def using one
    by (intro releasing_forEach) (auto split: if_splits)
qed

section \<open>Properties\<close>

text \<open>The removal is incomplete: a run of \<open>EnsureOCMAgentResourcesAbsent\<close>, whatever its outcome, leaves the configuration of the
  agent and the config map for the CA bundle on the cluster as they are. It deletes a config map with the plain name of the
  agent instead of the one that was made.\<close>
theorem removal_leaves_config:
  assumes "platform h view" and "BuildNamespacedName (h_Env h) (oa_Name a) \<noteq> CAMOConfigMapNamespacedName"
    and "oa_Name a \<noteq> TrustedCaBundleConfigMapName" and run: "EnsureOCMAgentResourcesAbsent h a s = (q, s')"
  shows "cl_Objects (view s') (configRef (h_Env h) a) = cl_Objects (view s) (configRef (h_Env h) a) \<and>
    cl_Objects (view s') (trustRef (h_Env h)) = cl_Objects (view s) (trustRef (h_Env h))"
  using touches_objects[OF ensures_touches[OF EnsureAbsent_ensures[OF assms(1,2)] run]] leftRefs_apart[OF assms(3), of "h_Env h"]
  by (simp add: leftRefs_def)

theorem removal_leaves_config_witness:
  "\<exists>q s'. EnsureOCMAgentResourcesAbsent memHandler sampleAgent (storeAll [OConfigMap (buildOCMAgentConfigMap (h_Env memHandler) sampleAgent ''c-1'')]) = (q, s') \<and>
     cl_Objects (memView s') (configRef (h_Env memHandler) sampleAgent) = Some (OConfigMap (buildOCMAgentConfigMap (h_Env memHandler) sampleAgent ''c-1''))"
proof -
  let ?x = "buildOCMAgentConfigMap (h_Env memHandler) sampleAgent ''c-1''"
  let ?s = "storeAll [OConfigMap ?x]"
  obtain q s' where run: "EnsureOCMAgentResourcesAbsent memHandler sampleAgent ?s = (q, s')" by fastforce
  obtain d where x: "?x = freshCM (BuildNamespacedName (h_Env memHandler) (oa_Name sampleAgent @ ConfigMapSuffix)) None d"
    using configmaps_fresh(1) by blast
  have v: "memView ?s = ?s" unfolding x by (rule memView_storeAll) (simp add: persisted_def newMeta_def)
  have "cl_Objects (memView ?s) (configRef (h_Env memHandler) sampleAgent) = Some (OConfigMap ?x)"
    unfolding v unfolding x by (simp add: storeAll_def configRef_def)
  moreover have "BuildNamespacedName (h_Env memHandler) (oa_Name sampleAgent) \<noteq> CAMOConfigMapNamespacedName"
    "oa_Name sampleAgent \<noteq> TrustedCaBundleConfigMapName"
    by (simp_all add: BuildNamespacedName_eq CAMOConfigMapNamespacedName_def TrustedCaBundleConfigMapName_def)
  ultimately show ?thesis using removal_leaves_config[OF memHandler_platform _ _ run] run by auto
qed

end
