(* ===== verification/OcmAgentController.thy ===== *)
theory OcmAgentController
  imports Removal
begin

text \<open>
  The OcmAgent controller (\<^verbatim>\<open>controllers/ocmagent/ocmagent_controller.go\<close>) and the builder of its handler
  (\<^verbatim>\<open>pkg/ocmagenthandler/ocmagenthandler.go\<close>). The controller sees the handler as the interface
  \<open>OCMAgentHandler\<close>; the locale \<open>agent_handler\<close> states what it relies on, and the handler of the repository is its instance.

  The controller keeps its own client (that of the manager) beside the one of the handler. The finalizer functions
  of controller-runtime's \<open>controllerutil\<close> are the parameter \<open>Controllerutil\<close>.
\<close>

section \<open>Model\<close>

record 's OCMAgentHandler =
  EnsureExist :: "OcmAgent \<Rightarrow> ('s, unit) step"
  EnsureAbsent :: "OcmAgent \<Rightarrow> ('s, unit) step"

record 's OcmAgentHandlerBuilder =
  New :: "error + 's OCMAgentHandler"

record 's ocmAgentHandlerBuilder =
  ohb_Client :: "'s Client"

text \<open>The methods of a handler.\<close>
definition handlerOf :: "'s ocmAgentHandler \<Rightarrow> 's OCMAgentHandler" where
  "handlerOf h = \<lparr>EnsureExist = EnsureOCMAgentResourcesExist h, EnsureAbsent = EnsureOCMAgentResourcesAbsent h\<rparr>"

text \<open>\<open>New\<close>; \<open>process\<close> stands for the surroundings of the handler (the scheme, the environment, the clock), the client is
  that of the builder.\<close>
definition ocmAgentHandlerBuilder_New :: "'s ocmAgentHandler \<Rightarrow> 's ocmAgentHandlerBuilder \<Rightarrow> error + 's OCMAgentHandler" where
  "ocmAgentHandlerBuilder_New process oab = Inr (handlerOf (process\<lparr>h_Client := ohb_Client oab\<rparr>))"

definition NewBuilder :: "'s ocmAgentHandler \<Rightarrow> 's Client \<Rightarrow> 's OcmAgentHandlerBuilder" where
  "NewBuilder process c = \<lparr>New = ocmAgentHandlerBuilder_New process \<lparr>ohb_Client = c\<rparr>\<rparr>"

record Controllerutil =
  ContainsFinalizer :: "ObjectMeta \<Rightarrow> string \<Rightarrow> bool"
  AddFinalizer :: "ObjectMeta \<Rightarrow> string \<Rightarrow> ObjectMeta"
  RemoveFinalizer :: "ObjectMeta \<Rightarrow> string \<Rightarrow> ObjectMeta"

record 's OcmAgentReconciler =
  r_Client :: "'s Client"
  r_OCMAgentHandlerBuilder :: "'s OcmAgentHandlerBuilder"
  r_Controllerutil :: Controllerutil
  r_GaugeSet :: "'s GaugeSet"

text \<open>\<open>reconcile.Result\<close>; the zero duration asks for no further run.\<close>
record Result =
  res_RequeueAfter :: Duration

definition emptyResult :: Result where
  "emptyResult = \<lparr>res_RequeueAfter = 0\<rparr>"

text \<open>\<open>DeletionTimestamp.IsZero()\<close> is true of the nil pointer; the API server never stores the zero time.\<close>
definition Reconcile :: "'s OcmAgentReconciler \<Rightarrow> NamespacedName \<Rightarrow> ('s, Result) step" where
  "Reconcile r request =
     onResult (getAs (r_Client r) KOcmAgent asOcmAgent request)
       (\<lambda>err. if IsNotFound err
              then andThen (UpdateMetricOcmAgentResourceAbsent (r_GaugeSet r)) (\<lambda>_. ok emptyResult)
              else fail err)
       (\<lambda>inst. andThen (ResetMetricOcmAgentResourceAbsent (r_GaugeSet r)) (\<lambda>_.
          case New (r_OCMAgentHandlerBuilder r) of
            Inl err \<Rightarrow> fail err
          | Inr oaohandler \<Rightarrow>
              if om_DeletionTimestamp (oa_Meta inst) \<noteq> None
              then andThen (EnsureAbsent oaohandler inst) (\<lambda>_.
                   andThen (if ContainsFinalizer (r_Controllerutil r) (oa_Meta inst) ReconcileOCMAgentFinalizer
                            then c_Update (r_Client r) (OOcmAgent (inst\<lparr>oa_Meta :=
                                   RemoveFinalizer (r_Controllerutil r) (oa_Meta inst) ReconcileOCMAgentFinalizer\<rparr>))
                            else ok ()) (\<lambda>_.
                   ok emptyResult))
              else andThen (EnsureExist oaohandler inst) (\<lambda>_.
                   andThen (if \<not> ContainsFinalizer (r_Controllerutil r) (oa_Meta inst) ReconcileOCMAgentFinalizer
                            then c_Update (r_Client r) (OOcmAgent (inst\<lparr>oa_Meta :=
                                   AddFinalizer (r_Controllerutil r) (oa_Meta inst) ReconcileOCMAgentFinalizer\<rparr>))
                            else ok ()) (\<lambda>_.
                   ok \<lparr>res_RequeueAfter = SyncPeriodDefault\<rparr>))))"

text \<open>\<open>SetupWithManager\<close>: the resource that is reconciled, and the kinds of which an object that it controls triggers a run for it.\<close>
record Watches =
  w_For :: Kind
  w_Owns :: "Kind list"

definition SetupWithManager :: Watches where
  "SetupWithManager = \<lparr>w_For = KOcmAgent,
     w_Owns = [KNetworkPolicy, KDeployment, KService, KSecret, KConfigMap, KServiceMonitor, KPodDisruptionBudget]\<rparr>"

section \<open>What the controller relies on\<close>

text \<open>The documented behaviour of the finalizer functions: they read and change the list of finalizers only.\<close>
definition finalizers_ok :: "Controllerutil \<Rightarrow> bool" where
  "finalizers_ok u \<longleftrightarrow> (\<forall>m f. (ContainsFinalizer u m f \<longleftrightarrow> f \<in> set (om_Finalizers m)) \<and>
     (\<exists>fs. AddFinalizer u m f = m\<lparr>om_Finalizers := fs\<rparr> \<and> set fs = insert f (set (om_Finalizers m))) \<and>
     (\<exists>fs. RemoveFinalizer u m f = m\<lparr>om_Finalizers := fs\<rparr> \<and> set fs = set (om_Finalizers m) - {f}))"

text \<open>A reconciler set up with a handler.\<close>
definition wired :: "'s OcmAgentReconciler \<Rightarrow> 's OCMAgentHandler \<Rightarrow> ('s \<Rightarrow> Cluster) \<Rightarrow> bool" where
  "wired r handler view \<longleftrightarrow> api (r_Client r) view \<and> New (r_OCMAgentHandlerBuilder r) = Inr handler \<and>
     finalizers_ok (r_Controllerutil r) \<and>
     (\<forall>g ls v s. view (r_GaugeSet r g ls v s) = (view s)\<lparr>cl_Gauges := (cl_Gauges (view s))((g, ls) \<mapsto> v)\<rparr>)"

abbreviation agentRef :: "NamespacedName \<Rightarrow> Ref" where
  "agentRef request \<equiv> (KOcmAgent, request)"

abbreviation absentGauge :: "string \<times> string list" where
  "absentGauge \<equiv> (MetricOcmAgentResourceAbsent, [])"

definition agentAt :: "NamespacedName \<Rightarrow> OcmAgent \<Rightarrow> Cluster \<Rightarrow> bool" where
  "agentAt request a cl \<longleftrightarrow> cl_Objects cl (agentRef request) = Some (OOcmAgent a)"

definition hasFinalizer :: "OcmAgent \<Rightarrow> bool" where
  "hasFinalizer a \<longleftrightarrow> ReconcileOCMAgentFinalizer \<in> set (om_Finalizers (oa_Meta a))"

definition deleting :: "OcmAgent \<Rightarrow> bool" where
  "deleting a \<longleftrightarrow> om_DeletionTimestamp (oa_Meta a) \<noteq> None"

text \<open>The last steps of a run: the finalizer is removed or added.\<close>
definition releaseAgent :: "'s OcmAgentReconciler \<Rightarrow> OcmAgent \<Rightarrow> ('s, unit) step" where
  "releaseAgent r a = (if ContainsFinalizer (r_Controllerutil r) (oa_Meta a) ReconcileOCMAgentFinalizer
     then c_Update (r_Client r) (OOcmAgent (a\<lparr>oa_Meta := RemoveFinalizer (r_Controllerutil r) (oa_Meta a) ReconcileOCMAgentFinalizer\<rparr>))
     else ok ())"

definition claimAgent :: "'s OcmAgentReconciler \<Rightarrow> OcmAgent \<Rightarrow> ('s, unit) step" where
  "claimAgent r a = (if \<not> ContainsFinalizer (r_Controllerutil r) (oa_Meta a) ReconcileOCMAgentFinalizer
     then c_Update (r_Client r) (OOcmAgent (a\<lparr>oa_Meta := AddFinalizer (r_Controllerutil r) (oa_Meta a) ReconcileOCMAgentFinalizer\<rparr>))
     else ok ())"

lemma andThen_gauge:
  "andThen (ResetMetricOcmAgentResourceAbsent gaugeSet) f s = f () (gaugeSet MetricOcmAgentResourceAbsent [] 0 s)"
  by (simp add: andThen_def ResetMetricOcmAgentResourceAbsent_def)

lemma reconcile_cases:
  assumes w: "wired r handler view" and run: "Reconcile r request s = (q, s')"
  obtains (missing) "q = Inr emptyResult" "cl_Objects (view s) (agentRef request) = None"
      "view s' = (view s)\<lparr>cl_Gauges := (cl_Gauges (view s))(absentGauge \<mapsto> 1)\<rparr>"
  | (unread) e where "q = Inl e" "view s' = view s"
  | (found) a s1 where "agentAt request a (view s)" "objRef (OOcmAgent a) = agentRef request"
      "view s1 = (view s)\<lparr>cl_Gauges := (cl_Gauges (view s))(absentGauge \<mapsto> 0)\<rparr>"
      "(if deleting a then andThen (EnsureAbsent handler a) (\<lambda>_. andThen (releaseAgent r a) (\<lambda>_. ok emptyResult))
        else andThen (EnsureExist handler a) (\<lambda>_. andThen (claimAgent r a) (\<lambda>_. ok \<lparr>res_RequeueAfter = SyncPeriodDefault\<rparr>))) s1 = (q, s')"
proof -
  from w have api: "api (r_Client r) view" by (simp add: wired_def)
  show thesis
    using run unfolding Reconcile_def
  proof (cases rule: onResult_cases)
    case (err e s1)
    from api err(1) show thesis
    proof (cases rule: oa.getAs_cases)
      case (missing e')
      with err w that(1) show thesis
        by (auto simp: wired_def UpdateMetricOcmAgentResourceAbsent_def andThen_def)
    next
      case (failed e')
      with err that(2) show thesis by auto
    qed simp
  next
    case (val a s1)
    from api val(1) show thesis
    proof (cases rule: oa.getAs_cases)
      case (found a')
      define s2 where "s2 = r_GaugeSet r MetricOcmAgentResourceAbsent [] 0 s1"
      have "view s2 = (view s)\<lparr>cl_Gauges := (cl_Gauges (view s))(absentGauge \<mapsto> 0)\<rparr>"
        using w found by (simp add: s2_def wired_def)
      moreover from val(2) w have "(if deleting a then andThen (EnsureAbsent handler a) (\<lambda>_. andThen (releaseAgent r a) (\<lambda>_. ok emptyResult))
        else andThen (EnsureExist handler a) (\<lambda>_. andThen (claimAgent r a) (\<lambda>_. ok \<lparr>res_RequeueAfter = SyncPeriodDefault\<rparr>))) s2 = (q, s')"
        unfolding andThen_gauge s2_def deleting_def releaseAgent_def claimAgent_def by (simp only: wired_def sum.case)
      moreover have "agentAt request a (view s)" "objRef (OOcmAgent a) = agentRef request" using found by (simp_all add: agentAt_def)
      ultimately show thesis using that(3) by blast
    qed simp_all
  qed
qed

section \<open>The finalizer\<close>

lemma finalizer_update:
  assumes "finalizers_ok u"
  shows "ContainsFinalizer u (oa_Meta a) ReconcileOCMAgentFinalizer \<longleftrightarrow> hasFinalizer a"
    and "\<exists>fs. AddFinalizer u m f = m\<lparr>om_Finalizers := fs\<rparr> \<and> set fs = insert f (set (om_Finalizers m))"
    and "\<exists>fs. RemoveFinalizer u m f = m\<lparr>om_Finalizers := fs\<rparr> \<and> set fs = set (om_Finalizers m) - {f}"
  using assms by (simp_all add: finalizers_ok_def hasFinalizer_def)

text \<open>An update of the finalizers of a stored agent.\<close>
lemma agent_update:
  assumes api: "api c view" and at: "agentAt request a (view s)" "objRef (OOcmAgent a) = agentRef request"
    and run: "c_Update c (OOcmAgent (a\<lparr>oa_Meta := (oa_Meta a)\<lparr>om_Finalizers := fs\<rparr>\<rparr>)) s = (q, s')"
  shows "touches {agentRef request} {} (view s) (view s')"
    and "q = Inr () \<Longrightarrow> if deleting a \<and> fs = [] then cl_Objects (view s') (agentRef request) = None
      else \<exists>z. agentAt request z (view s') \<and> om_Finalizers (oa_Meta z) = fs \<and> oa_Spec z = oa_Spec a \<and>
        om_DeletionTimestamp (oa_Meta z) = om_DeletionTimestamp (oa_Meta a)"
proof -
  let ?a = "a\<lparr>oa_Meta := (oa_Meta a)\<lparr>om_Finalizers := fs\<rparr>\<rparr>"
  have ref: "objRef (OOcmAgent ?a) = agentRef request" using at(2) by (simp add: objRef_def metaKey_def)
  have "cl_Objects (view s) (objRef (OOcmAgent ?a)) = Some (OOcmAgent a)"
    "om_DeletionTimestamp (metaOf (OOcmAgent ?a)) = om_DeletionTimestamp (metaOf (OOcmAgent a))"
    using at(1) ref by (simp_all add: agentAt_def)
  with api run have "touches {agentRef request} {} (view s) (view s') \<and> (q = Inr () \<longrightarrow>
      (if deleting a \<and> fs = [] then cl_Objects (view s') (agentRef request) = None
       else \<exists>z. agentAt request z (view s') \<and> om_Finalizers (oa_Meta z) = fs \<and> oa_Spec z = oa_Spec a \<and>
         om_DeletionTimestamp (oa_Meta z) = om_DeletionTimestamp (oa_Meta a)))"
  proof (cases rule: update_cases)
    case (stored z)
    from stored(2) obtain uid rv where z: "z = OOcmAgent (?a\<lparr>oa_Meta := (oa_Meta ?a)\<lparr>om_UID := uid, om_ResourceVersion := rv\<rparr>\<rparr>)"
      by (auto simp: sameButServer_def)
    then show ?thesis using stored(3)
      by (auto simp: ref agentAt_def persisted_def deleting_def intro: touches_write)
  qed (auto simp: ref)
  then show "touches {agentRef request} {} (view s) (view s')"
    "q = Inr () \<Longrightarrow> if deleting a \<and> fs = [] then cl_Objects (view s') (agentRef request) = None
      else \<exists>z. agentAt request z (view s') \<and> om_Finalizers (oa_Meta z) = fs \<and> oa_Spec z = oa_Spec a \<and>
        om_DeletionTimestamp (oa_Meta z) = om_DeletionTimestamp (oa_Meta a)" by blast+
qed

lemma release_touches:
  assumes "wired r handler view" and "agentAt request a (view s)" "objRef (OOcmAgent a) = agentRef request"
    and "releaseAgent r a s = (q, s')"
  shows "touches (if hasFinalizer a then {agentRef request} else {}) {} (view s) (view s')"
proof -
  from assms(1) have w: "api (r_Client r) view" "finalizers_ok (r_Controllerutil r)" by (simp_all add: wired_def)
  from finalizer_update(3)[OF w(2)] obtain fs where
    "RemoveFinalizer (r_Controllerutil r) (oa_Meta a) ReconcileOCMAgentFinalizer = (oa_Meta a)\<lparr>om_Finalizers := fs\<rparr>" by blast
  with assms(4) agent_update(1)[OF w(1) assms(2,3), of fs] show ?thesis
    by (auto simp: releaseAgent_def finalizer_update(1)[OF w(2)] split: if_splits)
qed

lemma claim_touches:
  assumes "wired r handler view" and "agentAt request a (view s)" "objRef (OOcmAgent a) = agentRef request"
    and "claimAgent r a s = (q, s')"
  shows "touches (if hasFinalizer a then {} else {agentRef request}) {} (view s) (view s')"
proof -
  from assms(1) have w: "api (r_Client r) view" "finalizers_ok (r_Controllerutil r)" by (simp_all add: wired_def)
  from finalizer_update(2)[OF w(2)] obtain fs where
    "AddFinalizer (r_Controllerutil r) (oa_Meta a) ReconcileOCMAgentFinalizer = (oa_Meta a)\<lparr>om_Finalizers := fs\<rparr>" by blast
  with assms(4) agent_update(1)[OF w(1) assms(2,3), of fs] show ?thesis
    by (auto simp: claimAgent_def finalizer_update(1)[OF w(2)] split: if_splits)
qed

text \<open>A claimed agent carries the finalizer.\<close>
lemma claim_done:
  assumes "wired r handler view" and "agentAt request a (view s)" "objRef (OOcmAgent a) = agentRef request"
    and "claimAgent r a s = (Inr (), s')" and "\<not> deleting a"
  shows "\<exists>z. agentAt request z (view s') \<and> hasFinalizer z \<and> oa_Spec z = oa_Spec a \<and> \<not> deleting z"
proof (cases "hasFinalizer a")
  case True
  with assms show ?thesis by (auto simp: claimAgent_def wired_def finalizer_update)
next
  case False
  from assms(1) have w: "api (r_Client r) view" "finalizers_ok (r_Controllerutil r)" by (simp_all add: wired_def)
  from finalizer_update(2)[OF w(2)] obtain fs where fs:
    "AddFinalizer (r_Controllerutil r) (oa_Meta a) ReconcileOCMAgentFinalizer = (oa_Meta a)\<lparr>om_Finalizers := fs\<rparr>"
    "set fs = insert ReconcileOCMAgentFinalizer (set (om_Finalizers (oa_Meta a)))" by blast
  with False assms(4) have "c_Update (r_Client r) (OOcmAgent (a\<lparr>oa_Meta := (oa_Meta a)\<lparr>om_Finalizers := fs\<rparr>\<rparr>)) s = (Inr (), s')"
    by (simp add: claimAgent_def finalizer_update(1)[OF w(2)])
  from agent_update(2)[OF w(1) assms(2,3) this] assms(5) fs(2) show ?thesis by (auto simp: hasFinalizer_def deleting_def)
qed

text \<open>A released agent that nothing else holds is gone.\<close>
lemma release_done:
  assumes "wired r handler view" and "agentAt request a (view s)" "objRef (OOcmAgent a) = agentRef request"
    and "releaseAgent r a s = (Inr (), s')" and "deleting a" and "set (om_Finalizers (oa_Meta a)) = {ReconcileOCMAgentFinalizer}"
  shows "cl_Objects (view s') (agentRef request) = None"
proof -
  from assms(1) have w: "api (r_Client r) view" "finalizers_ok (r_Controllerutil r)" by (simp_all add: wired_def)
  from finalizer_update(3)[OF w(2)] obtain fs where fs:
    "RemoveFinalizer (r_Controllerutil r) (oa_Meta a) ReconcileOCMAgentFinalizer = (oa_Meta a)\<lparr>om_Finalizers := fs\<rparr>"
    "set fs = set (om_Finalizers (oa_Meta a)) - {ReconcileOCMAgentFinalizer}" by blast
  with assms(4,6) have "c_Update (r_Client r) (OOcmAgent (a\<lparr>oa_Meta := (oa_Meta a)\<lparr>om_Finalizers := fs\<rparr>\<rparr>)) s = (Inr (), s')"
    by (simp add: releaseAgent_def finalizer_update(1)[OF w(2)] hasFinalizer_def)
  from agent_update(2)[OF w(1) assms(2,3) this] assms(5,6) fs(2) show ?thesis by simp
qed

section \<open>The handler as an interface\<close>

text \<open>
  What the controller relies on: contracts for the two methods of the handler, on agents that meet \<open>relies\<close>, which write
  neither OcmAgent resources nor the gauge of the controller.
\<close>
locale agent_handler =
  fixes handler :: "'s OCMAgentHandler"
    and view :: "'s \<Rightarrow> Cluster"
    and relies :: "OcmAgent \<Rightarrow> bool"
    and R :: "OcmAgent \<Rightarrow> Ref set" and G :: "OcmAgent \<Rightarrow> (string \<times> string list) set" and D :: "OcmAgent \<Rightarrow> Ref set"
    and fit :: "OcmAgent \<Rightarrow> Cluster \<Rightarrow> bool" and goal :: "OcmAgent \<Rightarrow> Cluster \<Rightarrow> bool"
    and S :: "OcmAgent \<Rightarrow> Ref set" and afit :: "OcmAgent \<Rightarrow> Cluster \<Rightarrow> bool" and agoal :: "OcmAgent \<Rightarrow> Cluster \<Rightarrow> bool"
  assumes exist_law: "relies a \<Longrightarrow> ensures view (EnsureExist handler a) (R a) (G a) (D a) (fit a) (goal a)"
    and absent_law: "relies a \<Longrightarrow> ensures view (EnsureAbsent handler a) (S a) {} {} (afit a) (agoal a)"
    and other_kinds: "KOcmAgent \<notin> kinds (R a \<union> D a \<union> S a)"
    and other_gauges: "absentGauge \<notin> G a"
begin

lemma agentRef_apart: "agentRef request \<notin> R a" "agentRef request \<notin> D a" "agentRef request \<notin> S a"
  by (rule not_kinds; use other_kinds in simp)+

text \<open>Neither method disturbs the agent.\<close>
lemma methods_keep_agent:
  assumes "relies a"
  shows "EnsureExist handler a s = (q, s') \<Longrightarrow> agentAt request b (view s) \<Longrightarrow> agentAt request b (view s')"
    and "EnsureAbsent handler a s = (q, s') \<Longrightarrow> agentAt request b (view s) \<Longrightarrow> agentAt request b (view s')"
  using touches_objects[OF ensures_touches[OF exist_law[OF assms]] agentRef_apart(1)]
    touches_objects[OF ensures_touches[OF absent_law[OF assms]] agentRef_apart(3)]
  by (simp_all add: agentAt_def)

text \<open>Updating the agent does not disturb what the methods establish.\<close>
lemma agent_update_keeps:
  assumes "relies a" and "touches {agentRef request} {} cl cl'"
  shows "goal a cl \<Longrightarrow> goal a cl'" and "agoal a cl \<Longrightarrow> agoal a cl'"
  by (erule ensures_local(2)[OF exist_law[OF assms(1)] assms(2), rotated] ensures_local(2)[OF absent_law[OF assms(1)] assms(2), rotated],
      simp add: agentRef_apart)+

lemma gauge_keeps:
  assumes "relies a" and v: "view s1 = (view s)\<lparr>cl_Gauges := (cl_Gauges (view s))(absentGauge \<mapsto> x)\<rparr>"
  shows "touches {} {absentGauge} (view s) (view s1)" and "agentAt request b (view s) \<Longrightarrow> agentAt request b (view s1)"
    and "fit a (view s) \<Longrightarrow> fit a (view s1)" and "goal a (view s) \<Longrightarrow> goal a (view s1)" and "afit a (view s) \<Longrightarrow> afit a (view s1)"
proof -
  show t: "touches {} {absentGauge} (view s) (view s1)" unfolding v by (rule touches_gauge) simp
  show "agentAt request b (view s) \<Longrightarrow> agentAt request b (view s1)" by (simp add: v agentAt_def)
  show "fit a (view s) \<Longrightarrow> fit a (view s1)" "goal a (view s) \<Longrightarrow> goal a (view s1)" "afit a (view s) \<Longrightarrow> afit a (view s1)"
    using ensures_local[OF exist_law[OF assms(1)] t] ensures_local[OF absent_law[OF assms(1)] t] by simp_all
qed

text \<open>The run for an agent that is stored.\<close>
lemma stored_cases:
  assumes w: "wired r handler view" and run: "Reconcile r request s = (q, s')" and at: "agentAt request a (view s)"
  obtains (unread) e where "q = Inl e" "view s' = view s"
  | (removed) s1 where "deleting a" "objRef (OOcmAgent a) = agentRef request"
      "view s1 = (view s)\<lparr>cl_Gauges := (cl_Gauges (view s))(absentGauge \<mapsto> 0)\<rparr>"
      "andThen (EnsureAbsent handler a) (\<lambda>_. andThen (releaseAgent r a) (\<lambda>_. ok emptyResult)) s1 = (q, s')"
  | (kept) s1 where "\<not> deleting a" "objRef (OOcmAgent a) = agentRef request"
      "view s1 = (view s)\<lparr>cl_Gauges := (cl_Gauges (view s))(absentGauge \<mapsto> 0)\<rparr>"
      "andThen (EnsureExist handler a) (\<lambda>_. andThen (claimAgent r a) (\<lambda>_. ok \<lparr>res_RequeueAfter = SyncPeriodDefault\<rparr>)) s1 = (q, s')"
  using w run
proof (cases rule: reconcile_cases)
  case (found b s1)
  with at have "b = a" by (simp add: agentAt_def)
  with found removed kept show thesis by (cases "deleting a") auto
qed (use at unread in \<open>auto simp: agentAt_def\<close>)

text \<open>While the agent carries the finalizer, it stays as it is until a removal has succeeded.\<close>
lemma finalizer_guards:
  assumes w: "wired r handler view" and run: "Reconcile r request s = (q, s')" and at: "agentAt request a (view s)"
    and rel: "relies a" and fin: "hasFinalizer a"
  shows "agentAt request a (view s') \<or> deleting a \<and> (afit a (view s) \<longrightarrow> agoal a (view s'))"
  using w run at
proof (cases rule: stored_cases)
  case (removed s1)
  note g = gauge_keeps[OF rel removed(3)]
  from removed(4) show ?thesis
  proof (cases rule: andThen_cases)
    case (err e)
    with methods_keep_agent(2)[OF rel] g(2) at show ?thesis by blast
  next
    case (val u s2)
    note at2 = methods_keep_agent(2)[OF rel val(1) g(2)[OF at]]
    have "afit a (view s) \<longrightarrow> agoal a (view s2)"
      using ensures_goal[OF absent_law[OF rel]] val(1) g(5) by simp
    moreover from val(2) obtain q' where "releaseAgent r a s2 = (q', s')" by (auto elim!: andThen_cases)
    from release_touches[OF w at2 removed(2) this] have "touches {agentRef request} {} (view s2) (view s')"
      by (rule touches_mono) auto
    ultimately show ?thesis using agent_update_keeps(2)[OF rel] removed(1) by blast
  qed
next
  case (kept s1)
  note g = gauge_keeps[OF rel kept(3)]
  from kept(4) show ?thesis
  proof (cases rule: andThen_cases)
    case (err e)
    with methods_keep_agent(1)[OF rel] g(2) at show ?thesis by blast
  next
    case (val u s2)
    note at2 = methods_keep_agent(1)[OF rel val(1) g(2)[OF at]]
    from val(2) obtain q' where "claimAgent r a s2 = (q', s')" by (auto elim!: andThen_cases)
    from claim_touches[OF w at2 kept(2) this] fin have "view s' = view s2" by (simp add: touches_empty)
    with at2 show ?thesis by simp
  qed
qed (use at in simp)

text \<open>A successful run for a live agent: the goal, the finalizer and the next run.\<close>
lemma reconcile_exists:
  assumes w: "wired r handler view" and run: "Reconcile r request s = (Inr res, s')" and at: "agentAt request a (view s)"
    and rel: "relies a" and live: "\<not> deleting a" and fit: "fit a (view s)"
  shows "res = \<lparr>res_RequeueAfter = SyncPeriodDefault\<rparr> \<and> goal a (view s') \<and>
    (\<exists>z. agentAt request z (view s') \<and> hasFinalizer z \<and> oa_Spec z = oa_Spec a \<and> \<not> deleting z)"
  using w run at
proof (cases rule: stored_cases)
  case (kept s1)
  note g = gauge_keeps[OF rel kept(3)]
  from kept(4) obtain s2 s3 where s: "EnsureExist handler a s1 = (Inr (), s2)" "claimAgent r a s2 = (Inr (), s')"
    "res = \<lparr>res_RequeueAfter = SyncPeriodDefault\<rparr>" by (auto simp: go_simps)
  note at2 = methods_keep_agent(1)[OF rel s(1) g(2)[OF at]]
  from ensures_goal[OF exist_law[OF rel] s(1) g(3)[OF fit]] have "goal a (view s2)" .
  moreover from claim_touches[OF w at2 kept(2) s(2)] have "touches {agentRef request} {} (view s2) (view s')"
    by (rule touches_mono) auto
  ultimately show ?thesis using agent_update_keeps(1)[OF rel] claim_done[OF w at2 kept(2) s(2) live] s(3) by blast
qed (use live in auto)

text \<open>A successful run for an agent that is deleted: everything is removed, the agent last.\<close>
lemma reconcile_removes:
  assumes w: "wired r handler view" and run: "Reconcile r request s = (Inr res, s')" and at: "agentAt request a (view s)"
    and rel: "relies a" and del: "deleting a" and fit: "afit a (view s)"
  shows "res = emptyResult \<and> agoal a (view s') \<and>
    (set (om_Finalizers (oa_Meta a)) = {ReconcileOCMAgentFinalizer} \<longrightarrow> cl_Objects (view s') (agentRef request) = None)"
  using w run at
proof (cases rule: stored_cases)
  case (removed s1)
  note g = gauge_keeps[OF rel removed(3)]
  from removed(4) obtain s2 where s: "EnsureAbsent handler a s1 = (Inr (), s2)" "releaseAgent r a s2 = (Inr (), s')"
    "res = emptyResult" by (auto simp: go_simps)
  note at2 = methods_keep_agent(2)[OF rel s(1) g(2)[OF at]]
  from ensures_goal[OF absent_law[OF rel] s(1) g(5)[OF fit]] have "agoal a (view s2)" .
  moreover from release_touches[OF w at2 removed(2) s(2)] have "touches {agentRef request} {} (view s2) (view s')"
    by (rule touches_mono) auto
  ultimately show ?thesis using agent_update_keeps(2)[OF rel] release_done[OF w at2 removed(2) s(2) del] s(3) by blast
qed (use del in auto)

text \<open>A run for an agent that is deleted writes what the removal deletes and the agent, and no more.\<close>
lemma reconcile_removal_frame:
  assumes w: "wired r handler view" and run: "Reconcile r request s = (q, s')" and at: "agentAt request a (view s)"
    and rel: "relies a" and del: "deleting a"
  shows "touches (insert (agentRef request) (S a)) {absentGauge} (view s) (view s')"
  using w run at
proof (cases rule: stored_cases)
  case (removed s1)
  note g = gauge_keeps[OF rel removed(3)]
  have absent: "touches (S a) {absentGauge} (view s) (view s2)" if "EnsureAbsent handler a s1 = (q2, s2)" for q2 s2
    using touches_trans[OF g(1) ensures_touches[OF absent_law[OF rel] that]] by simp
  from removed(4) show ?thesis
  proof (cases rule: andThen_cases)
    case (err e)
    from absent[OF err(1)] show ?thesis by (rule touches_mono) auto
  next
    case (val u s2)
    note at2 = methods_keep_agent(2)[OF rel val(1) g(2)[OF at]]
    from val(2) obtain q' where "releaseAgent r a s2 = (q', s')" by (auto elim!: andThen_cases)
    from touches_trans[OF absent[OF val(1)] release_touches[OF w at2 removed(2) this]] show ?thesis by (rule touches_mono) auto
  qed
qed (use del in auto)

text \<open>Where everything is in place, a run writes no object.\<close>
lemma reconcile_idle:
  assumes w: "wired r handler view" and run: "Reconcile r request s = (q, s')" and at: "agentAt request a (view s)"
    and rel: "relies a" and live: "\<not> deleting a" and fin: "hasFinalizer a" and goal: "goal a (view s)"
  shows "touches {} (insert absentGauge (G a)) (view s) (view s')"
  using w run at
proof (cases rule: stored_cases)
  case (kept s1)
  note g = gauge_keeps[OF rel kept(3)]
  have exist: "touches {} (insert absentGauge (G a)) (view s) (view s2)" if "EnsureExist handler a s1 = (q2, s2)" for q2 s2
    using touches_trans[OF g(1) ensures_keeps[OF exist_law[OF rel] that g(4)[OF goal]]] by simp
  from kept(4) show ?thesis
  proof (cases rule: andThen_cases)
    case (err e)
    with exist show ?thesis by blast
  next
    case (val u s2)
    note at2 = methods_keep_agent(1)[OF rel val(1) g(2)[OF at]]
    from val(2) obtain q' where "claimAgent r a s2 = (q', s')" by (auto elim!: andThen_cases)
    from claim_touches[OF w at2 kept(2) this] fin have "view s' = view s2" by (simp add: touches_empty)
    with exist[OF val(1)] show ?thesis by simp
  qed
qed (use live in auto)

text \<open>The result and the gauge of a successful run.\<close>
lemma reconcile_result:
  assumes w: "wired r handler view" and run: "Reconcile r request s = (Inr res, s')" and at: "agentAt request a (view s)" and rel: "relies a"
  shows "res = (if deleting a then emptyResult else \<lparr>res_RequeueAfter = SyncPeriodDefault\<rparr>) \<and> cl_Gauges (view s') absentGauge = Some 0"
  using w run at
proof (cases rule: stored_cases)
  case (removed s1)
  note g = gauge_keeps[OF rel removed(3)]
  from removed(4) obtain s2 where s: "EnsureAbsent handler a s1 = (Inr (), s2)" "releaseAgent r a s2 = (Inr (), s')" "res = emptyResult"
    by (auto simp: go_simps)
  from touches_gauges[OF ensures_touches[OF absent_law[OF rel] s(1)]]
    touches_gauges[OF release_touches[OF w methods_keep_agent(2)[OF rel s(1) g(2)[OF at]] removed(2) s(2)]] removed(3)
  have "cl_Gauges (view s') absentGauge = Some 0" by simp
  with s(3) removed(1) show ?thesis by simp
next
  case (kept s1)
  note g = gauge_keeps[OF rel kept(3)]
  from kept(4) obtain s2 where s: "EnsureExist handler a s1 = (Inr (), s2)" "claimAgent r a s2 = (Inr (), s')"
    "res = \<lparr>res_RequeueAfter = SyncPeriodDefault\<rparr>" by (auto simp: go_simps)
  from touches_gauges[OF ensures_touches[OF exist_law[OF rel] s(1)] other_gauges]
    touches_gauges[OF claim_touches[OF w methods_keep_agent(1)[OF rel s(1) g(2)[OF at]] kept(2) s(2)]] kept(3)
  have "cl_Gauges (view s') absentGauge = Some 0" by simp
  with s(3) kept(1) show ?thesis by simp
qed simp

end

section \<open>The handler of the repository\<close>

text \<open>The surroundings behave as documented, the agent does not use the pull secret of the cluster as its own, and its
  name in the namespace of the operator is not that of the config map in the monitoring namespace.\<close>
definition manageable :: "'s ocmAgentHandler \<Rightarrow> ('s \<Rightarrow> Cluster) \<Rightarrow> OcmAgent \<Rightarrow> bool" where
  "manageable h view a \<longleftrightarrow> platform h view \<and> ownSecret (h_Env h) a \<and>
     BuildNamespacedName (h_Env h) (oa_Name a) \<noteq> CAMOConfigMapNamespacedName"

lemma handler_kinds: "KOcmAgent \<notin> kinds (agentRefs env a \<union> {sourceRef env a, proxyRef, versionRef} \<union> absentRefs env a)"
proof -
  have "kinds (deletedConfigMapRefs env a) = {KConfigMap}" by (auto simp: deletedConfigMapRefs_def camoRef_def)
  then show ?thesis using body_kinds[of env a] by (auto simp: agentRefs_def absentRefs_def sourceRef_def)
qed

text \<open>Every kind of object that the handler writes is watched.\<close>
lemma watches_written: "kinds (agentRefs env a \<union> absentRefs env a) \<subseteq> set (w_Owns SetupWithManager)"
proof -
  have "kinds (deletedConfigMapRefs env a) = {KConfigMap}" by (auto simp: deletedConfigMapRefs_def camoRef_def)
  then show ?thesis using body_kinds[of env a] by (auto simp: agentRefs_def absentRefs_def SetupWithManager_def)
qed

lemma handler_gauges: "absentGauge \<notin> agentGauges a"
  by (simp add: agentGauges_def MetricOcmAgentResourceAbsent_def MetricPullSecretInvalid_def)

interpretation run: agent_handler "handlerOf h" view "manageable h view" "agentRefs (h_Env h)" agentGauges
    "\<lambda>a. {sourceRef (h_Env h) a, proxyRef, versionRef}" "bodyFit h" "deployed h"
    "absentRefs (h_Env h)" "removable (h_Env h)" "\<lambda>a cl. \<forall>r \<in> absentRefs (h_Env h) a. absent r cl" for h view
  by unfold_locales (use handler_kinds handler_gauges in \<open>auto simp: handlerOf_def manageable_def simp del: kinds_simps
      intro: EnsureExist_ensures EnsureAbsent_ensures\<close>)

interpretation retried: agent_handler "handlerOf h" view "manageable h view" "agentRefs (h_Env h)" agentGauges
    "\<lambda>a. {sourceRef (h_Env h) a, proxyRef, versionRef}" "bodyFit h" "deployed h"
    "absentRefs (h_Env h)" "unheld (h_Env h)" "\<lambda>a cl. \<forall>r \<in> removedRefs (h_Env h) a. absent r cl" for h view
  by unfold_locales (use handler_kinds handler_gauges in \<open>auto simp: handlerOf_def manageable_def simp del: kinds_simps
      intro: EnsureExist_ensures EnsureAbsent_retried\<close>)

text \<open>So the config maps that the removal forgets stay as they are.\<close>
lemma reconcile_leaves:
  assumes "wired r (handlerOf h) view" and "Reconcile r request s = (q, s')" and "agentAt request a (view s)" and "manageable h view a"
    and "deleting a" and "oa_Name a \<noteq> TrustedCaBundleConfigMapName" and x: "x \<in> leftRefs (h_Env h) a"
  shows "cl_Objects (view s') x = cl_Objects (view s) x"
proof (rule touches_objects[OF run.reconcile_removal_frame[OF assms(1-5)]])
  have "fst x = KConfigMap" using x by (auto simp: leftRefs_def configRef_def trustRef_def)
  then show "x \<notin> insert (agentRef request) (absentRefs (h_Env h) a)" using leftRefs_apart[OF assms(6), of "h_Env h"] x by auto
qed

lemma NewBuilder_handler: "New (NewBuilder process c) = Inr (handlerOf (process\<lparr>h_Client := c\<rparr>))"
  by (simp add: NewBuilder_def ocmAgentHandlerBuilder_New_def)

section \<open>Success without faults\<close>

lemma finalizer_update_up:
  assumes "api_up c view" and "agentAt request a (view s)" "objRef (OOcmAgent a) = agentRef request"
  shows "\<exists>s'. c_Update c (OOcmAgent (a\<lparr>oa_Meta := (oa_Meta a)\<lparr>om_Finalizers := fs\<rparr>\<rparr>)) s = (Inr (), s')"
proof -
  have "objRef (OOcmAgent (a\<lparr>oa_Meta := (oa_Meta a)\<lparr>om_Finalizers := fs\<rparr>\<rparr>)) = agentRef request"
    using assms(3) by (simp add: objRef_def metaKey_def)
  with assms(2) update_up[OF assms(1), of s "OOcmAgent (a\<lparr>oa_Meta := (oa_Meta a)\<lparr>om_Finalizers := fs\<rparr>\<rparr>)" "OOcmAgent a"]
  show ?thesis by (auto simp: agentAt_def)
qed

lemma finalizer_steps_up:
  assumes "wired r handler view" and "api_up (r_Client r) view" and "agentAt request a (view s)" "objRef (OOcmAgent a) = agentRef request"
  shows "\<exists>s'. releaseAgent r a s = (Inr (), s')" and "\<exists>s'. claimAgent r a s = (Inr (), s')"
proof -
  from assms(1) have fin: "finalizers_ok (r_Controllerutil r)" by (simp add: wired_def)
  obtain fs fs' where "RemoveFinalizer (r_Controllerutil r) (oa_Meta a) ReconcileOCMAgentFinalizer = (oa_Meta a)\<lparr>om_Finalizers := fs\<rparr>"
    "AddFinalizer (r_Controllerutil r) (oa_Meta a) ReconcileOCMAgentFinalizer = (oa_Meta a)\<lparr>om_Finalizers := fs'\<rparr>"
    using finalizer_update(2,3)[OF fin] by blast
  with finalizer_update_up[OF assms(2-4)] show "\<exists>s'. releaseAgent r a s = (Inr (), s')" "\<exists>s'. claimAgent r a s = (Inr (), s')"
    by (simp_all add: releaseAgent_def claimAgent_def)
qed

lemma reconcile_stored_up:
  assumes w: "wired r handler view" and up: "api_up (r_Client r) view" and at: "agentAt request a (view s)"
  obtains s1 where "objRef (OOcmAgent a) = agentRef request"
    "view s1 = (view s)\<lparr>cl_Gauges := (cl_Gauges (view s))(absentGauge \<mapsto> 0)\<rparr>"
    "Reconcile r request s =
       (if deleting a then andThen (EnsureAbsent handler a) (\<lambda>_. andThen (releaseAgent r a) (\<lambda>_. ok emptyResult))
        else andThen (EnsureExist handler a) (\<lambda>_. andThen (claimAgent r a) (\<lambda>_. ok \<lparr>res_RequeueAfter = SyncPeriodDefault\<rparr>))) s1"
proof -
  obtain q s' where run: "Reconcile r request s = (q, s')" by fastforce
  from up obtain s1 where get: "getAs (r_Client r) KOcmAgent asOcmAgent request s = (Inr a, s1)"
    by (rule oa.getAs_up[where key = request and s = s]) (use at in \<open>auto simp: agentAt_def\<close>)
  from w have api: "api (r_Client r) view" by (simp add: wired_def)
  from api get have ref: "objRef (OOcmAgent a) = agentRef request" and v: "view s1 = view s"
    by (cases rule: oa.getAs_cases; simp)+
  let ?s2 = "r_GaugeSet r MetricOcmAgentResourceAbsent [] 0 s1"
  have "Reconcile r request s =
       (if deleting a then andThen (EnsureAbsent handler a) (\<lambda>_. andThen (releaseAgent r a) (\<lambda>_. ok emptyResult))
        else andThen (EnsureExist handler a) (\<lambda>_. andThen (claimAgent r a) (\<lambda>_. ok \<lparr>res_RequeueAfter = SyncPeriodDefault\<rparr>))) ?s2"
    using w unfolding Reconcile_def onResult_def get prod.case sum.case andThen_gauge deleting_def releaseAgent_def claimAgent_def
    by (simp only: wired_def sum.case)
  moreover from w v have "view ?s2 = (view s)\<lparr>cl_Gauges := (cl_Gauges (view s))(absentGauge \<mapsto> 0)\<rparr>" by (simp add: wired_def)
  ultimately show thesis using that ref by blast
qed

lemma prerequisites_objects: "cl_Objects cl' = cl_Objects cl \<Longrightarrow> prerequisites h a cl \<Longrightarrow> prerequisites h a cl'"
  unfolding prerequisites_def clusterToken_def replicasSet_def by simp

lemma reconcile_exists_up:
  assumes w: "wired r (handlerOf h) view" and up: "api_up (r_Client r) view" "platform_up h view"
    and at: "agentAt request a (view s)" and live: "\<not> deleting a" and m: "manageable h view a"
    and ns: "oa_Namespace a = operatorNamespace (h_Env h)" and fit: "bodyFit h a (view s)" and pre: "prerequisites h a (view s)"
  shows "\<exists>s'. Reconcile r request s = (Inr \<lparr>res_RequeueAfter = SyncPeriodDefault\<rparr>, s')"
proof -
  from w up(1) at obtain s1 where s1: "objRef (OOcmAgent a) = agentRef request"
    "view s1 = (view s)\<lparr>cl_Gauges := (cl_Gauges (view s))(absentGauge \<mapsto> 0)\<rparr>"
    "Reconcile r request s = andThen (EnsureExist (handlerOf h) a) (\<lambda>_. andThen (claimAgent r a) (\<lambda>_. ok \<lparr>res_RequeueAfter = SyncPeriodDefault\<rparr>)) s1"
    by (rule reconcile_stored_up) (use live in \<open>simp split: if_splits\<close>)
  note g = run.gauge_keeps[OF m s1(2)]
  have "prerequisites h a (view s1)" using pre s1(2) by (auto intro: prerequisites_objects)
  moreover from m have "ownSecret (h_Env h) a" by (simp add: manageable_def)
  ultimately obtain s2 where s2: "EnsureExist (handlerOf h) a s1 = (Inr (), s2)"
    using EnsureExist_up[OF up(2) ns _ g(3)[OF fit]] by (auto simp: handlerOf_def)
  from finalizer_steps_up(2)[OF w up(1) run.methods_keep_agent(1)[OF m s2 g(2)[OF at]] s1(1)]
  obtain s3 where "claimAgent r a s2 = (Inr (), s3)" by blast
  with s1(3) s2 show ?thesis by (simp add: andThen_def)
qed

lemma reconcile_removes_up:
  assumes w: "wired r (handlerOf h) view" and up: "api_up (r_Client r) view" "platform_up h view"
    and at: "agentAt request a (view s)" and del: "deleting a" and m: "manageable h view a"
  shows "\<exists>s'. Reconcile r request s = (Inr emptyResult, s')"
proof -
  from w up(1) at obtain s1 where s1: "objRef (OOcmAgent a) = agentRef request"
    "view s1 = (view s)\<lparr>cl_Gauges := (cl_Gauges (view s))(absentGauge \<mapsto> 0)\<rparr>"
    "Reconcile r request s = andThen (EnsureAbsent (handlerOf h) a) (\<lambda>_. andThen (releaseAgent r a) (\<lambda>_. ok emptyResult)) s1"
    by (rule reconcile_stored_up) (use del in \<open>simp split: if_splits\<close>)
  note g = run.gauge_keeps[OF m s1(2)]
  obtain s2 where s2: "EnsureAbsent (handlerOf h) a s1 = (Inr (), s2)"
    using EnsureAbsent_up[OF up(2)] by (auto simp: handlerOf_def succeeds_def)
  from finalizer_steps_up(1)[OF w up(1) run.methods_keep_agent(2)[OF m s2 g(2)[OF at]] s1(1)]
  obtain s3 where "releaseAgent r a s2 = (Inr (), s3)" by blast
  with s1(3) s2 show ?thesis by (simp add: andThen_def)
qed

section \<open>Repeated attempts\<close>

text \<open>
  The deletion of an agent, as a state machine: attempts to reconcile, each with any outcome, interleaved with whatever else
  happens on the cluster, except for writes to the objects to be removed and to the agent.
\<close>
inductive teardown :: "'s OcmAgentReconciler \<Rightarrow> NamespacedName \<Rightarrow> ('s \<Rightarrow> Cluster) \<Rightarrow> Ref set \<Rightarrow> 's \<Rightarrow> 's \<Rightarrow> bool"
  for r request view refs where
  attempt: "Reconcile r request s = (q, s') \<Longrightarrow> teardown r request view refs s s'"
| others: "(\<And>x. x \<in> insert (agentRef request) refs \<Longrightarrow> cl_Objects (view s') x = cl_Objects (view s) x) \<Longrightarrow> teardown r request view refs s s'"

text \<open>The agent waits for its removal, or the removal is done and an agent that is still stored is still being deleted.\<close>
definition tornDown :: "'s ocmAgentHandler \<Rightarrow> ('s \<Rightarrow> Cluster) \<Rightarrow> NamespacedName \<Rightarrow> OcmAgent \<Rightarrow> Cluster \<Rightarrow> bool" where
  "tornDown h view request a cl \<longleftrightarrow> (\<forall>x \<in> removedRefs (h_Env h) a. absent x cl) \<and>
     (\<forall>b. agentAt request b cl \<longrightarrow> deleting b \<and> manageable h view b)"

definition teardownInv :: "'s ocmAgentHandler \<Rightarrow> ('s \<Rightarrow> Cluster) \<Rightarrow> NamespacedName \<Rightarrow> OcmAgent \<Rightarrow> Cluster \<Rightarrow> bool" where
  "teardownInv h view request a cl \<longleftrightarrow> unheld (h_Env h) a cl \<and> (agentAt request a cl \<or> tornDown h view request a cl)"

lemma teardownInv_local:
  assumes "\<And>x. x \<in> insert (agentRef request) (absentRefs (h_Env h) a) \<Longrightarrow> cl_Objects cl' x = cl_Objects cl x"
  shows "teardownInv h view request a cl \<Longrightarrow> teardownInv h view request a cl'"
  using assms by (auto simp: teardownInv_def tornDown_def unheld_def removedRefs_def agentAt_def absent_def noFinalizers_def)

text \<open>Whatever becomes of the request to remove the finalizer, an agent that is still stored is still being deleted.\<close>
lemma release_marks:
  assumes w: "wired r handler view" and at: "agentAt request b (view s)" "objRef (OOcmAgent b) = agentRef request"
    and run: "releaseAgent r b s = (q, s')" and del: "deleting b" and m: "manageable h view b" and c: "agentAt request c (view s')"
  shows "deleting c \<and> manageable h view c"
proof -
  from w have api: "api (r_Client r) view" "finalizers_ok (r_Controllerutil r)" by (simp_all add: wired_def)
  from finalizer_update(3)[OF api(2)] obtain fs where fs:
    "RemoveFinalizer (r_Controllerutil r) (oa_Meta b) ReconcileOCMAgentFinalizer = (oa_Meta b)\<lparr>om_Finalizers := fs\<rparr>" by blast
  let ?b = "b\<lparr>oa_Meta := (oa_Meta b)\<lparr>om_Finalizers := fs\<rparr>\<rparr>"
  have ref: "objRef (OOcmAgent ?b) = agentRef request" using at(2) by (simp add: objRef_def metaKey_def)
  have "keepsMark (OOcmAgent ?b) (view s)" using at(1) ref by (simp add: keepsMark_def agentAt_def)
  with api(1) have acc: "accepts view (c_Update (r_Client r) (OOcmAgent ?b)) (updateResults (OOcmAgent ?b)) s" by (simp add: api_def)
  show ?thesis
  proof (cases "hasFinalizer b")
    case True
    with run fs have up: "c_Update (r_Client r) (OOcmAgent ?b) s = (q, s')"
      by (simp add: releaseAgent_def finalizer_update(1)[OF api(2)])
    with acc have "view s' \<in> insert (view s) (updateResults (OOcmAgent ?b) (view s))" by (auto simp: accepts_def split: sum.splits)
    then consider "c = b" | z where "sameButServer (OOcmAgent ?b) z" "persisted z = Some (OOcmAgent c)"
      using c at(1) by (auto simp: updateResults_def ref agentAt_def)
    then show ?thesis
      by cases (use del m in \<open>auto simp: sameButServer_def persisted_def deleting_def manageable_def ownSecret_def tokenRef_def split: if_splits\<close>)
  next
    case False
    with run api(2) at(1) c del m show ?thesis by (simp add: releaseAgent_def finalizer_update(1) agentAt_def)
  qed
qed

lemma absentRefs_apart: "agentRef request \<notin> absentRefs env a"
  by (rule not_kinds) (use handler_kinds[of env a] in simp)

text \<open>An attempt for an agent that is being deleted, from the start of the removal on.\<close>
lemma removal_attempt:
  assumes w: "wired r (handlerOf h) view" and at: "agentAt request b (view s1)" "objRef (OOcmAgent b) = agentRef request"
    and m: "manageable h view b" and del: "deleting b"
    and run: "andThen (EnsureAbsent (handlerOf h) b) (\<lambda>_. andThen (releaseAgent r b) (\<lambda>_. ok emptyResult)) s1 = (q, s')"
  obtains (stopped) "releases (view s1) (view s')" "agentAt request b (view s')"
  | (removed) s2 where "EnsureOCMAgentResourcesAbsent h b s1 = (Inr (), s2)" "releases (view s1) (view s2)"
      "touches {agentRef request} {} (view s2) (view s')" "\<And>c. agentAt request c (view s') \<Longrightarrow> deleting c \<and> manageable h view c"
  using run
proof (cases rule: andThen_cases)
  case (err e)
  from m have "platform h view" by (simp add: manageable_def)
  from EnsureAbsent_releases[OF this, of b] err(1) have "releases (view s1) (view s')" by (simp add: releasing_def handlerOf_def)
  with stopped run.methods_keep_agent(2)[OF m err(1) at(1)] show thesis by blast
next
  case (val u s2)
  note at2 = run.methods_keep_agent(2)[OF m val(1) at(1)]
  from val(2) obtain q' where rel: "releaseAgent r b s2 = (q', s')" by (auto elim!: andThen_cases)
  from m have "platform h view" by (simp add: manageable_def)
  from EnsureAbsent_releases[OF this, of b] val(1) have "releases (view s1) (view s2)" by (simp add: releasing_def handlerOf_def)
  moreover have "touches {agentRef request} {} (view s2) (view s')"
    using release_touches[OF w at2 at(2) rel] by (rule touches_mono) auto
  ultimately show thesis using removed[of s2] val(1) release_marks[OF w at2 at(2) rel del m] by (auto simp: handlerOf_def)
qed

text \<open>An attempt that finds an agent that is being deleted keeps the invariant.\<close>
lemma removal_keeps:
  assumes w: "wired r (handlerOf h) view" and m: "manageable h view a" and inv: "teardownInv h view request a (view s)"
    and b: "agentAt request b (view s)" "objRef (OOcmAgent b) = agentRef request" "deleting b" "manageable h view b"
    and g: "view s1 = (view s)\<lparr>cl_Gauges := (cl_Gauges (view s))(absentGauge \<mapsto> 0)\<rparr>"
    and rest: "andThen (EnsureAbsent (handlerOf h) b) (\<lambda>_. andThen (releaseAgent r b) (\<lambda>_. ok emptyResult)) s1 = (q, s')"
    and ba: "b = a \<or> tornDown h view request a (view s)"
  shows "teardownInv h view request a (view s')"
proof -
  note gk = run.gauge_keeps[OF b(4) g]
  have same: "cl_Objects (view s1) = cl_Objects (view s)" by (simp add: g)
  have un: "unheld (h_Env h) a (view s1)" and td: "tornDown h view request a (view s) \<Longrightarrow> tornDown h view request a (view s1)"
    using inv same by (simp_all add: teardownInv_def unheld_def noFinalizers_def tornDown_def absent_def agentAt_def)
  show ?thesis
    using w gk(2)[OF b(1)] b(2,4,3) rest
  proof (cases rule: removal_attempt)
    case stopped
    have "unheld (h_Env h) a (view s')" using releases_unheld[OF stopped(1) un] .
    moreover have "tornDown h view request a (view s')" if "b \<noteq> a"
    proof -
      from that ba td have "\<forall>x \<in> removedRefs (h_Env h) a. absent x (view s1)" unfolding tornDown_def by blast
      moreover have "c = b" if "agentAt request c (view s')" for c using that stopped(2) by (simp add: agentAt_def)
      ultimately show ?thesis using releases_absent[OF stopped(1)] b(3,4) unfolding tornDown_def by blast
    qed
    ultimately show ?thesis using stopped(2) unfolding teardownInv_def by blast
  next
    case (removed s2)
    have gone: "\<forall>x \<in> removedRefs (h_Env h) a. absent x (view s2)"
    proof (cases "b = a")
      case True
      from m have "ensures view (EnsureOCMAgentResourcesAbsent h a) (absentRefs (h_Env h) a) {} {} (unheld (h_Env h) a)
          (\<lambda>cl. \<forall>x \<in> removedRefs (h_Env h) a. absent x cl)" by (intro EnsureAbsent_retried) (simp_all add: manageable_def)
      from ensures_goal[OF this] True removed(1) un show ?thesis by simp
    next
      case False
      with ba td have "\<forall>x \<in> removedRefs (h_Env h) a. absent x (view s1)" unfolding tornDown_def by blast
      then show ?thesis using releases_absent[OF removed(2)] by blast
    qed
    have same': "cl_Objects (view s') x = cl_Objects (view s2) x" if "x \<in> absentRefs (h_Env h) a" for x
      by (rule touches_objects[OF removed(3)]) (use that absentRefs_apart in blast)
    have "unheld (h_Env h) a (view s2)" using releases_unheld[OF removed(2) un] .
    then have "unheld (h_Env h) a (view s')" using same' by (simp add: unheld_def noFinalizers_def)
    moreover have "tornDown h view request a (view s')" using gone same' removed(4) by (simp add: tornDown_def removedRefs_def absent_def)
    ultimately show ?thesis by (simp add: teardownInv_def)
  qed
qed

lemma teardown_step:
  assumes w: "wired r (handlerOf h) view" and m: "manageable h view a" and del: "deleting a"
    and inv: "teardownInv h view request a (view s)" and step: "teardown r request view (absentRefs (h_Env h) a) s s'"
  shows "teardownInv h view request a (view s')"
  using step
proof (cases rule: teardown.cases)
  case (attempt q)
  from w attempt show ?thesis
  proof (cases rule: reconcile_cases)
    case missing
    with inv show ?thesis by (auto intro: teardownInv_local[rotated])
  next
    case (unread e)
    with inv show ?thesis by simp
  next
    case (found b s1)
    have "b = a \<or> tornDown h view request a (view s)" using inv found(1) by (auto simp: teardownInv_def agentAt_def)
    moreover from this have "deleting b" "manageable h view b" using found(1) m del by (auto simp: tornDown_def)
    ultimately show ?thesis using removal_keeps[OF w m inv found(1,2)] found(3,4) by simp
  qed
next
  case others
  with inv teardownInv_local show ?thesis by blast
qed

end
