(* ===== verification/HandlerProps.thy ===== *)
theory HandlerProps
  imports Handler
begin

text \<open>
  Properties of \<open>EnsureOCMAgentResourcesExist\<close>: what a run establishes, what it leaves alone, what it does about a new or an
  unreadable token, and how the resources it makes fit together.
\<close>

section \<open>A cluster for the witnesses\<close>

definition sampleProxy :: Proxy where
  "sampleProxy = \<lparr>px_Meta = newMeta ProxyNamespacedName None,
     px_Status = \<lparr>px_HTTPProxy = [], px_HTTPSProxy = ''https://proxy:3128'', px_NoProxy = ''.cluster.local''\<rparr>\<rparr>"

definition sampleVersion :: ClusterVersion where
  "sampleVersion = \<lparr>cv_Meta = newMeta \<lparr>nn_Namespace = [], nn_Name = ''version''\<rparr> None, cv_ClusterID = ''c-1''\<rparr>"

text \<open>A pull secret as the installer writes it: several registries, each with its own entry; the token of the cluster is the one
  of the last.\<close>
definition samplePullText :: string where
  "samplePullText = ''{\"auths\": {\"quay.io\": {\"auth\": \"cXVheQ\", \"email\": \"a@b.c\"}, \"cloud.openshift.com\": {\"email\": \"a@b.c\", \"auth\": \"b3BlbnNlc2FtZQ\"}}}''"

definition sampleAuths :: "(string \<times> json) list" where
  "sampleAuths = [(''quay.io'', JObj [(''auth'', JStr ''cXVheQ''), (''email'', JStr ''a@b.c'')]),
     (''cloud.openshift.com'', JObj [(''email'', JStr ''a@b.c''), (''auth'', JStr ''b3BlbnNlc2FtZQ'')])]"

lemma parse_samplePullText: "parseDocument samplePullText = Some (JObj [(''auths'', JObj sampleAuths)])"
  by code_simp

lemma samplePull_members:
  "Unmarshal pf samplePullText = Inr [(''auths'', JObj sampleAuths)]"
  "member [(''auths'', JObj sampleAuths)] ''auths'' = Some (JObj sampleAuths)"
  "member sampleAuths ''cloud.openshift.com'' = Some (JObj [(''email'', JStr ''a@b.c''), (''auth'', JStr ''b3BlbnNlc2FtZQ'')])"
  "member [(''email'', JStr ''a@b.c''), (''auth'', JStr ''b3BlbnNlc2FtZQ'')] ''auth'' = Some (JStr ''b3BlbnNlc2FtZQ'')"
  by (simp_all add: Unmarshal_def parse_samplePullText member_def sampleAuths_def)

definition samplePullSecret :: Secret where
  "samplePullSecret = \<lparr>sec_Meta = newMeta PullSecretNamespacedName None, sec_Data = oneLabel PullSecretKey samplePullText\<rparr>"

lemma samplePull_text: "goLookup (sec_Data samplePullSecret) ''.dockerconfigjson'' = Some samplePullText"
  by (simp add: samplePullSecret_def goLookup_def oneLabel_def PullSecretKey_def)

definition sampleCluster :: Cluster where
  "sampleCluster = storeAll [OProxy sampleProxy, OClusterVersion sampleVersion, OSecret samplePullSecret]"

lemma sampleCluster_view: "memView sampleCluster = sampleCluster"
  unfolding sampleCluster_def
  by (rule memView_storeAll) (simp add: persisted_def sampleProxy_def sampleVersion_def samplePullSecret_def newMeta_def)

lemma sampleCluster_objects:
  "cl_Objects sampleCluster r = (if r = proxyRef then Some (OProxy sampleProxy) else if r = versionRef then Some (OClusterVersion sampleVersion)
     else if r = pullRef then Some (OSecret samplePullSecret) else None)"
  by (simp add: sampleCluster_def storeAll_def objRef_def sampleProxy_def sampleVersion_def samplePullSecret_def proxyRef_def versionRef_def pullRef_def)

lemma sample_apart: "pullRef \<noteq> proxyRef" "pullRef \<noteq> versionRef" "versionRef \<noteq> proxyRef"
  by (simp_all add: proxyRef_def versionRef_def pullRef_def)

lemma sample_token: "clusterToken memHandler sampleCluster = Inr ''b3BlbnNlc2FtZQ''"
  using accessTokenOf_entry[OF samplePull_text samplePull_members]
  by (simp add: clusterToken_def sampleCluster_objects sample_apart)

lemma service_url:
  assumes "list_all dnsChar name" and "list_all dnsChar ns"
  shows "BuildServiceURL ip name ns = Inr (''http://'' @ name @ ''.'' @ ns @ ''.svc.cluster.local:8081/alertmanager-receiver'')"
proof -
  have "unat OCMAgentServicePort = 8081" by (simp add: OCMAgentServicePort_def)
  then have "showNat (unat OCMAgentServicePort) = ''8081''" by (simp add: showNat.simps digitChar_def char_of_def bit_0)
  then show ?thesis using ParseRequestURI_service[OF assms, of ip]
    by (simp add: BuildServiceURL_def OCMAgentServiceScheme_def OCMAgentWebhookReceiverPath_def)
qed

lemma sample_prerequisites: "prerequisites memHandler sampleAgent sampleCluster"
proof -
  have "list_all dnsChar ''ocm-agent''" "list_all dnsChar ''openshift-ocm-agent-operator''" by code_simp+
  from service_url[OF this, of "h_ipLiteral memHandler"]
  have "\<exists>url. BuildServiceURL (h_ipLiteral memHandler) (oa_Name sampleAgent) (oa_Namespace sampleAgent) = Inr url" by simp
  moreover have "deploymentRef (h_Env memHandler) sampleAgent \<notin> {proxyRef, versionRef, pullRef}"
    by (simp add: deploymentRef_def proxyRef_def versionRef_def pullRef_def)
  then have "replicasSet (h_Env memHandler) sampleAgent sampleCluster" by (simp add: replicasSet_def sampleCluster_objects)
  ultimately show ?thesis
    unfolding prerequisites_def using sample_token by (simp add: sampleCluster_objects sample_apart)
qed

lemma sample_fit: "bodyFit memHandler sampleAgent sampleCluster" "ownSecret (h_Env memHandler) sampleAgent"
  by (simp_all add: bodyFit_def deploymentFit_def servicesLabelled_def labelled_def sampleCluster_objects deploymentRef_def serviceRef_def metricsRef_def
      proxyRef_def versionRef_def pullRef_def ownSecret_def tokenRef_def PullSecretNamespacedName_def BuildNamespacedName_eq)
    (simp add: sampleAgent_def)

lemma sample_run: "\<exists>s'. EnsureOCMAgentResourcesExist memHandler sampleAgent sampleCluster = (Inr (), s')"
  using EnsureExist_up[OF memHandler_up, of sampleAgent sampleCluster] sample_fit sample_prerequisites
  by (simp add: sampleCluster_view)

section \<open>Properties\<close>

text \<open>On a cluster without faults that has what the agent needs, one run of \<open>EnsureOCMAgentResourcesExist\<close> succeeds and
  leaves everything in place: the secret with the token of the cluster, the deployment, the config maps, the
  services, the network policies, the service monitor and, for several replicas, the disruption budget.\<close>
theorem exist_deploys:
  assumes "platform_up h view" and "oa_Namespace a = operatorNamespace (h_Env h)" and "ownSecret (h_Env h) a"
    and "bodyFit h a (view s)" and "prerequisites h a (view s)"
  shows "\<exists>s'. EnsureOCMAgentResourcesExist h a s = (Inr (), s') \<and> deployed h a (view s')"
  using EnsureExist_up[OF assms] ensures_goal[OF EnsureExist_ensures[OF platform_up_platform[OF assms(1)] assms(3)] _ assms(4)] by blast

theorem exist_deploys_witness:
  "\<exists>s'. EnsureOCMAgentResourcesExist memHandler sampleAgent sampleCluster = (Inr (), s') \<and> deployed memHandler sampleAgent (memView s')"
  using exist_deploys[OF memHandler_up, of sampleAgent sampleCluster] sample_fit sample_prerequisites by (simp add: sampleCluster_view)



text \<open>The operator is quiet where there is nothing to do: when everything is in place, a run writes no object, whatever its
  outcome.\<close>
theorem exist_idempotent:
  assumes "platform h view" and "ownSecret (h_Env h) a" and "deployed h a (view s)"
    and "EnsureOCMAgentResourcesExist h a s = (q, s')"
  shows "cl_Objects (view s') = cl_Objects (view s) \<and> cl_Log (view s') = cl_Log (view s)"
  by (rule touches_nothing[OF ensures_keeps[OF EnsureExist_ensures[OF assms(1,2)] assms(4,3)]])

theorem exist_idempotent_witness:
  "\<exists>s' q s''. EnsureOCMAgentResourcesExist memHandler sampleAgent sampleCluster = (Inr (), s') \<and>
     EnsureOCMAgentResourcesExist memHandler sampleAgent s' = (q, s'') \<and> cl_Objects (memView s'') = cl_Objects (memView s')"
proof -
  obtain s' where s': "EnsureOCMAgentResourcesExist memHandler sampleAgent sampleCluster = (Inr (), s')" using sample_run by blast
  obtain q s'' where s'': "EnsureOCMAgentResourcesExist memHandler sampleAgent s' = (q, s'')" by fastforce
  from ensures_goal[OF EnsureExist_ensures[OF memHandler_platform sample_fit(2)] s'] sample_fit(1) have "deployed memHandler sampleAgent (memView s')"
    by (simp add: sampleCluster_view)
  from exist_idempotent[OF memHandler_platform sample_fit(2) this s''] s' s'' show ?thesis by blast
qed

text \<open>C17. The operator keeps to its own: whatever the outcome of a run, no object is written but those of the agent, and no gauge
  but that for its pull secret. Every logged write is to one of these objects.\<close>
theorem exist_frame:
  assumes "platform h view" and "ownSecret (h_Env h) a" and "EnsureOCMAgentResourcesExist h a s = (q, s')"
  shows "(\<forall>r. r \<notin> agentRefs (h_Env h) a \<longrightarrow> cl_Objects (view s') r = cl_Objects (view s) r) \<and>
    (\<forall>g. g \<notin> agentGauges a \<longrightarrow> cl_Gauges (view s') g = cl_Gauges (view s) g) \<and>
    (\<exists>ws. cl_Log (view s') = cl_Log (view s) @ ws \<and> snd ` set ws \<subseteq> agentRefs (h_Env h) a)"
  using ensures_touches[OF EnsureExist_ensures[OF assms(1,2)] assms(3)] unfolding touches_def by blast

theorem exist_frame_witness:
  "\<exists>q s'. EnsureOCMAgentResourcesExist memHandler sampleAgent sampleCluster = (q, s') \<and>
     cl_Objects (memView s') pullRef = Some (OSecret samplePullSecret)"
proof -
  obtain q s' where run: "EnsureOCMAgentResourcesExist memHandler sampleAgent sampleCluster = (q, s')" by fastforce
  have "pullRef \<notin> agentRefs (h_Env memHandler) sampleAgent"
    using bodyRefs_apart[of "h_Env memHandler" sampleAgent] sample_fit(2) by (auto simp: agentRefs_def ownSecret_def)
  with exist_frame[OF memHandler_platform sample_fit(2) run] have "cl_Objects (memView s') pullRef = cl_Objects (memView sampleCluster) pullRef"
    by blast
  with run show ?thesis by (simp add: sampleCluster_view sampleCluster_objects sample_apart)
qed

text \<open>No report of new credentials means that no object has changed.\<close>
lemma ensureCredentials_silent:
  assumes "platform h view" and "ensureCredentials h a s = (Inr False, s')"
  shows "cl_Objects (view s') = cl_Objects (view s)"
proof (cases "oa_FleetMode a")
  case True
  with assms(2) ensureFleetClientSecret_view(1)[OF assms(1)] show ?thesis by (auto simp: ensureCredentials_def go_simps)
next
  case False
  with assms(2) ensureAccessTokenSecret_silent[OF assms(1)] show ?thesis by (simp add: ensureCredentials_def)
qed

text \<open>C18. New credentials are rolled out: when the secret of the agent does not hold the token of the cluster, the last write of a
  successful run is an update of the deployment that restarts the pods, and the deployment carries the time of the
  restart.\<close>
theorem restart_follows_secret:
  assumes plat: "platform h view" and own: "ownSecret (h_Env h) a" and run: "EnsureOCMAgentResourcesExist h a s = (Inr (), s')"
    and new: "\<not> credentialsOk h a (view s)"
  shows "\<exists>ws d t. cl_Log (view s') = cl_Log (view s) @ ws @ [(Update, deploymentRef (h_Env h) a)] \<and>
    cl_Objects (view s') (deploymentRef (h_Env h) a) = Some (ODeployment d) \<and> restartedAt d = Some t"
  using run
proof (cases rule: exist_cases)
  case (restart s1 s2)
  note tr = touches_trans[where G = "agentGauges a" and H = "{}", simplified]
  from tr[OF ensures_touches[OF ensureCredentials_ensures[OF plat own] ignore_Inr[of "ensureCredentials h a", OF restart(1)]]
      ensures_touches[OF ensureBody_ensures[OF plat] restart(2)]]
  obtain ws where ws: "cl_Log (view s2) = cl_Log (view s) @ ws" unfolding touches_def by blast
  from plat restart(3) show ?thesis
  proof (cases rule: restart_cases)
    case (restarted d z t)
    from restarted(3) have "restartedAt z = Some t"
      by (auto simp: sameButServer_def restartedAt_def annotateRestart_def goLookup_def Let_def)
    with ws restarted(4) show ?thesis by simp
  qed simp
next
  case (norestart s1)
  note cr = ensureCredentials_ensures[OF plat own]
  from ensures_goal[OF cr ignore_Inr[of "ensureCredentials h a", OF norestart(2)]] have "credentialsOk h a (view s1)" by simp
  moreover have "cl_Objects (view s) = cl_Objects (view s1)" using ensureCredentials_silent[OF plat norestart(2)] by simp
  ultimately have "credentialsOk h a (view s)" by (intro ensures_same[OF cr, of "view s" "view s1"]) simp_all
  with new show ?thesis by blast
qed simp_all

theorem restart_follows_secret_witness:
  "\<exists>s' ws d t. EnsureOCMAgentResourcesExist memHandler sampleAgent sampleCluster = (Inr (), s') \<and>
     cl_Log (memView s') = ws @ [(Update, deploymentRef (h_Env memHandler) sampleAgent)] \<and>
     cl_Objects (memView s') (deploymentRef (h_Env memHandler) sampleAgent) = Some (ODeployment d) \<and> restartedAt d = Some t"
proof -
  obtain s' where s': "EnsureOCMAgentResourcesExist memHandler sampleAgent sampleCluster = (Inr (), s')" using sample_run by blast
  have "tokenRef (h_Env memHandler) sampleAgent \<notin> {proxyRef, versionRef, pullRef}"
    using sample_fit(2) by (simp add: ownSecret_def) (simp add: tokenRef_def proxyRef_def versionRef_def)
  then have "\<not> credentialsOk memHandler sampleAgent (memView sampleCluster)"
    by (simp add: credentialsOk_def secretOk_def sampleCluster_view sampleCluster_objects)
  from restart_follows_secret[OF memHandler_platform sample_fit(2) s' this] s' show ?thesis
    by (auto simp: sampleCluster_view sampleCluster_def storeAll_def)
qed

text \<open>C20. A pull secret without a readable token stops the run before anything is written: it returns an error, no object
  changes, and the gauge of the agent for an invalid pull secret is set.\<close>
theorem unreadable_pull_secret:
  assumes plat: "platform h view" and "\<not> oa_FleetMode a" and bad: "clusterToken h (view s) = Inl e"
    and run: "EnsureOCMAgentResourcesExist h a s = (q, s')"
  shows "(\<exists>e'. q = Inl e') \<and> cl_Objects (view s') = cl_Objects (view s) \<and> cl_Log (view s') = cl_Log (view s) \<and>
    cl_Gauges (view s') = (cl_Gauges (view s))((MetricPullSecretInvalid, [oa_Name a]) \<mapsto> 1)"
proof -
  have cred: "(\<exists>e'. q1 = Inl e') \<and> view s1 = (view s)\<lparr>cl_Gauges := (cl_Gauges (view s))((MetricPullSecretInvalid, [oa_Name a]) \<mapsto> 1)\<rparr>"
    if "ensureCredentials h a s = (q1, s1)" for q1 s1
  proof -
    from that assms(2) have "ensureAccessTokenSecret h a s = (q1, s1)" by (simp add: ensureCredentials_def)
    with plat show ?thesis by (cases rule: secret_cases) (use bad in simp_all)
  qed
  from run show ?thesis
  proof (cases rule: exist_cases)
    case (nosecret e1)
    with cred[OF nosecret(2)] show ?thesis by simp
  qed (use cred in blast)+
qed

theorem unreadable_pull_secret_witness:
  "\<exists>e s'. EnsureOCMAgentResourcesExist memHandler sampleAgent (storeAll []) = (Inl e, s') \<and> cl_Log (memView s') = [] \<and>
     cl_Gauges (memView s') (MetricPullSecretInvalid, [''ocm-agent'']) = Some 1"
proof -
  obtain q s' where run: "EnsureOCMAgentResourcesExist memHandler sampleAgent (storeAll []) = (q, s')" by fastforce
  have v: "memView (storeAll []) = storeAll []" by (rule memView_storeAll) simp
  have "clusterToken memHandler (memView (storeAll [])) = Inl (NotFound (nn_Name PullSecretNamespacedName))"
    unfolding v by (simp add: clusterToken_def storeAll_def)
  from unreadable_pull_secret[OF memHandler_platform _ this run] run show ?thesis by (auto simp: v) (simp add: storeAll_def)
qed

text \<open>Success of the run establishes the credentials, whatever the state of the other resources.\<close>
lemma exist_credentials:
  assumes plat: "platform h view" and own: "ownSecret (h_Env h) a" and run: "EnsureOCMAgentResourcesExist h a s = (Inr (), s')"
  shows "credentialsOk h a (view s')"
proof -
  note cr = ensureCredentials_ensures[OF plat own]
  let ?T = "if oa_FleetMode a then {} else {tokenRef (h_Env h) a}"
  have apart: "bodyRefs (h_Env h) a \<inter> (?T \<union> {sourceRef (h_Env h) a}) = {}"
    using bodyRefs_apart[of "h_Env h" a] by (auto simp: sourceRef_def)
  have body: "credentialsOk h a (view s2)" if "ensureCredentials h a s = (Inr b, s1)" "ensureBody h a s1 = (Inr (), s2)" for b s1 s2
    using ensures_goal[OF cr ignore_Inr[of "ensureCredentials h a", OF that(1)]]
      ensures_local(2)[OF cr ensures_touches[OF ensureBody_ensures[OF plat] that(2)] apart] by simp
  from run show ?thesis
  proof (cases rule: exist_cases)
    case (restart s1 s2)
    have "{deploymentRef (h_Env h) a} \<inter> (?T \<union> {sourceRef (h_Env h) a}) = {}" using apart by (auto simp: bodyRefs_def)
    with ensures_local(2)[OF cr restart_touches[OF plat restart(3)]] body[OF restart(1,2)] show ?thesis by blast
  next
    case (norestart s1)
    show ?thesis by (rule body[OF norestart(2,3)])
  qed simp_all
qed

text \<open>C21. The token makes the trip: whatever registries the pull secret of the cluster lists and whatever their entries hold, when
  the entry of \<open>cloud.openshift.com\<close> has the string \<open>tok\<close> as its \<open>auth\<close>, the secret of the agent holds exactly \<open>tok\<close> under
  \<open>access_token\<close> after a successful run.\<close>
theorem token_roundtrip:
  assumes plat: "platform h view" and own: "ownSecret (h_Env h) a" and "\<not> oa_FleetMode a"
    and pull: "cl_Objects (view s) pullRef = Some (OSecret x)" "goLookup (sec_Data x) ''.dockerconfigjson'' = Some text"
      "Unmarshal (h_parseFloat h) text = Inr doc" "member doc ''auths'' = Some (JObj auths)"
      "member auths ''cloud.openshift.com'' = Some (JObj entry)" "member entry ''auth'' = Some (JStr tok)"
    and run: "EnsureOCMAgentResourcesExist h a s = (Inr (), s')"
  shows "\<exists>y. cl_Objects (view s') (tokenRef (h_Env h) a) = Some (OSecret y) \<and> goLookup (sec_Data y) ''access_token'' = Some tok"
proof -
  have "pullRef \<notin> agentRefs (h_Env h) a" using bodyRefs_apart[of "h_Env h" a] own assms(3) by (auto simp: agentRefs_def ownSecret_def)
  with touches_objects[OF ensures_touches[OF EnsureExist_ensures[OF plat own] run]] pull(1)
  have "clusterToken h (view s') = Inr tok" using accessTokenOf_entry[OF pull(2-6)] by (simp add: clusterToken_def)
  with exist_credentials[OF plat own run] assms(3) show ?thesis
    by (auto simp: credentialsOk_def secretOk_def goLookup_def oneLabel_def OCMAgentAccessTokenSecretKey_def)
qed

theorem token_roundtrip_witness:
  "\<exists>s' y. EnsureOCMAgentResourcesExist memHandler sampleAgent sampleCluster = (Inr (), s') \<and>
     cl_Objects (memView s') (tokenRef (h_Env memHandler) sampleAgent) = Some (OSecret y) \<and>
     goLookup (sec_Data y) ''access_token'' = Some ''b3BlbnNlc2FtZQ''"
proof -
  obtain s' where s': "EnsureOCMAgentResourcesExist memHandler sampleAgent sampleCluster = (Inr (), s')" using sample_run by blast
  have "cl_Objects (memView sampleCluster) pullRef = Some (OSecret samplePullSecret)"
    by (simp add: sampleCluster_view sampleCluster_objects sample_apart)
  from token_roundtrip[OF memHandler_platform sample_fit(2) _ this samplePull_text samplePull_members s'] s' show ?thesis by auto
qed

text \<open>C32. The route of an alert closes: after a successful run outside fleet mode, the URL that the alert manager is configured with
  names the stored service and its port, that port leads to the port on which the pods are probed, and the
  service selects the labels of the pods.\<close>
theorem alert_route:
  assumes "platform h view" and "ownSecret (h_Env h) a" and "bodyFit h a (view s)" and "\<not> oa_FleetMode a"
    and ns: "oa_Namespace a = operatorNamespace (h_Env h)" and dns: "list_all dnsChar (oa_Name a)" "list_all dnsChar (oa_Namespace a)"
    and run: "EnsureOCMAgentResourcesExist h a s = (Inr (), s')"
  shows "\<exists>cm svc p d c probe get. cl_Objects (view s') camoRef = Some (OConfigMap cm) \<and>
    cl_Objects (view s') (KService, \<lparr>nn_Namespace = oa_Namespace a, nn_Name = oa_Name a\<rparr>) = Some (OService svc) \<and> ss_Ports (svc_Spec svc) = [p] \<and>
    goLookup (cm_Data cm) OCMAgentServiceURLKey =
      Some (''http://'' @ oa_Name a @ ''.'' @ oa_Namespace a @ ''.svc.cluster.local:'' @ showNat (unat (sp_Port p)) @ ''/alertmanager-receiver'') \<and>
    cl_Objects (view s') (deploymentRef (h_Env h) a) = Some (ODeployment d) \<and> findContainer (oa_Name a) (containersOf d) = Some c \<and>
    c_ReadinessProbe c = Some probe \<and> pr_HTTPGet probe = Some get \<and> hg_Port get = sp_TargetPort p \<and>
    ss_Selector (svc_Spec svc) = pt_Labels (ds_Template (dep_Spec d))"
proof -
  have port: "showNat (unat OCMAgentServicePort) = ''8081''"
    by (simp add: OCMAgentServicePort_def showNat.simps digitChar_def char_of_def bit_0)
  from ensures_goal[OF EnsureExist_ensures[OF assms(1,2)] run assms(3)] have ok: "configMapsOk h a (view s')" "servicesOk (h_Env h) a (view s')"
    "deploymentOk (h_Env h) a (view s')" by (simp_all add: deployed_def bodyOk_def)
  from ok(1) assms(4) obtain cm where cm: "cl_Objects (view s') camoRef = Some (OConfigMap cm)"
    "cm_Data cm = oneLabel OCMAgentServiceURLKey (''http://'' @ oa_Name a @ ''.'' @ oa_Namespace a @ ''.svc.cluster.local:8081/alertmanager-receiver'')"
    using service_url[OF dns, of "h_ipLiteral h"] by (auto simp: configMapsOk_def cmDataAt_def)
  from ok(2) obtain svc where svc: "cl_Objects (view s') (KService, \<lparr>nn_Namespace = oa_Namespace a, nn_Name = oa_Name a\<rparr>) = Some (OService svc)"
    "svc_Spec svc = svc_Spec (buildOCMAgentService (h_Env h) a)"
    by (auto simp: servicesOk_def serviceOk_def serviceRef_def BuildNamespacedName_eq ns)
  from ok(3) obtain d px where d: "cl_Objects (view s') (deploymentRef (h_Env h) a) = Some (ODeployment d)" "runsAgent a px d"
    by (auto simp: deploymentOk_def)
  then obtain c probe where c: "findContainer (oa_Name a) (containersOf d) = Some c" "c_ReadinessProbe c = Some probe"
    "pr_HTTPGet probe = pr_HTTPGet (agentProbe OCMAgentReadyzPath)" "pt_Labels (ds_Template (dep_Spec d)) = oneLabel ''app'' (oa_Name a)"
    by (auto simp: runsAgent_def)
  show ?thesis
    using cm svc d(1) c port by (simp add: buildOCMAgentService_def agentProbe_def goLookup_def oneLabel_def Let_def)
qed

theorem alert_route_witness:
  "\<exists>s' cm. EnsureOCMAgentResourcesExist memHandler sampleAgent sampleCluster = (Inr (), s') \<and>
     cl_Objects (memView s') camoRef = Some (OConfigMap cm) \<and>
     (\<exists>p :: int32. goLookup (cm_Data cm) OCMAgentServiceURLKey =
       Some (''http://ocm-agent.openshift-ocm-agent-operator.svc.cluster.local:'' @ showNat (unat p) @ ''/alertmanager-receiver''))"
proof -
  obtain s' where s': "EnsureOCMAgentResourcesExist memHandler sampleAgent sampleCluster = (Inr (), s')" using sample_run by blast
  have dns: "list_all dnsChar (oa_Name sampleAgent)" "list_all dnsChar (oa_Namespace sampleAgent)"
    unfolding sampleAgent_fields by code_simp+
  have fit: "bodyFit memHandler sampleAgent (memView sampleCluster)" "\<not> oa_FleetMode sampleAgent"
    "oa_Namespace sampleAgent = operatorNamespace (h_Env memHandler)"
    using sample_fit(1) by (simp_all add: sampleCluster_view)
  from alert_route[OF memHandler_platform sample_fit(2) fit dns s'] s' show ?thesis unfolding sampleAgent_fields by auto
qed



text \<open>Scaling down leaves the disruption budget: for an agent with at most one replica, no run touches a budget
  that is stored from before.\<close>
theorem budget_stays:
  assumes "platform h view" and "ownSecret (h_Env h) a" and "sint (oas_Replicas (oa_Spec a)) \<le> 1"
    and run: "EnsureOCMAgentResourcesExist h a s = (q, s')"
  shows "cl_Objects (view s') (budgetRef (h_Env h) a) = cl_Objects (view s) (budgetRef (h_Env h) a)"
proof (rule touches_objects[OF ensures_touches[OF EnsureExist_ensures[OF assms(1,2)] run]])
  show "budgetRef (h_Env h) a \<notin> agentRefs (h_Env h) a"
    using assms(3) by (intro not_kinds) (simp add: agentRefs_def bodyRefs_def replicated_def)
qed

text \<open>The agent of the samples, scaled down.\<close>
definition smallAgent :: OcmAgent where
  "smallAgent = sampleAgent\<lparr>oa_Spec := (oa_Spec sampleAgent)\<lparr>oas_Replicas := 1\<rparr>\<rparr>"

theorem budget_stays_witness:
  "\<exists>x q s'. EnsureOCMAgentResourcesExist memHandler smallAgent (storeAll [OPodDisruptionBudget x]) = (q, s') \<and>
     cl_Objects (memView s') (budgetRef (h_Env memHandler) smallAgent) = Some (OPodDisruptionBudget x)"
proof -
  let ?x = "buildOCMAgentPodDisruptionBudget (h_Env memHandler) smallAgent"
  let ?s = "storeAll [OPodDisruptionBudget ?x]"
  obtain q s' where run: "EnsureOCMAgentResourcesExist memHandler smallAgent ?s = (q, s')" by fastforce
  have v: "memView ?s = ?s" by (rule memView_storeAll) (simp add: persisted_def newMeta_def)
  have "ownSecret (h_Env memHandler) smallAgent" using sample_fit(2) by (simp add: ownSecret_def tokenRef_def smallAgent_def)
  moreover have "sint (oas_Replicas (oa_Spec smallAgent)) \<le> 1" by (simp add: smallAgent_def)
  ultimately have "cl_Objects (memView s') (budgetRef (h_Env memHandler) smallAgent) = cl_Objects (memView ?s) (budgetRef (h_Env memHandler) smallAgent)"
    using budget_stays[OF memHandler_platform _ _ run] by blast
  also have "\<dots> = Some (OPodDisruptionBudget ?x)" unfolding v by (simp add: storeAll_def resource_refs(2))
  finally show ?thesis using run by blast
qed

end
