(* ===== verification/ControllerProps.thy ===== *)
theory ControllerProps
  imports OcmAgentController HandlerProps
begin

text \<open>
  Properties of the OcmAgent controller: bringing an agent up, taking it down, the finalizer as a guard, and runs that
  are retried. The witnesses use a reconciler over the client in memory.
\<close>

section \<open>A reconciler for the witnesses\<close>

definition memControllerutil :: Controllerutil where
  "memControllerutil = \<lparr>ContainsFinalizer = \<lambda>m f. f \<in> set (om_Finalizers m),
     AddFinalizer = \<lambda>m f. if f \<in> set (om_Finalizers m) then m else m\<lparr>om_Finalizers := om_Finalizers m @ [f]\<rparr>,
     RemoveFinalizer = \<lambda>m f. m\<lparr>om_Finalizers := filter (\<lambda>x. x \<noteq> f) (om_Finalizers m)\<rparr>\<rparr>"

definition memReconciler :: "Cluster OcmAgentReconciler" where
  "memReconciler = \<lparr>r_Client = memClient, r_OCMAgentHandlerBuilder = NewBuilder memHandler memClient,
     r_Controllerutil = memControllerutil, r_GaugeSet = h_GaugeSet memHandler\<rparr>"

lemma memControllerutil_ok: "finalizers_ok memControllerutil"
  unfolding finalizers_ok_def
proof (intro allI conjI)
  fix m f
  show "ContainsFinalizer memControllerutil m f \<longleftrightarrow> f \<in> set (om_Finalizers m)" by (simp add: memControllerutil_def)
  show "\<exists>fs. AddFinalizer memControllerutil m f = m\<lparr>om_Finalizers := fs\<rparr> \<and> set fs = insert f (set (om_Finalizers m))"
    by (rule exI[of _ "if f \<in> set (om_Finalizers m) then om_Finalizers m else om_Finalizers m @ [f]"]) (auto simp: memControllerutil_def)
  show "\<exists>fs. RemoveFinalizer memControllerutil m f = m\<lparr>om_Finalizers := fs\<rparr> \<and> set fs = set (om_Finalizers m) - {f}"
    by (rule exI[of _ "filter (\<lambda>x. x \<noteq> f) (om_Finalizers m)"]) (auto simp: memControllerutil_def)
qed

lemma memReconciler_wired: "wired memReconciler (handlerOf memHandler) memView" "api_up (r_Client memReconciler) memView"
proof -
  have "memHandler\<lparr>h_Client := memClient\<rparr> = memHandler" by (simp add: memHandler_def)
  then show "wired memReconciler (handlerOf memHandler) memView"
    using memHandler_platform memClient_api memControllerutil_ok
    by (simp add: wired_def memReconciler_def NewBuilder_handler platform_def gauges_ok_def)
  show "api_up (r_Client memReconciler) memView" by (simp add: memReconciler_def memClient_api_up)
qed

text \<open>The agent of the samples with the given finalizers and deletion mark, stored on the sample cluster.\<close>
definition agentWith :: "string list \<Rightarrow> Time option \<Rightarrow> OcmAgent" where
  "agentWith fs del = sampleAgent\<lparr>oa_Meta := (oa_Meta sampleAgent)\<lparr>om_Finalizers := fs, om_DeletionTimestamp := del\<rparr>\<rparr>"

definition agentCluster :: "OcmAgent \<Rightarrow> Cluster" where
  "agentCluster a = storeAll [OOcmAgent a, OProxy sampleProxy, OClusterVersion sampleVersion, OSecret samplePullSecret]"

abbreviation sampleKey :: NamespacedName where
  "sampleKey \<equiv> \<lparr>nn_Namespace = ''openshift-ocm-agent-operator'', nn_Name = ''ocm-agent''\<rparr>"

lemma agentWith_fields [simp]:
  "om_Finalizers (oa_Meta (agentWith fs del)) = fs" "om_DeletionTimestamp (oa_Meta (agentWith fs del)) = del"
  "oa_Spec (agentWith fs del) = oa_Spec sampleAgent" "oa_Name (agentWith fs del) = ''ocm-agent''"
  "oa_Namespace (agentWith fs del) = ''openshift-ocm-agent-operator''"
  using sampleAgent_fields(1,2) by (simp_all add: agentWith_def)

lemma agentWith_ref: "objRef (OOcmAgent (agentWith fs del)) = agentRef sampleKey"
  using agentWith_fields(4,5)[of fs del] by (simp add: objRef_def metaKey_def)

lemma agentCluster_view: "fs \<noteq> [] \<or> del = None \<Longrightarrow> memView (agentCluster (agentWith fs del)) = agentCluster (agentWith fs del)"
  unfolding agentCluster_def
  by (rule memView_storeAll) (auto simp: persisted_def sampleProxy_def sampleVersion_def samplePullSecret_def newMeta_def)

lemma agentCluster_objects:
  "cl_Objects (agentCluster (agentWith fs del)) r = (if r = agentRef sampleKey then Some (OOcmAgent (agentWith fs del)) else cl_Objects sampleCluster r)"
  using agentWith_ref[of fs del] by (auto simp: agentCluster_def sampleCluster_def storeAll_def)

lemma agentCluster_at: "agentAt sampleKey (agentWith fs del) (agentCluster (agentWith fs del))"
  by (simp add: agentAt_def agentCluster_objects)

lemma agentWith_manageable: "manageable memHandler memView (agentWith fs del)"
  using sample_fit(2) memHandler_platform
  by (simp add: manageable_def ownSecret_def tokenRef_def BuildNamespacedName_eq CAMOConfigMapNamespacedName_def)

text \<open>The agent stored beside the sample cluster does not matter to the resources.\<close>
lemma agentCluster_ready:
  "bodyFit memHandler (agentWith fs del) (agentCluster (agentWith fs del))" "prerequisites memHandler (agentWith fs del) (agentCluster (agentWith fs del))"
proof -
  have other: "cl_Objects (agentCluster (agentWith fs del)) r = cl_Objects sampleCluster r" if "fst r \<noteq> KOcmAgent" for r
    using that by (auto simp: agentCluster_objects)
  note c = other[of "deploymentRef (h_Env memHandler) sampleAgent"] other[of "serviceRef (h_Env memHandler) sampleAgent"]
    other[of "metricsRef (h_Env memHandler) sampleAgent"] other[of "tokenRef (h_Env memHandler) sampleAgent"]
    other[of proxyRef] other[of versionRef] other[of pullRef]
  have same: "deploymentRef (h_Env memHandler) (agentWith fs del) = deploymentRef (h_Env memHandler) sampleAgent"
    "serviceRef (h_Env memHandler) (agentWith fs del) = serviceRef (h_Env memHandler) sampleAgent"
    "metricsRef (h_Env memHandler) (agentWith fs del) = metricsRef (h_Env memHandler) sampleAgent"
    "tokenRef (h_Env memHandler) (agentWith fs del) = tokenRef (h_Env memHandler) sampleAgent"
    by (simp_all add: deploymentRef_def serviceRef_def metricsRef_def tokenRef_def)
  show "bodyFit memHandler (agentWith fs del) (agentCluster (agentWith fs del))"
  proof -
    have "cl_Objects sampleCluster (deploymentRef (h_Env memHandler) sampleAgent) = None"
      "cl_Objects sampleCluster (serviceRef (h_Env memHandler) sampleAgent) = None" "cl_Objects sampleCluster (metricsRef (h_Env memHandler) sampleAgent) = None"
      by (simp_all add: sampleCluster_objects deploymentRef_def serviceRef_def metricsRef_def proxyRef_def versionRef_def pullRef_def)
    moreover have "oas_OcmAgentImage (oa_Spec sampleAgent) \<noteq> []" by (simp add: sampleAgent_def)
    ultimately show ?thesis using c by (simp add: bodyFit_def deploymentFit_def servicesLabelled_def labelled_def same)
  qed
  show "prerequisites memHandler (agentWith fs del) (agentCluster (agentWith fs del))"
    using sample_prerequisites c unfolding prerequisites_def by (simp add: replicasSet_def clusterToken_def same)
qed

text \<open>The agent and everything that the operator makes for it.\<close>
definition runningObjects :: "Env \<Rightarrow> OcmAgent \<Rightarrow> Object list" where
  "runningObjects env a = [OProxy sampleProxy, OClusterVersion sampleVersion, OSecret samplePullSecret,
     OSecret (buildOCMAgentAccessTokenSecret env ''b3BlbnNlc2FtZQ'' a), ODeployment (expectedDeployment env a (px_Status sampleProxy)),
     OConfigMap (buildOCMAgentConfigMap env a ''c-1''), OConfigMap (buildTrustedCaConfigMap env),
     OConfigMap (freshCM CAMOConfigMapNamespacedName None (oneLabel OCMAgentServiceURLKey ''http://ocm-agent'')),
     OService (buildOCMAgentService env a), OService (buildOCMAgentMetricsService env a),
     OServiceMonitor (buildOCMAgentServiceMonitor env a), OPodDisruptionBudget (buildOCMAgentPodDisruptionBudget env a)] @
     map (\<lambda>ns. ONetworkPolicy (buildNetworkPolicy env a ns)) (policyNamespaces a)"

definition runningCluster :: "OcmAgent \<Rightarrow> Cluster" where
  "runningCluster a = storeAll (OOcmAgent a # runningObjects (h_Env memHandler) a)"

lemma running_fresh: "list_all (\<lambda>x. om_Finalizers (metaOf x) = [] \<and> om_DeletionTimestamp (metaOf x) = None) (runningObjects env a)"
  using arg_cong[OF configmaps_fresh(1)[of env a "''c-1''"], of cm_Meta]
  by (auto simp: runningObjects_def sampleProxy_def sampleVersion_def samplePullSecret_def newMeta_def configmaps_fresh(2) list_all_iff
      buildOCMAgentService_def buildOCMAgentMetricsService_def Let_def)

lemma running_view: "fs \<noteq> [] \<or> del = None \<Longrightarrow> memView (runningCluster (agentWith fs del)) = runningCluster (agentWith fs del)"
  unfolding runningCluster_def using running_fresh[of "h_Env memHandler" "agentWith fs del"]
  by (intro memView_storeAll) (auto simp: persisted_def list_all_iff)

lemma running_at: "agentAt sampleKey (agentWith fs del) (runningCluster (agentWith fs del))"
  by (simp add: agentAt_def runningCluster_def storeAll_def agentWith_ref)

lemma running_objects:
  "cl_Objects (runningCluster a) (deploymentRef (h_Env memHandler) a) = Some (ODeployment (expectedDeployment (h_Env memHandler) a (px_Status sampleProxy)))"
  "cl_Objects (runningCluster a) (configRef (h_Env memHandler) a) = Some (OConfigMap (buildOCMAgentConfigMap (h_Env memHandler) a ''c-1''))"
  "cl_Objects (runningCluster a) (serviceRef (h_Env memHandler) a) \<noteq> None"
proof -
  obtain d where d: "buildOCMAgentConfigMap (h_Env memHandler) a ''c-1'' = freshCM (BuildNamespacedName (h_Env memHandler) (oa_Name a @ ConfigMapSuffix)) None d"
    using configmaps_fresh(1) by blast
  show "cl_Objects (runningCluster a) (deploymentRef (h_Env memHandler) a) = Some (ODeployment (expectedDeployment (h_Env memHandler) a (px_Status sampleProxy)))"
    "cl_Objects (runningCluster a) (configRef (h_Env memHandler) a) = Some (OConfigMap (buildOCMAgentConfigMap (h_Env memHandler) a ''c-1''))"
    unfolding runningCluster_def runningObjects_def storeAll_def
    by (simp_all add: d objRef_def deploymentRef_def configRef_def)
  show "cl_Objects (runningCluster a) (serviceRef (h_Env memHandler) a) \<noteq> None"
    unfolding runningCluster_def runningObjects_def storeAll_def by (simp add: objRef_def serviceRef_def buildOCMAgentService_def Let_def)
qed

lemma running_removable: "removable (h_Env memHandler) a (runningCluster a)"
proof -
  have "noFinalizers r (runningCluster a)" if "r \<in> absentRefs (h_Env memHandler) a" for r
  proof -
    have k: "fst r \<noteq> KOcmAgent"
      using that handler_kinds[of "h_Env memHandler" a] by (metis Un_iff image_eqI kinds_def)
    have "om_Finalizers (metaOf x) = []" if "cl_Objects (runningCluster a) r = Some x" for x
    proof -
      from that k have "x \<in> set (runningObjects (h_Env memHandler) a)"
        by (auto simp: runningCluster_def storeAll_def objRef_def dest!: map_of_SomeD split: if_splits)
      with running_fresh show ?thesis by (auto simp: list_all_iff)
    qed
    then show ?thesis by (simp add: noFinalizers_def)
  qed
  then show ?thesis using running_objects(3)[of a] by (auto simp: removable_def absent_def)
qed

lemma sample_names: "oa_Name (agentWith fs del) \<noteq> TrustedCaBundleConfigMapName"
  by (simp add: TrustedCaBundleConfigMapName_def)

section \<open>Properties\<close>

text \<open>C1. Bringing an agent up: for an OcmAgent resource that is not being deleted, on a cluster without faults that has what the
  agent needs, one reconciliation succeeds, everything is in place, the resource carries the finalizer
  of the operator, and the next reconciliation is asked for after five minutes.\<close>
theorem reconcile_deploys:
  assumes "wired r (handlerOf h) view" and "api_up (r_Client r) view" and "platform_up h view" and "manageable h view a"
    and "agentAt request a (view s)" and "\<not> deleting a" and "oa_Namespace a = operatorNamespace (h_Env h)"
    and "bodyFit h a (view s)" and "prerequisites h a (view s)"
  shows "\<exists>s' z. Reconcile r request s = (Inr \<lparr>res_RequeueAfter = 5 * 60000000000\<rparr>, s') \<and> deployed h a (view s') \<and>
    agentAt request z (view s') \<and> hasFinalizer z \<and> oa_Spec z = oa_Spec a"
proof -
  obtain s' where s': "Reconcile r request s = (Inr \<lparr>res_RequeueAfter = SyncPeriodDefault\<rparr>, s')"
    using reconcile_exists_up[OF assms(1-3,5,6,4,7-9)] by blast
  from run.reconcile_exists[OF assms(1) s' assms(5,4,6,8)] s' show ?thesis by (auto simp: SyncPeriodDefault_def)
qed

theorem reconcile_deploys_witness:
  "\<exists>s' z. Reconcile memReconciler sampleKey (agentCluster (agentWith [] None)) = (Inr \<lparr>res_RequeueAfter = 5 * 60000000000\<rparr>, s') \<and>
     deployed memHandler (agentWith [] None) (memView s') \<and> agentAt sampleKey z (memView s') \<and> hasFinalizer z"
proof -
  let ?a = "agentWith [] None"
  have "memView (agentCluster ?a) = agentCluster ?a" by (rule agentCluster_view) simp
  moreover have "\<not> deleting ?a" "oa_Namespace ?a = operatorNamespace (h_Env memHandler)"
    using agentWith_fields(5) sampleAgent_fields(5) by (simp_all add: deleting_def)
  ultimately show ?thesis
    using reconcile_deploys[OF memReconciler_wired memHandler_up agentWith_manageable[of "[]" None], of sampleKey "agentCluster ?a"]
      agentCluster_at[of "[]" None] agentCluster_ready[of "[]" None] by simp blast
qed



text \<open>C3. The finalizer is a guard: while the stored OcmAgent resource carries it, no reconciliation changes the resource, except for one of
  a resource that is being deleted whose removal has gone through: it has left the two config maps that the removal forgets as they
  were and, when no finalizer holds the objects, has removed everything else that the operator makes for the agent, the metrics
  service too unless it was alone on the cluster. This holds for every outcome, with faults at any call and with failed writes that
  were carried out.\<close>
theorem finalizer_guards_removal:
  assumes w: "wired r (handlerOf h) view" and m: "manageable h view a" and at: "agentAt request a (view s)" and fin: "hasFinalizer a"
    and name: "oa_Name a \<noteq> TrustedCaBundleConfigMapName" and run: "Reconcile r request s = (q, s')"
  shows "agentAt request a (view s') \<or> deleting a \<and>
    (\<forall>x \<in> {configRef (h_Env h) a, trustRef (h_Env h)}. cl_Objects (view s') x = cl_Objects (view s) x) \<and>
    ((\<forall>x \<in> absentRefs (h_Env h) a. noFinalizers x (view s)) \<longrightarrow>
       (\<forall>x \<in> agentRefs (h_Env h) a \<union> absentRefs (h_Env h) a - {configRef (h_Env h) a, trustRef (h_Env h)}. cl_Objects (view s') x = None \<or>
          x = metricsRef (h_Env h) a \<and> cl_Objects (view s) (serviceRef (h_Env h) a) = None))"
proof (cases "agentAt request a (view s')")
  case False
  with run.finalizer_guards[OF w run at m fin] retried.finalizer_guards[OF w run at m fin]
  have del: "deleting a" and one: "removable (h_Env h) a (view s) \<longrightarrow> (\<forall>x \<in> absentRefs (h_Env h) a. absent x (view s'))"
    and two: "unheld (h_Env h) a (view s) \<longrightarrow> (\<forall>x \<in> removedRefs (h_Env h) a. absent x (view s'))" by blast+
  have "cl_Objects (view s') x = None \<or> x = metricsRef (h_Env h) a \<and> cl_Objects (view s) (serviceRef (h_Env h) a) = None"
    if "unheld (h_Env h) a (view s)" "x \<in> absentRefs (h_Env h) a" for x
  proof (cases "x = metricsRef (h_Env h) a \<and> cl_Objects (view s) (serviceRef (h_Env h) a) \<noteq> None")
    case True
    with that(1) have "removable (h_Env h) a (view s)" by (auto simp: removable_def unheld_def absent_def)
    with one that(2) show ?thesis by (simp add: absent_def)
  next
    case False
    with two that show ?thesis unfolding removedRefs_def absent_def by blast
  qed
  with del reconcile_leaves[OF w run at m del name] agentRefs_deleted[of "h_Env h" a] show ?thesis
    unfolding leftRefs_def unheld_def by blast
qed simp

theorem finalizer_guards_removal_witness:
  "let a = agentWith [ReconcileOCMAgentFinalizer] (Some 7); env = h_Env memHandler; s = runningCluster a in
     \<exists>s'. Reconcile memReconciler sampleKey s = (Inr \<lparr>res_RequeueAfter = 0\<rparr>, s') \<and> \<not> agentAt sampleKey a (memView s') \<and>
       cl_Objects (memView s) (deploymentRef env a) \<noteq> None \<and> cl_Objects (memView s') (deploymentRef env a) = None \<and>
       cl_Objects (memView s') (configRef env a) = Some (OConfigMap (buildOCMAgentConfigMap env a ''c-1''))"
proof -
  let ?a = "agentWith [ReconcileOCMAgentFinalizer] (Some 7)" and ?env = "h_Env memHandler"
  have v: "memView (runningCluster ?a) = runningCluster ?a" by (rule running_view) simp
  have a: "agentAt sampleKey ?a (memView (runningCluster ?a))" "hasFinalizer ?a" "deleting ?a"
    unfolding v using running_at by (simp_all add: hasFinalizer_def deleting_def)
  obtain s' where s': "Reconcile memReconciler sampleKey (runningCluster ?a) = (Inr emptyResult, s')"
    using reconcile_removes_up[OF memReconciler_wired memHandler_up a(1,3) agentWith_manageable] by blast
  from run.reconcile_removes[OF memReconciler_wired(1) s' a(1) agentWith_manageable a(3)] running_removable[of ?a]
  have gone: "cl_Objects (memView s') (agentRef sampleKey) = None" unfolding v by simp
  have "deploymentRef ?env ?a \<in> agentRefs ?env ?a \<union> absentRefs ?env ?a - {configRef ?env ?a, trustRef ?env}"
    "deploymentRef ?env ?a \<noteq> metricsRef ?env ?a"
    by (simp_all add: agentRefs_def bodyRefs_def) (simp_all add: deploymentRef_def configRef_def trustRef_def metricsRef_def)
  with finalizer_guards_removal[OF memReconciler_wired(1) agentWith_manageable a(1,2) sample_names s'] gone s' running_objects(1,2)[of ?a]
    running_removable[of ?a]
  show ?thesis unfolding Let_def v by (auto simp: agentAt_def removable_def emptyResult_def)
qed

text \<open>C30. The loop comes to rest: when everything is in place and the resource carries the finalizer, a reconciliation writes no object,
  whatever its outcome.\<close>
theorem reconcile_quiet:
  assumes "wired r (handlerOf h) view" and "manageable h view a" and "agentAt request a (view s)" and "\<not> deleting a"
    and "hasFinalizer a" and "deployed h a (view s)" and "Reconcile r request s = (q, s')"
  shows "cl_Objects (view s') = cl_Objects (view s) \<and> cl_Log (view s') = cl_Log (view s)"
  by (rule touches_nothing[OF run.reconcile_idle[OF assms(1,7,3,2,4,5,6)]])

theorem reconcile_quiet_witness:
  "\<exists>s' q s''. deployed memHandler (agentWith [ReconcileOCMAgentFinalizer] None) (memView s') \<and>
     Reconcile memReconciler sampleKey s' = (q, s'') \<and> cl_Objects (memView s'') = cl_Objects (memView s')"
proof -
  let ?a = "agentWith [ReconcileOCMAgentFinalizer] None"
  have v: "memView (agentCluster ?a) = agentCluster ?a" by (rule agentCluster_view) simp
  have a: "agentAt sampleKey ?a (memView (agentCluster ?a))" "hasFinalizer ?a" "\<not> deleting ?a"
    unfolding v using agentCluster_at by (simp_all add: hasFinalizer_def deleting_def)
  have ns: "oa_Namespace ?a = operatorNamespace (h_Env memHandler)" using agentWith_fields(5) sampleAgent_fields(5) by simp
  obtain s' where s': "Reconcile memReconciler sampleKey (agentCluster ?a) = (Inr \<lparr>res_RequeueAfter = SyncPeriodDefault\<rparr>, s')"
    using reconcile_exists_up[OF memReconciler_wired memHandler_up a(1,3) agentWith_manageable ns] agentCluster_ready unfolding v by blast
  from run.reconcile_exists[OF memReconciler_wired(1) s' a(1) agentWith_manageable a(3)] agentCluster_ready v
  have d: "deployed memHandler ?a (memView s')" by simp
  have at: "agentAt sampleKey ?a (memView s')"
    using run.finalizer_guards[OF memReconciler_wired(1) s' a(1) agentWith_manageable a(2)] a(3) by blast
  obtain q s'' where s'': "Reconcile memReconciler sampleKey s' = (q, s'')" by fastforce
  from reconcile_quiet[OF memReconciler_wired(1) agentWith_manageable at a(3,2) d s''] d s'' show ?thesis by blast
qed

text \<open>C31. The answers of a successful reconciliation: for a missing resource the gauge for its absence is set, nothing is written and no
  further run is asked for; for a stored one the gauge is cleared, and a further run is asked for after the synchronisation period
  exactly when the resource is not being deleted.\<close>
theorem reconcile_answers:
  assumes w: "wired r (handlerOf h) view" and m: "\<forall>a. agentAt request a (view s) \<longrightarrow> manageable h view a"
    and run: "Reconcile r request s = (Inr res, s')"
  shows "case cl_Objects (view s) (KOcmAgent, request) of
      None \<Rightarrow> res_RequeueAfter res = 0 \<and> view s' = (view s)\<lparr>cl_Gauges := (cl_Gauges (view s))((MetricOcmAgentResourceAbsent, []) \<mapsto> 1)\<rparr>
    | Some x \<Rightarrow> cl_Gauges (view s') (MetricOcmAgentResourceAbsent, []) = Some 0 \<and>
        (\<exists>a. x = OOcmAgent a \<and> res_RequeueAfter res = (if deleting a then 0 else SyncPeriodDefault))"
  using w run
proof (cases rule: reconcile_cases)
  case (found a s1)
  with run.reconcile_result[OF w run found(1)] m show ?thesis by (simp add: agentAt_def emptyResult_def)
qed (auto simp: emptyResult_def)

theorem reconcile_answers_witness:
  "\<exists>res s'. Reconcile memReconciler sampleKey (storeAll []) = (Inr res, s') \<and> res_RequeueAfter res = 0 \<and>
     cl_Gauges (memView s') (MetricOcmAgentResourceAbsent, []) = Some 1"
proof -
  have v: "memView (storeAll []) = storeAll []" by (rule memView_storeAll) simp
  have none: "cl_Objects (memView (storeAll [])) (agentRef sampleKey) = None" unfolding v by (simp add: storeAll_def)
  obtain e s1 where g: "getAs (r_Client memReconciler) KOcmAgent asOcmAgent sampleKey (storeAll []) = (Inl e, s1)" "IsNotFound e"
    by (rule oa.getAs_up[OF memReconciler_wired(2), where key = sampleKey and s = "storeAll []"]) (use none in auto)
  then obtain res s' where run: "Reconcile memReconciler sampleKey (storeAll []) = (Inr res, s')"
    by (simp add: Reconcile_def onResult_def UpdateMetricOcmAgentResourceAbsent_def andThen_def)
  have "\<forall>a. agentAt sampleKey a (memView (storeAll [])) \<longrightarrow> manageable memHandler memView a" unfolding v by (simp add: agentAt_def storeAll_def)
  from reconcile_answers[OF memReconciler_wired(1) this run] run show ?thesis unfolding v by (simp add: storeAll_def)
qed

text \<open>C4. Deletion with retries is safe: along every sequence of reconciliation attempts with whatever outcomes, interleaved with other
  activity on the cluster, an OcmAgent resource that is being deleted stays as it is, with its finalizer, until of everything that the
  operator makes for the agent at most three objects are left: the two config maps that the removal never deletes and possibly the metrics
  service. From then on the others stay away.\<close>
theorem teardown_safe:
  assumes w: "wired r (handlerOf h) view" and m: "manageable h view a" and del: "deleting a"
    and start: "agentAt request a (view s)" "unheld (h_Env h) a (view s)"
    and steps: "(teardown r request view (absentRefs (h_Env h) a))\<^sup>*\<^sup>* s s'"
  shows "agentAt request a (view s') \<or>
    (\<forall>x \<in> agentRefs (h_Env h) a \<union> absentRefs (h_Env h) a - {configRef (h_Env h) a, trustRef (h_Env h), metricsRef (h_Env h) a}.
       cl_Objects (view s') x = None)"
proof -
  from start have "teardownInv h view request a (view s)" by (simp add: teardownInv_def)
  with steps have "teardownInv h view request a (view s')"
    by (induction rule: rtranclp_induct) (auto intro: teardown_step[OF w m del])
  then have "agentAt request a (view s') \<or> (\<forall>x \<in> removedRefs (h_Env h) a. absent x (view s'))"
    unfolding teardownInv_def tornDown_def by blast
  then show ?thesis using removedRefs_made[of "h_Env h" a] unfolding absent_def by blast
qed

text \<open>From a cluster with all the objects, an attempt without faults: the resource is gone and so is the deployment, which was there.\<close>
theorem teardown_safe_witness:
  "let a = agentWith [ReconcileOCMAgentFinalizer] (Some 7); env = h_Env memHandler; s = runningCluster a in
     \<exists>s'. (teardown memReconciler sampleKey memView (absentRefs env a))\<^sup>*\<^sup>* s s' \<and> \<not> agentAt sampleKey a (memView s') \<and>
       cl_Objects (memView s) (deploymentRef env a) \<noteq> None \<and> cl_Objects (memView s') (deploymentRef env a) = None"
proof -
  let ?a = "agentWith [ReconcileOCMAgentFinalizer] (Some 7)" and ?env = "h_Env memHandler"
  let ?R = "teardown memReconciler sampleKey memView (absentRefs ?env ?a)"
  have v: "memView (runningCluster ?a) = runningCluster ?a" by (rule running_view) simp
  have a: "deleting ?a" "agentAt sampleKey ?a (memView (runningCluster ?a))" "unheld ?env ?a (memView (runningCluster ?a))"
    unfolding v using running_at running_removable by (simp_all add: deleting_def unheld_def removable_def)
  obtain s' where s': "Reconcile memReconciler sampleKey (runningCluster ?a) = (Inr emptyResult, s')"
    using reconcile_removes_up[OF memReconciler_wired memHandler_up a(2,1) agentWith_manageable] by blast
  then have steps: "?R\<^sup>*\<^sup>* (runningCluster ?a) s'" by (intro r_into_rtranclp teardown.attempt)
  from run.reconcile_removes[OF memReconciler_wired(1) s' a(2) agentWith_manageable a(1)] running_removable[of ?a]
  have gone: "\<not> agentAt sampleKey ?a (memView s')" unfolding v by (simp add: agentAt_def)
  have "deploymentRef ?env ?a \<in> agentRefs ?env ?a \<union> absentRefs ?env ?a - {configRef ?env ?a, trustRef ?env, metricsRef ?env ?a}"
    by (simp add: agentRefs_def bodyRefs_def) (simp add: deploymentRef_def configRef_def trustRef_def metricsRef_def)
  with teardown_safe[OF memReconciler_wired(1) agentWith_manageable a steps] gone have "cl_Objects (memView s') (deploymentRef ?env ?a) = None" by blast
  with steps gone running_objects(1)[of ?a] show ?thesis unfolding Let_def v by auto
qed

end
