(* ===== verification/GoFlag.thy ===== *)
theory GoFlag
  imports OAO_Prelude
begin

text \<open>
  What the source uses of the package \<^verbatim>\<open>flag\<close> of the standard library: the command line of the process
  (\<open>flag.CommandLine\<close>, which exits on an error), flags with a string or a boolean value, and the loop of
  \<open>Parse\<close>. The values of the flags are a state \<open>'v\<close>, and a flag says how a text is stored in it.
\<close>

section \<open>Model\<close>

record 'v Flag =
  fl_IsBool :: bool
  fl_Set :: "string \<Rightarrow> 'v \<Rightarrow> error + 'v"

text \<open>The flags that are defined, by name.\<close>
type_synonym 'v FlagSet = "string \<Rightarrow> 'v Flag option"

text \<open>\<open>strconv.ParseBool\<close>\<close>
definition ParseBool :: "string \<Rightarrow> error + bool" where
  "ParseBool str =
     (if str \<in> set [''1'', ''t'', ''T'', ''true'', ''TRUE'', ''True''] then Inr True
      else if str \<in> set [''0'', ''f'', ''F'', ''false'', ''FALSE'', ''False''] then Inr False
      else Inl (Errorf ''parse error''))"

text \<open>\<open>StringVar\<close> and \<open>BoolVar\<close>, with the update of the variable.\<close>
definition StringVar :: "(string \<Rightarrow> 'v \<Rightarrow> 'v) \<Rightarrow> 'v Flag" where
  "StringVar put = \<lparr>fl_IsBool = False, fl_Set = (\<lambda>s v. Inr (put s v))\<rparr>"

definition BoolVar :: "(bool \<Rightarrow> 'v \<Rightarrow> 'v) \<Rightarrow> 'v Flag" where
  "BoolVar put = \<lparr>fl_IsBool = True, fl_Set = (\<lambda>s v. case ParseBool s of Inl e \<Rightarrow> Inl e | Inr b \<Rightarrow> Inr (put b v))\<rparr>"

text \<open>The name and, after the first equals sign that is not the first character, the value.\<close>
fun splitFlag :: "string \<Rightarrow> string \<times> string option" where
  "splitFlag [] = ([], None)"
| "splitFlag (c # cs) = (c # takeWhile (\<lambda>x. x \<noteq> CHR ''='') cs,
     case dropWhile (\<lambda>x. x \<noteq> CHR ''='') cs of [] \<Rightarrow> None | _ # value \<Rightarrow> Some value)"

text \<open>One round of the loop: parsing ends and leaves arguments, the process exits, or the loop goes on.\<close>
datatype 'v Round = Stop "string list" | Quit nat | Next 'v "string list"

definition setFlag :: "'v Flag \<Rightarrow> string \<Rightarrow> 'v \<Rightarrow> string list \<Rightarrow> 'v Round" where
  "setFlag f value v args = (case fl_Set f value v of Inl _ \<Rightarrow> Quit 2 | Inr v' \<Rightarrow> Next v' args)"

text \<open>A flag that has been recognised; \<open>args\<close> are the arguments behind it.\<close>
definition takeFlag :: "'v FlagSet \<Rightarrow> string \<Rightarrow> 'v \<Rightarrow> string list \<Rightarrow> 'v Round" where
  "takeFlag formal name v args =
     (let (n, val) = splitFlag name in
      case formal n of
        None \<Rightarrow> Quit (if n \<in> {''help'', ''h''} then 0 else 2)
      | Some f \<Rightarrow>
          if fl_IsBool f then setFlag f (case val of Some x \<Rightarrow> x | None \<Rightarrow> ''true'') v args
          else case val of
            Some x \<Rightarrow> setFlag f x v args
          | None \<Rightarrow> (case args of [] \<Rightarrow> Quit 2 | x # args' \<Rightarrow> setFlag f x v args'))"

definition parseOne :: "'v FlagSet \<Rightarrow> 'v \<Rightarrow> string list \<Rightarrow> 'v Round" where
  "parseOne formal v args =
     (case args of
        [] \<Rightarrow> Stop []
      | s # args' \<Rightarrow>
          if length s < 2 \<or> hd s \<noteq> CHR ''-'' then Stop args
          else if s = ''--'' then Stop args'
          else let name = (if s ! 1 = CHR ''-'' then drop 2 s else drop 1 s) in
            if name = [] \<or> hd name = CHR ''-'' \<or> hd name = CHR ''='' then Quit 2
            else takeFlag formal name v args')"

lemma setFlag_Next [simp]: "setFlag f x v args = Next v' args' \<longleftrightarrow> fl_Set f x v = Inr v' \<and> args' = args"
  by (auto simp: setFlag_def split: sum.splits)

lemma parseOne_shorter: "parseOne formal v args = Next v' args' \<Longrightarrow> length args' < length args"
  by (auto simp: parseOne_def takeFlag_def Let_def split: list.splits if_splits option.splits prod.splits)

text \<open>\<open>Parse\<close>: the exit code of the process, or the values and the arguments that are left.\<close>
function Parse :: "'v FlagSet \<Rightarrow> 'v \<Rightarrow> string list \<Rightarrow> nat + 'v \<times> string list" where
  "Parse formal v args =
     (case parseOne formal v args of
        Stop rest \<Rightarrow> Inr (v, rest)
      | Quit code \<Rightarrow> Inl code
      | Next v' args' \<Rightarrow> Parse formal v' args')"
  by auto
termination
  by (relation "measure (\<lambda>(formal, v, args). length args)") (auto dest: parseOne_shorter)

declare Parse.simps [simp del]

section \<open>Lemmas\<close>

lemma Parse_Nil [simp]: "Parse formal v [] = Inr (v, [])"
  by (simp add: Parse.simps parseOne_def)

lemma Flag_simps [simp]:
  "\<not> fl_IsBool (StringVar put)" "fl_Set (StringVar put) x v = Inr (put x v)"
  "fl_IsBool (BoolVar sw)" "fl_Set (BoolVar sw) ''true'' v = Inr (sw True v)" "fl_Set (BoolVar sw) ''false'' v = Inr (sw False v)"
  by (simp_all add: StringVar_def BoolVar_def ParseBool_def)

lemma splitFlag_eq:
  assumes "name \<noteq> []" "CHR ''='' \<notin> set name"
  shows "splitFlag (name @ CHR ''='' # value) = (name, Some value)" "splitFlag name = (name, None)"
proof -
  from assms obtain c cs where n: "name = c # cs" "CHR ''='' \<notin> set cs" by (cases name) auto
  then have all: "\<forall>x \<in> set cs. x \<noteq> CHR ''=''" by auto
  have "takeWhile (\<lambda>x. x \<noteq> CHR ''='') cs = cs" "dropWhile (\<lambda>x. x \<noteq> CHR ''='') cs = []"
    "takeWhile (\<lambda>x. x \<noteq> CHR ''='') (cs @ CHR ''='' # value) = cs"
    "dropWhile (\<lambda>x. x \<noteq> CHR ''='') (cs @ CHR ''='' # value) = CHR ''='' # value"
    using all by (simp_all add: takeWhile_append dropWhile_append)
  with n show "splitFlag (name @ CHR ''='' # value) = (name, Some value)" "splitFlag name = (name, None)"
    by (simp_all del: dropWhile_eq_Nil_conv)
qed

definition flagName :: "string \<Rightarrow> bool" where
  "flagName name \<longleftrightarrow> name \<noteq> [] \<and> CHR ''='' \<notin> set name \<and> hd name \<noteq> CHR ''-''"

lemma flagName_hd: "flagName name \<Longrightarrow> hd (name @ rest) \<notin> {CHR ''-'', CHR ''=''}"
  by (cases name) (auto simp: flagName_def)

lemma parseOne_flag:
  assumes "flagName name"
  shows "parseOne formal v ((''--'' @ name @ rest) # args) = takeFlag formal (name @ rest) v args"
  using assms flagName_hd[OF assms, of rest] by (simp add: parseOne_def Let_def flagName_def)

text \<open>A flag written \<open>--name=value\<close>.\<close>
lemma Parse_equals:
  assumes "flagName name" and "formal name = Some f" and "fl_Set f value v = Inr v'"
  shows "Parse formal v ((''--'' @ name @ ''='' @ value) # args) = Parse formal v' args"
  using parseOne_flag[OF assms(1), of formal v "''='' @ value"] assms splitFlag_eq(1)[of name "value"]
  by (subst Parse.simps) (simp add: takeFlag_def setFlag_def flagName_def)

text \<open>A flag written \<open>--name value\<close>, with the value in an argument of its own.\<close>
lemma Parse_separate:
  assumes "flagName name" and "formal name = Some f" and "\<not> fl_IsBool f" and "fl_Set f value v = Inr v'"
  shows "Parse formal v ((''--'' @ name) # value # args) = Parse formal v' args"
  using parseOne_flag[OF assms(1), of formal v "[]"] assms splitFlag_eq(2)[of name]
  by (subst Parse.simps) (simp add: takeFlag_def setFlag_def flagName_def)

text \<open>A boolean flag without a value.\<close>
lemma Parse_switch:
  assumes "flagName name" and "formal name = Some f" and "fl_IsBool f" and "fl_Set f ''true'' v = Inr v'"
  shows "Parse formal v ((''--'' @ name) # args) = Parse formal v' args"
  using parseOne_flag[OF assms(1), of formal v "[]"] assms splitFlag_eq(2)[of name]
  by (subst Parse.simps) (simp add: takeFlag_def setFlag_def flagName_def)

text \<open>An undefined flag ends the process.\<close>
lemma Parse_undefined:
  assumes "flagName name" and "formal name = None" and "name \<notin> {''help'', ''h''}"
  shows "Parse formal v ((''--'' @ name) # args) = Inl 2"
  using parseOne_flag[OF assms(1), of formal v "[]"] assms splitFlag_eq(2)[of name]
  by (subst Parse.simps) (simp add: takeFlag_def setFlag_def flagName_def)

end
