(* ===== verification/Startup.thy ===== *)
theory Startup
  imports FleetController ControllerProps GoFlag
begin

text \<open>
  The start of the process (\<^verbatim>\<open>main.go\<close>): flags, the schemes, the metrics server, the manager of
  controller-runtime with the two controllers and the probes, up to the call that runs the manager. With it the
  registration of the types of the API group (\<^verbatim>\<open>groupversion_info.go\<close> and the \<open>init\<close> functions of the types).

  The libraries are the parameter \<open>System\<close>: its operations change a state \<open>'w\<close> of the process, return handles for a
  configuration (\<open>'cfg\<close>) and a manager (\<open>'m\<close>), and clients for the two controllers, whose states are \<open>'s\<close> and \<open>'f\<close>. What is
  relied on is \<open>runtime_ok\<close>, over a view of the state as a \<open>Runtime\<close>. The set-up of the logging library has no effect in the
  model other than the flags that it defines; of the log, the errors are kept.
\<close>

section \<open>Model\<close>

subsection \<open>Types of the API group\<close>

definition GroupVersion :: "string \<times> string" where
  "GroupVersion = (''ocmagent.managed.openshift.io'', ''v1alpha1'')"

text \<open>\<open>SchemeBuilder.Register\<close> in the \<open>init\<close> functions, on the list of registered types; they run in the order of the files.\<close>
definition ManagedFleetNotification_init :: "string list \<Rightarrow> string list" where
  "ManagedFleetNotification_init b = b @ [''ManagedFleetNotification'', ''ManagedFleetNotificationList'']"

definition ManagedFleetNotificationRecord_init :: "string list \<Rightarrow> string list" where
  "ManagedFleetNotificationRecord_init b = b @ [''ManagedFleetNotificationRecord'', ''ManagedFleetNotificationRecordList'']"

definition ManagedNotification_init :: "string list \<Rightarrow> string list" where
  "ManagedNotification_init b = b @ [''ManagedNotification'', ''ManagedNotificationList'']"

definition OcmAgent_init :: "string list \<Rightarrow> string list" where
  "OcmAgent_init b = b @ [''OcmAgent'', ''OcmAgentList'']"

definition SchemeBuilder :: "string list" where
  "SchemeBuilder = OcmAgent_init (ManagedNotification_init (ManagedFleetNotificationRecord_init (ManagedFleetNotification_init [])))"

subsection \<open>What is handed to the libraries\<close>

text \<open>The scheme of the operator and that of client-go, and the groups of types that other packages install.\<close>
datatype Scheme = OperatorScheme | ClientGoScheme

datatype ApiGroup = ClientGoGroups | ConfigV1 | MonitoringV1

record MetricsConfig =
  mc_Namespace :: string
  mc_Name :: string
  mc_Port :: string
  mc_Path :: string
  mc_Collectors :: "string list"
  mc_ServiceMonitor :: bool

record TLSConfig =
  tls_NextProtos :: "string list"

record WebhookOptions =
  wh_TLSOpts :: "(TLSConfig \<Rightarrow> TLSConfig) list"
  wh_Port :: int

record ManagerOptions =
  mo_DefaultNamespaces :: "string list"
  mo_Scheme :: Scheme
  mo_MetricsBindAddress :: string
  mo_WebhookServer :: WebhookOptions
  mo_HealthProbeBindAddress :: string
  mo_LeaderElection :: bool
  mo_LeaderElectionID :: string

datatype Checker = Ping

text \<open>What \<open>SetupWithManager\<close> completes: a reconciler with the events that lead to a run.\<close>
datatype ('s, 'f) Controller =
    CompleteOcmAgent "'s OcmAgentReconciler" Watches
  | CompleteFleetNotification "'f FleetClient" FleetWatches

text \<open>The operations of the libraries; \<open>GetConfigOrDie\<close> with an error is the end of the process with code 1.\<close>
record ('w, 'cfg, 'm, 's, 'f) System =
  sys_Install :: "ApiGroup \<Rightarrow> Scheme \<Rightarrow> ('w, unit) step"
  sys_AddTypes :: "string \<times> string \<Rightarrow> string list \<Rightarrow> Scheme \<Rightarrow> ('w, unit) step"
  sys_Info :: "string \<Rightarrow> 'w \<Rightarrow> 'w"
  sys_Error :: "string \<Rightarrow> error \<Rightarrow> 'w \<Rightarrow> 'w"
  sys_ConfigureMetrics :: "MetricsConfig \<Rightarrow> ('w, unit) step"
  sys_GetConfigOrDie :: "('w, 'cfg) step"
  sys_NewManager :: "'cfg \<Rightarrow> ManagerOptions \<Rightarrow> ('w, 'm) step"
  sys_GetScheme :: "'m \<Rightarrow> Scheme"
  sys_GetClient :: "'m \<Rightarrow> 's Client"
  sys_GetFleetClient :: "'m \<Rightarrow> 'f FleetClient"
  sys_ClientNew :: "'cfg \<Rightarrow> Scheme \<Rightarrow> ('w, 's Client) step"
  sys_Complete :: "'m \<Rightarrow> ('s, 'f) Controller \<Rightarrow> ('w, unit) step"
  sys_AddHealthzCheck :: "'m \<Rightarrow> string \<Rightarrow> Checker \<Rightarrow> ('w, unit) step"
  sys_AddReadyzCheck :: "'m \<Rightarrow> string \<Rightarrow> Checker \<Rightarrow> ('w, unit) step"
  sys_Start :: "'m \<Rightarrow> ('w, unit) step"
  sys_GoVersion :: "string \<times> string \<times> string"  \<comment> \<open>\<open>runtime.Version()\<close>, \<open>GOOS\<close>, \<open>GOARCH\<close>\<close>

subsection \<open>Data\<close>

definition osdMetricsPort :: string where
  "osdMetricsPort = ''8686''"

definition osdMetricsPath :: string where
  "osdMetricsPath = ''/metrics''"

definition Version :: string where
  "Version = ''1.0.0''"

definition SDKVersion :: string where
  "SDKVersion = ''1.21.0''"

text \<open>The collectors of \<^verbatim>\<open>localmetrics.go\<close>.\<close>
definition MetricsList :: "string list" where
  "MetricsList = [MetricPullSecretInvalid, MetricOcmAgentResourceAbsent]"

text \<open>The variables of the flags; \<open>fg_Library\<close> are the values of the flags that libraries define.\<close>
record 'z Flags =
  fg_metricsAddr :: string
  fg_probeAddr :: string
  fg_enableLeaderElection :: bool
  fg_withWebhookHTTP2 :: bool
  fg_Library :: 'z

text \<open>The flags that \<open>main\<close> defines, beside those of libraries. A library that defined one of these names would
  panic, so theirs are the other names.\<close>
definition mainFlags :: "('z Flags) FlagSet \<Rightarrow> ('z Flags) FlagSet" where
  "mainFlags lib name =
     (if name = ''metrics-bind-address'' then Some (StringVar (\<lambda>s v. v\<lparr>fg_metricsAddr := s\<rparr>))
      else if name = ''health-probe-bind-address'' then Some (StringVar (\<lambda>s v. v\<lparr>fg_probeAddr := s\<rparr>))
      else if name = ''leader-elect'' then Some (BoolVar (\<lambda>b v. v\<lparr>fg_enableLeaderElection := b\<rparr>))
      else if name = ''webhook-http2'' then Some (BoolVar (\<lambda>b v. v\<lparr>fg_withWebhookHTTP2 := b\<rparr>))
      else lib name)"

definition mainDefaults :: "'z \<Rightarrow> 'z Flags" where
  "mainDefaults z = \<lparr>fg_metricsAddr = '':8080'', fg_probeAddr = '':8081'', fg_enableLeaderElection = False,
     fg_withWebhookHTTP2 = False, fg_Library = z\<rparr>"

subsection \<open>Functions\<close>

text \<open>\<open>init\<close>; \<open>utilruntime.Must\<close> panics on an error.\<close>
definition init :: "('w, 'cfg, 'm, 's, 'f) System \<Rightarrow> ('w, unit) step" where
  "init sys =
     andThen (sys_Install sys ClientGoGroups OperatorScheme) (\<lambda>_.
     andThen (sys_AddTypes sys GroupVersion SchemeBuilder OperatorScheme) (\<lambda>_.
     andThen (sys_Install sys ConfigV1 OperatorScheme) (\<lambda>_.
     sys_Install sys MonitoringV1 OperatorScheme)))"

definition printVersion :: "('w, 'cfg, 'm, 's, 'f) System \<Rightarrow> 'w \<Rightarrow> 'w" where
  "printVersion sys w =
     (let (goVersion, goos, goarch) = sys_GoVersion sys;
          w = sys_Info sys (''Operator Version: '' @ Version) w;
          w = sys_Info sys (''Go Version: '' @ goVersion) w;
          w = sys_Info sys (''Go OS/Arch: '' @ goos @ ''/'' @ goarch) w
      in sys_Info sys (''Version of operator-sdk: v'' @ SDKVersion) w)"

definition webhookServer :: "int \<Rightarrow> bool \<Rightarrow> WebhookOptions" where
  "webhookServer port withHTTP2 =
     (let disableHTTP2 = (\<lambda>c. if withHTTP2 then c else c\<lparr>tls_NextProtos := [''http/1.1'']\<rparr>)
      in \<lparr>wh_TLSOpts = [disableHTTP2], wh_Port = port\<rparr>)"

text \<open>The configuration of the metrics server and the options of the manager.\<close>
definition metricsServer :: "string \<Rightarrow> MetricsConfig" where
  "metricsServer operatorNS = \<lparr>mc_Namespace = operatorNS, mc_Name = ''ocm-agent-operator'', mc_Port = osdMetricsPort,
     mc_Path = osdMetricsPath, mc_Collectors = MetricsList, mc_ServiceMonitor = True\<rparr>"

definition managerOptions :: "string \<Rightarrow> 'z Flags \<Rightarrow> ManagerOptions" where
  "managerOptions operatorNS flags = \<lparr>mo_DefaultNamespaces = [operatorNS], mo_Scheme = OperatorScheme,
     mo_MetricsBindAddress = fg_metricsAddr flags, mo_WebhookServer = webhookServer 9443 (fg_withWebhookHTTP2 flags),
     mo_HealthProbeBindAddress = fg_probeAddr flags, mo_LeaderElection = fg_enableLeaderElection flags,
     mo_LeaderElectionID = ''8716512f.managed.openshift.io''\<rparr>"

text \<open>\<open>x, err := m(); if err != nil { report; os.Exit(1) }\<close>. A result is the exit code and the state.\<close>
definition orExit :: "('w, 'a) step \<Rightarrow> (error \<Rightarrow> 'w \<Rightarrow> 'w) \<Rightarrow> ('a \<Rightarrow> 'w \<Rightarrow> nat \<times> 'w) \<Rightarrow> 'w \<Rightarrow> nat \<times> 'w" where
  "orExit m report k w = (case m w of (Inl err, w') \<Rightarrow> (1, report err w') | (Inr x, w') \<Rightarrow> k x w')"

text \<open>\<open>if err := m(); err != nil { report }\<close>, and on it goes.\<close>
definition orWarn :: "('w, unit) step \<Rightarrow> (error \<Rightarrow> 'w \<Rightarrow> 'w) \<Rightarrow> ('w \<Rightarrow> nat \<times> 'w) \<Rightarrow> 'w \<Rightarrow> nat \<times> 'w" where
  "orWarn m report k w = (case m w of (Inl err, w') \<Rightarrow> k (report err w') | (Inr _, w') \<Rightarrow> k w')"

text \<open>The reconciler of the OcmAgent controller: it has the client of the manager, its handler another one. \<open>process\<close> and \<open>util\<close> are
  the surroundings of the handler and of the reconciler.\<close>
definition ocmAgentReconciler :: "('w, 'cfg, 'm, 's, 'f) System \<Rightarrow> 's ocmAgentHandler \<Rightarrow> Controllerutil \<Rightarrow> 'm \<Rightarrow> 's Client \<Rightarrow> 's OcmAgentReconciler" where
  "ocmAgentReconciler sys process util mgr handlerClient =
     \<lparr>r_Client = sys_GetClient sys mgr, r_OCMAgentHandlerBuilder = NewBuilder process handlerClient,
      r_Controllerutil = util, r_GaugeSet = h_GaugeSet process\<rparr>"

text \<open>The controllers, the probes and the start, once there are a manager and a client for the handler.\<close>
definition runManager :: "('w, 'cfg, 'm, 's, 'f) System \<Rightarrow> 's ocmAgentHandler \<Rightarrow> Controllerutil \<Rightarrow> 'm \<Rightarrow> 's Client \<Rightarrow> 'w \<Rightarrow> nat \<times> 'w" where
  "runManager sys process util mgr handlerClient =
     orExit (sys_Complete sys mgr (CompleteOcmAgent (ocmAgentReconciler sys process util mgr handlerClient) OcmAgentController.SetupWithManager))
       (sys_Error sys ''unable to create controller'') (\<lambda>_.
     orExit (sys_Complete sys mgr (CompleteFleetNotification (sys_GetFleetClient sys mgr) FleetController.SetupWithManager))
       (sys_Error sys ''unable to create controller'') (\<lambda>_.
     orExit (sys_AddHealthzCheck sys mgr ''healthz'' Ping) (sys_Error sys ''unable to set up health check'') (\<lambda>_.
     orExit (sys_AddReadyzCheck sys mgr ''readyz'' Ping) (sys_Error sys ''unable to set up ready check'') (\<lambda>_ w.
     orExit (sys_Start sys mgr) (sys_Error sys ''problem running manager'') (\<lambda>_ w. (0, w))
       (sys_Info sys ''starting manager'' w)))))"

text \<open>Before that, the client for the handler, and before that the manager.\<close>
definition createClient :: "('w, 'cfg, 'm, 's, 'f) System \<Rightarrow> 's ocmAgentHandler \<Rightarrow> Controllerutil \<Rightarrow> 'm \<Rightarrow> 'w \<Rightarrow> nat \<times> 'w" where
  "createClient sys process util mgr =
     orExit (sys_GetConfigOrDie sys) (\<lambda>_ w. w) (\<lambda>kubeConfig.
     orExit (sys_ClientNew sys kubeConfig (sys_GetScheme sys mgr)) (\<lambda>_ w. w) (\<lambda>handlerClient.
     runManager sys process util mgr handlerClient))"

definition createManager :: "('w, 'cfg, 'm, 's, 'f) System \<Rightarrow> 's ocmAgentHandler \<Rightarrow> Controllerutil \<Rightarrow> string \<Rightarrow> 'z Flags \<Rightarrow> 'w \<Rightarrow> nat \<times> 'w" where
  "createManager sys process util operatorNS flags =
     orExit (sys_GetConfigOrDie sys) (\<lambda>_ w. w) (\<lambda>config.
     orExit (sys_NewManager sys config (managerOptions operatorNS flags)) (sys_Error sys ''unable to start manager'') (\<lambda>mgr.
     createClient sys process util mgr))"

definition main :: "('w, 'cfg, 'm, 's, 'f) System \<Rightarrow> ('z Flags) FlagSet \<Rightarrow> 'z \<Rightarrow> 's ocmAgentHandler \<Rightarrow> Controllerutil \<Rightarrow>
    string list \<Rightarrow> 'w \<Rightarrow> nat \<times> 'w" where
  "main sys lib z process util args w =
     (case Parse (mainFlags lib) (mainDefaults z) args of
        Inl code \<Rightarrow> (code, w)
      | Inr (flags, _) \<Rightarrow>
          (case GetOperatorNamespace (h_Env process) of
             Inl err \<Rightarrow> (1, sys_Error sys ''unable to determine operator namespace, please define OPERATOR_NAMESPACE'' err (printVersion sys w))
           | Inr operatorNS \<Rightarrow>
               orExit (sys_Install sys MonitoringV1 ClientGoScheme) (sys_Error sys ''unable to add monitoringv1 scheme'') (\<lambda>_.
               orWarn (sys_ConfigureMetrics sys (metricsServer operatorNS)) (sys_Error sys ''Failed to configure OSD metrics'') (
               createManager sys process util operatorNS flags))
                 (printVersion sys w)))"

text \<open>The process: \<open>init\<close>, whose panics end it with code 2, then \<open>main\<close>.\<close>
definition program :: "('w, 'cfg, 'm, 's, 'f) System \<Rightarrow> ('z Flags) FlagSet \<Rightarrow> 'z \<Rightarrow> 's ocmAgentHandler \<Rightarrow> Controllerutil \<Rightarrow>
    string list \<Rightarrow> 'w \<Rightarrow> nat \<times> 'w" where
  "program sys lib z process util args w =
     (case init sys w of (Inl _, w') \<Rightarrow> (2, w') | (Inr _, w') \<Rightarrow> main sys lib z process util args w')"

section \<open>What the start relies on\<close>

text \<open>A manager: its options, what is registered with it, and whether it has been run.\<close>
record ('s, 'f) ManagerState =
  ms_Options :: ManagerOptions
  ms_Controllers :: "('s, 'f) Controller list"
  ms_Healthz :: "(string \<times> Checker) list"
  ms_Readyz :: "(string \<times> Checker) list"
  ms_Started :: bool

text \<open>The process: the types each scheme knows, the managers, whether the metrics server is configured, and the errors in the log.\<close>
record ('m, 's, 'f) Runtime =
  rt_Types :: "Scheme \<Rightarrow> string set"
  rt_Managers :: "'m \<Rightarrow> ('s, 'f) ManagerState option"
  rt_Metrics :: "MetricsConfig option"
  rt_Errors :: "string list"

definition newManager :: "ManagerOptions \<Rightarrow> ('s, 'f) ManagerState" where
  "newManager opts = \<lparr>ms_Options = opts, ms_Controllers = [], ms_Healthz = [], ms_Readyz = [], ms_Started = False\<rparr>"

definition onManager :: "'m \<Rightarrow> (('s, 'f) ManagerState \<Rightarrow> ('s, 'f) ManagerState) \<Rightarrow> ('m, 's, 'f) Runtime \<Rightarrow> ('m, 's, 'f) Runtime" where
  "onManager m f v = v\<lparr>rt_Managers := (rt_Managers v)(m := map_option f (rt_Managers v m))\<rparr>"

definition addTypes :: "string set \<Rightarrow> Scheme \<Rightarrow> ('m, 's, 'f) Runtime \<Rightarrow> ('m, 's, 'f) Runtime" where
  "addTypes T sch v = v\<lparr>rt_Types := (rt_Types v)(sch := rt_Types v sch \<union> T)\<rparr>"

text \<open>A step that fails changes nothing; one that succeeds with \<open>x\<close> does \<open>F x\<close>, where \<open>Q x\<close> holds before.\<close>
definition effect :: "('w \<Rightarrow> 'v) \<Rightarrow> ('w, 'a) step \<Rightarrow> ('a \<Rightarrow> 'v \<Rightarrow> bool) \<Rightarrow> ('a \<Rightarrow> 'v \<Rightarrow> 'v) \<Rightarrow> bool" where
  "effect view m Q F \<longleftrightarrow> (\<forall>w. case m w of (Inl _, w') \<Rightarrow> view w' = view w | (Inr x, w') \<Rightarrow> Q x (view w) \<and> view w' = F x (view w))"

text \<open>
  The documented behaviour of the libraries: installing a group makes its types known to the scheme; a new manager is not one that exists, has
  the given options and nothing registered; \<open>Complete\<close> and the probes register; \<open>Start\<close> runs what is registered, and an
  error from it comes before or after that. \<open>groupTypes\<close> are the types of the groups that other packages install.
\<close>
definition runtime_ok :: "('w, 'cfg, 'm, 's, 'f) System \<Rightarrow> (ApiGroup \<Rightarrow> string set) \<Rightarrow> ('w \<Rightarrow> ('m, 's, 'f) Runtime) \<Rightarrow> bool" where
  "runtime_ok sys groupTypes view \<longleftrightarrow>
     (\<forall>g sch. effect view (sys_Install sys g sch) (\<lambda>_ _. True) (\<lambda>_. addTypes (groupTypes g) sch)) \<and>
     (\<forall>gv ts sch. effect view (sys_AddTypes sys gv ts sch) (\<lambda>_ _. True) (\<lambda>_. addTypes (set ts) sch)) \<and>
     (\<forall>msg w. view (sys_Info sys msg w) = view w) \<and>
     (\<forall>msg e w. view (sys_Error sys msg e w) = (view w)\<lparr>rt_Errors := rt_Errors (view w) @ [msg]\<rparr>) \<and>
     (\<forall>c. effect view (sys_ConfigureMetrics sys c) (\<lambda>_ _. True) (\<lambda>_ v. v\<lparr>rt_Metrics := Some c\<rparr>)) \<and>
     effect view (sys_GetConfigOrDie sys) (\<lambda>_ _. True) (\<lambda>_ v. v) \<and>
     (\<forall>c opts. effect view (sys_NewManager sys c opts) (\<lambda>m v. rt_Managers v m = None \<and> sys_GetScheme sys m = mo_Scheme opts)
        (\<lambda>m v. v\<lparr>rt_Managers := (rt_Managers v)(m \<mapsto> newManager opts)\<rparr>)) \<and>
     (\<forall>c sch. effect view (sys_ClientNew sys c sch) (\<lambda>_ _. True) (\<lambda>_ v. v)) \<and>
     (\<forall>m c. effect view (sys_Complete sys m c) (\<lambda>_ _. True) (\<lambda>_. onManager m (\<lambda>st. st\<lparr>ms_Controllers := ms_Controllers st @ [c]\<rparr>))) \<and>
     (\<forall>m n c. effect view (sys_AddHealthzCheck sys m n c) (\<lambda>_ _. True) (\<lambda>_. onManager m (\<lambda>st. st\<lparr>ms_Healthz := ms_Healthz st @ [(n, c)]\<rparr>))) \<and>
     (\<forall>m n c. effect view (sys_AddReadyzCheck sys m n c) (\<lambda>_ _. True) (\<lambda>_. onManager m (\<lambda>st. st\<lparr>ms_Readyz := ms_Readyz st @ [(n, c)]\<rparr>))) \<and>
     (\<forall>m w. case sys_Start sys m w of
        (Inl _, w') \<Rightarrow> view w' \<in> {view w, onManager m (\<lambda>st. st\<lparr>ms_Started := True\<rparr>) (view w)}
      | (Inr _, w') \<Rightarrow> view w' = onManager m (\<lambda>st. st\<lparr>ms_Started := True\<rparr>) (view w))"

definition succeeds_always :: "('w, 'a) step \<Rightarrow> bool" where
  "succeeds_always m \<longleftrightarrow> (\<forall>w e. fst (m w) \<noteq> Inl e)"

text \<open>Libraries without faults, except for the metrics server; there is a manager for every process.\<close>
definition runtime_up :: "('w, 'cfg, 'm, 's, 'f) System \<Rightarrow> ('w \<Rightarrow> ('m, 's, 'f) Runtime) \<Rightarrow> bool" where
  "runtime_up sys view \<longleftrightarrow> (\<forall>g sch. succeeds_always (sys_Install sys g sch)) \<and> (\<forall>gv ts sch. succeeds_always (sys_AddTypes sys gv ts sch)) \<and>
     succeeds_always (sys_GetConfigOrDie sys) \<and> (\<forall>c opts w e. rt_Managers (view w) = Map.empty \<longrightarrow> fst (sys_NewManager sys c opts w) \<noteq> Inl e) \<and>
     (\<forall>c sch. succeeds_always (sys_ClientNew sys c sch)) \<and> (\<forall>m c. succeeds_always (sys_Complete sys m c)) \<and>
     (\<forall>m n c. succeeds_always (sys_AddHealthzCheck sys m n c)) \<and> (\<forall>m n c. succeeds_always (sys_AddReadyzCheck sys m n c)) \<and>
     (\<forall>m. succeeds_always (sys_Start sys m))"

text \<open>The types that other packages install, as far as the operator uses them.\<close>
definition kindName :: "Kind \<Rightarrow> string" where
  "kindName k = (case k of KDeployment \<Rightarrow> ''Deployment'' | KConfigMap \<Rightarrow> ''ConfigMap'' | KSecret \<Rightarrow> ''Secret'' | KService \<Rightarrow> ''Service''
     | KNetworkPolicy \<Rightarrow> ''NetworkPolicy'' | KServiceMonitor \<Rightarrow> ''ServiceMonitor'' | KPodDisruptionBudget \<Rightarrow> ''PodDisruptionBudget''
     | KOcmAgent \<Rightarrow> ''OcmAgent'' | KProxy \<Rightarrow> ''Proxy'' | KClusterVersion \<Rightarrow> ''ClusterVersion'')"

definition groups_ok :: "(ApiGroup \<Rightarrow> string set) \<Rightarrow> bool" where
  "groups_ok groupTypes \<longleftrightarrow>
     {''Deployment'', ''ConfigMap'', ''Secret'', ''Service'', ''NetworkPolicy'', ''PodDisruptionBudget''} \<subseteq> groupTypes ClientGoGroups \<and>
     {''Proxy'', ''ClusterVersion''} \<subseteq> groupTypes ConfigV1 \<and> ''ServiceMonitor'' \<in> groupTypes MonitoringV1"

section \<open>Running the start\<close>

lemma runtime_laws:
  assumes "runtime_ok sys groupTypes view"
  shows "effect view (sys_Install sys g sch) (\<lambda>_ _. True) (\<lambda>_. addTypes (groupTypes g) sch)"
    and "effect view (sys_AddTypes sys gv ts sch) (\<lambda>_ _. True) (\<lambda>_. addTypes (set ts) sch)"
    and "view (sys_Info sys msg w) = view w"
    and "view (sys_Error sys msg e w) = (view w)\<lparr>rt_Errors := rt_Errors (view w) @ [msg]\<rparr>"
    and "effect view (sys_ConfigureMetrics sys mc) (\<lambda>_ _. True) (\<lambda>_ v. v\<lparr>rt_Metrics := Some mc\<rparr>)"
    and "effect view (sys_GetConfigOrDie sys) (\<lambda>_ _. True) (\<lambda>_ v. v)"
    and "effect view (sys_ClientNew sys cfg sch) (\<lambda>_ _. True) (\<lambda>_ v. v)"
    and "effect view (sys_NewManager sys cfg opts) (\<lambda>m v. rt_Managers v m = None \<and> sys_GetScheme sys m = mo_Scheme opts)
        (\<lambda>m v. v\<lparr>rt_Managers := (rt_Managers v)(m \<mapsto> newManager opts)\<rparr>)"
    and "effect view (sys_Complete sys m x) (\<lambda>_ _. True) (\<lambda>_. onManager m (\<lambda>st. st\<lparr>ms_Controllers := ms_Controllers st @ [x]\<rparr>))"
    and "effect view (sys_AddHealthzCheck sys m n y) (\<lambda>_ _. True) (\<lambda>_. onManager m (\<lambda>st. st\<lparr>ms_Healthz := ms_Healthz st @ [(n, y)]\<rparr>))"
    and "effect view (sys_AddReadyzCheck sys m n y) (\<lambda>_ _. True) (\<lambda>_. onManager m (\<lambda>st. st\<lparr>ms_Readyz := ms_Readyz st @ [(n, y)]\<rparr>))"
    and "case sys_Start sys m w of
        (Inl _, w') \<Rightarrow> view w' \<in> {view w, onManager m (\<lambda>st. st\<lparr>ms_Started := True\<rparr>) (view w)}
      | (Inr _, w') \<Rightarrow> view w' = onManager m (\<lambda>st. st\<lparr>ms_Started := True\<rparr>) (view w)"
  using assms unfolding runtime_ok_def by (simp_all del: split_paired_All)

lemma runtime_up_laws:
  assumes "runtime_up sys view"
  shows "succeeds_always (sys_Install sys g sch)" "succeeds_always (sys_AddTypes sys gv ts sch)" "succeeds_always (sys_GetConfigOrDie sys)"
    "rt_Managers (view w) = Map.empty \<Longrightarrow> fst (sys_NewManager sys cfg opts w) \<noteq> Inl err" "succeeds_always (sys_ClientNew sys cfg sch)" "succeeds_always (sys_Complete sys m x)"
    "succeeds_always (sys_AddHealthzCheck sys m n y)" "succeeds_always (sys_AddReadyzCheck sys m n y)" "succeeds_always (sys_Start sys m)"
  using assms unfolding runtime_up_def by (simp_all del: split_paired_All)

definition mayFail :: "('w \<Rightarrow> 'v) \<Rightarrow> 'v \<Rightarrow> ('w, 'a) step \<Rightarrow> bool" where
  "mayFail view v m \<longleftrightarrow> (\<exists>w e. view w = v \<and> fst (m w) = Inl e)"

lemma mayFail_always: "mayFail view v m \<Longrightarrow> \<not> succeeds_always m"
  by (auto simp: mayFail_def succeeds_always_def)

text \<open>From a state that looks like \<open>v\<close>, the code and the final state satisfy \<open>P\<close>.\<close>
definition leads :: "('w \<Rightarrow> 'v) \<Rightarrow> ('w \<Rightarrow> nat \<times> 'w) \<Rightarrow> 'v \<Rightarrow> (nat \<Rightarrow> 'v \<Rightarrow> bool) \<Rightarrow> bool" where
  "leads view k v P \<longleftrightarrow> (\<forall>w. view w = v \<longrightarrow> (case k w of (code, w') \<Rightarrow> P code (view w')))"

lemma leadsD: "leads view k (view w) P \<Longrightarrow> k w = (code, w') \<Longrightarrow> P code (view w')"
  unfolding leads_def by (metis case_prod_conv)

lemma leads_mono: "leads view k v P \<Longrightarrow> (\<And>code v'. P code v' \<Longrightarrow> Q code v') \<Longrightarrow> leads view k v Q"
  unfolding leads_def by fastforce

lemma effectD:
  assumes "effect view m Q F" and "m w = (q, w')"
  shows "case q of Inl _ \<Rightarrow> view w' = view w | Inr x \<Rightarrow> Q x (view w) \<and> view w' = F x (view w)"
  using assms(1)[unfolded effect_def, THEN spec, of w] assms(2) by (simp split: sum.splits)

lemma leads_orExit:
  assumes "effect view m Q F" and "\<And>e w. view (report e w) = R (view w)"
    and "mayFail view v m \<Longrightarrow> P 1 (R v)" and "\<And>x w w'. m w = (Inr x, w') \<Longrightarrow> Q x v \<Longrightarrow> leads view (k x) (F x v) P"
  shows "leads view (orExit m report k) v P"
  unfolding leads_def
proof (intro allI impI)
  fix w assume w: "view w = v"
  obtain q w1 where q: "m w = (q, w1)" by fastforce
  note E = effectD[OF assms(1) q]
  show "case orExit m report k w of (code, w') \<Rightarrow> P code (view w')"
  proof (cases q)
    case (Inl e)
    with q w have "mayFail view v m" unfolding mayFail_def by (metis fst_conv)
    with assms(2,3) Inl q E w show ?thesis by (simp add: orExit_def)
  next
    case (Inr x)
    with q E w assms(4)[of w x w1] have "leads view (k x) (view w1) P" by simp
    with Inr q show ?thesis by (simp add: leads_def orExit_def)
  qed
qed

text \<open>An exit with a report, and one without.\<close>
lemma leads_fatal:
  assumes "runtime_ok sys groupTypes view" and "effect view m Q F"
    and "mayFail view v m \<Longrightarrow> P 1 (v\<lparr>rt_Errors := rt_Errors v @ [msg]\<rparr>)"
    and "\<And>x w w'. m w = (Inr x, w') \<Longrightarrow> Q x v \<Longrightarrow> leads view (k x) (F x v) P"
  shows "leads view (orExit m (sys_Error sys msg) k) v P"
  by (rule leads_orExit[OF assms(2), where R = "\<lambda>v. v\<lparr>rt_Errors := rt_Errors v @ [msg]\<rparr>"])
    (use runtime_laws(4)[OF assms(1)] assms(3,4) in auto)

lemma leads_silent:
  assumes "effect view m Q F" and "mayFail view v m \<Longrightarrow> P 1 v" and "\<And>x w w'. m w = (Inr x, w') \<Longrightarrow> Q x v \<Longrightarrow> leads view (k x) (F x v) P"
  shows "leads view (orExit m (\<lambda>_ w. w) k) v P"
  by (rule leads_orExit[OF assms(1), where R = "\<lambda>v. v"]) (use assms(2,3) in auto)

lemma leads_orWarn:
  assumes "effect view m (\<lambda>_ _. True) F" and "\<And>e w. view (report e w) = R (view w)"
    and "leads view k (R v) P" and "leads view k (F () v) P"
  shows "leads view (orWarn m report k) v P"
  unfolding leads_def
proof (intro allI impI)
  fix w assume w: "view w = v"
  obtain q w1 where q: "m w = (q, w1)" by fastforce
  with effectD[OF assms(1) q] w assms(2-4) show "case orWarn m report k w of (code, w') \<Rightarrow> P code (view w')"
    by (cases q) (simp_all add: orWarn_def leads_def)
qed

text \<open>The manager when everything is registered, and it runs.\<close>
definition readyManager :: "('w, 'cfg, 'm, 's, 'f) System \<Rightarrow> 's ocmAgentHandler \<Rightarrow> Controllerutil \<Rightarrow> 'm \<Rightarrow> 's Client \<Rightarrow> ManagerOptions \<Rightarrow>
    ('s, 'f) ManagerState" where
  "readyManager sys process util mgr c opts = \<lparr>ms_Options = opts,
     ms_Controllers = [CompleteOcmAgent (ocmAgentReconciler sys process util mgr c) OcmAgentController.SetupWithManager,
       CompleteFleetNotification (sys_GetFleetClient sys mgr) FleetController.SetupWithManager],
     ms_Healthz = [(''healthz'', Ping)], ms_Readyz = [(''readyz'', Ping)], ms_Started = True\<rparr>"

text \<open>How a start ends: what runs is complete, and the code tells whether it was run and stopped without an error.\<close>
definition managed :: "bool \<Rightarrow> 'm \<Rightarrow> ('s, 'f) ManagerState \<Rightarrow> nat \<Rightarrow> ('m, 's, 'f) Runtime \<Rightarrow> ('m, 's, 'f) Runtime \<Rightarrow> bool" where
  "managed up mgr ready code v v' \<longleftrightarrow> rt_Types v' = rt_Types v \<and> (\<exists>st. rt_Managers v' = [mgr \<mapsto> st] \<and> (ms_Started st \<longrightarrow> st = ready)) \<and>
     (code = 0 \<longrightarrow> rt_Managers v' = [mgr \<mapsto> ready]) \<and> (code = 0 \<or> code = 1 \<and> \<not> up \<and> (\<exists>msg. rt_Errors v' = rt_Errors v @ [msg]))"

lemma leads_Start:
  assumes ok: "runtime_ok sys groupTypes view" and v: "rt_Managers v = [mgr \<mapsto> st]" and ready: "st\<lparr>ms_Started := True\<rparr> = ready" "\<not> ms_Started st"
  shows "leads view (\<lambda>w. orExit (sys_Start sys mgr) (sys_Error sys msg) (\<lambda>_ w. (0, w)) (sys_Info sys info w)) v (\<lambda>code. managed (runtime_up sys view) mgr ready code v)"
  unfolding leads_def
proof (intro allI impI)
  fix w assume w: "view w = v"
  let ?w = "sys_Info sys info w"
  have info: "view ?w = v" using runtime_laws(3)[OF ok] w by simp
  obtain q w1 where q: "sys_Start sys mgr ?w = (q, w1)" by fastforce
  have start: "case q of Inl _ \<Rightarrow> view w1 \<in> {v, onManager mgr (\<lambda>st. st\<lparr>ms_Started := True\<rparr>) v}
      | Inr _ \<Rightarrow> view w1 = onManager mgr (\<lambda>st. st\<lparr>ms_Started := True\<rparr>) v"
    using runtime_laws(12)[OF ok, where m = mgr and w = ?w] q info by (simp split: sum.splits)
  have m: "rt_Managers (onManager mgr (\<lambda>st. st\<lparr>ms_Started := True\<rparr>) v) = [mgr \<mapsto> ready]"
    "rt_Types (onManager mgr f v) = rt_Types v" "rt_Errors (onManager mgr f v) = rt_Errors v" for f
    using v ready by (simp_all add: onManager_def fun_eq_iff)
  have "\<not> runtime_up sys view" if "q = Inl e" for e
    using q that runtime_up_laws(9) unfolding succeeds_always_def by (metis fst_conv)
  then show "case orExit (sys_Start sys mgr) (sys_Error sys msg) (\<lambda>_ w. (0, w)) ?w of (code, w') \<Rightarrow> managed (runtime_up sys view) mgr ready code v (view w')"
    using q start v m runtime_laws(4)[OF ok] ready by (cases q) (auto simp: orExit_def managed_def)
qed

text \<open>Registering something with the manager.\<close>
lemma leads_register:
  assumes ok: "runtime_ok sys groupTypes view" and m: "effect view m (\<lambda>_ _. True) (\<lambda>_. onManager mgr f)" "runtime_up sys view \<Longrightarrow> succeeds_always m"
    and v: "rt_Managers v = [mgr \<mapsto> st]" "\<not> ms_Started st"
    and k: "\<And>v'. rt_Managers v' = [mgr \<mapsto> f st] \<Longrightarrow> leads view k v' (\<lambda>code. managed (runtime_up sys view) mgr ready code v')"
  shows "leads view (orExit m (sys_Error sys msg) (\<lambda>_. k)) v (\<lambda>code. managed (runtime_up sys view) mgr ready code v)"
proof (rule leads_fatal[OF ok m(1)])
  show "managed (runtime_up sys view) mgr ready 1 v (v\<lparr>rt_Errors := rt_Errors v @ [msg]\<rparr>)" if "mayFail view v m"
    using mayFail_always[OF that] m(2) v by (auto simp: managed_def)
  have "rt_Managers (onManager mgr f v) = [mgr \<mapsto> f st]" using v by (simp add: onManager_def fun_eq_iff)
  moreover have "managed up mgr ready code (onManager mgr f v) v' = managed up mgr ready code v v'" for up code v'
    by (simp add: managed_def onManager_def)
  ultimately show "leads view k (onManager mgr f v) (\<lambda>code. managed (runtime_up sys view) mgr ready code v)"
    using k[of "onManager mgr f v"] by (simp add: leads_def)
qed

lemma leads_runManager:
  assumes ok: "runtime_ok sys groupTypes view" and v: "rt_Managers v = [mgr \<mapsto> newManager opts]"
  shows "leads view (runManager sys process util mgr c) v (\<lambda>code. managed (runtime_up sys view) mgr (readyManager sys process util mgr c opts) code v)"
  unfolding runManager_def
  apply (rule leads_register[OF ok runtime_laws(9)[OF ok] runtime_up_laws(6) v], simp_all only: newManager_def ManagerState.simps append.simps not_False_eq_True)
  apply (rule leads_register[OF ok runtime_laws(9)[OF ok] runtime_up_laws(6)], assumption, simp, simp)
  apply (rule leads_register[OF ok runtime_laws(10)[OF ok] runtime_up_laws(7)], assumption, simp, simp)
  apply (rule leads_register[OF ok runtime_laws(11)[OF ok] runtime_up_laws(8)], assumption, simp, simp)
  apply (rule leads_Start[OF ok], assumption, simp_all add: readyManager_def)
  done

text \<open>How the process ends, from a state \<open>v\<close> without managers in which the types \<open>T\<close> are known: what runs is complete.\<close>
definition finished :: "('w, 'cfg, 'm, 's, 'f) System \<Rightarrow> ('w \<Rightarrow> ('m, 's, 'f) Runtime) \<Rightarrow> 's ocmAgentHandler \<Rightarrow> Controllerutil \<Rightarrow> string \<Rightarrow> 'z Flags \<Rightarrow> string set \<Rightarrow> nat \<Rightarrow>
    ('m, 's, 'f) Runtime \<Rightarrow> bool" where
  "finished sys view process util ns flags T code v \<longleftrightarrow> T \<subseteq> rt_Types v OperatorScheme \<and> (runtime_up sys view \<longrightarrow> code = 0) \<and>
     (\<forall>mgr st. rt_Managers v mgr = Some st \<longrightarrow> ms_Started st \<longrightarrow>
        (\<exists>cfg c w w'. sys_ClientNew sys cfg OperatorScheme w = (Inr c, w') \<and> st = readyManager sys process util mgr c (managerOptions ns flags))) \<and>
     (code = 0 \<longrightarrow> (\<exists>mgr st. rt_Managers v mgr = Some st \<and> ms_Started st))"

lemma managed_finished:
  assumes "managed (runtime_up sys view) mgr (readyManager sys process util mgr c (managerOptions ns flags)) code v v'"
    and "sys_ClientNew sys cfg OperatorScheme w = (Inr c, w')" and "T \<subseteq> rt_Types v OperatorScheme"
  shows "finished sys view process util ns flags T code v'"
  unfolding finished_def
proof (intro conjI allI impI)
  from assms(1) obtain st where st: "rt_Managers v' = [mgr \<mapsto> st]" "ms_Started st \<Longrightarrow> st = readyManager sys process util mgr c (managerOptions ns flags)"
    "code = 0 \<Longrightarrow> st = readyManager sys process util mgr c (managerOptions ns flags)"
    unfolding managed_def by (auto simp: fun_eq_iff split: if_splits)
  show "T \<subseteq> rt_Types v' OperatorScheme" using assms(1,3) by (simp add: managed_def)
  show "code = 0" if "runtime_up sys view" using assms(1) that by (simp add: managed_def)
  show "\<exists>cfg c w w'. sys_ClientNew sys cfg OperatorScheme w = (Inr c, w') \<and> st' = readyManager sys process util mgr' c (managerOptions ns flags)"
    if "rt_Managers v' mgr' = Some st'" "ms_Started st'" for mgr' st'
    using that st assms(2) by (auto split: if_splits)
  show "\<exists>mgr st. rt_Managers v' mgr = Some st \<and> ms_Started st" if "code = 0"
    using st(1) st(3)[OF that] by (auto simp: readyManager_def)
qed

lemma early_finished:
  assumes "\<not> runtime_up sys view" and "\<And>mgr st. rt_Managers v mgr = Some st \<Longrightarrow> \<not> ms_Started st" and "T \<subseteq> rt_Types v OperatorScheme"
  shows "finished sys view process util ns flags T 1 v"
  using assms by (auto simp: finished_def)

lemma leads_createClient:
  assumes ok: "runtime_ok sys groupTypes view" and m: "rt_Managers v = [mgr \<mapsto> newManager (managerOptions ns flags)]" "T \<subseteq> rt_Types v OperatorScheme"
    and sch: "sys_GetScheme sys mgr = OperatorScheme"
  shows "leads view (createClient sys process util mgr) v (finished sys view process util ns flags T)"
proof -
  have no: "\<not> ms_Started st" if "rt_Managers v mgr' = Some st" for mgr' st using that m(1) by (auto simp: newManager_def split: if_splits)
  show ?thesis unfolding createClient_def sch
  proof (rule leads_silent[OF runtime_laws(6)[OF ok]], goal_cases)
    case 1
    then show ?case using mayFail_always[OF 1] runtime_up_laws(3)[of sys view] by (intro early_finished no m(2)) auto
  next
    case (2 cfg _ _)
    show ?case
    proof (rule leads_silent[OF runtime_laws(7)[OF ok]], goal_cases)
      case 1
      then show ?case using mayFail_always[OF 1] runtime_up_laws(5)[of sys view] by (intro early_finished no m(2)) auto
    next
      case (2 c w w')
      show ?case by (rule leads_mono[OF leads_runManager[OF ok m(1)] managed_finished[OF _ 2(1) m(2)]])
    qed
  qed
qed

lemma leads_createManager:
  assumes ok: "runtime_ok sys groupTypes view" and m: "rt_Managers v = Map.empty" "T \<subseteq> rt_Types v OperatorScheme"
  shows "leads view (createManager sys process util ns flags) v (finished sys view process util ns flags T)"
  unfolding createManager_def
proof (rule leads_silent[OF runtime_laws(6)[OF ok]], goal_cases)
  case 1
  then show ?case using mayFail_always[OF 1] runtime_up_laws(3)[of sys view] m by (intro early_finished) auto
next
  case (2 cfg _ _)
  show ?case
  proof (rule leads_fatal[OF ok runtime_laws(8)[OF ok]], goal_cases)
    case 1
    then show ?case using runtime_up_laws(4)[of sys view] m by (intro early_finished) (auto simp: mayFail_def)
  next
    case (2 mgr _ _)
    with m show ?case by (intro leads_createClient[OF ok]) (simp_all add: managerOptions_def)
  qed
qed

lemma leads_main:
  assumes ok: "runtime_ok sys groupTypes view" and ns: "GetOperatorNamespace (h_Env process) = Inr ns"
    and parse: "Parse (mainFlags lib) (mainDefaults z) args = Inr (flags, rest)" and v: "rt_Managers v = Map.empty" "T \<subseteq> rt_Types v OperatorScheme"
  shows "leads view (main sys lib z process util args) v (finished sys view process util ns flags T)"
proof -
  have body: "leads view (orExit (sys_Install sys MonitoringV1 ClientGoScheme) (sys_Error sys ''unable to add monitoringv1 scheme'') (\<lambda>_.
      orWarn (sys_ConfigureMetrics sys (metricsServer ns)) (sys_Error sys ''Failed to configure OSD metrics'')
        (createManager sys process util ns flags))) v (finished sys view process util ns flags T)"
  proof (rule leads_fatal[OF ok runtime_laws(1)[OF ok]], goal_cases)
    case 1
    then show ?case using mayFail_always[OF 1] runtime_up_laws(1)[of sys view] v by (intro early_finished) auto
  next
    case 2
    show ?case
      by (rule leads_orWarn[OF runtime_laws(5)[OF ok], where R = "\<lambda>v. v\<lparr>rt_Errors := rt_Errors v @ [''Failed to configure OSD metrics'']\<rparr>"]; (rule leads_createManager[OF ok])?)
        (use v runtime_laws(4)[OF ok] in \<open>simp_all add: addTypes_def\<close>)
  qed
  have "view (printVersion sys w) = view w" for w using runtime_laws(3)[OF ok] by (simp add: printVersion_def split: prod.splits)
  then show ?thesis using body unfolding leads_def main_def parse ns by simp
qed

text \<open>\<open>init\<close> makes types known and does nothing else.\<close>
lemma leads_types:
  assumes "effect view m (\<lambda>_ _. True) (\<lambda>_. addTypes T sch)" and "m w = (q, w')"
  shows "view w' = (if \<exists>e. q = Inl e then view w else addTypes T sch (view w))"
  using effectD[OF assms] by (auto split: sum.splits)

lemma init_types:
  assumes ok: "runtime_ok sys groupTypes view" and run: "init sys w = (q, w')"
  shows "rt_Managers (view w') = rt_Managers (view w)"
    and "q = Inr () \<Longrightarrow> groupTypes ClientGoGroups \<union> set SchemeBuilder \<union> groupTypes ConfigV1 \<union> groupTypes MonitoringV1 \<subseteq> rt_Types (view w') OperatorScheme"
    and "runtime_up sys view \<Longrightarrow> q = Inr ()"
proof -
  note types = leads_types[OF runtime_laws(1)[OF ok]] leads_types[OF runtime_laws(2)[OF ok]]
  have m: "rt_Managers (addTypes T sch v) = rt_Managers v" for T sch and v :: "('m, 's, 'f) Runtime" by (simp add: addTypes_def)
  from run show "rt_Managers (view w') = rt_Managers (view w)" unfolding init_def andThen_def
    by (auto split: prod.splits sum.splits dest!: types simp: m)
  show "q = Inr () \<Longrightarrow> groupTypes ClientGoGroups \<union> set SchemeBuilder \<union> groupTypes ConfigV1 \<union> groupTypes MonitoringV1 \<subseteq> rt_Types (view w') OperatorScheme"
    using run unfolding init_def by (auto simp: go_simps addTypes_def dest!: types)
  have bad: "succeeds_always k \<Longrightarrow> k w = (Inl e, w') \<Longrightarrow> False" for k :: "('a, unit) step" and w e w'
    unfolding succeeds_always_def by (metis fst_conv)
  show "runtime_up sys view \<Longrightarrow> q = Inr ()"
    using run unfolding init_def andThen_def
    by (cases q) (auto split: prod.splits sum.splits dest: bad[OF runtime_up_laws(1)[of sys view]] bad[OF runtime_up_laws(2)[of sys view]])
qed

end
