(* ===== verification/StartupProps.thy ===== *)
theory StartupProps
  imports Startup
begin

text \<open>
  Properties of the start of the process: what runs when the manager runs, that the start succeeds without faults, the exits, the
  types of the clients, the flags, and the operator from its start to a deployed agent. The witnesses use a system in
  memory, whose state is the view itself.
\<close>

section \<open>The process\<close>

lemma program_cases:
  assumes ok: "runtime_ok sys groupTypes view" and none: "rt_Managers (view w) = Map.empty"
    and run: "program sys lib z process util args w = (code, w')"
  obtains (panicked) "code = 2" "rt_Managers (view w') = Map.empty" "\<not> runtime_up sys view"
  | (usage) "Parse (mainFlags lib) (mainDefaults z) args = Inl code" "rt_Managers (view w') = Map.empty"
  | (unset) flags rest e where "Parse (mainFlags lib) (mainDefaults z) args = Inr (flags, rest)"
      "GetOperatorNamespace (h_Env process) = Inl e" "code = 1" "rt_Managers (view w') = Map.empty"
      "last (rt_Errors (view w')) = ''unable to determine operator namespace, please define OPERATOR_NAMESPACE''"
  | (ran) flags rest ns where "Parse (mainFlags lib) (mainDefaults z) args = Inr (flags, rest)" "GetOperatorNamespace (h_Env process) = Inr ns"
      "finished sys view process util ns flags
         (groupTypes ClientGoGroups \<union> set SchemeBuilder \<union> groupTypes ConfigV1 \<union> groupTypes MonitoringV1) code (view w')"
proof -
  obtain q w1 where init: "init sys w = (q, w1)" by fastforce
  note types = init_types[OF ok init]
  show thesis
  proof (cases q)
    case (Inl e)
    with init run types(1,3) none show thesis by (intro panicked) (auto simp: program_def)
  next
    case (Inr u)
    with init run have main: "main sys lib z process util args w1 = (code, w')" by (simp add: program_def)
    show thesis
    proof (cases "Parse (mainFlags lib) (mainDefaults z) args")
      case (Inl c)
      with main types(1) none show thesis by (intro usage) (auto simp: main_def)
    next
      case (Inr p)
      obtain flags rest where p: "p = (flags, rest)" by fastforce
      show thesis
      proof (cases "GetOperatorNamespace (h_Env process)")
        case (Inl e)
        have pv: "view (printVersion sys x) = view x" for x using runtime_laws(3)[OF ok] by (simp add: printVersion_def split: prod.splits)
        from Inl Inr p main have "code = 1" "w' = sys_Error sys ''unable to determine operator namespace, please define OPERATOR_NAMESPACE'' e (printVersion sys w1)"
          by (auto simp: main_def)
        with Inl Inr p types(1) none runtime_laws(4)[OF ok] pv show thesis by (intro unset) auto
      next
        case ns: (Inr ns)
        have "leads view (main sys lib z process util args) (view w1) (finished sys view process util ns flags
           (groupTypes ClientGoGroups \<union> set SchemeBuilder \<union> groupTypes ConfigV1 \<union> groupTypes MonitoringV1))"
          by (rule leads_main[OF ok ns]) (use Inr p types \<open>q = Inr u\<close> none in auto)
        from leadsD[OF this main] Inr p ns show thesis by (intro ran) auto
      qed
    qed
  qed
qed

lemma GetOperatorNamespace_Inr: "GetOperatorNamespace env = Inr ns \<longleftrightarrow> env ''OPERATOR_NAMESPACE'' = Some ns"
  by (simp add: GetOperatorNamespace_def Let_def split: option.splits)

lemma GetOperatorNamespace_Inl: "(\<exists>e. GetOperatorNamespace env = Inl e) \<longleftrightarrow> env ''OPERATOR_NAMESPACE'' = None"
  by (simp add: GetOperatorNamespace_def Let_def split: option.splits)

text \<open>What runs.\<close>
lemma started_ready:
  assumes "runtime_ok sys groupTypes view" and "rt_Managers (view w) = Map.empty" and "program sys lib z process util args w = (code, w')"
    and "rt_Managers (view w') mgr = Some st" and "ms_Started st"
  obtains flags rest ns c cfg w1 w2 where "Parse (mainFlags lib) (mainDefaults z) args = Inr (flags, rest)"
    "h_Env process ''OPERATOR_NAMESPACE'' = Some ns" "sys_ClientNew sys cfg OperatorScheme w1 = (Inr c, w2)"
    "st = readyManager sys process util mgr c (managerOptions ns flags)"
    "groupTypes ClientGoGroups \<union> set SchemeBuilder \<union> groupTypes ConfigV1 \<union> groupTypes MonitoringV1 \<subseteq> rt_Types (view w') OperatorScheme"
  using assms(1-3)
proof (cases rule: program_cases)
  case (ran flags rest ns)
  with assms(4,5) obtain cfg c w1 w2 where "sys_ClientNew sys cfg OperatorScheme w1 = (Inr c, w2)"
    "st = readyManager sys process util mgr c (managerOptions ns flags)"
    unfolding finished_def by blast
  with ran that show thesis by (auto simp: finished_def GetOperatorNamespace_Inr)
qed (use assms(4) in auto)

section \<open>The flags\<close>

lemma mainFlags_lookup:
  "mainFlags lib ''metrics-bind-address'' = Some (StringVar (\<lambda>s v. v\<lparr>fg_metricsAddr := s\<rparr>))"
  "mainFlags lib ''health-probe-bind-address'' = Some (StringVar (\<lambda>s v. v\<lparr>fg_probeAddr := s\<rparr>))"
  "mainFlags lib ''leader-elect'' = Some (BoolVar (\<lambda>b v. v\<lparr>fg_enableLeaderElection := b\<rparr>))"
  "mainFlags lib ''webhook-http2'' = Some (BoolVar (\<lambda>b v. v\<lparr>fg_withWebhookHTTP2 := b\<rparr>))"
  by (simp_all add: mainFlags_def)

text \<open>A command line that sets all flags of \<open>main\<close>; the addresses are arguments of their own or follow an equals sign.\<close>
definition commandLine :: "bool \<Rightarrow> 'z Flags \<Rightarrow> string list" where
  "commandLine equals f =
     (let leader = ''--leader-elect='' @ (if fg_enableLeaderElection f then ''true'' else ''false'');
          http2 = ''--webhook-http2='' @ (if fg_withWebhookHTTP2 f then ''true'' else ''false'')
      in if equals then [''--metrics-bind-address='' @ fg_metricsAddr f, ''--health-probe-bind-address='' @ fg_probeAddr f, leader, http2]
         else [''--metrics-bind-address'', fg_metricsAddr f, ''--health-probe-bind-address'', fg_probeAddr f, leader, http2])"

lemma Parse_main:
  "Parse (mainFlags lib) v ((''--metrics-bind-address='' @ addr) # args) = Parse (mainFlags lib) (v\<lparr>fg_metricsAddr := addr\<rparr>) args"
  "Parse (mainFlags lib) v ((''--health-probe-bind-address='' @ addr) # args) = Parse (mainFlags lib) (v\<lparr>fg_probeAddr := addr\<rparr>) args"
  "Parse (mainFlags lib) v (''--metrics-bind-address'' # addr # args) = Parse (mainFlags lib) (v\<lparr>fg_metricsAddr := addr\<rparr>) args"
  "Parse (mainFlags lib) v (''--health-probe-bind-address'' # addr # args) = Parse (mainFlags lib) (v\<lparr>fg_probeAddr := addr\<rparr>) args"
  "Parse (mainFlags lib) v ((''--leader-elect='' @ (if b then ''true'' else ''false'')) # args) = Parse (mainFlags lib) (v\<lparr>fg_enableLeaderElection := b\<rparr>) args"
  "Parse (mainFlags lib) v ((''--webhook-http2='' @ (if b then ''true'' else ''false'')) # args) = Parse (mainFlags lib) (v\<lparr>fg_withWebhookHTTP2 := b\<rparr>) args"
  using Parse_equals[of "''metrics-bind-address''" "mainFlags lib"] Parse_equals[of "''health-probe-bind-address''" "mainFlags lib"]
    Parse_separate[of "''metrics-bind-address''" "mainFlags lib"] Parse_separate[of "''health-probe-bind-address''" "mainFlags lib"]
    Parse_equals[of "''leader-elect''" "mainFlags lib"] Parse_equals[of "''webhook-http2''" "mainFlags lib"]
  by (simp_all add: mainFlags_lookup flagName_def)

text \<open>A command line gives back the flags that it was written from, whatever came before it, in either form and for
  all addresses, also such that look like flags.\<close>
theorem flags_roundtrip:
  "Parse (mainFlags lib) v (commandLine equals f) = Inr (f\<lparr>fg_Library := fg_Library v\<rparr>, [])"
  unfolding commandLine_def Let_def
  by (cases equals; simp only: if_True if_False Parse_main Parse_Nil) (cases f; cases v; simp)+

section \<open>A system for the witnesses\<close>

type_synonym memFleetState = "NamespacedName \<Rightarrow> ManagedFleetNotificationRecord option"

type_synonym memRuntime = "(Scheme, Cluster, memFleetState) Runtime"

definition does :: "(memRuntime \<Rightarrow> memRuntime) \<Rightarrow> (memRuntime, unit) step" where
  "does f = (\<lambda>v. (Inr (), f v))"

text \<open>\<open>metrics\<close> tells whether the metrics server can be configured; a manager is known by its scheme.\<close>
definition memSystem :: "bool \<Rightarrow> (memRuntime, unit, Scheme, Cluster, memFleetState) System" where
  "memSystem metrics = \<lparr>sys_Install = (\<lambda>g sch. does (addTypes (case g of
        ClientGoGroups \<Rightarrow> {''Deployment'', ''ConfigMap'', ''Secret'', ''Service'', ''NetworkPolicy'', ''PodDisruptionBudget''}
      | ConfigV1 \<Rightarrow> {''Proxy'', ''ClusterVersion''} | MonitoringV1 \<Rightarrow> {''ServiceMonitor''}) sch)),
     sys_AddTypes = (\<lambda>_ ts sch. does (addTypes (set ts) sch)),
     sys_Info = (\<lambda>_ v. v), sys_Error = (\<lambda>msg _ v. v\<lparr>rt_Errors := rt_Errors v @ [msg]\<rparr>),
     sys_ConfigureMetrics = (\<lambda>c v. if metrics then (Inr (), v\<lparr>rt_Metrics := Some c\<rparr>) else (Inl (Errorf ''no metrics''), v)),
     sys_GetConfigOrDie = ok (),
     sys_NewManager = (\<lambda>_ opts v. if rt_Managers v (mo_Scheme opts) = None
        then (Inr (mo_Scheme opts), v\<lparr>rt_Managers := (rt_Managers v)(mo_Scheme opts \<mapsto> newManager opts)\<rparr>) else (Inl (Errorf ''no manager''), v)),
     sys_GetScheme = (\<lambda>m. m), sys_GetClient = (\<lambda>_. memClient), sys_GetFleetClient = (\<lambda>_. memFleet),
     sys_ClientNew = (\<lambda>_ _. ok memClient),
     sys_Complete = (\<lambda>m c. does (onManager m (\<lambda>st. st\<lparr>ms_Controllers := ms_Controllers st @ [c]\<rparr>))),
     sys_AddHealthzCheck = (\<lambda>m n c. does (onManager m (\<lambda>st. st\<lparr>ms_Healthz := ms_Healthz st @ [(n, c)]\<rparr>))),
     sys_AddReadyzCheck = (\<lambda>m n c. does (onManager m (\<lambda>st. st\<lparr>ms_Readyz := ms_Readyz st @ [(n, c)]\<rparr>))),
     sys_Start = (\<lambda>m. does (onManager m (\<lambda>st. st\<lparr>ms_Started := True\<rparr>))), sys_GoVersion = (''go1.23'', ''linux'', ''amd64'')\<rparr>"

definition memGroups :: "ApiGroup \<Rightarrow> string set" where
  "memGroups g = (case g of ClientGoGroups \<Rightarrow> {''Deployment'', ''ConfigMap'', ''Secret'', ''Service'', ''NetworkPolicy'', ''PodDisruptionBudget''}
      | ConfigV1 \<Rightarrow> {''Proxy'', ''ClusterVersion''} | MonitoringV1 \<Rightarrow> {''ServiceMonitor''})"

definition memStart :: memRuntime where
  "memStart = \<lparr>rt_Types = (\<lambda>_. {}), rt_Managers = Map.empty, rt_Metrics = None, rt_Errors = []\<rparr>"

lemma memSystem_ok: "runtime_ok (memSystem metrics) memGroups (\<lambda>v. v)"
  by (simp add: runtime_ok_def memSystem_def effect_def does_def memGroups_def)

lemma memSystem_up: "runtime_up (memSystem metrics) (\<lambda>v. v)"
  by (simp add: runtime_up_def memSystem_def succeeds_always_def does_def)

lemma memGroups_ok: "groups_ok memGroups"
  by (simp add: groups_ok_def memGroups_def)

definition memProgram :: "bool \<Rightarrow> string list \<Rightarrow> memRuntime \<Rightarrow> nat \<times> memRuntime" where
  "memProgram metrics = program (memSystem metrics) (\<lambda>_. None) () memHandler memControllerutil"

text \<open>Everything is evaluated: the process runs one manager.\<close>
lemma memProgram_run:
  assumes "Parse (mainFlags (\<lambda>_. None)) (mainDefaults ()) args = Inr (flags, rest)"
  shows "fst (memProgram metrics args memStart) = 0"
    and "\<exists>st. rt_Managers (snd (memProgram metrics args memStart)) OperatorScheme = Some st \<and> ms_Started st"
  using assms
  by (simp_all add: memProgram_def program_def init_def main_def memSystem_def does_def andThen_def orExit_def orWarn_def createManager_def
      createClient_def runManager_def printVersion_def memHandler_def GetOperatorNamespace_def memStart_def addTypes_def onManager_def
      managerOptions_def newManager_def Let_def)

section \<open>Properties\<close>

text \<open>C11. What runs is complete. Whenever a manager has been run, whatever came of it, it watches the namespace of the operator only; it runs the
  OcmAgent controller, with the kinds that it owns and a handler that has a client of its own, and the fleet notification
  controller with its event filter; and it answers both probes. Its addresses, leader election and protocols are those of the flags.\<close>
theorem manager_complete:
  assumes "runtime_ok sys groupTypes view" and "rt_Managers (view w) = Map.empty" and "program sys lib z process util args w = (code, w')"
    and "rt_Managers (view w') mgr = Some st" and "ms_Started st"
  shows "\<exists>flags rest ns c. Parse (mainFlags lib) (mainDefaults z) args = Inr (flags, rest) \<and> h_Env process ''OPERATOR_NAMESPACE'' = Some ns \<and>
    (\<exists>cfg w1 w2. sys_ClientNew sys cfg OperatorScheme w1 = (Inr c, w2)) \<and>
    mo_DefaultNamespaces (ms_Options st) = [ns] \<and> mo_Scheme (ms_Options st) = OperatorScheme \<and>
    mo_MetricsBindAddress (ms_Options st) = fg_metricsAddr flags \<and> mo_HealthProbeBindAddress (ms_Options st) = fg_probeAddr flags \<and>
    mo_LeaderElection (ms_Options st) = fg_enableLeaderElection flags \<and>
    (\<forall>tls. fold (\<lambda>f. f) (wh_TLSOpts (mo_WebhookServer (ms_Options st))) tls = (if fg_withWebhookHTTP2 flags then tls else tls\<lparr>tls_NextProtos := [''http/1.1'']\<rparr>)) \<and>
    ms_Controllers st = [CompleteOcmAgent \<lparr>r_Client = sys_GetClient sys mgr, r_OCMAgentHandlerBuilder = NewBuilder process c,
        r_Controllerutil = util, r_GaugeSet = h_GaugeSet process\<rparr>
        \<lparr>w_For = KOcmAgent, w_Owns = [KNetworkPolicy, KDeployment, KService, KSecret, KConfigMap, KServiceMonitor, KPodDisruptionBudget]\<rparr>,
      CompleteFleetNotification (sys_GetFleetClient sys mgr) \<lparr>fw_For = ''ManagedFleetNotificationRecord'', fw_EventFilter = eventPredicates\<rparr>] \<and>
    ms_Healthz st = [(''healthz'', Ping)] \<and> ms_Readyz st = [(''readyz'', Ping)]"
proof -
  from assms obtain flags rest ns c cfg w1 w2 where "Parse (mainFlags lib) (mainDefaults z) args = Inr (flags, rest)"
    "h_Env process ''OPERATOR_NAMESPACE'' = Some ns" "sys_ClientNew sys cfg OperatorScheme w1 = (Inr c, w2)"
    "st = readyManager sys process util mgr c (managerOptions ns flags)" by (rule started_ready)
  moreover from this(4) have "mo_DefaultNamespaces (ms_Options st) = [ns]" "mo_Scheme (ms_Options st) = OperatorScheme"
    "mo_MetricsBindAddress (ms_Options st) = fg_metricsAddr flags" "mo_HealthProbeBindAddress (ms_Options st) = fg_probeAddr flags"
    "mo_LeaderElection (ms_Options st) = fg_enableLeaderElection flags"
    "\<forall>tls. fold (\<lambda>f. f) (wh_TLSOpts (mo_WebhookServer (ms_Options st))) tls = (if fg_withWebhookHTTP2 flags then tls else tls\<lparr>tls_NextProtos := [''http/1.1'']\<rparr>)"
    by (simp_all add: readyManager_def managerOptions_def webhookServer_def)
  ultimately show ?thesis
    by (auto simp: readyManager_def ocmAgentReconciler_def OcmAgentController.SetupWithManager_def FleetController.SetupWithManager_def)
qed

theorem manager_complete_witness:
  "\<exists>st. rt_Managers (snd (memProgram True [] memStart)) OperatorScheme = Some st \<and> ms_Started st \<and>
     mo_DefaultNamespaces (ms_Options st) = [''openshift-ocm-agent-operator'']"
proof -
  have none: "rt_Managers memStart = Map.empty" by (simp add: memStart_def)
  obtain st where st: "rt_Managers (snd (memProgram True [] memStart)) OperatorScheme = Some st" "ms_Started st" using memProgram_run(2)[OF Parse_Nil] by blast
  obtain code w' where run: "memProgram True [] memStart = (code, w')" by fastforce
  from manager_complete[OF memSystem_ok none run[unfolded memProgram_def]] st run show ?thesis by (auto simp: memHandler_def)
qed

text \<open>The start succeeds: with libraries without faults and the namespace in the environment, the process runs a manager and ends with code 0 when
  that is stopped. The metrics server may fail; its failure does not keep the operator from running.\<close>
theorem start_succeeds:
  assumes "runtime_ok sys groupTypes view" and "runtime_up sys view" and "rt_Managers (view w) = Map.empty"
    and "Parse (mainFlags lib) (mainDefaults z) args = Inr (flags, rest)" and "h_Env process ''OPERATOR_NAMESPACE'' = Some ns"
  shows "\<exists>w' mgr st. program sys lib z process util args w = (0, w') \<and> rt_Managers (view w') mgr = Some st \<and> ms_Started st"
proof -
  obtain code w' where run: "program sys lib z process util args w = (code, w')" by fastforce
  from assms(1,3) run show ?thesis
  proof (cases rule: program_cases)
    case (ran flags rest ns)
    then show ?thesis using assms(2) run by (auto simp: finished_def)
  qed (use assms(2,4,5) in \<open>auto simp: GetOperatorNamespace_def Let_def\<close>)
qed

theorem start_succeeds_witness:
  "\<exists>w' mgr st. memProgram False [''--leader-elect''] memStart = (0, w') \<and> rt_Managers w' mgr = Some st \<and> ms_Started st"
proof -
  have none: "rt_Managers memStart = Map.empty" by (simp add: memStart_def)
  have "Parse (mainFlags (\<lambda>_. None)) (mainDefaults ()) [''--leader-elect''] = Inr ((mainDefaults ())\<lparr>fg_enableLeaderElection := True\<rparr>, [])"
    using Parse_switch[of "''leader-elect''" "mainFlags (\<lambda>_. None) :: unit Flags FlagSet", OF _ mainFlags_lookup(3) _ Flag_simps(4)] by (simp add: flagName_def)
  from start_succeeds[OF memSystem_ok memSystem_up none this, of memHandler] show ?thesis
    unfolding memProgram_def by (simp add: memHandler_def)
qed

text \<open>Without its namespace the operator does not start: the process ends with code 1 and the reason in its log; no manager has been made.\<close>
theorem start_needs_namespace:
  assumes "runtime_ok sys groupTypes view" and "runtime_up sys view" and "rt_Managers (view w) = Map.empty"
    and "Parse (mainFlags lib) (mainDefaults z) args = Inr (flags, rest)" and "h_Env process ''OPERATOR_NAMESPACE'' = None"
  shows "\<exists>w'. program sys lib z process util args w = (1, w') \<and> rt_Managers (view w') = Map.empty \<and>
    last (rt_Errors (view w')) = ''unable to determine operator namespace, please define OPERATOR_NAMESPACE''"
proof -
  obtain code w' where run: "program sys lib z process util args w = (code, w')" by fastforce
  from assms(1,3) run show ?thesis
    by (cases rule: program_cases) (use assms(2,4,5) run in \<open>auto simp: GetOperatorNamespace_def Let_def\<close>)
qed

theorem start_needs_namespace_witness:
  "\<exists>w'. program (memSystem True) (\<lambda>_. None) () (memHandler\<lparr>h_Env := \<lambda>_. None\<rparr>) memControllerutil [] memStart = (1, w') \<and> rt_Managers w' = Map.empty"
proof -
  have none: "rt_Managers memStart = Map.empty" by (simp add: memStart_def)
  have "h_Env (memHandler\<lparr>h_Env := \<lambda>_. None\<rparr>) ''OPERATOR_NAMESPACE'' = None" by simp
  from start_needs_namespace[OF memSystem_ok memSystem_up none Parse_Nil this, where metrics2 = True and lib = "\<lambda>_. None" and z = "()" and util = memControllerutil]
  show ?thesis by blast
qed

text \<open>C14. The clients know every type: when a manager runs, each kind of object that the operator reads, writes or watches is registered in the scheme
  of the manager, which the client of the handler was made with too, and so is the type of the fleet records.\<close>
theorem scheme_knows_types:
  assumes "runtime_ok sys groupTypes view" and "groups_ok groupTypes" and "rt_Managers (view w) = Map.empty"
    and "program sys lib z process util args w = (code, w')" and "rt_Managers (view w') mgr = Some st" and "ms_Started st"
  shows "kindName k \<in> rt_Types (view w') (mo_Scheme (ms_Options st)) \<and>
    fw_For FleetController.SetupWithManager \<in> rt_Types (view w') (mo_Scheme (ms_Options st))"
proof (rule started_ready[OF assms(1,3-6)])
  fix flags :: "'g Flags" and ns c
  assume st: "st = readyManager sys process util mgr c (managerOptions ns flags)"
    and types: "groupTypes ClientGoGroups \<union> set SchemeBuilder \<union> groupTypes ConfigV1 \<union> groupTypes MonitoringV1 \<subseteq> rt_Types (view w') OperatorScheme"
  have own: "''OcmAgent'' \<in> set SchemeBuilder" "''ManagedFleetNotificationRecord'' \<in> set SchemeBuilder"
    by (simp_all add: SchemeBuilder_def OcmAgent_init_def ManagedNotification_init_def ManagedFleetNotificationRecord_init_def ManagedFleetNotification_init_def)
  with assms(2) have "kindName k \<in> groupTypes ClientGoGroups \<union> set SchemeBuilder \<union> groupTypes ConfigV1 \<union> groupTypes MonitoringV1"
    unfolding groups_ok_def kindName_def by (cases k) auto
  with own types have "kindName k \<in> rt_Types (view w') OperatorScheme" "''ManagedFleetNotificationRecord'' \<in> rt_Types (view w') OperatorScheme" by auto
  then show ?thesis by (simp add: st readyManager_def managerOptions_def FleetController.SetupWithManager_def)
qed

theorem scheme_knows_types_witness:
  "\<exists>st. rt_Managers (snd (memProgram True [] memStart)) OperatorScheme = Some st \<and>
     ''ServiceMonitor'' \<in> rt_Types (snd (memProgram True [] memStart)) (mo_Scheme (ms_Options st))"
proof -
  have none: "rt_Managers memStart = Map.empty" by (simp add: memStart_def)
  obtain st where st: "rt_Managers (snd (memProgram True [] memStart)) OperatorScheme = Some st" "ms_Started st" using memProgram_run(2)[OF Parse_Nil] by blast
  obtain code w' where run: "memProgram True [] memStart = (code, w')" by fastforce
  from scheme_knows_types[OF memSystem_ok memGroups_ok none run[unfolded memProgram_def], of OperatorScheme st KServiceMonitor] st run
  show ?thesis by (auto simp: kindName_def)
qed

section \<open>From the start to a deployed agent\<close>

text \<open>C8. The operator from its start on: take any process that has run a manager, and the reconciler of the OcmAgent controller that runs in it. With
  clients without faults, for each OcmAgent resource in a namespace that the manager watches one reconciliation
  puts everything in place and sets the finalizer. That the resource is in the namespace of the operator need not be assumed.\<close>
theorem operator_deploys:
  assumes "runtime_ok sys groupTypes view" and "rt_Managers (view w) = Map.empty" and "program sys lib z process util args w = (code, w')"
    and "rt_Managers (view w') mgr = Some st" and "ms_Started st" and r: "CompleteOcmAgent r watches \<in> set (ms_Controllers st)"
    and clients: "\<forall>m. api_up (sys_GetClient sys m) cview" "\<forall>cfg sch w1 c w2. sys_ClientNew sys cfg sch w1 = (Inr c, w2) \<longrightarrow> api_up c cview"
    and libs: "setref_up (h_SetControllerReference process)" "gauges_ok process cview" "finalizers_ok util"
    and seen: "nn_Namespace request \<in> set (mo_DefaultNamespaces (ms_Options st))"
    and a: "agentAt request a (cview s)" "\<not> deleting a" "ownSecret (h_Env process) a"
      "BuildNamespacedName (h_Env process) (oa_Name a) \<noteq> CAMOConfigMapNamespacedName" "bodyFit process a (cview s)" "prerequisites process a (cview s)"
  shows "\<exists>s' y. OcmAgentController.Reconcile r request s = (Inr \<lparr>res_RequeueAfter = 5 * 60000000000\<rparr>, s') \<and> deployed process a (cview s') \<and>
    agentAt request y (cview s') \<and> hasFinalizer y \<and> oa_Spec y = oa_Spec a"
proof (rule started_ready[OF assms(1-5)])
  fix flags :: "'g Flags" and ns c cfg w1 w2
  assume ns: "h_Env process ''OPERATOR_NAMESPACE'' = Some ns" and c: "sys_ClientNew sys cfg OperatorScheme w1 = (Inr c, w2)"
    and st: "st = readyManager sys process util mgr c (managerOptions ns flags)"
  let ?h = "process\<lparr>h_Client := c\<rparr>"
  from r st have r: "r = ocmAgentReconciler sys process util mgr c" by (simp add: readyManager_def)
  from clients(2) c have "api_up c cview" by blast
  then have up: "platform_up ?h cview" using libs by (simp add: platform_up_def gauges_ok_def)
  have rup: "api_up (r_Client r) cview" using clients(1) by (simp add: r ocmAgentReconciler_def)
  have wired: "wired r (handlerOf ?h) cview"
    using rup libs by (simp add: wired_def r ocmAgentReconciler_def NewBuilder_handler api_up_def gauges_ok_def)
  have man: "manageable ?h cview a" using platform_up_platform[OF up] a(3,4) by (simp add: manageable_def)
  from wired rup a(1) have "objRef (OOcmAgent a) = agentRef request" by (rule reconcile_stored_up)
  then have "oa_Namespace a = nn_Namespace request" by (auto simp: objRef_def metaKey_def)
  with seen st ns have "oa_Namespace a = operatorNamespace (h_Env ?h)"
    by (simp add: readyManager_def managerOptions_def operatorNamespace_def)
  with reconcile_exists_up[OF wired rup up a(1,2) man] a(5,6)
  obtain s' where s': "OcmAgentController.Reconcile r request s = (Inr \<lparr>res_RequeueAfter = SyncPeriodDefault\<rparr>, s')"
    by (auto simp: client_irrelevant)
  from run.reconcile_exists[OF wired s' a(1) man a(2)] a(5) s' show ?thesis
    by (auto simp: client_irrelevant SyncPeriodDefault_def)
qed

theorem operator_deploys_witness:
  "\<exists>s'. OcmAgentController.Reconcile (ocmAgentReconciler (memSystem True) memHandler memControllerutil OperatorScheme memClient) sampleKey
       (agentCluster (agentWith [] None)) = (Inr \<lparr>res_RequeueAfter = 5 * 60000000000\<rparr>, s') \<and> deployed memHandler (agentWith [] None) (memView s')"
proof -
  let ?a = "agentWith [] None"
  have none: "rt_Managers memStart = Map.empty" by (simp add: memStart_def)
  obtain st where st: "rt_Managers (snd (memProgram True [] memStart)) OperatorScheme = Some st" "ms_Started st" using memProgram_run(2)[OF Parse_Nil] by blast
  obtain code w' where run: "memProgram True [] memStart = (code, w')" by fastforce
  note prog = memSystem_ok none run[unfolded memProgram_def]
  have m: "rt_Managers w' OperatorScheme = Some st" using st run by simp
  have r: "CompleteOcmAgent (ocmAgentReconciler (memSystem True) memHandler memControllerutil OperatorScheme memClient) OcmAgentController.SetupWithManager \<in> set (ms_Controllers st)"
    "nn_Namespace sampleKey \<in> set (mo_DefaultNamespaces (ms_Options st))"
    by (rule started_ready[OF prog m st(2)],
        auto simp: readyManager_def managerOptions_def memSystem_def memHandler_def)+
  have v: "memView (agentCluster ?a) = agentCluster ?a" by (rule agentCluster_view) simp
  have up: "platform_up memHandler memView" by (rule memHandler_up)
  have man: "ownSecret (h_Env memHandler) ?a" "BuildNamespacedName (h_Env memHandler) (oa_Name ?a) \<noteq> CAMOConfigMapNamespacedName"
    using agentWith_manageable[of "[]" None] by (simp_all add: manageable_def)
  have clients: "\<forall>m. api_up (sys_GetClient (memSystem True) m) memView"
    "\<forall>cfg sch w1 c w2. sys_ClientNew (memSystem True) cfg sch w1 = (Inr c, w2) \<longrightarrow> api_up c memView"
    using memClient_api_up by (auto simp: memSystem_def)
  have libs: "setref_up (h_SetControllerReference memHandler)" "gauges_ok memHandler memView" using up by (simp_all add: platform_up_def)
  have at: "agentAt sampleKey ?a (memView (agentCluster ?a))" "\<not> deleting ?a" unfolding v using agentCluster_at by (simp_all add: deleting_def)
  from operator_deploys[OF prog m st(2) r(1) clients libs memControllerutil_ok r(2) at man] agentCluster_ready[of "[]" None]
  show ?thesis unfolding v by blast
qed

end
