(* ===== verification/SeveralAgents.thy ===== *)
theory SeveralAgents
  imports HandlerProps Removal
begin

text \<open>
  Several OcmAgent resources side by side, as with an agent in fleet mode beside one for the cluster itself. They have some
  objects in common: the config map for the CA bundle, and outside fleet mode the config map that routes the alerts.
  With it, a property of repeated runs: when the pods are restarted.
\<close>

section \<open>What a run leaves alone\<close>

text \<open>A relation that each ensure function keeps is kept by all of them.\<close>
lemma body_rel:
  assumes run: "ensureBody h a s = (q, s')" and refl: "\<And>cl. Rel cl cl" and trans: "\<And>x y z. Rel x y \<Longrightarrow> Rel y z \<Longrightarrow> Rel x z"
    and dep: "\<And>s q s'. ensureDeployment h a s = (q, s') \<Longrightarrow> Rel (view s) (view s')"
    and cms: "\<And>s q s'. ensureAllConfigMaps h a s = (q, s') \<Longrightarrow> Rel (view s) (view s')"
    and others: "\<And>R cl cl'. kinds R \<subseteq> {KService, KNetworkPolicy, KServiceMonitor, KPodDisruptionBudget} \<Longrightarrow> touches R {} cl cl' \<Longrightarrow> Rel cl cl'"
    and plat: "platform h view"
  shows "Rel (view s) (view s')"
  using run unfolding ensureBody_def
proof (rule forEach_rel[where R = "\<lambda>s s'. Rel (view s) (view s')"])
  fix fn t r t'
  assume "fn \<in> set ([ensureDeployment, ensureAllConfigMaps, ensureService, ensureAllNetworkPolicies, ensureServiceMonitor] @
      (if replicated a then [ensurePodDisruptionBudget] else []))" and "fn h a t = (r, t')"
  then consider "ensureDeployment h a t = (r, t')" | "ensureAllConfigMaps h a t = (r, t')" | "ensureService h a t = (r, t')"
    | "ensureAllNetworkPolicies h a t = (r, t')" | "ensureServiceMonitor h a t = (r, t')" | "ensurePodDisruptionBudget h a t = (r, t')"
    by (auto split: if_splits)
  then show "Rel (view t) (view t')"
  proof cases
    case 3
    show ?thesis by (rule others[OF _ ensures_touches[OF ensureService_ensures[OF plat] 3]]) simp
  next
    case 4
    show ?thesis by (rule others[OF _ ensures_touches[OF ensureAllNetworkPolicies_ensures[OF plat] 4]]) simp
  next
    case 5
    show ?thesis by (rule others[OF _ ensures_touches[OF ensureServiceMonitor_ensures[OF plat] 5]]) simp
  next
    case 6
    show ?thesis by (rule others[OF _ ensures_touches[OF ensurePodDisruptionBudget_ensures[OF plat] 6]]) simp
  qed (use dep cms in auto)
qed (use refl trans in auto)

text \<open>A deployment that is as it should be.\<close>
lemma body_keeps_deployment:
  assumes plat: "platform h view" and run: "ensureBody h a s = (q, s')" and dep: "deploymentOk (h_Env h) a (view s)"
  shows "cl_Objects (view s') (deploymentRef (h_Env h) a) = cl_Objects (view s) (deploymentRef (h_Env h) a)"
proof -
  let ?r = "deploymentRef (h_Env h) a"
  define Rel where "Rel cl cl' \<longleftrightarrow> (deploymentOk (h_Env h) a cl \<longrightarrow> cl_Objects cl' ?r = cl_Objects cl ?r \<and> deploymentOk (h_Env h) a cl')" for cl cl' :: Cluster
  note de = ensureDeployment_ensures[OF plat, of a]
  have other: "Rel cl cl'" if "kinds R \<inter> {KDeployment, KProxy} = {}" "touches R {} cl cl'" for R cl cl'
  proof -
    have "R \<inter> ({?r} \<union> {proxyRef}) = {}" using that(1) by (intro kinds_disjoint) auto
    with ensures_local(2)[OF de that(2)] touches_objects[OF that(2), of ?r] show ?thesis by (auto simp: Rel_def)
  qed
  have "Rel (view s) (view s')"
  proof (rule body_rel[OF run])
    show "Rel (view t) (view t')" if "ensureDeployment h a t = (r, t')" for t r t'
      using ensures_keeps[OF de that] touches_nothing[of "{}" "view t" "view t'"] ensures_local(2)[OF de, of "{}" "{}" "view t" "view t'"] by (auto simp: Rel_def)
    show "Rel (view t) (view t')" if "ensureAllConfigMaps h a t = (r, t')" for t r t'
      by (rule other[OF _ ensures_touches[OF ensureAllConfigMaps_ensures[OF plat] that]]) simp
    show "Rel cl cl'" if "kinds R \<subseteq> {KService, KNetworkPolicy, KServiceMonitor, KPodDisruptionBudget}" "touches R {} cl cl'" for R cl cl'
      by (rule other[OF _ that(2)]) (use that(1) in auto)
  qed (auto simp: Rel_def plat)
  with dep show ?thesis by (simp add: Rel_def)
qed

text \<open>A config map for the CA bundle.\<close>
lemma body_keeps_trust:
  assumes plat: "platform h view" and run: "ensureBody h a s = (q, s')" and x: "cl_Objects (view s) (trustRef (h_Env h)) = Some (OConfigMap x)"
  shows "cl_Objects (view s') (trustRef (h_Env h)) = Some (OConfigMap x)"
proof -
  let ?r = "trustRef (h_Env h)"
  define Rel where "Rel cl cl' \<longleftrightarrow> (cl_Objects cl ?r = Some (OConfigMap x) \<longrightarrow> cl_Objects cl' ?r = Some (OConfigMap x))" for cl cl' :: Cluster
  have other: "Rel cl cl'" if "KConfigMap \<notin> kinds R" "touches R {} cl cl'" for R cl cl'
    using touches_objects[OF that(2) not_kinds, of ?r] that(1) by (auto simp: Rel_def trustRef_def)
  have "Rel (view s) (view s')"
  proof (rule body_rel[OF run])
    show "Rel (view t) (view t')" if "ensureDeployment h a t = (r, t')" for t r t'
      by (rule other[OF _ ensures_touches[OF ensureDeployment_ensures[OF plat] that]]) simp
    show "Rel (view t) (view t')" if "ensureAllConfigMaps h a t = (r, t')" for t r t'
      using trusted_ca_kept[OF plat _ that] by (simp add: Rel_def)
    show "Rel cl cl'" if "kinds R \<subseteq> {KService, KNetworkPolicy, KServiceMonitor, KPodDisruptionBudget}" "touches R {} cl cl'" for R cl cl'
      by (rule other[OF _ that(2)]) (use that(1) in auto)
  qed (auto simp: Rel_def plat)
  with x show ?thesis by (simp add: Rel_def)
qed

section \<open>Which objects agents share\<close>

text \<open>At most one agent is outside fleet mode, their names differ, also by more than the suffix of the metrics service, and so do their secrets.\<close>
definition apart :: "Env \<Rightarrow> OcmAgent \<Rightarrow> OcmAgent \<Rightarrow> bool" where
  "apart env a b \<longleftrightarrow> (oa_FleetMode a \<or> oa_FleetMode b) \<and> oa_Name a \<noteq> oa_Name b \<and> oa_Name a \<noteq> oa_Name b @ ''-metrics'' \<and>
     oa_Name b \<noteq> oa_Name a @ ''-metrics'' \<and> oa_TokenSecret a \<noteq> oa_TokenSecret b"

definition policySuffixes :: "string set" where
  "policySuffixes = {''-allow-only-alertmanager'', ''-allow-rhobs-alertmanager'', ''-allow-muo-communication'', ''-allow-obo-alertmanager''}"

lemma policyRefs_suffix:
  assumes "r \<in> policyRefs env a"
  shows "\<exists>x \<in> policySuffixes. r = (KNetworkPolicy, BuildNamespacedName env (oa_Name a @ x))"
  using assms
  by (auto simp: policyRefs_def policyRef_def policyNamespaces_def buildNetworkPolicyName_def policySuffixes_def NamespaceMonitorng_def NamespaceRHOBS_def
      NamespaceMUO_def NamespaceOBO_def OCMAgentDefaultNetworkPolicySuffix_def OCMAgentRHOBSNetworkPolicySuffix_def OCMAgentMUONetworkPolicySuffix_def
      OCMAgentOBONetworkPolicySuffix_def split: if_splits)

text \<open>No suffix is hidden in another one.\<close>
lemma suffix_unique:
  assumes "x \<in> policySuffixes" "y \<in> policySuffixes" and eq: "a @ x = b @ y"
  shows "a = b"
proof -
  from eq have "rev x @ rev a = rev y @ rev b" by (metis rev_append)
  then have "rev a = rev b" using assms(1,2) unfolding policySuffixes_def by auto
  then show ?thesis by simp
qed

lemma apart_refs:
  assumes ap: "apart env a b" and a: "r \<in> agentRefs env a" and b: "r \<in> agentRefs env b"
  shows "r = trustRef env"
proof -
  from ap have n: "oa_Name a \<noteq> oa_Name b" "oa_Name a \<noteq> oa_Name b @ ''-metrics''" "oa_Name b \<noteq> oa_Name a @ ''-metrics''" "oa_TokenSecret a \<noteq> oa_TokenSecret b"
    and f: "oa_FleetMode a \<or> oa_FleetMode b" by (simp_all add: apart_def)
  have kinds: "fst r \<in> {KDeployment, KConfigMap, KService, KNetworkPolicy, KServiceMonitor, KPodDisruptionBudget, KSecret}"
    using a body_kinds[of env a] by (auto simp: agentRefs_def kinds_def split: if_splits)
  have pol: "r \<notin> policyRefs env a \<or> r \<notin> policyRefs env b"
    using policyRefs_suffix[of r env a] policyRefs_suffix[of r env b] suffix_unique[of _ _ "oa_Name a" "oa_Name b"] n(1) by auto
  have pk: "r' \<in> policyRefs env c \<Longrightarrow> fst r' = KNetworkPolicy" for r' c using kinds_refs(5)[of env c] by (auto simp: kinds_def)
  note refs = deploymentRef_def serviceRef_def metricsRef_def monitorRef_def budgetRef_def tokenRef_def
  show ?thesis
  proof (rule ccontr)
    assume t: "r \<noteq> trustRef env"
    have "r \<in> {deploymentRef env a, configRef env a, serviceRef env a, metricsRef env a, monitorRef env a, budgetRef env a} \<or> r \<in> policyRefs env a \<or>
        (\<not> oa_FleetMode a \<and> r \<in> {camoRef, tokenRef env a})"
      "r \<in> {deploymentRef env b, configRef env b, serviceRef env b, metricsRef env b, monitorRef env b, budgetRef env b} \<or> r \<in> policyRefs env b \<or>
        (\<not> oa_FleetMode b \<and> r \<in> {camoRef, tokenRef env b})"
      using a b t by (auto simp: agentRefs_def bodyRefs_def configMapRefs_def split: if_splits)
    then show False using pol pk[of r a] pk[of r b] n f config_refs_distinct(2)[of env a] config_refs_distinct(2)[of env b]
      by (auto simp: refs configRef_def camoRef_def)
  qed
qed

text \<open>A config map for the CA bundle that exists outlives every run.\<close>
lemma exist_keeps_trust:
  assumes plat: "platform h view" and own: "ownSecret (h_Env h) a" and x: "cl_Objects (view s) (trustRef (h_Env h)) = Some (OConfigMap x)"
    and run: "EnsureOCMAgentResourcesExist h a s = (q, s')"
  shows "cl_Objects (view s') (trustRef (h_Env h)) = Some (OConfigMap x)"
proof -
  note cr = ensureCredentials_ensures[OF plat own]
  have other: "cl_Objects cl' (trustRef (h_Env h)) = cl_Objects cl (trustRef (h_Env h))" if "touches R G cl cl'" "KConfigMap \<notin> kinds R" for R G cl cl'
    using touches_objects[OF that(1) not_kinds] that(2) by (simp add: trustRef_def)
  have cred: "cl_Objects (view t) (trustRef (h_Env h)) = Some (OConfigMap x)" if "ensureCredentials h a s = (r, t)" for r t
    using other[OF ensures_touches[OF cr, of s _ t]] ignore_Inl[of "ensureCredentials h a" s] ignore_Inr[of "ensureCredentials h a" s] that x
    by (cases r) (auto split: if_splits)
  from run show ?thesis
  proof (cases rule: exist_cases)
    case (restart s1 s2)
    from other[OF restart_touches[OF plat restart(3)]] body_keeps_trust[OF plat restart(2) cred[OF restart(1)]] show ?thesis by simp
  qed (use cred body_keeps_trust[OF plat] in blast)+
qed

lemma source_apart:
  assumes "apart env a b" and "ownSecret env b"
  shows "{sourceRef env a, proxyRef, versionRef} \<inter> agentRefs env b = {}"
proof -
  have "tokenRef env a \<notin> agentRefs env b \<or> \<not> oa_FleetMode a"
  proof -
    have "tokenRef env a \<noteq> tokenRef env b" using assms(1) by (simp add: apart_def tokenRef_def)
    moreover have "tokenRef env a \<notin> bodyRefs env b" by (rule not_kinds) (use body_kinds[of env b] in auto)
    ultimately show ?thesis by (simp add: agentRefs_def)
  qed
  moreover have "pullRef \<notin> agentRefs env b" using assms(2) bodyRefs_apart[of env b] by (auto simp: agentRefs_def ownSecret_def)
  moreover have "proxyRef \<notin> agentRefs env b" "versionRef \<notin> agentRefs env b"
    using bodyRefs_apart[of env b] by (auto simp: agentRefs_def tokenRef_def proxyRef_def versionRef_def)
  ultimately show ?thesis by (auto simp: sourceRef_def)
qed

section \<open>Properties\<close>

text \<open>C10. An agent in fleet mode and another agent live side by side: while everything is in place for the one, a run for the other leaves it so, whatever
  its outcome, with faults at any call. What they share, the config map for the CA bundle, is never overwritten.\<close>
theorem agents_coexist:
  assumes plat: "platform h view" and own: "ownSecret (h_Env h) a" "ownSecret (h_Env h) b" and ap: "apart (h_Env h) a b"
    and dep: "deployed h a (view s)" and run: "EnsureOCMAgentResourcesExist h b s = (q, s')"
  shows "deployed h a (view s')"
proof -
  let ?env = "h_Env h"
  note t = ensures_touches[OF EnsureExist_ensures[OF plat own(2)] run]
  from dep obtain x where x: "cl_Objects (view s) (trustRef ?env) = Some (OConfigMap x)" by (auto simp: deployed_def bodyOk_def configMapsOk_def)
  note trust = exist_keeps_trust[OF plat own(2) x run]
  have "cl_Objects (view s') r = cl_Objects (view s) r" if "r \<in> agentRefs ?env a \<union> {sourceRef ?env a, proxyRef, versionRef}" for r
    using that apart_refs[OF ap, of r] source_apart[OF ap own(2)] touches_objects[OF t, of r] x trust by (cases "r \<in> agentRefs ?env b") auto
  with EnsureExist_ensures[OF plat own(1)] dep show ?thesis unfolding ensures_def by blast
qed

definition fleetAgent :: OcmAgent where
  "fleetAgent = sampleAgent\<lparr>oa_Meta := (oa_Meta sampleAgent)\<lparr>om_Name := ''ocm-agent-fleet''\<rparr>,
     oa_Spec := (oa_Spec sampleAgent)\<lparr>oas_TokenSecret := ''ocm-fleet-secret'', oas_FleetMode := True\<rparr>\<rparr>"

lemma fleetAgent_fields [simp]:
  "oa_FleetMode fleetAgent" "oa_Name fleetAgent = ''ocm-agent-fleet''" "oa_TokenSecret fleetAgent = ''ocm-fleet-secret''"
  by (simp_all add: fleetAgent_def)

theorem agents_coexist_witness:
  "\<exists>s' q s''. EnsureOCMAgentResourcesExist memHandler sampleAgent sampleCluster = (Inr (), s') \<and>
     EnsureOCMAgentResourcesExist memHandler fleetAgent s' = (q, s'') \<and> deployed memHandler sampleAgent (memView s'')"
proof -
  obtain s' where s': "EnsureOCMAgentResourcesExist memHandler sampleAgent sampleCluster = (Inr (), s')" using sample_run by blast
  obtain q s'' where s'': "EnsureOCMAgentResourcesExist memHandler fleetAgent s' = (q, s'')" by fastforce
  have dep: "deployed memHandler sampleAgent (memView s')"
    using ensures_goal[OF EnsureExist_ensures[OF memHandler_platform sample_fit(2)] s'] sample_fit(1) by (simp add: sampleCluster_view)
  have "ownSecret (h_Env memHandler) fleetAgent" by (simp add: ownSecret_def)
  moreover have "apart (h_Env memHandler) sampleAgent fleetAgent" by (simp add: apart_def)
  ultimately show ?thesis using agents_coexist[OF memHandler_platform sample_fit(2) _ _ dep s''] s' s'' by blast
qed

text \<open>C40. The removal of any agent cuts the alerts of the others: a removal that has gone through leaves no config map for the alert manager, so that an agent outside
  fleet mode is no longer in place. This includes the removal of an agent in fleet mode, which never makes that config map.\<close>
theorem removal_cuts_alerts:
  assumes "platform h view" and "BuildNamespacedName (h_Env h) (oa_Name b) \<noteq> CAMOConfigMapNamespacedName"
    and "removable (h_Env h) b (view s)" and "EnsureOCMAgentResourcesAbsent h b s = (Inr (), s')" and "\<not> oa_FleetMode a"
  shows "cl_Objects (view s') camoRef = None \<and> \<not> deployed h a (view s')"
proof -
  have "camoRef \<in> absentRefs (h_Env h) b" by (simp add: absentRefs_def deletedConfigMapRefs_def)
  with ensures_goal[OF EnsureAbsent_ensures[OF assms(1,2)] assms(4,3)] have "cl_Objects (view s') camoRef = None" by (simp add: absent_def)
  with assms(5) show ?thesis by (auto simp: deployed_def bodyOk_def configMapsOk_def cmDataAt_def)
qed

theorem removal_cuts_alerts_witness:
  "\<exists>s'. EnsureOCMAgentResourcesAbsent memHandler fleetAgent
       (storeAll [OConfigMap \<lparr>cm_Meta = newMeta CAMOConfigMapNamespacedName None, cm_Data = oneLabel OCMAgentServiceURLKey ''http://ocm-agent''\<rparr>]) = (Inr (), s') \<and>
     cl_Objects (memView s') camoRef = None \<and> \<not> deployed memHandler sampleAgent (memView s')"
proof -
  let ?s = "storeAll [OConfigMap \<lparr>cm_Meta = newMeta CAMOConfigMapNamespacedName None, cm_Data = oneLabel OCMAgentServiceURLKey ''http://ocm-agent''\<rparr>]"
  have v: "memView ?s = ?s" by (rule memView_storeAll) (simp add: persisted_def newMeta_def)
  obtain s' where s': "EnsureOCMAgentResourcesAbsent memHandler fleetAgent ?s = (Inr (), s')"
    using EnsureAbsent_up[OF memHandler_up, of fleetAgent] unfolding succeeds_def by blast
  have ne: "BuildNamespacedName (h_Env memHandler) (oa_Name fleetAgent) \<noteq> CAMOConfigMapNamespacedName"
    by (simp add: BuildNamespacedName_eq CAMOConfigMapNamespacedName_def)
  have "removable (h_Env memHandler) fleetAgent (memView ?s)"
    unfolding v by (auto simp: removable_def noFinalizers_def absent_def storeAll_def objRef_def newMeta_def serviceRef_def metricsRef_def)
  from removal_cuts_alerts[OF memHandler_platform ne this s', of sampleAgent] s' show ?thesis by simp
qed

text \<open>C19. The pods are not restarted without need: a run that finds the secret up to date and the deployment as it should be does not touch the deployment, whatever
  its outcome. So a restart that is due, because an earlier run has written the secret and then failed, is not made up for.\<close>
theorem restart_only_with_secret:
  assumes plat: "platform h view" and own: "ownSecret (h_Env h) a" and cred: "credentialsOk h a (view s)" and dep: "deploymentOk (h_Env h) a (view s)"
    and run: "EnsureOCMAgentResourcesExist h a s = (q, s')"
  shows "cl_Objects (view s') (deploymentRef (h_Env h) a) = cl_Objects (view s) (deploymentRef (h_Env h) a)"
proof -
  note cr = ensureCredentials_ensures[OF plat own]
  have same: "cl_Objects (view t) = cl_Objects (view s)" if "ensureCredentials h a s = (r, t)" for r t
    using touches_nothing[OF ensures_keeps[OF cr _ cred, of _ t]] ignore_Inl[of "ensureCredentials h a" s] ignore_Inr[of "ensureCredentials h a" s] that by (cases r) auto
  have body: "cl_Objects (view t') (deploymentRef (h_Env h) a) = cl_Objects (view s) (deploymentRef (h_Env h) a)"
    if "ensureCredentials h a s = (Inr b, t)" "ensureBody h a t = (r, t')" for b t r t'
    using body_keeps_deployment[OF plat that(2)] ensures_same[OF ensureDeployment_ensures[OF plat, of a], of "view t" "view s"] same[OF that(1)] dep by auto
  from run show ?thesis
  proof (cases rule: exist_cases)
    case (restart s1 s2)
    from touches_nothing[OF ensures_keeps[OF cr ignore_Inr[of "ensureCredentials h a", OF restart(1)] cred]]
      ensureCredentials_reports[OF plat restart(1)] show ?thesis by simp
  qed (use same body in auto)
qed

theorem restart_only_with_secret_witness:
  "\<exists>s' q s''. EnsureOCMAgentResourcesExist memHandler sampleAgent sampleCluster = (Inr (), s') \<and> EnsureOCMAgentResourcesExist memHandler sampleAgent s' = (q, s'') \<and>
     cl_Objects (memView s'') (deploymentRef (h_Env memHandler) sampleAgent) = cl_Objects (memView s') (deploymentRef (h_Env memHandler) sampleAgent)"
proof -
  obtain s' where s': "EnsureOCMAgentResourcesExist memHandler sampleAgent sampleCluster = (Inr (), s')" using sample_run by blast
  obtain q s'' where s'': "EnsureOCMAgentResourcesExist memHandler sampleAgent s' = (q, s'')" by fastforce
  have "deployed memHandler sampleAgent (memView s')"
    using ensures_goal[OF EnsureExist_ensures[OF memHandler_platform sample_fit(2)] s'] sample_fit(1) by (simp add: sampleCluster_view)
  then have "credentialsOk memHandler sampleAgent (memView s')" "deploymentOk (h_Env memHandler) sampleAgent (memView s')"
    by (simp_all add: deployed_def bodyOk_def)
  from restart_only_with_secret[OF memHandler_platform sample_fit(2) this s''] s' s'' show ?thesis by blast
qed

end
