(* ===== verification/GoHeap.thy ===== *)
theory GoHeap
  imports OAO_Prelude
begin

text \<open>
  Go's memory, for the code whose point is aliasing: a heap of arrays, pointers into them, slices, and what it is for a
  function to make a deep copy. A variable made by \<open>new\<close> is an array with one element. The locale \<open>deep_copyable\<close> is the contract
  of a copying function; it is closed under structs, slices and pointers.
\<close>

section \<open>Model\<close>

text \<open>An address is the position of an array; the arrays hold elements of different types, as the cells \<open>'c\<close>.\<close>
type_synonym 'c heap = "'c list"

text \<open>A pointer to an element of an array, or nil.\<close>
type_synonym pointer = "(nat \<times> nat) option"

text \<open>A slice: the array, the offset, the length; or nil.\<close>
datatype slice = NilSlice | Slice nat nat nat

text \<open>The type of the elements of an array: its cells, and its zero value.\<close>
record ('c, 'e) ElemType =
  et_Cell :: "'e list \<Rightarrow> 'c"
  et_Elems :: "'c \<Rightarrow> 'e list option"
  et_Zero :: 'e

definition elems :: "('c, 'e) ElemType \<Rightarrow> 'c heap \<Rightarrow> nat \<Rightarrow> 'e list" where
  "elems T h a = (case et_Elems T (h ! a) of None \<Rightarrow> [] | Some xs \<Rightarrow> xs)"

text \<open>\<open>make([]T, n)\<close>, \<open>new(T)\<close> for one element; reading and writing an element.\<close>
definition makeArray :: "('c, 'e) ElemType \<Rightarrow> nat \<Rightarrow> 'c heap \<Rightarrow> nat \<times> 'c heap" where
  "makeArray T n h = (length h, h @ [et_Cell T (replicate n (et_Zero T))])"

definition load :: "('c, 'e) ElemType \<Rightarrow> nat \<Rightarrow> nat \<Rightarrow> 'c heap \<Rightarrow> 'e" where
  "load T a i h = elems T h a ! i"

definition store :: "('c, 'e) ElemType \<Rightarrow> nat \<Rightarrow> nat \<Rightarrow> 'e \<Rightarrow> 'c heap \<Rightarrow> 'c heap" where
  "store T a i x h = h[a := et_Cell T ((elems T h a)[i := x])]"

text \<open>\<open>f(in, &out)\<close> where \<open>f\<close> sets \<open>out\<close>: the value it is set to, and the heap.\<close>
type_synonym ('c, 'e) copier = "'e \<Rightarrow> 'c heap \<Rightarrow> 'e \<times> 'c heap"

text \<open>\<open>for i := range *in { (*in)[i].DeepCopyInto(&(*out)[i]) }\<close>, from \<open>i\<close> on for \<open>k\<close> elements.\<close>
fun copyLoop :: "('c, 'e) ElemType \<Rightarrow> ('c, 'e) copier \<Rightarrow> nat \<Rightarrow> nat \<Rightarrow> nat \<Rightarrow> nat \<Rightarrow> nat \<Rightarrow> 'c heap \<Rightarrow> 'c heap" where
  "copyLoop T f a off a' i 0 h = h"
| "copyLoop T f a off a' i (Suc k) h =
     (let (x, h) = f (load T a (off + i) h) h in copyLoop T f a off a' (Suc i) k (store T a' i x h))"

text \<open>\<open>*out = make([]T, len(*in))\<close> and the loop; the length of nil is 0.\<close>
definition copySlice :: "('c, 'e) ElemType \<Rightarrow> ('c, 'e) copier \<Rightarrow> slice \<Rightarrow> 'c heap \<Rightarrow> slice \<times> 'c heap" where
  "copySlice T f s h =
     (case s of
        NilSlice \<Rightarrow> (let (a', h) = makeArray T 0 h in (Slice a' 0 0, h))
      | Slice a off n \<Rightarrow> (let (a', h) = makeArray T n h in (Slice a' 0 n, copyLoop T f a off a' 0 n h)))"

text \<open>\<open>*out = make([]T, len(*in)); copy(*out, *in)\<close>\<close>
definition copyFlat :: "('c, 'e) ElemType \<Rightarrow> slice \<Rightarrow> 'c heap \<Rightarrow> slice \<times> 'c heap" where
  "copyFlat T s h =
     (case s of
        NilSlice \<Rightarrow> (let (a', h) = makeArray T 0 h in (Slice a' 0 0, h))
      | Slice a off n \<Rightarrow> (let (a', h) = makeArray T n h in (Slice a' 0 n, h[a' := et_Cell T (take n (drop off (elems T h a)))])))"

text \<open>\<open>if in != nil { f(in, &out) }\<close>, after \<open>out\<close> has been set to \<open>in\<close>.\<close>
definition unlessNil :: "('c, slice) copier \<Rightarrow> ('c, slice) copier" where
  "unlessNil f s h = (if s \<noteq> NilSlice then f s h else (s, h))"

text \<open>\<open>if in == nil { return nil }; out := new(T); in.DeepCopyInto(out); return out\<close>\<close>
definition newCopy :: "('c, 'e) ElemType \<Rightarrow> ('c, 'e) copier \<Rightarrow> pointer \<Rightarrow> 'c heap \<Rightarrow> pointer \<times> 'c heap" where
  "newCopy T f p h =
     (case p of
        None \<Rightarrow> (None, h)
      | Some (a, i) \<Rightarrow>
          (let (a', h) = makeArray T 1 h;
               (x, h) = f (load T a i h) h
           in (Some (a', 0), store T a' 0 x h)))"

text \<open>The same for a named slice type, whose method returns \<open>*out\<close>; \<open>S\<close> is the type of slice variables.\<close>
definition newSlice :: "('c, slice) ElemType \<Rightarrow> ('c, slice) copier \<Rightarrow> slice \<Rightarrow> 'c heap \<Rightarrow> slice \<times> 'c heap" where
  "newSlice S f s h =
     (if s = NilSlice then (NilSlice, h)
      else let (a', h) = makeArray S 1 h;
               (x, h) = f s h;
               h = store S a' 0 x h
           in (load S a' 0 h, h))"

section \<open>Heaps\<close>

text \<open>Nothing that was there has changed.\<close>
definition grows :: "'c heap \<Rightarrow> 'c heap \<Rightarrow> bool" where
  "grows h h' \<longleftrightarrow> length h \<le> length h' \<and> (\<forall>a < length h. h' ! a = h ! a)"

lemma grows_refl [simp]: "grows h h"
  by (simp add: grows_def)

lemma grows_trans: "grows h h' \<Longrightarrow> grows h' h'' \<Longrightarrow> grows h h''"
  by (auto simp: grows_def)

lemma grows_append [simp]: "grows h (h @ cs)"
  by (simp add: grows_def nth_append)

lemma grows_length: "grows h h' \<Longrightarrow> length h \<le> length h'"
  by (simp add: grows_def)

lemma grows_update: "grows h h' \<Longrightarrow> length h \<le> a \<Longrightarrow> grows h (h'[a := c])"
  by (simp add: grows_def)

text \<open>Two heaps agree on a set of addresses.\<close>
definition agree :: "nat set \<Rightarrow> 'c heap \<Rightarrow> 'c heap \<Rightarrow> bool" where
  "agree A h h' \<longleftrightarrow> (\<forall>a \<in> A. a < length h' \<and> h' ! a = h ! a)"

lemma agree_grows: "grows h h' \<Longrightarrow> A \<subseteq> {..<length h} \<Longrightarrow> agree A h h'"
  by (force simp: agree_def grows_def)

lemma agree_mono: "agree B h h' \<Longrightarrow> A \<subseteq> B \<Longrightarrow> agree A h h'"
  by (auto simp: agree_def)

lemma agree_update: "A \<subseteq> {..<length h} \<Longrightarrow> a \<notin> A \<Longrightarrow> agree A h (h[a := c])"
  unfolding agree_def by (metis length_list_update lessThan_iff nth_list_update_neq subsetD)

section \<open>Deep copies\<close>

text \<open>
  A function that copies: \<open>abs\<close> is the value of something as \<open>reflect.DeepEqual\<close> sees it, \<open>fp\<close> the addresses that are reachable from it,
  \<open>wf\<close> says that what is reachable exists and has the right type. A copy has the value of the original, everything reachable
  from it is new, and nothing that was there is changed.
\<close>
locale deep_copyable =
  fixes copy :: "('c, 'e) copier"
    and abs :: "'c heap \<Rightarrow> 'e \<Rightarrow> 'v"
    and fp :: "'c heap \<Rightarrow> 'e \<Rightarrow> nat set"
    and wf :: "'c heap \<Rightarrow> 'e \<Rightarrow> bool"
  assumes copy_grows: "wf h x \<Longrightarrow> copy x h = (y, h') \<Longrightarrow> grows h h'"
    and copy_abs: "wf h x \<Longrightarrow> copy x h = (y, h') \<Longrightarrow> abs h' y = abs h x"
    and copy_wf: "wf h x \<Longrightarrow> copy x h = (y, h') \<Longrightarrow> wf h' y"
    and copy_fresh: "wf h x \<Longrightarrow> copy x h = (y, h') \<Longrightarrow> fp h' y \<subseteq> {length h..<length h'}"
    and wf_fp: "wf h x \<Longrightarrow> fp h x \<subseteq> {..<length h}"
    and local: "wf h x \<Longrightarrow> agree (fp h x) h h' \<Longrightarrow> abs h' x = abs h x \<and> fp h' x = fp h x \<and> wf h' x"
begin

lemma grows_keeps:
  assumes "wf h x" and "grows h h'"
  shows "abs h' x = abs h x" "fp h' x = fp h x" "wf h' x"
  using local[OF assms(1) agree_grows[OF assms(2) wf_fp[OF assms(1)]]] by simp_all

lemma update_keeps:
  assumes "wf h x" and "a \<notin> fp h x"
  shows "abs (h[a := c]) x = abs h x" "fp (h[a := c]) x = fp h x" "wf (h[a := c]) x"
  using local[OF assms(1) agree_update[OF wf_fp[OF assms(1)] assms(2)]] by simp_all

text \<open>The original and the copy share nothing, and the original is as it was.\<close>
lemma copy_apart:
  assumes "wf h x" and "copy x h = (y, h')"
  shows "fp h' x \<inter> fp h' y = {}" "abs h' x = abs h x" "abs h' y = abs h' x"
  using grows_keeps[OF assms(1) copy_grows[OF assms]] copy_fresh[OF assms] wf_fp[OF assms(1)] copy_abs[OF assms] by fastforce+

text \<open>Whatever is done later to what is reachable from the one, or to new memory, does not reach the other.\<close>
lemma copy_independent:
  assumes "wf h x" and "copy x h = (y, h')"
  shows "agree ({..<length h'} - fp h' y) h' h'' \<Longrightarrow> abs h'' x = abs h x"
    and "agree ({..<length h'} - fp h' x) h' h'' \<Longrightarrow> abs h'' y = abs h x"
proof -
  note keep = grows_keeps[OF assms(1) copy_grows[OF assms]] and wy = copy_wf[OF assms]
  have x: "fp h' x \<subseteq> {..<length h'} - fp h' y" and y: "fp h' y \<subseteq> {..<length h'} - fp h' x"
    using copy_apart(1)[OF assms] wf_fp[OF keep(3)] wf_fp[OF wy] by auto
  show "abs h'' x = abs h x" if "agree ({..<length h'} - fp h' y) h' h''"
    using local[OF keep(3) agree_mono[OF that x]] keep(1) by simp
  show "abs h'' y = abs h x" if "agree ({..<length h'} - fp h' x) h' h''"
    using local[OF wy agree_mono[OF that y]] copy_abs[OF assms] by simp
qed

end

section \<open>Closure\<close>

lemmas dc_laws = deep_copyable.copy_grows deep_copyable.copy_abs deep_copyable.copy_wf deep_copyable.copy_fresh deep_copyable.wf_fp deep_copyable.local

lemma deep_copyable_cong:
  assumes f: "deep_copyable f A F W" and g: "\<And>x h. W h x \<Longrightarrow> g x h = f x h"
  shows "deep_copyable g A F W"
proof unfold_locales
  fix h x y h' assume w: "W h x" and "g x h = (y, h')"
  then have run: "f x h = (y, h')" by (simp add: g)
  show "grows h h'" "A h' y = A h x" "W h' y" "F h' y \<subseteq> {length h..<length h'}" by (fact dc_laws(1-4)[OF f w run])+
qed (rule dc_laws(5,6)[OF f]; assumption)+

text \<open>Values without references.\<close>
lemma deep_copyable_plain: "deep_copyable (\<lambda>x h. (x, h)) (\<lambda>_ x. x) (\<lambda>_ _. {}) (\<lambda>_ _. True)"
  by unfold_locales auto

text \<open>Two parts, one after the other.\<close>
definition copyBoth :: "('c, 'a) copier \<Rightarrow> ('c, 'b) copier \<Rightarrow> ('c, 'a \<times> 'b) copier" where
  "copyBoth f g p h = (let (x, h) = f (fst p) h; (y, h) = g (snd p) h in ((x, y), h))"

definition bothAbs :: "('c heap \<Rightarrow> 'a \<Rightarrow> 'u) \<Rightarrow> ('c heap \<Rightarrow> 'b \<Rightarrow> 'v) \<Rightarrow> 'c heap \<Rightarrow> 'a \<times> 'b \<Rightarrow> 'u \<times> 'v" where
  "bothAbs A B h p = (A h (fst p), B h (snd p))"

definition bothFp :: "('c heap \<Rightarrow> 'a \<Rightarrow> nat set) \<Rightarrow> ('c heap \<Rightarrow> 'b \<Rightarrow> nat set) \<Rightarrow> 'c heap \<Rightarrow> 'a \<times> 'b \<Rightarrow> nat set" where
  "bothFp F G h p = F h (fst p) \<union> G h (snd p)"

definition bothWf :: "('c heap \<Rightarrow> 'a \<Rightarrow> bool) \<Rightarrow> ('c heap \<Rightarrow> 'b \<Rightarrow> bool) \<Rightarrow> 'c heap \<Rightarrow> 'a \<times> 'b \<Rightarrow> bool" where
  "bothWf W V h p \<longleftrightarrow> W h (fst p) \<and> V h (snd p)"

lemma deep_copyable_both:
  assumes f: "deep_copyable f A F W" and g: "deep_copyable g B G V"
  shows "deep_copyable (copyBoth f g) (bothAbs A B) (bothFp F G) (bothWf W V)"
proof unfold_locales
  fix h p q h' assume wf: "bothWf W V h p" and run: "copyBoth f g p h = (q, h')"
  obtain x h1 y where x: "f (fst p) h = (x, h1)" and y: "g (snd p) h1 = (y, h')" and q: "q = (x, y)"
    using run by (auto simp: copyBoth_def Let_def split: prod.splits)
  from wf have w: "W h (fst p)" "V h (snd p)" by (simp_all add: bothWf_def)
  note f1 = dc_laws(1-4)[OF f w(1) x]
  note keep = deep_copyable.grows_keeps[OF g w(2) f1(1)]
  note g1 = dc_laws(1-4)[OF g keep(3) y]
  note keep1 = deep_copyable.grows_keeps[OF f f1(3) g1(1)]
  show "grows h h'" using f1(1) g1(1) by (rule grows_trans)
  show "bothAbs A B h' q = bothAbs A B h p" using f1(2) g1(2) keep(1) keep1(1) by (simp add: bothAbs_def q)
  show "bothWf W V h' q" using g1(3) keep1(3) by (simp add: bothWf_def q)
  show "bothFp F G h' q \<subseteq> {length h..<length h'}"
    using f1(4) g1(4) keep1(2) grows_length[OF f1(1)] grows_length[OF g1(1)] by (force simp: bothFp_def q)
next
  fix h p assume "bothWf W V h p"
  then show "bothFp F G h p \<subseteq> {..<length h}" using dc_laws(5)[OF f] dc_laws(5)[OF g] by (auto simp: bothWf_def bothFp_def)
next
  fix h p h' assume wf: "bothWf W V h p" and "agree (bothFp F G h p) h h'"
  then have "agree (F h (fst p)) h h'" "agree (G h (snd p)) h h'" by (auto simp: bothFp_def agree_def)
  with wf dc_laws(6)[OF f, of h "fst p" h'] dc_laws(6)[OF g, of h "snd p" h']
  show "bothAbs A B h' p = bothAbs A B h p \<and> bothFp F G h' p = bothFp F G h p \<and> bothWf W V h' p"
    by (simp add: bothAbs_def bothFp_def bothWf_def)
qed

text \<open>A struct with a part that has references; \<open>d\<close> stands for the part where the rest is compared.\<close>
definition copyPart :: "('r \<Rightarrow> 'e) \<Rightarrow> ('e \<Rightarrow> 'r \<Rightarrow> 'r) \<Rightarrow> ('c, 'e) copier \<Rightarrow> ('c, 'r) copier" where
  "copyPart get put f r h = (let (x, h) = f (get r) h in (put x r, h))"

definition partAbs :: "('r \<Rightarrow> 'e) \<Rightarrow> ('r \<Rightarrow> 'p) \<Rightarrow> ('c heap \<Rightarrow> 'e \<Rightarrow> 'v) \<Rightarrow> 'c heap \<Rightarrow> 'r \<Rightarrow> 'p \<times> 'v" where
  "partAbs get rest A h r = (rest r, A h (get r))"

lemma deep_copyable_part:
  assumes f: "deep_copyable f A F W" and put: "\<And>x r. get (put x r) = x" "\<And>x r. rest (put x r) = rest r"
  shows "deep_copyable (copyPart get put f) (partAbs get rest A) (\<lambda>h r. F h (get r)) (\<lambda>h r. W h (get r))"
proof unfold_locales
  fix h r q h' assume w: "W h (get r)" and run: "copyPart get put f r h = (q, h')"
  obtain x where x: "f (get r) h = (x, h')" and q: "q = put x r"
    using run by (auto simp: copyPart_def Let_def split: prod.splits)
  from dc_laws(1-4)[OF f w x] show "grows h h'" "partAbs get rest A h' q = partAbs get rest A h r" "W h' (get q)" "F h' (get q) \<subseteq> {length h..<length h'}"
    by (simp_all add: q put partAbs_def)
next
  fix h r h' assume "W h (get r)" and "agree (F h (get r)) h h'"
  from dc_laws(6)[OF f this] show "partAbs get rest A h' r = partAbs get rest A h r \<and> F h' (get r) = F h (get r) \<and> W h' (get r)"
    by (simp add: partAbs_def)
qed (rule dc_laws(5)[OF f])

subsection \<open>Slices\<close>

definition elemType :: "('c, 'e) ElemType \<Rightarrow> bool" where
  "elemType T \<longleftrightarrow> (\<forall>xs. et_Elems T (et_Cell T xs) = Some xs)"

definition sliceElems :: "('c, 'e) ElemType \<Rightarrow> 'c heap \<Rightarrow> slice \<Rightarrow> 'e list" where
  "sliceElems T h s = (case s of NilSlice \<Rightarrow> [] | Slice a off n \<Rightarrow> take n (drop off (elems T h a)))"

text \<open>Nil is not the empty slice.\<close>
definition sliceAbs :: "('c, 'e) ElemType \<Rightarrow> ('c heap \<Rightarrow> 'e \<Rightarrow> 'v) \<Rightarrow> 'c heap \<Rightarrow> slice \<Rightarrow> 'v list option" where
  "sliceAbs T A h s = (if s = NilSlice then None else Some (map (A h) (sliceElems T h s)))"

definition sliceFp :: "('c, 'e) ElemType \<Rightarrow> ('c heap \<Rightarrow> 'e \<Rightarrow> nat set) \<Rightarrow> 'c heap \<Rightarrow> slice \<Rightarrow> nat set" where
  "sliceFp T F h s = (case s of NilSlice \<Rightarrow> {} | Slice a off n \<Rightarrow> insert a (\<Union>x \<in> set (sliceElems T h s). F h x))"

definition sliceWf :: "('c, 'e) ElemType \<Rightarrow> ('c heap \<Rightarrow> 'e \<Rightarrow> bool) \<Rightarrow> 'c heap \<Rightarrow> slice \<Rightarrow> bool" where
  "sliceWf T W h s = (case s of NilSlice \<Rightarrow> True
     | Slice a off n \<Rightarrow> a < length h \<and> et_Elems T (h ! a) \<noteq> None \<and> off + n \<le> length (elems T h a) \<and> (\<forall>x \<in> set (sliceElems T h s). W h x))"

text \<open>The array \<open>a'\<close> is above everything in \<open>h0\<close>, and its first \<open>i\<close> elements are copies of those of \<open>src\<close>.\<close>
definition copied :: "('c, 'e) ElemType \<Rightarrow> ('c heap \<Rightarrow> 'e \<Rightarrow> 'v) \<Rightarrow> ('c heap \<Rightarrow> 'e \<Rightarrow> nat set) \<Rightarrow> ('c heap \<Rightarrow> 'e \<Rightarrow> bool) \<Rightarrow>
    'c heap \<Rightarrow> 'e list \<Rightarrow> nat \<Rightarrow> nat \<Rightarrow> 'c heap \<Rightarrow> bool" where
  "copied T A F W h0 src a' i h \<longleftrightarrow> grows h0 h \<and> length h0 \<le> a' \<and> a' < length h \<and> et_Elems T (h ! a') \<noteq> None \<and>
     length (elems T h a') = length src \<and>
     (\<forall>j < i. W h (elems T h a' ! j) \<and> A h (elems T h a' ! j) = A h0 (src ! j) \<and> F h (elems T h a' ! j) \<subseteq> {Suc a'..<length h})"

lemma length_store [simp]: "length (store T a i x h) = length h"
  by (simp add: store_def)

lemma elems_grows: "grows h h' \<Longrightarrow> a < length h \<Longrightarrow> elems T h' a = elems T h a"
  by (simp add: elems_def grows_def)

lemma elems_agree: "agree A h h' \<Longrightarrow> a \<in> A \<Longrightarrow> elems T h' a = elems T h a"
  by (simp add: elems_def agree_def)

lemma elems_update: "elemType T \<Longrightarrow> a < length h \<Longrightarrow> elems T (h[a := et_Cell T xs]) a = xs"
  by (simp add: elems_def elemType_def)

lemma copied_step:
  assumes T: "elemType T" and f: "deep_copyable f A F W" and c: "copied T A F W h0 src a' i h" and i: "i < length src"
    and w: "W h0 (src ! i)" and run: "f (src ! i) h = (y, h1)"
  shows "copied T A F W h0 src a' (Suc i) (store T a' i y h1)"
proof -
  from c have g: "grows h0 h" "length h0 \<le> a'" "a' < length h" "length (elems T h a') = length src" by (simp_all add: copied_def)
  note k = deep_copyable.grows_keeps[OF f w g(1)]
  note r = dc_laws(1-4)[OF f k(3) run]
  have e1: "elems T h1 a' = elems T h a'" using elems_grows[OF r(1) g(3)] .
  have a1: "a' < length h1" using g(3) grows_length[OF r(1)] by simp
  have e2: "elems T (store T a' i y h1) a' = (elems T h a')[i := y]" using elems_update[OF T a1] by (simp add: store_def e1)
  have old: "W h1 z \<and> A h1 z = A h z \<and> F h1 z \<subseteq> {Suc a'..<length h1}" if "W h z" "F h z \<subseteq> {Suc a'..<length h}" for z
    using deep_copyable.grows_keeps[OF f that(1) r(1)] that(2) grows_length[OF r(1)] by auto
  have upd: "W (store T a' i y h1) z \<and> A (store T a' i y h1) z = A h1 z \<and> F (store T a' i y h1) z = F h1 z"
    if "W h1 z" "F h1 z \<subseteq> {Suc a'..<length h1}" for z
  proof -
    have "a' \<notin> F h1 z" using that(2) by auto
    from deep_copyable.update_keeps[OF f that(1) this] show ?thesis by (simp add: store_def)
  qed
  have new: "W h1 y" "A h1 y = A h0 (src ! i)" "F h1 y \<subseteq> {Suc a'..<length h1}" using r k(1) g(3) by auto
  have "grows h0 (store T a' i y h1)" unfolding store_def using grows_update[OF grows_trans[OF g(1) r(1)] g(2)] .
  moreover have "et_Elems T (store T a' i y h1 ! a') \<noteq> None" using T a1 by (simp add: store_def elemType_def)
  moreover have "W (store T a' i y h1) (elems T (store T a' i y h1) a' ! j) \<and> A (store T a' i y h1) (elems T (store T a' i y h1) a' ! j) = A h0 (src ! j) \<and>
      F (store T a' i y h1) (elems T (store T a' i y h1) a' ! j) \<subseteq> {Suc a'..<length (store T a' i y h1)}" if "j < Suc i" for j
  proof (cases "j = i")
    case True
    then show ?thesis using upd[OF new(1,3)] new i g(4) by (simp add: e2)
  next
    case False
    with that c have z: "W h (elems T h a' ! j)" "A h (elems T h a' ! j) = A h0 (src ! j)" "F h (elems T h a' ! j) \<subseteq> {Suc a'..<length h}"
      by (auto simp: copied_def)
    from upd old[OF z(1,3)] z(2) False show ?thesis by (simp add: e2)
  qed
  ultimately show ?thesis using g a1 by (simp add: copied_def e2)
qed

lemma copyLoop_copies:
  assumes T: "elemType T" and f: "deep_copyable f A F W" and src: "src = take n (drop off (elems T h0 a))" "a < length h0" "off + n \<le> length (elems T h0 a)"
    and w: "\<forall>x \<in> set src. W h0 x"
  shows "copied T A F W h0 src a' i h \<Longrightarrow> i + k = n \<Longrightarrow> copied T A F W h0 src a' n (copyLoop T f a off a' i k h)"
proof (induction k arbitrary: i h)
  case (Suc k)
  have len: "length src = n" using src by simp
  from Suc.prems have i: "i < length src" by (simp add: len)
  from Suc.prems(1) have "grows h0 h" by (simp add: copied_def)
  then have "elems T h a = elems T h0 a" using src(2) by (rule elems_grows)
  then have ld: "load T a (off + i) h = src ! i" using i src by (simp add: load_def)
  obtain y h1 where run: "f (src ! i) h = (y, h1)" by fastforce
  have "copied T A F W h0 src a' (Suc i) (store T a' i y h1)"
    by (rule copied_step[OF T f Suc.prems(1) i _ run]) (use w i in simp)
  from Suc.IH[OF this] Suc.prems(2) run show ?case by (simp add: ld)
qed simp

text \<open>The slice of all elements, once they are copied.\<close>
lemma copied_slice:
  assumes c: "copied T A F W h src (length h) (length src) h'"
  defines "s' \<equiv> Slice (length h) 0 (length src)"
  shows "grows h h'" "sliceWf T W h' s'" "sliceFp T F h' s' \<subseteq> {length h..<length h'}" "sliceAbs T A h' s' = Some (map (A h) src)"
proof -
  have e: "sliceElems T h' s' = elems T h' (length h)" using c by (simp add: s'_def sliceElems_def copied_def)
  from c have all: "W h' x" "F h' x \<subseteq> {Suc (length h)..<length h'}" if "x \<in> set (elems T h' (length h))" for x
    using that by (auto simp: copied_def in_set_conv_nth)
  show "grows h h'" using c by (simp add: copied_def)
  show "sliceWf T W h' s'" using c all(1) e by (auto simp: sliceWf_def s'_def copied_def)
  show "sliceFp T F h' s' \<subseteq> {length h..<length h'}" using c all(2) e by (force simp: sliceFp_def s'_def copied_def)
  have "map (A h') (elems T h' (length h)) = map (A h) src" by (rule nth_equalityI) (use c in \<open>auto simp: copied_def\<close>)
  then show "sliceAbs T A h' s' = Some (map (A h) src)" unfolding sliceAbs_def e by (simp add: s'_def)
qed

lemma copySlice_copies:
  assumes T: "elemType T" and f: "deep_copyable f A F W" and w: "sliceWf T W h s" and run: "copySlice T f s h = (s', h')"
  shows "grows h h'" "sliceWf T W h' s'" "sliceFp T F h' s' \<subseteq> {length h..<length h'}" "sliceAbs T A h' s' = Some (map (A h) (sliceElems T h s))"
proof -
  have init: "copied T A F W h src (length h) 0 (h @ [et_Cell T (replicate (length src) (et_Zero T))])" for src
    using T by (simp add: copied_def elems_def elemType_def nth_append)
  have "\<exists>src. copied T A F W h src (length h) (length src) h' \<and> s' = Slice (length h) 0 (length src) \<and> src = sliceElems T h s"
  proof (cases s)
    case NilSlice
    with run init[of "[]"] show ?thesis by (auto simp: copySlice_def makeArray_def sliceElems_def)
  next
    case (Slice a off n)
    let ?src = "take n (drop off (elems T h a))"
    from w Slice have a: "a < length h" "off + n \<le> length (elems T h a)" "\<forall>x \<in> set ?src. W h x" by (auto simp: sliceWf_def sliceElems_def)
    then have len: "length ?src = n" by simp
    from copyLoop_copies[OF T f refl a(1,2,3) init[of ?src, unfolded len], where k = n] run Slice
    have "copied T A F W h ?src (length h) n h'" "s' = Slice (length h) 0 n" by (auto simp: copySlice_def makeArray_def)
    then show ?thesis using len Slice by (auto simp: sliceElems_def)
  qed
  then show "grows h h'" "sliceWf T W h' s'" "sliceFp T F h' s' \<subseteq> {length h..<length h'}" "sliceAbs T A h' s' = Some (map (A h) (sliceElems T h s))"
    using copied_slice[of T A F W h _ h'] by auto
qed

lemma slice_local:
  assumes f: "deep_copyable f A F W" and w: "sliceWf T W h s" and a: "agree (sliceFp T F h s) h h'"
  shows "sliceAbs T A h' s = sliceAbs T A h s \<and> sliceFp T F h' s = sliceFp T F h s \<and> sliceWf T W h' s"
proof (cases s)
  case (Slice b off n)
  with a have "b \<in> sliceFp T F h s" by (simp add: sliceFp_def)
  with a have b: "elems T h' b = elems T h b" "b < length h'" "h' ! b = h ! b" by (auto simp: agree_def elems_def)
  then have e: "sliceElems T h' s = sliceElems T h s" by (simp add: sliceElems_def Slice)
  have x: "A h' x = A h x \<and> F h' x = F h x \<and> W h' x" if "x \<in> set (sliceElems T h s)" for x
  proof (rule dc_laws(6)[OF f])
    show "W h x" using w that by (simp add: sliceWf_def Slice)
    show "agree (F h x) h h'" by (rule agree_mono[OF a]) (use that in \<open>auto simp: sliceFp_def Slice\<close>)
  qed
  then have "map (A h') (sliceElems T h s) = map (A h) (sliceElems T h s)" "(\<Union>x \<in> set (sliceElems T h s). F h' x) = (\<Union>x \<in> set (sliceElems T h s). F h x)"
    by auto
  then show ?thesis using w b x unfolding sliceAbs_def sliceFp_def sliceWf_def Slice slice.case e[unfolded Slice] by (simp add: Slice)
qed (simp add: sliceAbs_def sliceFp_def sliceWf_def)

lemma slice_fp: "deep_copyable f A F W \<Longrightarrow> sliceWf T W h s \<Longrightarrow> sliceFp T F h s \<subseteq> {..<length h}"
  by (cases s) (auto simp: sliceWf_def sliceFp_def dest!: deep_copyable.wf_fp)

text \<open>A field that is a slice.\<close>
lemma deep_copyable_slice:
  assumes T: "elemType T" and f: "deep_copyable f A F W"
  shows "deep_copyable (unlessNil (copySlice T f)) (sliceAbs T A) (sliceFp T F) (sliceWf T W)"
proof unfold_locales
  fix h s s' h' assume w: "sliceWf T W h s" and run: "unlessNil (copySlice T f) s h = (s', h')"
  show "grows h h'" "sliceAbs T A h' s' = sliceAbs T A h s" "sliceWf T W h' s'" "sliceFp T F h' s' \<subseteq> {length h..<length h'}"
    using copySlice_copies[OF T f w, of s' h'] run w
    by (cases "s = NilSlice"; simp add: unlessNil_def sliceAbs_def[of _ _ h s] sliceFp_def sliceAbs_def; fail)+
qed (fact slice_fp[OF f], fact slice_local[OF f])

text \<open>The same for elements without references, which \<open>copy\<close> copies.\<close>
lemma copyFlat_copies:
  assumes T: "elemType T" and w: "sliceWf T (\<lambda>_ _. True) h s" and run: "copyFlat T s h = (s', h')"
  shows "copied T (\<lambda>_ x. x) (\<lambda>_ _. {}) (\<lambda>_ _. True) h (sliceElems T h s) (length h) (length (sliceElems T h s)) h'"
    "s' = Slice (length h) 0 (length (sliceElems T h s))"
proof -
  have new: "copied T (\<lambda>_ x. x) (\<lambda>_ _. {}) (\<lambda>_ _. True) h src (length h) (length src) (h @ [et_Cell T src])" for src
    using T by (simp add: copied_def elems_def elemType_def nth_append)
  have "s' = Slice (length h) 0 (length (sliceElems T h s)) \<and> h' = h @ [et_Cell T (sliceElems T h s)]"
  proof (cases s)
    case (Slice a off n)
    with w have "a < length h" "length (sliceElems T h s) = n" by (auto simp: sliceWf_def sliceElems_def)
    with run Slice show ?thesis by (auto simp: copyFlat_def makeArray_def sliceElems_def elems_def nth_append)
  qed (use run in \<open>auto simp: copyFlat_def makeArray_def sliceElems_def\<close>)
  with new show "copied T (\<lambda>_ x. x) (\<lambda>_ _. {}) (\<lambda>_ _. True) h (sliceElems T h s) (length h) (length (sliceElems T h s)) h'"
    "s' = Slice (length h) 0 (length (sliceElems T h s))" by auto
qed

lemma deep_copyable_flat:
  assumes T: "elemType T"
  shows "deep_copyable (unlessNil (copyFlat T)) (sliceAbs T (\<lambda>_ x. x)) (sliceFp T (\<lambda>_ _. {})) (sliceWf T (\<lambda>_ _. True))"
proof unfold_locales
  fix h s s' h' assume w: "sliceWf T (\<lambda>_ _. True) h s" and run: "unlessNil (copyFlat T) s h = (s', h')"
  note c = copyFlat_copies[OF T w, of s' h']
  show "grows h h'" "sliceAbs T (\<lambda>_ x. x) h' s' = sliceAbs T (\<lambda>_ x. x) h s" "sliceWf T (\<lambda>_ _. True) h' s'" "sliceFp T (\<lambda>_ _. {}) h' s' \<subseteq> {length h..<length h'}"
    using copied_slice[OF c(1)] c(2) run w
    by (cases "s = NilSlice"; simp add: unlessNil_def sliceAbs_def[of _ _ h s] sliceFp_def sliceAbs_def; fail)+
qed (fact slice_fp[OF deep_copyable_plain], fact slice_local[OF deep_copyable_plain])

subsection \<open>Pointers\<close>

definition ptrAbs :: "('c, 'e) ElemType \<Rightarrow> ('c heap \<Rightarrow> 'e \<Rightarrow> 'v) \<Rightarrow> 'c heap \<Rightarrow> pointer \<Rightarrow> 'v option" where
  "ptrAbs T A h p = (case p of None \<Rightarrow> None | Some (a, i) \<Rightarrow> Some (A h (load T a i h)))"

definition ptrFp :: "('c, 'e) ElemType \<Rightarrow> ('c heap \<Rightarrow> 'e \<Rightarrow> nat set) \<Rightarrow> 'c heap \<Rightarrow> pointer \<Rightarrow> nat set" where
  "ptrFp T F h p = (case p of None \<Rightarrow> {} | Some (a, i) \<Rightarrow> insert a (F h (load T a i h)))"

definition ptrWf :: "('c, 'e) ElemType \<Rightarrow> ('c heap \<Rightarrow> 'e \<Rightarrow> bool) \<Rightarrow> 'c heap \<Rightarrow> pointer \<Rightarrow> bool" where
  "ptrWf T W h p = (case p of None \<Rightarrow> True
     | Some (a, i) \<Rightarrow> a < length h \<and> et_Elems T (h ! a) \<noteq> None \<and> i < length (elems T h a) \<and> W h (load T a i h))"

lemma deep_copyable_ptr:
  assumes T: "elemType T" and f: "deep_copyable f A F W"
  shows "deep_copyable (newCopy T f) (ptrAbs T A) (ptrFp T F) (ptrWf T W)"
proof unfold_locales
  fix h p p' h' assume w: "ptrWf T W h p" and run: "newCopy T f p h = (p', h')"
  have "grows h h' \<and> ptrAbs T A h' p' = ptrAbs T A h p \<and> ptrWf T W h' p' \<and> ptrFp T F h' p' \<subseteq> {length h..<length h'}"
  proof (cases p)
    case (Some q)
    obtain a i where p: "p = Some (a, i)" using Some by (cases q) simp
    let ?h = "h @ [et_Cell T [et_Zero T]]" and ?x = "load T a i h"
    from w p have a: "a < length h" "W h ?x" by (simp_all add: ptrWf_def)
    then have ld: "load T a i ?h = ?x" by (simp add: load_def elems_def nth_append)
    have c: "copied T A F W h [?x] (length h) 0 ?h" using T by (simp add: copied_def elems_def elemType_def nth_append)
    obtain y h1 where y: "f ?x ?h = (y, h1)" by fastforce
    from copied_step[OF T f c, of y h1] a(2) y have "copied T A F W h [?x] (length h) (Suc 0) (store T (length h) 0 y h1)" by simp
    moreover from run p ld y have "p' = Some (length h, 0)" "h' = store T (length h) 0 y h1" by (auto simp: newCopy_def makeArray_def)
    ultimately show ?thesis using p by (force simp: copied_def ptrAbs_def ptrWf_def ptrFp_def load_def)
  qed (use run in \<open>auto simp: newCopy_def ptrAbs_def ptrWf_def ptrFp_def\<close>)
  then show "grows h h'" "ptrAbs T A h' p' = ptrAbs T A h p" "ptrWf T W h' p'" "ptrFp T F h' p' \<subseteq> {length h..<length h'}" by simp_all
next
  fix h p assume "ptrWf T W h p"
  then show "ptrFp T F h p \<subseteq> {..<length h}" by (auto simp: ptrWf_def ptrFp_def split: option.splits dest!: dc_laws(5)[OF f])
next
  fix h p h' assume w: "ptrWf T W h p" and ag: "agree (ptrFp T F h p) h h'"
  show "ptrAbs T A h' p = ptrAbs T A h p \<and> ptrFp T F h' p = ptrFp T F h p \<and> ptrWf T W h' p"
  proof (cases p)
    case (Some q)
    obtain a i where p: "p = Some (a, i)" using Some by (cases q) simp
    with ag have a: "h' ! a = h ! a" "a < length h'" by (auto simp: agree_def ptrFp_def)
    then have e: "elems T h' a = elems T h a" by (simp add: elems_def)
    then have l: "load T a i h' = load T a i h" by (simp add: load_def)
    have "agree (F h (load T a i h)) h h'" by (rule agree_mono[OF ag]) (auto simp: p ptrFp_def)
    moreover from w p have "W h (load T a i h)" by (simp add: ptrWf_def)
    ultimately have "A h' (load T a i h) = A h (load T a i h) \<and> F h' (load T a i h) = F h (load T a i h) \<and> W h' (load T a i h)"
      using dc_laws(6)[OF f] by blast
    then show ?thesis using w a by (simp add: p ptrAbs_def ptrFp_def ptrWf_def l e)
  qed (simp add: ptrAbs_def ptrFp_def ptrWf_def)
qed

text \<open>A pointer that is copied unless it is nil.\<close>
definition unlessNone :: "('c, pointer) copier \<Rightarrow> ('c, pointer) copier" where
  "unlessNone f p h = (if p \<noteq> None then f p h else (p, h))"

lemma deep_copyable_unlessNone:
  assumes f: "deep_copyable f (ptrAbs T A) (ptrFp T F) (ptrWf T W)"
  shows "deep_copyable (unlessNone f) (ptrAbs T A) (ptrFp T F) (ptrWf T W)"
proof unfold_locales
  fix h p p' h' assume w: "ptrWf T W h p" and run: "unlessNone f p h = (p', h')"
  show "grows h h'" "ptrAbs T A h' p' = ptrAbs T A h p" "ptrWf T W h' p'" "ptrFp T F h' p' \<subseteq> {length h..<length h'}"
    using dc_laws(1-4)[OF f w, of p' h'] run
    by (cases "p = None"; simp add: unlessNone_def ptrAbs_def[of _ _ _ None] ptrWf_def[of _ _ _ None] ptrFp_def[of _ _ _ None]; auto simp: ptrAbs_def ptrWf_def ptrFp_def; fail)+
qed (rule dc_laws(5,6)[OF f]; assumption)+

text \<open>The method of a named slice type.\<close>
lemma deep_copyable_newSlice:
  assumes S: "elemType S" and T: "elemType T" and f: "deep_copyable f A F W"
  shows "deep_copyable (newSlice S (copySlice T f)) (sliceAbs T A) (sliceFp T F) (sliceWf T W)"
proof unfold_locales
  fix h s s' h' assume w: "sliceWf T W h s" and run: "newSlice S (copySlice T f) s h = (s', h')"
  note dc = deep_copyable_slice[OF T f]
  have "grows h h' \<and> sliceAbs T A h' s' = sliceAbs T A h s \<and> sliceWf T W h' s' \<and> sliceFp T F h' s' \<subseteq> {length h..<length h'}"
  proof (cases "s = NilSlice")
    case False
    let ?h = "h @ [et_Cell S [et_Zero S]]"
    note k = deep_copyable.grows_keeps[OF dc w grows_append[of h "[et_Cell S [et_Zero S]]"]]
    obtain x h1 where x: "copySlice T f s ?h = (x, h1)" by fastforce
    with False have run1: "unlessNil (copySlice T f) s ?h = (x, h1)" by (simp add: unlessNil_def)
    note r = dc_laws(1-4)[OF dc k(3) run1]
    have a: "length h < length h1" using grows_length[OF r(1)] by simp
    have var: "elems S h1 (length h) = [et_Zero S]"
      using elems_grows[OF r(1), of "length h" S] S by (simp add: elems_def elemType_def nth_append)
    from run False x have h': "h' = store S (length h) 0 x h1" and s': "s' = load S (length h) 0 h'" by (auto simp: newSlice_def makeArray_def Let_def)
    have "s' = x" using elems_update[OF S a, of "[x]"] by (simp add: s' h' load_def store_def var)
    moreover have "length h \<notin> sliceFp T F h1 x" using r(4) by auto
    from deep_copyable.update_keeps[OF dc r(3) this]
    have "sliceAbs T A h' x = sliceAbs T A h1 x" "sliceFp T F h' x = sliceFp T F h1 x" "sliceWf T W h' x" by (simp_all add: h' store_def)
    moreover have "grows h h'" unfolding h' store_def by (rule grows_update[OF grows_trans[OF grows_append r(1)]]) simp
    ultimately show ?thesis using r(2,4) k(1) by (auto simp: h')
  qed (use run in \<open>simp add: newSlice_def sliceAbs_def sliceWf_def sliceFp_def\<close>)
  then show "grows h h'" "sliceAbs T A h' s' = sliceAbs T A h s" "sliceWf T W h' s'" "sliceFp T F h' s' \<subseteq> {length h..<length h'}" by simp_all
qed (fact slice_fp[OF f], fact slice_local[OF f])

section \<open>What can be reached\<close>

text \<open>Value, addresses and well-formedness of a type, with the combinators for its parts.\<close>
record ('c, 'e, 'v) Reach =
  rc_abs :: "'c heap \<Rightarrow> 'e \<Rightarrow> 'v"
  rc_fp :: "'c heap \<Rightarrow> 'e \<Rightarrow> nat set"
  rc_wf :: "'c heap \<Rightarrow> 'e \<Rightarrow> bool"

definition deepCopies :: "('c, 'e) copier \<Rightarrow> ('c, 'e, 'v) Reach \<Rightarrow> bool" where
  "deepCopies f R \<longleftrightarrow> deep_copyable f (rc_abs R) (rc_fp R) (rc_wf R)"

definition plainR :: "('c, 'e, 'e) Reach" where
  "plainR = \<lparr>rc_abs = (\<lambda>_ x. x), rc_fp = (\<lambda>_ _. {}), rc_wf = (\<lambda>_ _. True)\<rparr>"

definition bothR :: "('c, 'a, 'u) Reach \<Rightarrow> ('c, 'b, 'v) Reach \<Rightarrow> ('c, 'a \<times> 'b, 'u \<times> 'v) Reach" where
  "bothR R Q = \<lparr>rc_abs = bothAbs (rc_abs R) (rc_abs Q), rc_fp = bothFp (rc_fp R) (rc_fp Q), rc_wf = bothWf (rc_wf R) (rc_wf Q)\<rparr>"

text \<open>A struct: the part \<open>get\<close> with references, and the rest.\<close>
definition structR :: "('r \<Rightarrow> 'e) \<Rightarrow> ('r \<Rightarrow> 'p) \<Rightarrow> ('c, 'e, 'v) Reach \<Rightarrow> ('c, 'r, 'p \<times> 'v) Reach" where
  "structR get rest R = \<lparr>rc_abs = partAbs get rest (rc_abs R), rc_fp = (\<lambda>h r. rc_fp R h (get r)), rc_wf = (\<lambda>h r. rc_wf R h (get r))\<rparr>"

definition sliceR :: "('c, 'e) ElemType \<Rightarrow> ('c, 'e, 'v) Reach \<Rightarrow> ('c, slice, 'v list option) Reach" where
  "sliceR T R = \<lparr>rc_abs = sliceAbs T (rc_abs R), rc_fp = sliceFp T (rc_fp R), rc_wf = sliceWf T (rc_wf R)\<rparr>"

definition ptrR :: "('c, 'e) ElemType \<Rightarrow> ('c, 'e, 'v) Reach \<Rightarrow> ('c, pointer, 'v option) Reach" where
  "ptrR T R = \<lparr>rc_abs = ptrAbs T (rc_abs R), rc_fp = ptrFp T (rc_fp R), rc_wf = ptrWf T (rc_wf R)\<rparr>"

lemma deepCopies_plain: "deepCopies (\<lambda>x h. (x, h)) plainR"
  using deep_copyable_plain by (simp add: deepCopies_def plainR_def)

lemma deepCopies_both: "deepCopies f R \<Longrightarrow> deepCopies g Q \<Longrightarrow> deepCopies (copyBoth f g) (bothR R Q)"
  by (simp add: deepCopies_def bothR_def deep_copyable_both)

lemma deepCopies_struct:
  "deepCopies f R \<Longrightarrow> (\<And>x r. get (put x r) = x) \<Longrightarrow> (\<And>x r. rest (put x r) = rest r) \<Longrightarrow> deepCopies (copyPart get put f) (structR get rest R)"
  by (simp add: deepCopies_def structR_def deep_copyable_part)

lemma deepCopies_slice: "elemType T \<Longrightarrow> deepCopies f R \<Longrightarrow> deepCopies (unlessNil (copySlice T f)) (sliceR T R)"
  by (simp add: deepCopies_def sliceR_def deep_copyable_slice)

lemma deepCopies_flat: "elemType T \<Longrightarrow> deepCopies (unlessNil (copyFlat T)) (sliceR T plainR)"
  by (simp add: deepCopies_def sliceR_def plainR_def deep_copyable_flat)

lemma deepCopies_newSlice: "elemType S \<Longrightarrow> elemType T \<Longrightarrow> deepCopies f R \<Longrightarrow> deepCopies (newSlice S (copySlice T f)) (sliceR T R)"
  by (simp add: deepCopies_def sliceR_def deep_copyable_newSlice)

lemma deepCopies_ptr: "elemType T \<Longrightarrow> deepCopies f R \<Longrightarrow> deepCopies (newCopy T f) (ptrR T R)"
  by (simp add: deepCopies_def ptrR_def deep_copyable_ptr)

lemma deepCopies_unlessNone: "deepCopies f (ptrR T R) \<Longrightarrow> deepCopies (unlessNone f) (ptrR T R)"
  by (simp add: deepCopies_def ptrR_def deep_copyable_unlessNone)

end
