(* ===== verification/DeepCopy.thy ===== *)
theory DeepCopy
  imports GoHeap Notifications FleetRecords K8s_Types
begin

text \<open>
  The generated deep copies (\<^verbatim>\<open>api/v1alpha1/zz_generated.deepcopy.go\<close>), over the heap of \<open>GoHeap\<close>: here the resources are
  structs with slices and pointers into the heap, not the values of the other theories. \<open>DeepCopyInto\<close> gives the struct that is
  written to \<open>out\<close>, and the heap.

  The metadata of Kubernetes belong to another package: their types are \<open>'om\<close> and \<open>'lm\<close>, they may own cells \<open>'x\<close>, and their methods
  are the parameter \<open>Metav1\<close>. What is relied on is that these make deep copies too (\<open>metav1_ok\<close>).
\<close>

section \<open>Model\<close>

text \<open>Two strings.\<close>
type_synonym TypeMeta = "string \<times> string"

record hAgentConfig =
  hac_OcmBaseUrl :: string
  hac_Services :: slice

record hOcmAgentSpec =
  hoas_AgentConfig :: hAgentConfig
  hoas_OcmAgentImage :: string
  hoas_TokenSecret :: string
  hoas_Replicas :: int32
  hoas_FleetMode :: bool

record hFleetNotification =
  hfn_Name :: string
  hfn_Summary :: string
  hfn_NotificationMessage :: string
  hfn_LogType :: string
  hfn_References :: slice
  hfn_Severity :: NotificationSeverity
  hfn_ResendWait :: int32
  hfn_LimitedSupport :: bool

record hManagedFleetNotificationSpec =
  hmfns_FleetNotification :: hFleetNotification

record hNotification =
  hn_Name :: string
  hn_Summary :: string
  hn_ActiveDesc :: string
  hn_ResolvedDesc :: string
  hn_LogType :: string
  hn_References :: slice
  hn_Severity :: NotificationSeverity
  hn_ResendWait :: int32

record hManagedNotificationSpec =
  hmns_Notifications :: slice

record hNotificationCondition =
  hnc_Type :: NotificationConditionType
  hnc_Status :: ConditionStatus
  hnc_LastTransitionTime :: pointer
  hnc_Reason :: string

record hNotificationRecord =
  hnr_Name :: string
  hnr_ServiceLogSentCount :: int32
  hnr_Conditions :: slice

record hManagedNotificationStatus =
  hmnst_NotificationRecords :: slice

record hNotificationRecordItem =
  hnri_HostedClusterID :: string
  hnri_FiringNotificationSentCount :: int64
  hnri_ResolvedNotificationSentCount :: int64
  hnri_LastTransitionTime :: pointer

record hNotificationRecordByName =
  hnrbn_NotificationName :: string
  hnrbn_ResendWait :: int32
  hnrbn_NotificationRecordItems :: slice

record hManagedFleetNotificationRecordStatus =
  hmfnrs_ManagementCluster :: string
  hmfnrs_NotificationRecordByName :: slice

record 'om hOcmAgent =
  hoa_TypeMeta :: TypeMeta
  hoa_ObjectMeta :: 'om
  hoa_Spec :: hOcmAgentSpec
  hoa_Status :: OcmAgentStatus

record 'om hManagedNotification =
  hmn_TypeMeta :: TypeMeta
  hmn_ObjectMeta :: 'om
  hmn_Spec :: hManagedNotificationSpec
  hmn_Status :: hManagedNotificationStatus

record 'om hManagedFleetNotification =
  hmfn_TypeMeta :: TypeMeta
  hmfn_ObjectMeta :: 'om
  hmfn_Spec :: hManagedFleetNotificationSpec

record 'om hManagedFleetNotificationRecord =
  hmfnr_TypeMeta :: TypeMeta
  hmfnr_ObjectMeta :: 'om
  hmfnr_Status :: hManagedFleetNotificationRecordStatus

record 'lm hOcmAgentList =
  hoal_TypeMeta :: TypeMeta
  hoal_ListMeta :: 'lm
  hoal_Items :: slice

record 'lm hManagedNotificationList =
  hmnl_TypeMeta :: TypeMeta
  hmnl_ListMeta :: 'lm
  hmnl_Items :: slice

record 'lm hManagedFleetNotificationList =
  hmfnl_TypeMeta :: TypeMeta
  hmfnl_ListMeta :: 'lm
  hmfnl_Items :: slice

record 'lm hManagedFleetNotificationRecordList =
  hmfnrl_TypeMeta :: TypeMeta
  hmfnrl_ListMeta :: 'lm
  hmfnrl_Items :: slice

text \<open>The arrays of each type, those that \<open>new\<close> makes included.\<close>
datatype ('om, 'lm, 'x) cell =
    AString "string list"
  | ATime "Time list"
  | ASlice "slice list"
  | AAgentConfig "hAgentConfig list"
  | AOcmAgentSpec "hOcmAgentSpec list"
  | AFleetNotification "hFleetNotification list"
  | AManagedFleetNotificationSpec "hManagedFleetNotificationSpec list"
  | ANotification "hNotification list"
  | AManagedNotificationSpec "hManagedNotificationSpec list"
  | ANotificationCondition "hNotificationCondition list"
  | ANotificationRecord "hNotificationRecord list"
  | AManagedNotificationStatus "hManagedNotificationStatus list"
  | ANotificationRecordItem "hNotificationRecordItem list"
  | ANotificationRecordByName "hNotificationRecordByName list"
  | AManagedFleetNotificationRecordStatus "hManagedFleetNotificationRecordStatus list"
  | AOcmAgentStatus "OcmAgentStatus list"
  | AOcmAgent "('om hOcmAgent) list"
  | AManagedNotification "('om hManagedNotification) list"
  | AManagedFleetNotification "('om hManagedFleetNotification) list"
  | AManagedFleetNotificationRecord "('om hManagedFleetNotificationRecord) list"
  | AOcmAgentList "('lm hOcmAgentList) list"
  | AManagedNotificationList "('lm hManagedNotificationList) list"
  | AManagedFleetNotificationList "('lm hManagedFleetNotificationList) list"
  | AManagedFleetNotificationRecordList "('lm hManagedFleetNotificationRecordList) list"
  | AOther 'x

text \<open>The methods of \<open>metav1\<close>, and its zero values.\<close>
record ('om, 'lm, 'x) Metav1 =
  m_Time_DeepCopy :: "(('om, 'lm, 'x) cell, pointer) copier"
  m_ObjectMeta_DeepCopyInto :: "(('om, 'lm, 'x) cell, 'om) copier"
  m_ListMeta_DeepCopyInto :: "(('om, 'lm, 'x) cell, 'lm) copier"
  m_ObjectMeta_zero :: 'om
  m_ListMeta_zero :: 'lm

subsection \<open>Types of elements\<close>

definition tString :: "(('om, 'lm, 'x) cell, string) ElemType" where
  "tString = \<lparr>et_Cell = AString, et_Elems = (\<lambda>c. case c of AString xs \<Rightarrow> Some xs | _ \<Rightarrow> None),
     et_Zero = ''''\<rparr>"

definition tTime :: "(('om, 'lm, 'x) cell, Time) ElemType" where
  "tTime = \<lparr>et_Cell = ATime, et_Elems = (\<lambda>c. case c of ATime xs \<Rightarrow> Some xs | _ \<Rightarrow> None),
     et_Zero = 0\<rparr>"

definition tSlice :: "(('om, 'lm, 'x) cell, slice) ElemType" where
  "tSlice = \<lparr>et_Cell = ASlice, et_Elems = (\<lambda>c. case c of ASlice xs \<Rightarrow> Some xs | _ \<Rightarrow> None),
     et_Zero = NilSlice\<rparr>"

definition tAgentConfig :: "(('om, 'lm, 'x) cell, hAgentConfig) ElemType" where
  "tAgentConfig = \<lparr>et_Cell = AAgentConfig, et_Elems = (\<lambda>c. case c of AAgentConfig xs \<Rightarrow> Some xs | _ \<Rightarrow> None),
     et_Zero = \<lparr>hac_OcmBaseUrl = '''', hac_Services = NilSlice\<rparr>\<rparr>"

definition tOcmAgentSpec :: "(('om, 'lm, 'x) cell, hOcmAgentSpec) ElemType" where
  "tOcmAgentSpec = \<lparr>et_Cell = AOcmAgentSpec, et_Elems = (\<lambda>c. case c of AOcmAgentSpec xs \<Rightarrow> Some xs | _ \<Rightarrow> None),
     et_Zero = \<lparr>hoas_AgentConfig = \<lparr>hac_OcmBaseUrl = '''', hac_Services = NilSlice\<rparr>, hoas_OcmAgentImage = '''', hoas_TokenSecret = '''', hoas_Replicas = 0, hoas_FleetMode = False\<rparr>\<rparr>"

definition tFleetNotification :: "(('om, 'lm, 'x) cell, hFleetNotification) ElemType" where
  "tFleetNotification = \<lparr>et_Cell = AFleetNotification, et_Elems = (\<lambda>c. case c of AFleetNotification xs \<Rightarrow> Some xs | _ \<Rightarrow> None),
     et_Zero = \<lparr>hfn_Name = '''', hfn_Summary = '''', hfn_NotificationMessage = '''', hfn_LogType = '''', hfn_References = NilSlice, hfn_Severity = '''', hfn_ResendWait = 0, hfn_LimitedSupport = False\<rparr>\<rparr>"

definition tManagedFleetNotificationSpec :: "(('om, 'lm, 'x) cell, hManagedFleetNotificationSpec) ElemType" where
  "tManagedFleetNotificationSpec = \<lparr>et_Cell = AManagedFleetNotificationSpec, et_Elems = (\<lambda>c. case c of AManagedFleetNotificationSpec xs \<Rightarrow> Some xs | _ \<Rightarrow> None),
     et_Zero = \<lparr>hmfns_FleetNotification = \<lparr>hfn_Name = '''', hfn_Summary = '''', hfn_NotificationMessage = '''', hfn_LogType = '''', hfn_References = NilSlice, hfn_Severity = '''', hfn_ResendWait = 0, hfn_LimitedSupport = False\<rparr>\<rparr>\<rparr>"

definition tNotification :: "(('om, 'lm, 'x) cell, hNotification) ElemType" where
  "tNotification = \<lparr>et_Cell = ANotification, et_Elems = (\<lambda>c. case c of ANotification xs \<Rightarrow> Some xs | _ \<Rightarrow> None),
     et_Zero = \<lparr>hn_Name = '''', hn_Summary = '''', hn_ActiveDesc = '''', hn_ResolvedDesc = '''', hn_LogType = '''', hn_References = NilSlice, hn_Severity = '''', hn_ResendWait = 0\<rparr>\<rparr>"

definition tManagedNotificationSpec :: "(('om, 'lm, 'x) cell, hManagedNotificationSpec) ElemType" where
  "tManagedNotificationSpec = \<lparr>et_Cell = AManagedNotificationSpec, et_Elems = (\<lambda>c. case c of AManagedNotificationSpec xs \<Rightarrow> Some xs | _ \<Rightarrow> None),
     et_Zero = \<lparr>hmns_Notifications = NilSlice\<rparr>\<rparr>"

definition tNotificationCondition :: "(('om, 'lm, 'x) cell, hNotificationCondition) ElemType" where
  "tNotificationCondition = \<lparr>et_Cell = ANotificationCondition, et_Elems = (\<lambda>c. case c of ANotificationCondition xs \<Rightarrow> Some xs | _ \<Rightarrow> None),
     et_Zero = \<lparr>hnc_Type = '''', hnc_Status = '''', hnc_LastTransitionTime = None, hnc_Reason = ''''\<rparr>\<rparr>"

definition tNotificationRecord :: "(('om, 'lm, 'x) cell, hNotificationRecord) ElemType" where
  "tNotificationRecord = \<lparr>et_Cell = ANotificationRecord, et_Elems = (\<lambda>c. case c of ANotificationRecord xs \<Rightarrow> Some xs | _ \<Rightarrow> None),
     et_Zero = \<lparr>hnr_Name = '''', hnr_ServiceLogSentCount = 0, hnr_Conditions = NilSlice\<rparr>\<rparr>"

definition tManagedNotificationStatus :: "(('om, 'lm, 'x) cell, hManagedNotificationStatus) ElemType" where
  "tManagedNotificationStatus = \<lparr>et_Cell = AManagedNotificationStatus, et_Elems = (\<lambda>c. case c of AManagedNotificationStatus xs \<Rightarrow> Some xs | _ \<Rightarrow> None),
     et_Zero = \<lparr>hmnst_NotificationRecords = NilSlice\<rparr>\<rparr>"

definition tNotificationRecordItem :: "(('om, 'lm, 'x) cell, hNotificationRecordItem) ElemType" where
  "tNotificationRecordItem = \<lparr>et_Cell = ANotificationRecordItem, et_Elems = (\<lambda>c. case c of ANotificationRecordItem xs \<Rightarrow> Some xs | _ \<Rightarrow> None),
     et_Zero = \<lparr>hnri_HostedClusterID = '''', hnri_FiringNotificationSentCount = 0, hnri_ResolvedNotificationSentCount = 0, hnri_LastTransitionTime = None\<rparr>\<rparr>"

definition tNotificationRecordByName :: "(('om, 'lm, 'x) cell, hNotificationRecordByName) ElemType" where
  "tNotificationRecordByName = \<lparr>et_Cell = ANotificationRecordByName, et_Elems = (\<lambda>c. case c of ANotificationRecordByName xs \<Rightarrow> Some xs | _ \<Rightarrow> None),
     et_Zero = \<lparr>hnrbn_NotificationName = '''', hnrbn_ResendWait = 0, hnrbn_NotificationRecordItems = NilSlice\<rparr>\<rparr>"

definition tManagedFleetNotificationRecordStatus :: "(('om, 'lm, 'x) cell, hManagedFleetNotificationRecordStatus) ElemType" where
  "tManagedFleetNotificationRecordStatus = \<lparr>et_Cell = AManagedFleetNotificationRecordStatus, et_Elems = (\<lambda>c. case c of AManagedFleetNotificationRecordStatus xs \<Rightarrow> Some xs | _ \<Rightarrow> None),
     et_Zero = \<lparr>hmfnrs_ManagementCluster = '''', hmfnrs_NotificationRecordByName = NilSlice\<rparr>\<rparr>"

definition tOcmAgentStatus :: "(('om, 'lm, 'x) cell, OcmAgentStatus) ElemType" where
  "tOcmAgentStatus = \<lparr>et_Cell = AOcmAgentStatus, et_Elems = (\<lambda>c. case c of AOcmAgentStatus xs \<Rightarrow> Some xs | _ \<Rightarrow> None),
     et_Zero = \<lparr>oast_ServiceStatus = '''', oast_AvailableReplicas = 0\<rparr>\<rparr>"

definition tOcmAgent :: "('om, 'lm, 'x) Metav1 \<Rightarrow> (('om, 'lm, 'x) cell, 'om hOcmAgent) ElemType" where
  "tOcmAgent m = \<lparr>et_Cell = AOcmAgent, et_Elems = (\<lambda>c. case c of AOcmAgent xs \<Rightarrow> Some xs | _ \<Rightarrow> None),
     et_Zero = \<lparr>hoa_TypeMeta = ('''', ''''), hoa_ObjectMeta = m_ObjectMeta_zero m, hoa_Spec = \<lparr>hoas_AgentConfig = \<lparr>hac_OcmBaseUrl = '''', hac_Services = NilSlice\<rparr>, hoas_OcmAgentImage = '''', hoas_TokenSecret = '''', hoas_Replicas = 0, hoas_FleetMode = False\<rparr>, hoa_Status = \<lparr>oast_ServiceStatus = '''', oast_AvailableReplicas = 0\<rparr>\<rparr>\<rparr>"

definition tManagedNotification :: "('om, 'lm, 'x) Metav1 \<Rightarrow> (('om, 'lm, 'x) cell, 'om hManagedNotification) ElemType" where
  "tManagedNotification m = \<lparr>et_Cell = AManagedNotification, et_Elems = (\<lambda>c. case c of AManagedNotification xs \<Rightarrow> Some xs | _ \<Rightarrow> None),
     et_Zero = \<lparr>hmn_TypeMeta = ('''', ''''), hmn_ObjectMeta = m_ObjectMeta_zero m, hmn_Spec = \<lparr>hmns_Notifications = NilSlice\<rparr>, hmn_Status = \<lparr>hmnst_NotificationRecords = NilSlice\<rparr>\<rparr>\<rparr>"

definition tManagedFleetNotification :: "('om, 'lm, 'x) Metav1 \<Rightarrow> (('om, 'lm, 'x) cell, 'om hManagedFleetNotification) ElemType" where
  "tManagedFleetNotification m = \<lparr>et_Cell = AManagedFleetNotification, et_Elems = (\<lambda>c. case c of AManagedFleetNotification xs \<Rightarrow> Some xs | _ \<Rightarrow> None),
     et_Zero = \<lparr>hmfn_TypeMeta = ('''', ''''), hmfn_ObjectMeta = m_ObjectMeta_zero m, hmfn_Spec = \<lparr>hmfns_FleetNotification = \<lparr>hfn_Name = '''', hfn_Summary = '''', hfn_NotificationMessage = '''', hfn_LogType = '''', hfn_References = NilSlice, hfn_Severity = '''', hfn_ResendWait = 0, hfn_LimitedSupport = False\<rparr>\<rparr>\<rparr>\<rparr>"

definition tManagedFleetNotificationRecord :: "('om, 'lm, 'x) Metav1 \<Rightarrow> (('om, 'lm, 'x) cell, 'om hManagedFleetNotificationRecord) ElemType" where
  "tManagedFleetNotificationRecord m = \<lparr>et_Cell = AManagedFleetNotificationRecord, et_Elems = (\<lambda>c. case c of AManagedFleetNotificationRecord xs \<Rightarrow> Some xs | _ \<Rightarrow> None),
     et_Zero = \<lparr>hmfnr_TypeMeta = ('''', ''''), hmfnr_ObjectMeta = m_ObjectMeta_zero m, hmfnr_Status = \<lparr>hmfnrs_ManagementCluster = '''', hmfnrs_NotificationRecordByName = NilSlice\<rparr>\<rparr>\<rparr>"

definition tOcmAgentList :: "('om, 'lm, 'x) Metav1 \<Rightarrow> (('om, 'lm, 'x) cell, 'lm hOcmAgentList) ElemType" where
  "tOcmAgentList m = \<lparr>et_Cell = AOcmAgentList, et_Elems = (\<lambda>c. case c of AOcmAgentList xs \<Rightarrow> Some xs | _ \<Rightarrow> None),
     et_Zero = \<lparr>hoal_TypeMeta = ('''', ''''), hoal_ListMeta = m_ListMeta_zero m, hoal_Items = NilSlice\<rparr>\<rparr>"

definition tManagedNotificationList :: "('om, 'lm, 'x) Metav1 \<Rightarrow> (('om, 'lm, 'x) cell, 'lm hManagedNotificationList) ElemType" where
  "tManagedNotificationList m = \<lparr>et_Cell = AManagedNotificationList, et_Elems = (\<lambda>c. case c of AManagedNotificationList xs \<Rightarrow> Some xs | _ \<Rightarrow> None),
     et_Zero = \<lparr>hmnl_TypeMeta = ('''', ''''), hmnl_ListMeta = m_ListMeta_zero m, hmnl_Items = NilSlice\<rparr>\<rparr>"

definition tManagedFleetNotificationList :: "('om, 'lm, 'x) Metav1 \<Rightarrow> (('om, 'lm, 'x) cell, 'lm hManagedFleetNotificationList) ElemType" where
  "tManagedFleetNotificationList m = \<lparr>et_Cell = AManagedFleetNotificationList, et_Elems = (\<lambda>c. case c of AManagedFleetNotificationList xs \<Rightarrow> Some xs | _ \<Rightarrow> None),
     et_Zero = \<lparr>hmfnl_TypeMeta = ('''', ''''), hmfnl_ListMeta = m_ListMeta_zero m, hmfnl_Items = NilSlice\<rparr>\<rparr>"

definition tManagedFleetNotificationRecordList :: "('om, 'lm, 'x) Metav1 \<Rightarrow> (('om, 'lm, 'x) cell, 'lm hManagedFleetNotificationRecordList) ElemType" where
  "tManagedFleetNotificationRecordList m = \<lparr>et_Cell = AManagedFleetNotificationRecordList, et_Elems = (\<lambda>c. case c of AManagedFleetNotificationRecordList xs \<Rightarrow> Some xs | _ \<Rightarrow> None),
     et_Zero = \<lparr>hmfnrl_TypeMeta = ('''', ''''), hmfnrl_ListMeta = m_ListMeta_zero m, hmfnrl_Items = NilSlice\<rparr>\<rparr>"

subsection \<open>Methods\<close>

definition AgentConfig_DeepCopyInto :: "(('om, 'lm, 'x) cell, hAgentConfig) copier" where
  "AgentConfig_DeepCopyInto inp h =
     (let out = inp in
      if hac_Services inp \<noteq> NilSlice
      then let (s, h) = copyFlat tString (hac_Services inp) h in (out\<lparr>hac_Services := s\<rparr>, h)
      else (out, h))"

definition AgentConfig_DeepCopy :: "(('om, 'lm, 'x) cell, pointer) copier" where
  "AgentConfig_DeepCopy inp h = newCopy tAgentConfig AgentConfig_DeepCopyInto inp h"

definition OcmAgentSpec_DeepCopyInto :: "(('om, 'lm, 'x) cell, hOcmAgentSpec) copier" where
  "OcmAgentSpec_DeepCopyInto inp h =
     (let out = inp;
          (x, h) = AgentConfig_DeepCopyInto (hoas_AgentConfig inp) h
      in (out\<lparr>hoas_AgentConfig := x\<rparr>, h))"

definition OcmAgentSpec_DeepCopy :: "(('om, 'lm, 'x) cell, pointer) copier" where
  "OcmAgentSpec_DeepCopy inp h = newCopy tOcmAgentSpec OcmAgentSpec_DeepCopyInto inp h"

definition FleetNotification_DeepCopyInto :: "(('om, 'lm, 'x) cell, hFleetNotification) copier" where
  "FleetNotification_DeepCopyInto inp h =
     (let out = inp in
      if hfn_References inp \<noteq> NilSlice
      then let (s, h) = copyFlat tString (hfn_References inp) h in (out\<lparr>hfn_References := s\<rparr>, h)
      else (out, h))"

definition FleetNotification_DeepCopy :: "(('om, 'lm, 'x) cell, pointer) copier" where
  "FleetNotification_DeepCopy inp h = newCopy tFleetNotification FleetNotification_DeepCopyInto inp h"

definition ManagedFleetNotificationSpec_DeepCopyInto :: "(('om, 'lm, 'x) cell, hManagedFleetNotificationSpec) copier" where
  "ManagedFleetNotificationSpec_DeepCopyInto inp h =
     (let out = inp;
          (x, h) = FleetNotification_DeepCopyInto (hmfns_FleetNotification inp) h
      in (out\<lparr>hmfns_FleetNotification := x\<rparr>, h))"

definition ManagedFleetNotificationSpec_DeepCopy :: "(('om, 'lm, 'x) cell, pointer) copier" where
  "ManagedFleetNotificationSpec_DeepCopy inp h = newCopy tManagedFleetNotificationSpec ManagedFleetNotificationSpec_DeepCopyInto inp h"

definition Notification_DeepCopyInto :: "(('om, 'lm, 'x) cell, hNotification) copier" where
  "Notification_DeepCopyInto inp h =
     (let out = inp in
      if hn_References inp \<noteq> NilSlice
      then let (s, h) = copyFlat tString (hn_References inp) h in (out\<lparr>hn_References := s\<rparr>, h)
      else (out, h))"

definition Notification_DeepCopy :: "(('om, 'lm, 'x) cell, pointer) copier" where
  "Notification_DeepCopy inp h = newCopy tNotification Notification_DeepCopyInto inp h"

definition ManagedNotificationSpec_DeepCopyInto :: "(('om, 'lm, 'x) cell, hManagedNotificationSpec) copier" where
  "ManagedNotificationSpec_DeepCopyInto inp h =
     (let out = inp in
      if hmns_Notifications inp \<noteq> NilSlice
      then let (s, h) = copySlice tNotification Notification_DeepCopyInto (hmns_Notifications inp) h in (out\<lparr>hmns_Notifications := s\<rparr>, h)
      else (out, h))"

definition ManagedNotificationSpec_DeepCopy :: "(('om, 'lm, 'x) cell, pointer) copier" where
  "ManagedNotificationSpec_DeepCopy inp h = newCopy tManagedNotificationSpec ManagedNotificationSpec_DeepCopyInto inp h"

definition NotificationCondition_DeepCopyInto :: "('om, 'lm, 'x) Metav1 \<Rightarrow> (('om, 'lm, 'x) cell, hNotificationCondition) copier" where
  "NotificationCondition_DeepCopyInto m inp h =
     (let out = inp in
      if hnc_LastTransitionTime inp \<noteq> None
      then let (t, h) = m_Time_DeepCopy m (hnc_LastTransitionTime inp) h in (out\<lparr>hnc_LastTransitionTime := t\<rparr>, h)
      else (out, h))"

definition NotificationCondition_DeepCopy :: "('om, 'lm, 'x) Metav1 \<Rightarrow> (('om, 'lm, 'x) cell, pointer) copier" where
  "NotificationCondition_DeepCopy m inp h = newCopy tNotificationCondition (NotificationCondition_DeepCopyInto m) inp h"

definition Conditions_DeepCopyInto :: "('om, 'lm, 'x) Metav1 \<Rightarrow> (('om, 'lm, 'x) cell, slice) copier" where
  "Conditions_DeepCopyInto m inp h = copySlice tNotificationCondition (NotificationCondition_DeepCopyInto m) inp h"

definition Conditions_DeepCopy :: "('om, 'lm, 'x) Metav1 \<Rightarrow> (('om, 'lm, 'x) cell, slice) copier" where
  "Conditions_DeepCopy m inp h = newSlice tSlice (Conditions_DeepCopyInto m) inp h"

definition NotificationRecord_DeepCopyInto :: "('om, 'lm, 'x) Metav1 \<Rightarrow> (('om, 'lm, 'x) cell, hNotificationRecord) copier" where
  "NotificationRecord_DeepCopyInto m inp h =
     (let out = inp in
      if hnr_Conditions inp \<noteq> NilSlice
      then let (s, h) = copySlice tNotificationCondition (NotificationCondition_DeepCopyInto m) (hnr_Conditions inp) h in (out\<lparr>hnr_Conditions := s\<rparr>, h)
      else (out, h))"

definition NotificationRecord_DeepCopy :: "('om, 'lm, 'x) Metav1 \<Rightarrow> (('om, 'lm, 'x) cell, pointer) copier" where
  "NotificationRecord_DeepCopy m inp h = newCopy tNotificationRecord (NotificationRecord_DeepCopyInto m) inp h"

definition NotificationRecords_DeepCopyInto :: "('om, 'lm, 'x) Metav1 \<Rightarrow> (('om, 'lm, 'x) cell, slice) copier" where
  "NotificationRecords_DeepCopyInto m inp h = copySlice tNotificationRecord (NotificationRecord_DeepCopyInto m) inp h"

definition NotificationRecords_DeepCopy :: "('om, 'lm, 'x) Metav1 \<Rightarrow> (('om, 'lm, 'x) cell, slice) copier" where
  "NotificationRecords_DeepCopy m inp h = newSlice tSlice (NotificationRecords_DeepCopyInto m) inp h"

definition ManagedNotificationStatus_DeepCopyInto :: "('om, 'lm, 'x) Metav1 \<Rightarrow> (('om, 'lm, 'x) cell, hManagedNotificationStatus) copier" where
  "ManagedNotificationStatus_DeepCopyInto m inp h =
     (let out = inp in
      if hmnst_NotificationRecords inp \<noteq> NilSlice
      then let (s, h) = copySlice tNotificationRecord (NotificationRecord_DeepCopyInto m) (hmnst_NotificationRecords inp) h in (out\<lparr>hmnst_NotificationRecords := s\<rparr>, h)
      else (out, h))"

definition ManagedNotificationStatus_DeepCopy :: "('om, 'lm, 'x) Metav1 \<Rightarrow> (('om, 'lm, 'x) cell, pointer) copier" where
  "ManagedNotificationStatus_DeepCopy m inp h = newCopy tManagedNotificationStatus (ManagedNotificationStatus_DeepCopyInto m) inp h"

definition NotificationRecordItem_DeepCopyInto :: "('om, 'lm, 'x) Metav1 \<Rightarrow> (('om, 'lm, 'x) cell, hNotificationRecordItem) copier" where
  "NotificationRecordItem_DeepCopyInto m inp h =
     (let out = inp in
      if hnri_LastTransitionTime inp \<noteq> None
      then let (t, h) = m_Time_DeepCopy m (hnri_LastTransitionTime inp) h in (out\<lparr>hnri_LastTransitionTime := t\<rparr>, h)
      else (out, h))"

definition NotificationRecordItem_DeepCopy :: "('om, 'lm, 'x) Metav1 \<Rightarrow> (('om, 'lm, 'x) cell, pointer) copier" where
  "NotificationRecordItem_DeepCopy m inp h = newCopy tNotificationRecordItem (NotificationRecordItem_DeepCopyInto m) inp h"

definition NotificationRecordByName_DeepCopyInto :: "('om, 'lm, 'x) Metav1 \<Rightarrow> (('om, 'lm, 'x) cell, hNotificationRecordByName) copier" where
  "NotificationRecordByName_DeepCopyInto m inp h =
     (let out = inp in
      if hnrbn_NotificationRecordItems inp \<noteq> NilSlice
      then let (s, h) = copySlice tNotificationRecordItem (NotificationRecordItem_DeepCopyInto m) (hnrbn_NotificationRecordItems inp) h in (out\<lparr>hnrbn_NotificationRecordItems := s\<rparr>, h)
      else (out, h))"

definition NotificationRecordByName_DeepCopy :: "('om, 'lm, 'x) Metav1 \<Rightarrow> (('om, 'lm, 'x) cell, pointer) copier" where
  "NotificationRecordByName_DeepCopy m inp h = newCopy tNotificationRecordByName (NotificationRecordByName_DeepCopyInto m) inp h"

definition ManagedFleetNotificationRecordStatus_DeepCopyInto :: "('om, 'lm, 'x) Metav1 \<Rightarrow> (('om, 'lm, 'x) cell, hManagedFleetNotificationRecordStatus) copier" where
  "ManagedFleetNotificationRecordStatus_DeepCopyInto m inp h =
     (let out = inp in
      if hmfnrs_NotificationRecordByName inp \<noteq> NilSlice
      then let (s, h) = copySlice tNotificationRecordByName (NotificationRecordByName_DeepCopyInto m) (hmfnrs_NotificationRecordByName inp) h in (out\<lparr>hmfnrs_NotificationRecordByName := s\<rparr>, h)
      else (out, h))"

definition ManagedFleetNotificationRecordStatus_DeepCopy :: "('om, 'lm, 'x) Metav1 \<Rightarrow> (('om, 'lm, 'x) cell, pointer) copier" where
  "ManagedFleetNotificationRecordStatus_DeepCopy m inp h = newCopy tManagedFleetNotificationRecordStatus (ManagedFleetNotificationRecordStatus_DeepCopyInto m) inp h"

definition OcmAgentStatus_DeepCopyInto :: "(('om, 'lm, 'x) cell, OcmAgentStatus) copier" where
  "OcmAgentStatus_DeepCopyInto inp h =
     (inp, h)"

definition OcmAgentStatus_DeepCopy :: "(('om, 'lm, 'x) cell, pointer) copier" where
  "OcmAgentStatus_DeepCopy inp h = newCopy tOcmAgentStatus OcmAgentStatus_DeepCopyInto inp h"

definition OcmAgent_DeepCopyInto :: "('om, 'lm, 'x) Metav1 \<Rightarrow> (('om, 'lm, 'x) cell, 'om hOcmAgent) copier" where
  "OcmAgent_DeepCopyInto m inp h =
     (let out = inp;
          out = out\<lparr>hoa_TypeMeta := hoa_TypeMeta inp\<rparr>;
          (x, h) = m_ObjectMeta_DeepCopyInto m (hoa_ObjectMeta inp) h;
          out = out\<lparr>hoa_ObjectMeta := x\<rparr>;
          (x, h) = OcmAgentSpec_DeepCopyInto (hoa_Spec inp) h;
          out = out\<lparr>hoa_Spec := x\<rparr>;
          out = out\<lparr>hoa_Status := hoa_Status inp\<rparr>
      in (out, h))"

definition OcmAgent_DeepCopy :: "('om, 'lm, 'x) Metav1 \<Rightarrow> (('om, 'lm, 'x) cell, pointer) copier" where
  "OcmAgent_DeepCopy m inp h = newCopy (tOcmAgent m) (OcmAgent_DeepCopyInto m) inp h"

definition ManagedNotification_DeepCopyInto :: "('om, 'lm, 'x) Metav1 \<Rightarrow> (('om, 'lm, 'x) cell, 'om hManagedNotification) copier" where
  "ManagedNotification_DeepCopyInto m inp h =
     (let out = inp;
          out = out\<lparr>hmn_TypeMeta := hmn_TypeMeta inp\<rparr>;
          (x, h) = m_ObjectMeta_DeepCopyInto m (hmn_ObjectMeta inp) h;
          out = out\<lparr>hmn_ObjectMeta := x\<rparr>;
          (x, h) = ManagedNotificationSpec_DeepCopyInto (hmn_Spec inp) h;
          out = out\<lparr>hmn_Spec := x\<rparr>;
          (x, h) = ManagedNotificationStatus_DeepCopyInto m (hmn_Status inp) h;
          out = out\<lparr>hmn_Status := x\<rparr>
      in (out, h))"

definition ManagedNotification_DeepCopy :: "('om, 'lm, 'x) Metav1 \<Rightarrow> (('om, 'lm, 'x) cell, pointer) copier" where
  "ManagedNotification_DeepCopy m inp h = newCopy (tManagedNotification m) (ManagedNotification_DeepCopyInto m) inp h"

definition ManagedFleetNotification_DeepCopyInto :: "('om, 'lm, 'x) Metav1 \<Rightarrow> (('om, 'lm, 'x) cell, 'om hManagedFleetNotification) copier" where
  "ManagedFleetNotification_DeepCopyInto m inp h =
     (let out = inp;
          out = out\<lparr>hmfn_TypeMeta := hmfn_TypeMeta inp\<rparr>;
          (x, h) = m_ObjectMeta_DeepCopyInto m (hmfn_ObjectMeta inp) h;
          out = out\<lparr>hmfn_ObjectMeta := x\<rparr>;
          (x, h) = ManagedFleetNotificationSpec_DeepCopyInto (hmfn_Spec inp) h;
          out = out\<lparr>hmfn_Spec := x\<rparr>
      in (out, h))"

definition ManagedFleetNotification_DeepCopy :: "('om, 'lm, 'x) Metav1 \<Rightarrow> (('om, 'lm, 'x) cell, pointer) copier" where
  "ManagedFleetNotification_DeepCopy m inp h = newCopy (tManagedFleetNotification m) (ManagedFleetNotification_DeepCopyInto m) inp h"

definition ManagedFleetNotificationRecord_DeepCopyInto :: "('om, 'lm, 'x) Metav1 \<Rightarrow> (('om, 'lm, 'x) cell, 'om hManagedFleetNotificationRecord) copier" where
  "ManagedFleetNotificationRecord_DeepCopyInto m inp h =
     (let out = inp;
          out = out\<lparr>hmfnr_TypeMeta := hmfnr_TypeMeta inp\<rparr>;
          (x, h) = m_ObjectMeta_DeepCopyInto m (hmfnr_ObjectMeta inp) h;
          out = out\<lparr>hmfnr_ObjectMeta := x\<rparr>;
          (x, h) = ManagedFleetNotificationRecordStatus_DeepCopyInto m (hmfnr_Status inp) h;
          out = out\<lparr>hmfnr_Status := x\<rparr>
      in (out, h))"

definition ManagedFleetNotificationRecord_DeepCopy :: "('om, 'lm, 'x) Metav1 \<Rightarrow> (('om, 'lm, 'x) cell, pointer) copier" where
  "ManagedFleetNotificationRecord_DeepCopy m inp h = newCopy (tManagedFleetNotificationRecord m) (ManagedFleetNotificationRecord_DeepCopyInto m) inp h"

definition OcmAgentList_DeepCopyInto :: "('om, 'lm, 'x) Metav1 \<Rightarrow> (('om, 'lm, 'x) cell, 'lm hOcmAgentList) copier" where
  "OcmAgentList_DeepCopyInto m inp h =
     (let out = inp;
          out = out\<lparr>hoal_TypeMeta := hoal_TypeMeta inp\<rparr>;
          (x, h) = m_ListMeta_DeepCopyInto m (hoal_ListMeta inp) h;
          out = out\<lparr>hoal_ListMeta := x\<rparr>
      in if hoal_Items inp \<noteq> NilSlice
         then let (s, h) = copySlice (tOcmAgent m) (OcmAgent_DeepCopyInto m) (hoal_Items inp) h in (out\<lparr>hoal_Items := s\<rparr>, h)
         else (out, h))"

definition OcmAgentList_DeepCopy :: "('om, 'lm, 'x) Metav1 \<Rightarrow> (('om, 'lm, 'x) cell, pointer) copier" where
  "OcmAgentList_DeepCopy m inp h = newCopy (tOcmAgentList m) (OcmAgentList_DeepCopyInto m) inp h"

definition ManagedNotificationList_DeepCopyInto :: "('om, 'lm, 'x) Metav1 \<Rightarrow> (('om, 'lm, 'x) cell, 'lm hManagedNotificationList) copier" where
  "ManagedNotificationList_DeepCopyInto m inp h =
     (let out = inp;
          out = out\<lparr>hmnl_TypeMeta := hmnl_TypeMeta inp\<rparr>;
          (x, h) = m_ListMeta_DeepCopyInto m (hmnl_ListMeta inp) h;
          out = out\<lparr>hmnl_ListMeta := x\<rparr>
      in if hmnl_Items inp \<noteq> NilSlice
         then let (s, h) = copySlice (tManagedNotification m) (ManagedNotification_DeepCopyInto m) (hmnl_Items inp) h in (out\<lparr>hmnl_Items := s\<rparr>, h)
         else (out, h))"

definition ManagedNotificationList_DeepCopy :: "('om, 'lm, 'x) Metav1 \<Rightarrow> (('om, 'lm, 'x) cell, pointer) copier" where
  "ManagedNotificationList_DeepCopy m inp h = newCopy (tManagedNotificationList m) (ManagedNotificationList_DeepCopyInto m) inp h"

definition ManagedFleetNotificationList_DeepCopyInto :: "('om, 'lm, 'x) Metav1 \<Rightarrow> (('om, 'lm, 'x) cell, 'lm hManagedFleetNotificationList) copier" where
  "ManagedFleetNotificationList_DeepCopyInto m inp h =
     (let out = inp;
          out = out\<lparr>hmfnl_TypeMeta := hmfnl_TypeMeta inp\<rparr>;
          (x, h) = m_ListMeta_DeepCopyInto m (hmfnl_ListMeta inp) h;
          out = out\<lparr>hmfnl_ListMeta := x\<rparr>
      in if hmfnl_Items inp \<noteq> NilSlice
         then let (s, h) = copySlice (tManagedFleetNotification m) (ManagedFleetNotification_DeepCopyInto m) (hmfnl_Items inp) h in (out\<lparr>hmfnl_Items := s\<rparr>, h)
         else (out, h))"

definition ManagedFleetNotificationList_DeepCopy :: "('om, 'lm, 'x) Metav1 \<Rightarrow> (('om, 'lm, 'x) cell, pointer) copier" where
  "ManagedFleetNotificationList_DeepCopy m inp h = newCopy (tManagedFleetNotificationList m) (ManagedFleetNotificationList_DeepCopyInto m) inp h"

definition ManagedFleetNotificationRecordList_DeepCopyInto :: "('om, 'lm, 'x) Metav1 \<Rightarrow> (('om, 'lm, 'x) cell, 'lm hManagedFleetNotificationRecordList) copier" where
  "ManagedFleetNotificationRecordList_DeepCopyInto m inp h =
     (let out = inp;
          out = out\<lparr>hmfnrl_TypeMeta := hmfnrl_TypeMeta inp\<rparr>;
          (x, h) = m_ListMeta_DeepCopyInto m (hmfnrl_ListMeta inp) h;
          out = out\<lparr>hmfnrl_ListMeta := x\<rparr>
      in if hmfnrl_Items inp \<noteq> NilSlice
         then let (s, h) = copySlice (tManagedFleetNotificationRecord m) (ManagedFleetNotificationRecord_DeepCopyInto m) (hmfnrl_Items inp) h in (out\<lparr>hmfnrl_Items := s\<rparr>, h)
         else (out, h))"

definition ManagedFleetNotificationRecordList_DeepCopy :: "('om, 'lm, 'x) Metav1 \<Rightarrow> (('om, 'lm, 'x) cell, pointer) copier" where
  "ManagedFleetNotificationRecordList_DeepCopy m inp h = newCopy (tManagedFleetNotificationRecordList m) (ManagedFleetNotificationRecordList_DeepCopyInto m) inp h"

text \<open>A value of the interface \<open>runtime.Object\<close>: nil, or a pointer with the type that it points to.\<close>
datatype RootType = IsOcmAgent | IsOcmAgentList | IsManagedNotification | IsManagedNotificationList | IsManagedFleetNotification | IsManagedFleetNotificationList | IsManagedFleetNotificationRecord | IsManagedFleetNotificationRecordList

type_synonym RuntimeObject = "(RootType \<times> pointer) option"

definition OcmAgent_DeepCopyObject :: "('om, 'lm, 'x) Metav1 \<Rightarrow> pointer \<Rightarrow> ('om, 'lm, 'x) cell heap \<Rightarrow> RuntimeObject \<times> ('om, 'lm, 'x) cell heap" where
  "OcmAgent_DeepCopyObject m inp h = (let (c, h) = OcmAgent_DeepCopy m inp h in if c \<noteq> None then (Some (IsOcmAgent, c), h) else (None, h))"

definition OcmAgentList_DeepCopyObject :: "('om, 'lm, 'x) Metav1 \<Rightarrow> pointer \<Rightarrow> ('om, 'lm, 'x) cell heap \<Rightarrow> RuntimeObject \<times> ('om, 'lm, 'x) cell heap" where
  "OcmAgentList_DeepCopyObject m inp h = (let (c, h) = OcmAgentList_DeepCopy m inp h in if c \<noteq> None then (Some (IsOcmAgentList, c), h) else (None, h))"

definition ManagedNotification_DeepCopyObject :: "('om, 'lm, 'x) Metav1 \<Rightarrow> pointer \<Rightarrow> ('om, 'lm, 'x) cell heap \<Rightarrow> RuntimeObject \<times> ('om, 'lm, 'x) cell heap" where
  "ManagedNotification_DeepCopyObject m inp h = (let (c, h) = ManagedNotification_DeepCopy m inp h in if c \<noteq> None then (Some (IsManagedNotification, c), h) else (None, h))"

definition ManagedNotificationList_DeepCopyObject :: "('om, 'lm, 'x) Metav1 \<Rightarrow> pointer \<Rightarrow> ('om, 'lm, 'x) cell heap \<Rightarrow> RuntimeObject \<times> ('om, 'lm, 'x) cell heap" where
  "ManagedNotificationList_DeepCopyObject m inp h = (let (c, h) = ManagedNotificationList_DeepCopy m inp h in if c \<noteq> None then (Some (IsManagedNotificationList, c), h) else (None, h))"

definition ManagedFleetNotification_DeepCopyObject :: "('om, 'lm, 'x) Metav1 \<Rightarrow> pointer \<Rightarrow> ('om, 'lm, 'x) cell heap \<Rightarrow> RuntimeObject \<times> ('om, 'lm, 'x) cell heap" where
  "ManagedFleetNotification_DeepCopyObject m inp h = (let (c, h) = ManagedFleetNotification_DeepCopy m inp h in if c \<noteq> None then (Some (IsManagedFleetNotification, c), h) else (None, h))"

definition ManagedFleetNotificationList_DeepCopyObject :: "('om, 'lm, 'x) Metav1 \<Rightarrow> pointer \<Rightarrow> ('om, 'lm, 'x) cell heap \<Rightarrow> RuntimeObject \<times> ('om, 'lm, 'x) cell heap" where
  "ManagedFleetNotificationList_DeepCopyObject m inp h = (let (c, h) = ManagedFleetNotificationList_DeepCopy m inp h in if c \<noteq> None then (Some (IsManagedFleetNotificationList, c), h) else (None, h))"

definition ManagedFleetNotificationRecord_DeepCopyObject :: "('om, 'lm, 'x) Metav1 \<Rightarrow> pointer \<Rightarrow> ('om, 'lm, 'x) cell heap \<Rightarrow> RuntimeObject \<times> ('om, 'lm, 'x) cell heap" where
  "ManagedFleetNotificationRecord_DeepCopyObject m inp h = (let (c, h) = ManagedFleetNotificationRecord_DeepCopy m inp h in if c \<noteq> None then (Some (IsManagedFleetNotificationRecord, c), h) else (None, h))"

definition ManagedFleetNotificationRecordList_DeepCopyObject :: "('om, 'lm, 'x) Metav1 \<Rightarrow> pointer \<Rightarrow> ('om, 'lm, 'x) cell heap \<Rightarrow> RuntimeObject \<times> ('om, 'lm, 'x) cell heap" where
  "ManagedFleetNotificationRecordList_DeepCopyObject m inp h = (let (c, h) = ManagedFleetNotificationRecordList_DeepCopy m inp h in if c \<noteq> None then (Some (IsManagedFleetNotificationRecordList, c), h) else (None, h))"

text \<open>The call through the interface.\<close>
primrec DeepCopyObject :: "('om, 'lm, 'x) Metav1 \<Rightarrow> RootType \<Rightarrow> pointer \<Rightarrow> ('om, 'lm, 'x) cell heap \<Rightarrow> RuntimeObject \<times> ('om, 'lm, 'x) cell heap" where
  "DeepCopyObject m IsOcmAgent = OcmAgent_DeepCopyObject m"
| "DeepCopyObject m IsOcmAgentList = OcmAgentList_DeepCopyObject m"
| "DeepCopyObject m IsManagedNotification = ManagedNotification_DeepCopyObject m"
| "DeepCopyObject m IsManagedNotificationList = ManagedNotificationList_DeepCopyObject m"
| "DeepCopyObject m IsManagedFleetNotification = ManagedFleetNotification_DeepCopyObject m"
| "DeepCopyObject m IsManagedFleetNotificationList = ManagedFleetNotificationList_DeepCopyObject m"
| "DeepCopyObject m IsManagedFleetNotificationRecord = ManagedFleetNotificationRecord_DeepCopyObject m"
| "DeepCopyObject m IsManagedFleetNotificationRecordList = ManagedFleetNotificationRecordList_DeepCopyObject m"

section \<open>What can be reached from a resource\<close>

abbreviation timeR where
  "timeR \<equiv> ptrR tTime plainR"

abbreviation agentConfigR where
  "agentConfigR \<equiv> structR hac_Services hac_OcmBaseUrl (sliceR tString plainR)"

abbreviation ocmAgentSpecR where
  "ocmAgentSpecR \<equiv> structR hoas_AgentConfig (\<lambda>r. (hoas_OcmAgentImage r, hoas_TokenSecret r, hoas_Replicas r, hoas_FleetMode r)) agentConfigR"

abbreviation fleetNotificationR where
  "fleetNotificationR \<equiv> structR hfn_References (\<lambda>r. (hfn_Name r, hfn_Summary r, hfn_NotificationMessage r, hfn_LogType r, hfn_Severity r, hfn_ResendWait r, hfn_LimitedSupport r)) (sliceR tString plainR)"

abbreviation managedFleetNotificationSpecR where
  "managedFleetNotificationSpecR \<equiv> structR hmfns_FleetNotification (\<lambda>_. ()) fleetNotificationR"

abbreviation notificationR where
  "notificationR \<equiv> structR hn_References (\<lambda>r. (hn_Name r, hn_Summary r, hn_ActiveDesc r, hn_ResolvedDesc r, hn_LogType r, hn_Severity r, hn_ResendWait r)) (sliceR tString plainR)"

abbreviation managedNotificationSpecR where
  "managedNotificationSpecR \<equiv> structR hmns_Notifications (\<lambda>_. ()) (sliceR tNotification notificationR)"

abbreviation notificationConditionR where
  "notificationConditionR \<equiv> structR hnc_LastTransitionTime (\<lambda>r. (hnc_Type r, hnc_Status r, hnc_Reason r)) timeR"

abbreviation notificationRecordR where
  "notificationRecordR \<equiv> structR hnr_Conditions (\<lambda>r. (hnr_Name r, hnr_ServiceLogSentCount r)) (sliceR tNotificationCondition notificationConditionR)"

abbreviation managedNotificationStatusR where
  "managedNotificationStatusR \<equiv> structR hmnst_NotificationRecords (\<lambda>_. ()) (sliceR tNotificationRecord notificationRecordR)"

abbreviation notificationRecordItemR where
  "notificationRecordItemR \<equiv> structR hnri_LastTransitionTime (\<lambda>r. (hnri_HostedClusterID r, hnri_FiringNotificationSentCount r, hnri_ResolvedNotificationSentCount r)) timeR"

abbreviation notificationRecordByNameR where
  "notificationRecordByNameR \<equiv> structR hnrbn_NotificationRecordItems (\<lambda>r. (hnrbn_NotificationName r, hnrbn_ResendWait r)) (sliceR tNotificationRecordItem notificationRecordItemR)"

abbreviation managedFleetNotificationRecordStatusR where
  "managedFleetNotificationRecordStatusR \<equiv> structR hmfnrs_NotificationRecordByName hmfnrs_ManagementCluster (sliceR tNotificationRecordByName notificationRecordByNameR)"

abbreviation ocmAgentStatusR where
  "ocmAgentStatusR \<equiv> plainR"

abbreviation ocmAgentR where
  "ocmAgentR M \<equiv> structR (\<lambda>r. (hoa_ObjectMeta r, hoa_Spec r)) (\<lambda>r. (hoa_TypeMeta r, hoa_Status r)) (bothR M ocmAgentSpecR)"

abbreviation managedNotificationR where
  "managedNotificationR M \<equiv> structR (\<lambda>r. (hmn_ObjectMeta r, hmn_Spec r, hmn_Status r)) (\<lambda>r. (hmn_TypeMeta r)) (bothR M (bothR managedNotificationSpecR managedNotificationStatusR))"

abbreviation managedFleetNotificationR where
  "managedFleetNotificationR M \<equiv> structR (\<lambda>r. (hmfn_ObjectMeta r, hmfn_Spec r)) (\<lambda>r. (hmfn_TypeMeta r)) (bothR M managedFleetNotificationSpecR)"

abbreviation managedFleetNotificationRecordR where
  "managedFleetNotificationRecordR M \<equiv> structR (\<lambda>r. (hmfnr_ObjectMeta r, hmfnr_Status r)) (\<lambda>r. (hmfnr_TypeMeta r)) (bothR M managedFleetNotificationRecordStatusR)"

abbreviation ocmAgentListR where
  "ocmAgentListR M L m \<equiv> structR (\<lambda>r. (hoal_ListMeta r, hoal_Items r)) hoal_TypeMeta (bothR L (sliceR (tOcmAgent m) (ocmAgentR M)))"

abbreviation managedNotificationListR where
  "managedNotificationListR M L m \<equiv> structR (\<lambda>r. (hmnl_ListMeta r, hmnl_Items r)) hmnl_TypeMeta (bothR L (sliceR (tManagedNotification m) (managedNotificationR M)))"

abbreviation managedFleetNotificationListR where
  "managedFleetNotificationListR M L m \<equiv> structR (\<lambda>r. (hmfnl_ListMeta r, hmfnl_Items r)) hmfnl_TypeMeta (bothR L (sliceR (tManagedFleetNotification m) (managedFleetNotificationR M)))"

abbreviation managedFleetNotificationRecordListR where
  "managedFleetNotificationRecordListR M L m \<equiv> structR (\<lambda>r. (hmfnrl_ListMeta r, hmfnrl_Items r)) hmfnrl_TypeMeta (bothR L (sliceR (tManagedFleetNotificationRecord m) (managedFleetNotificationRecordR M)))"

section \<open>The methods make deep copies\<close>

lemma elemTypes [simp]:
  "elemType tString"
  "elemType tTime"
  "elemType tSlice"
  "elemType tAgentConfig"
  "elemType tOcmAgentSpec"
  "elemType tFleetNotification"
  "elemType tManagedFleetNotificationSpec"
  "elemType tNotification"
  "elemType tManagedNotificationSpec"
  "elemType tNotificationCondition"
  "elemType tNotificationRecord"
  "elemType tManagedNotificationStatus"
  "elemType tNotificationRecordItem"
  "elemType tNotificationRecordByName"
  "elemType tManagedFleetNotificationRecordStatus"
  "elemType tOcmAgentStatus"
  "elemType (tOcmAgent m)"
  "elemType (tManagedNotification m)"
  "elemType (tManagedFleetNotification m)"
  "elemType (tManagedFleetNotificationRecord m)"
  "elemType (tOcmAgentList m)"
  "elemType (tManagedNotificationList m)"
  "elemType (tManagedFleetNotificationList m)"
  "elemType (tManagedFleetNotificationRecordList m)"
  by (simp_all add: elemType_def tString_def tTime_def tSlice_def tAgentConfig_def tOcmAgentSpec_def tFleetNotification_def tManagedFleetNotificationSpec_def tNotification_def tManagedNotificationSpec_def tNotificationCondition_def tNotificationRecord_def tManagedNotificationStatus_def tNotificationRecordItem_def tNotificationRecordByName_def tManagedFleetNotificationRecordStatus_def tOcmAgentStatus_def tOcmAgent_def tManagedNotification_def tManagedFleetNotification_def tManagedFleetNotificationRecord_def tOcmAgentList_def tManagedNotificationList_def tManagedFleetNotificationList_def tManagedFleetNotificationRecordList_def)

text \<open>The documented behaviour of \<open>metav1\<close>: its methods make deep copies. \<open>M\<close> and \<open>L\<close> are what can be reached from the metadata.\<close>
definition metav1_ok :: "('om, 'lm, 'x) Metav1 \<Rightarrow> (('om, 'lm, 'x) cell, 'om, 'u) Reach \<Rightarrow> (('om, 'lm, 'x) cell, 'lm, 'v) Reach \<Rightarrow> bool" where
  "metav1_ok m M L \<longleftrightarrow> deepCopies (m_Time_DeepCopy m) timeR \<and> deepCopies (m_ObjectMeta_DeepCopyInto m) M \<and> deepCopies (m_ListMeta_DeepCopyInto m) L"

lemma metav1_laws:
  assumes "metav1_ok m M L"
  shows "deepCopies (m_Time_DeepCopy m) timeR" "deepCopies (m_ObjectMeta_DeepCopyInto m) M" "deepCopies (m_ListMeta_DeepCopyInto m) L"
  using assms by (simp_all add: metav1_ok_def)

lemmas copy_defs = copyPart_def copyBoth_def unlessNil_def unlessNone_def Let_def

lemma AgentConfig_copies:
  "deepCopies AgentConfig_DeepCopyInto agentConfigR"
proof -
  have eq: "AgentConfig_DeepCopyInto = copyPart hac_Services (\<lambda>x r. r\<lparr>hac_Services := x\<rparr>) (unlessNil (copyFlat tString))"
    by (intro ext) (simp add: AgentConfig_DeepCopyInto_def copy_defs split: prod.splits)
  show ?thesis unfolding eq by (rule deepCopies_struct[OF deepCopies_flat[OF elemTypes(1)]]) simp_all
qed

lemma OcmAgentSpec_copies:
  "deepCopies OcmAgentSpec_DeepCopyInto ocmAgentSpecR"
proof -
  have eq: "OcmAgentSpec_DeepCopyInto = copyPart hoas_AgentConfig (\<lambda>x r. r\<lparr>hoas_AgentConfig := x\<rparr>) AgentConfig_DeepCopyInto"
    by (intro ext) (simp add: OcmAgentSpec_DeepCopyInto_def copy_defs split: prod.splits)
  show ?thesis unfolding eq by (rule deepCopies_struct[OF AgentConfig_copies]) simp_all
qed

lemma FleetNotification_copies:
  "deepCopies FleetNotification_DeepCopyInto fleetNotificationR"
proof -
  have eq: "FleetNotification_DeepCopyInto = copyPart hfn_References (\<lambda>x r. r\<lparr>hfn_References := x\<rparr>) (unlessNil (copyFlat tString))"
    by (intro ext) (simp add: FleetNotification_DeepCopyInto_def copy_defs split: prod.splits)
  show ?thesis unfolding eq by (rule deepCopies_struct[OF deepCopies_flat[OF elemTypes(1)]]) simp_all
qed

lemma ManagedFleetNotificationSpec_copies:
  "deepCopies ManagedFleetNotificationSpec_DeepCopyInto managedFleetNotificationSpecR"
proof -
  have eq: "ManagedFleetNotificationSpec_DeepCopyInto = copyPart hmfns_FleetNotification (\<lambda>x r. r\<lparr>hmfns_FleetNotification := x\<rparr>) FleetNotification_DeepCopyInto"
    by (intro ext) (simp add: ManagedFleetNotificationSpec_DeepCopyInto_def copy_defs split: prod.splits)
  show ?thesis unfolding eq by (rule deepCopies_struct[OF FleetNotification_copies]) simp_all
qed

lemma Notification_copies:
  "deepCopies Notification_DeepCopyInto notificationR"
proof -
  have eq: "Notification_DeepCopyInto = copyPart hn_References (\<lambda>x r. r\<lparr>hn_References := x\<rparr>) (unlessNil (copyFlat tString))"
    by (intro ext) (simp add: Notification_DeepCopyInto_def copy_defs split: prod.splits)
  show ?thesis unfolding eq by (rule deepCopies_struct[OF deepCopies_flat[OF elemTypes(1)]]) simp_all
qed

lemma ManagedNotificationSpec_copies:
  "deepCopies ManagedNotificationSpec_DeepCopyInto managedNotificationSpecR"
proof -
  have eq: "ManagedNotificationSpec_DeepCopyInto = copyPart hmns_Notifications (\<lambda>x r. r\<lparr>hmns_Notifications := x\<rparr>) (unlessNil (copySlice tNotification Notification_DeepCopyInto))"
    by (intro ext) (simp add: ManagedNotificationSpec_DeepCopyInto_def copy_defs split: prod.splits)
  show ?thesis unfolding eq by (rule deepCopies_struct[OF deepCopies_slice[OF _ Notification_copies]]) simp_all
qed

lemma NotificationCondition_copies:
  assumes ok: "metav1_ok m M L"
  shows "deepCopies (NotificationCondition_DeepCopyInto m) notificationConditionR"
proof -
  have eq: "NotificationCondition_DeepCopyInto m = copyPart hnc_LastTransitionTime (\<lambda>x r. r\<lparr>hnc_LastTransitionTime := x\<rparr>) (unlessNone (m_Time_DeepCopy m))"
    by (intro ext) (simp add: NotificationCondition_DeepCopyInto_def copy_defs split: prod.splits)
  show ?thesis unfolding eq by (rule deepCopies_struct[OF deepCopies_unlessNone[OF metav1_laws(1)[OF ok]]]) simp_all
qed

lemma NotificationRecord_copies:
  assumes ok: "metav1_ok m M L"
  shows "deepCopies (NotificationRecord_DeepCopyInto m) notificationRecordR"
proof -
  have eq: "NotificationRecord_DeepCopyInto m = copyPart hnr_Conditions (\<lambda>x r. r\<lparr>hnr_Conditions := x\<rparr>) (unlessNil (copySlice tNotificationCondition (NotificationCondition_DeepCopyInto m)))"
    by (intro ext) (simp add: NotificationRecord_DeepCopyInto_def copy_defs split: prod.splits)
  show ?thesis unfolding eq by (rule deepCopies_struct[OF deepCopies_slice[OF _ NotificationCondition_copies[OF ok]]]) simp_all
qed

lemma ManagedNotificationStatus_copies:
  assumes ok: "metav1_ok m M L"
  shows "deepCopies (ManagedNotificationStatus_DeepCopyInto m) managedNotificationStatusR"
proof -
  have eq: "ManagedNotificationStatus_DeepCopyInto m = copyPart hmnst_NotificationRecords (\<lambda>x r. r\<lparr>hmnst_NotificationRecords := x\<rparr>) (unlessNil (copySlice tNotificationRecord (NotificationRecord_DeepCopyInto m)))"
    by (intro ext) (simp add: ManagedNotificationStatus_DeepCopyInto_def copy_defs split: prod.splits)
  show ?thesis unfolding eq by (rule deepCopies_struct[OF deepCopies_slice[OF _ NotificationRecord_copies[OF ok]]]) simp_all
qed

lemma NotificationRecordItem_copies:
  assumes ok: "metav1_ok m M L"
  shows "deepCopies (NotificationRecordItem_DeepCopyInto m) notificationRecordItemR"
proof -
  have eq: "NotificationRecordItem_DeepCopyInto m = copyPart hnri_LastTransitionTime (\<lambda>x r. r\<lparr>hnri_LastTransitionTime := x\<rparr>) (unlessNone (m_Time_DeepCopy m))"
    by (intro ext) (simp add: NotificationRecordItem_DeepCopyInto_def copy_defs split: prod.splits)
  show ?thesis unfolding eq by (rule deepCopies_struct[OF deepCopies_unlessNone[OF metav1_laws(1)[OF ok]]]) simp_all
qed

lemma NotificationRecordByName_copies:
  assumes ok: "metav1_ok m M L"
  shows "deepCopies (NotificationRecordByName_DeepCopyInto m) notificationRecordByNameR"
proof -
  have eq: "NotificationRecordByName_DeepCopyInto m = copyPart hnrbn_NotificationRecordItems (\<lambda>x r. r\<lparr>hnrbn_NotificationRecordItems := x\<rparr>) (unlessNil (copySlice tNotificationRecordItem (NotificationRecordItem_DeepCopyInto m)))"
    by (intro ext) (simp add: NotificationRecordByName_DeepCopyInto_def copy_defs split: prod.splits)
  show ?thesis unfolding eq by (rule deepCopies_struct[OF deepCopies_slice[OF _ NotificationRecordItem_copies[OF ok]]]) simp_all
qed

lemma ManagedFleetNotificationRecordStatus_copies:
  assumes ok: "metav1_ok m M L"
  shows "deepCopies (ManagedFleetNotificationRecordStatus_DeepCopyInto m) managedFleetNotificationRecordStatusR"
proof -
  have eq: "ManagedFleetNotificationRecordStatus_DeepCopyInto m = copyPart hmfnrs_NotificationRecordByName (\<lambda>x r. r\<lparr>hmfnrs_NotificationRecordByName := x\<rparr>) (unlessNil (copySlice tNotificationRecordByName (NotificationRecordByName_DeepCopyInto m)))"
    by (intro ext) (simp add: ManagedFleetNotificationRecordStatus_DeepCopyInto_def copy_defs split: prod.splits)
  show ?thesis unfolding eq by (rule deepCopies_struct[OF deepCopies_slice[OF _ NotificationRecordByName_copies[OF ok]]]) simp_all
qed

lemma OcmAgentStatus_copies: "deepCopies OcmAgentStatus_DeepCopyInto ocmAgentStatusR"
  using deepCopies_plain by (simp add: OcmAgentStatus_DeepCopyInto_def[abs_def])

lemma OcmAgent_copies:
  assumes ok: "metav1_ok m M L"
  shows "deepCopies (OcmAgent_DeepCopyInto m) (ocmAgentR M)"
proof -
  have eq: "OcmAgent_DeepCopyInto m = copyPart (\<lambda>r. (hoa_ObjectMeta r, hoa_Spec r)) (\<lambda>x r. r\<lparr>hoa_ObjectMeta := fst x, hoa_Spec := snd x\<rparr>) (copyBoth (m_ObjectMeta_DeepCopyInto m) OcmAgentSpec_DeepCopyInto)"
    by (intro ext) (simp add: OcmAgent_DeepCopyInto_def copy_defs split: prod.splits)
  show ?thesis unfolding eq by (rule deepCopies_struct[OF deepCopies_both[OF metav1_laws(2)[OF ok] OcmAgentSpec_copies]]) simp_all
qed

lemma ManagedNotification_copies:
  assumes ok: "metav1_ok m M L"
  shows "deepCopies (ManagedNotification_DeepCopyInto m) (managedNotificationR M)"
proof -
  have eq: "ManagedNotification_DeepCopyInto m = copyPart (\<lambda>r. (hmn_ObjectMeta r, hmn_Spec r, hmn_Status r)) (\<lambda>x r. r\<lparr>hmn_ObjectMeta := fst x, hmn_Spec := fst (snd x), hmn_Status := snd (snd x)\<rparr>) (copyBoth (m_ObjectMeta_DeepCopyInto m) (copyBoth ManagedNotificationSpec_DeepCopyInto (ManagedNotificationStatus_DeepCopyInto m)))"
    by (intro ext) (simp add: ManagedNotification_DeepCopyInto_def copy_defs split: prod.splits)
  show ?thesis unfolding eq by (rule deepCopies_struct[OF deepCopies_both[OF metav1_laws(2)[OF ok] deepCopies_both[OF ManagedNotificationSpec_copies ManagedNotificationStatus_copies[OF ok]]]]) simp_all
qed

lemma ManagedFleetNotification_copies:
  assumes ok: "metav1_ok m M L"
  shows "deepCopies (ManagedFleetNotification_DeepCopyInto m) (managedFleetNotificationR M)"
proof -
  have eq: "ManagedFleetNotification_DeepCopyInto m = copyPart (\<lambda>r. (hmfn_ObjectMeta r, hmfn_Spec r)) (\<lambda>x r. r\<lparr>hmfn_ObjectMeta := fst x, hmfn_Spec := snd x\<rparr>) (copyBoth (m_ObjectMeta_DeepCopyInto m) ManagedFleetNotificationSpec_DeepCopyInto)"
    by (intro ext) (simp add: ManagedFleetNotification_DeepCopyInto_def copy_defs split: prod.splits)
  show ?thesis unfolding eq by (rule deepCopies_struct[OF deepCopies_both[OF metav1_laws(2)[OF ok] ManagedFleetNotificationSpec_copies]]) simp_all
qed

lemma ManagedFleetNotificationRecord_copies:
  assumes ok: "metav1_ok m M L"
  shows "deepCopies (ManagedFleetNotificationRecord_DeepCopyInto m) (managedFleetNotificationRecordR M)"
proof -
  have eq: "ManagedFleetNotificationRecord_DeepCopyInto m = copyPart (\<lambda>r. (hmfnr_ObjectMeta r, hmfnr_Status r)) (\<lambda>x r. r\<lparr>hmfnr_ObjectMeta := fst x, hmfnr_Status := snd x\<rparr>) (copyBoth (m_ObjectMeta_DeepCopyInto m) (ManagedFleetNotificationRecordStatus_DeepCopyInto m))"
    by (intro ext) (simp add: ManagedFleetNotificationRecord_DeepCopyInto_def copy_defs split: prod.splits)
  show ?thesis unfolding eq by (rule deepCopies_struct[OF deepCopies_both[OF metav1_laws(2)[OF ok] ManagedFleetNotificationRecordStatus_copies[OF ok]]]) simp_all
qed

lemma OcmAgentList_copies:
  assumes ok: "metav1_ok m M L"
  shows "deepCopies (OcmAgentList_DeepCopyInto m) (ocmAgentListR M L m)"
proof -
  have eq: "OcmAgentList_DeepCopyInto m = copyPart (\<lambda>r. (hoal_ListMeta r, hoal_Items r)) (\<lambda>x r. r\<lparr>hoal_ListMeta := fst x, hoal_Items := snd x\<rparr>) (copyBoth (m_ListMeta_DeepCopyInto m) (unlessNil (copySlice (tOcmAgent m) (OcmAgent_DeepCopyInto m))))"
    by (intro ext) (simp add: OcmAgentList_DeepCopyInto_def copy_defs split: prod.splits)
  show ?thesis unfolding eq by (rule deepCopies_struct[OF deepCopies_both[OF metav1_laws(3)[OF ok] deepCopies_slice[OF _ OcmAgent_copies[OF ok]]]]) simp_all
qed

lemma ManagedNotificationList_copies:
  assumes ok: "metav1_ok m M L"
  shows "deepCopies (ManagedNotificationList_DeepCopyInto m) (managedNotificationListR M L m)"
proof -
  have eq: "ManagedNotificationList_DeepCopyInto m = copyPart (\<lambda>r. (hmnl_ListMeta r, hmnl_Items r)) (\<lambda>x r. r\<lparr>hmnl_ListMeta := fst x, hmnl_Items := snd x\<rparr>) (copyBoth (m_ListMeta_DeepCopyInto m) (unlessNil (copySlice (tManagedNotification m) (ManagedNotification_DeepCopyInto m))))"
    by (intro ext) (simp add: ManagedNotificationList_DeepCopyInto_def copy_defs split: prod.splits)
  show ?thesis unfolding eq by (rule deepCopies_struct[OF deepCopies_both[OF metav1_laws(3)[OF ok] deepCopies_slice[OF _ ManagedNotification_copies[OF ok]]]]) simp_all
qed

lemma ManagedFleetNotificationList_copies:
  assumes ok: "metav1_ok m M L"
  shows "deepCopies (ManagedFleetNotificationList_DeepCopyInto m) (managedFleetNotificationListR M L m)"
proof -
  have eq: "ManagedFleetNotificationList_DeepCopyInto m = copyPart (\<lambda>r. (hmfnl_ListMeta r, hmfnl_Items r)) (\<lambda>x r. r\<lparr>hmfnl_ListMeta := fst x, hmfnl_Items := snd x\<rparr>) (copyBoth (m_ListMeta_DeepCopyInto m) (unlessNil (copySlice (tManagedFleetNotification m) (ManagedFleetNotification_DeepCopyInto m))))"
    by (intro ext) (simp add: ManagedFleetNotificationList_DeepCopyInto_def copy_defs split: prod.splits)
  show ?thesis unfolding eq by (rule deepCopies_struct[OF deepCopies_both[OF metav1_laws(3)[OF ok] deepCopies_slice[OF _ ManagedFleetNotification_copies[OF ok]]]]) simp_all
qed

lemma ManagedFleetNotificationRecordList_copies:
  assumes ok: "metav1_ok m M L"
  shows "deepCopies (ManagedFleetNotificationRecordList_DeepCopyInto m) (managedFleetNotificationRecordListR M L m)"
proof -
  have eq: "ManagedFleetNotificationRecordList_DeepCopyInto m = copyPart (\<lambda>r. (hmfnrl_ListMeta r, hmfnrl_Items r)) (\<lambda>x r. r\<lparr>hmfnrl_ListMeta := fst x, hmfnrl_Items := snd x\<rparr>) (copyBoth (m_ListMeta_DeepCopyInto m) (unlessNil (copySlice (tManagedFleetNotificationRecord m) (ManagedFleetNotificationRecord_DeepCopyInto m))))"
    by (intro ext) (simp add: ManagedFleetNotificationRecordList_DeepCopyInto_def copy_defs split: prod.splits)
  show ?thesis unfolding eq by (rule deepCopies_struct[OF deepCopies_both[OF metav1_laws(3)[OF ok] deepCopies_slice[OF _ ManagedFleetNotificationRecord_copies[OF ok]]]]) simp_all
qed

end
