(* ===== verification/DeepCopyProps.thy ===== *)
theory DeepCopyProps
  imports DeepCopy
begin

text \<open>
  Properties of the generated deep copies: the copy of a resource has the same value, shares no memory with it, and neither is reached by
  later writes through the other. This is what allows the reconcilers to change the objects that a cache hands out.
\<close>

section \<open>Types without metadata\<close>

text \<open>These need nothing of other packages.\<close>
interpretation agentConfig: deep_copyable AgentConfig_DeepCopyInto "rc_abs agentConfigR" "rc_fp agentConfigR" "rc_wf agentConfigR"
  by (rule AgentConfig_copies[unfolded deepCopies_def])

interpretation agentSpec: deep_copyable OcmAgentSpec_DeepCopyInto "rc_abs ocmAgentSpecR" "rc_fp ocmAgentSpecR" "rc_wf ocmAgentSpecR"
  by (rule OcmAgentSpec_copies[unfolded deepCopies_def])

interpretation fleetNotification: deep_copyable FleetNotification_DeepCopyInto "rc_abs fleetNotificationR" "rc_fp fleetNotificationR" "rc_wf fleetNotificationR"
  by (rule FleetNotification_copies[unfolded deepCopies_def])

interpretation fleetSpec: deep_copyable ManagedFleetNotificationSpec_DeepCopyInto "rc_abs managedFleetNotificationSpecR" "rc_fp managedFleetNotificationSpecR" "rc_wf managedFleetNotificationSpecR"
  by (rule ManagedFleetNotificationSpec_copies[unfolded deepCopies_def])

interpretation template: deep_copyable Notification_DeepCopyInto "rc_abs notificationR" "rc_fp notificationR" "rc_wf notificationR"
  by (rule Notification_copies[unfolded deepCopies_def])

interpretation templates: deep_copyable ManagedNotificationSpec_DeepCopyInto "rc_abs managedNotificationSpecR" "rc_fp managedNotificationSpecR" "rc_wf managedNotificationSpecR"
  by (rule ManagedNotificationSpec_copies[unfolded deepCopies_def])

section \<open>Named slices\<close>

lemma slices_copy:
  assumes "metav1_ok m M L"
  shows "deepCopies (Conditions_DeepCopy m) (sliceR tNotificationCondition notificationConditionR)"
    and "deepCopies (NotificationRecords_DeepCopy m) (sliceR tNotificationRecord notificationRecordR)"
proof -
  have into: "Conditions_DeepCopyInto m = copySlice tNotificationCondition (NotificationCondition_DeepCopyInto m)"
    "NotificationRecords_DeepCopyInto m = copySlice tNotificationRecord (NotificationRecord_DeepCopyInto m)"
    by (simp_all add: fun_eq_iff Conditions_DeepCopyInto_def NotificationRecords_DeepCopyInto_def)
  have eq: "Conditions_DeepCopy m = newSlice tSlice (copySlice tNotificationCondition (NotificationCondition_DeepCopyInto m))"
    "NotificationRecords_DeepCopy m = newSlice tSlice (copySlice tNotificationRecord (NotificationRecord_DeepCopyInto m))"
    by (intro ext; simp add: Conditions_DeepCopy_def NotificationRecords_DeepCopy_def into)+
  show "deepCopies (Conditions_DeepCopy m) (sliceR tNotificationCondition notificationConditionR)"
    "deepCopies (NotificationRecords_DeepCopy m) (sliceR tNotificationRecord notificationRecordR)"
    unfolding eq by (rule deepCopies_newSlice[OF _ _ NotificationCondition_copies[OF assms]] deepCopies_newSlice[OF _ _ NotificationRecord_copies[OF assms]]; simp)+
qed

section \<open>Objects\<close>

text \<open>The addresses that are reachable from an object, that it is well-formed, and that two objects, each in its heap, have the same value.\<close>
primrec objFp :: "(('om, 'lm, 'x) cell, 'om, 'u) Reach \<Rightarrow> (('om, 'lm, 'x) cell, 'lm, 'v) Reach \<Rightarrow> ('om, 'lm, 'x) Metav1 \<Rightarrow> RootType \<Rightarrow> ('om, 'lm, 'x) cell heap \<Rightarrow> pointer \<Rightarrow> nat set" where
  "objFp M L m IsOcmAgent = rc_fp (ptrR (tOcmAgent m) (ocmAgentR M))"
| "objFp M L m IsOcmAgentList = rc_fp (ptrR (tOcmAgentList m) (ocmAgentListR M L m))"
| "objFp M L m IsManagedNotification = rc_fp (ptrR (tManagedNotification m) (managedNotificationR M))"
| "objFp M L m IsManagedNotificationList = rc_fp (ptrR (tManagedNotificationList m) (managedNotificationListR M L m))"
| "objFp M L m IsManagedFleetNotification = rc_fp (ptrR (tManagedFleetNotification m) (managedFleetNotificationR M))"
| "objFp M L m IsManagedFleetNotificationList = rc_fp (ptrR (tManagedFleetNotificationList m) (managedFleetNotificationListR M L m))"
| "objFp M L m IsManagedFleetNotificationRecord = rc_fp (ptrR (tManagedFleetNotificationRecord m) (managedFleetNotificationRecordR M))"
| "objFp M L m IsManagedFleetNotificationRecordList = rc_fp (ptrR (tManagedFleetNotificationRecordList m) (managedFleetNotificationRecordListR M L m))"

primrec objWf :: "(('om, 'lm, 'x) cell, 'om, 'u) Reach \<Rightarrow> (('om, 'lm, 'x) cell, 'lm, 'v) Reach \<Rightarrow> ('om, 'lm, 'x) Metav1 \<Rightarrow> RootType \<Rightarrow> ('om, 'lm, 'x) cell heap \<Rightarrow> pointer \<Rightarrow> bool" where
  "objWf M L m IsOcmAgent = rc_wf (ptrR (tOcmAgent m) (ocmAgentR M))"
| "objWf M L m IsOcmAgentList = rc_wf (ptrR (tOcmAgentList m) (ocmAgentListR M L m))"
| "objWf M L m IsManagedNotification = rc_wf (ptrR (tManagedNotification m) (managedNotificationR M))"
| "objWf M L m IsManagedNotificationList = rc_wf (ptrR (tManagedNotificationList m) (managedNotificationListR M L m))"
| "objWf M L m IsManagedFleetNotification = rc_wf (ptrR (tManagedFleetNotification m) (managedFleetNotificationR M))"
| "objWf M L m IsManagedFleetNotificationList = rc_wf (ptrR (tManagedFleetNotificationList m) (managedFleetNotificationListR M L m))"
| "objWf M L m IsManagedFleetNotificationRecord = rc_wf (ptrR (tManagedFleetNotificationRecord m) (managedFleetNotificationRecordR M))"
| "objWf M L m IsManagedFleetNotificationRecordList = rc_wf (ptrR (tManagedFleetNotificationRecordList m) (managedFleetNotificationRecordListR M L m))"

primrec sameValue :: "(('om, 'lm, 'x) cell, 'om, 'u) Reach \<Rightarrow> (('om, 'lm, 'x) cell, 'lm, 'v) Reach \<Rightarrow> ('om, 'lm, 'x) Metav1 \<Rightarrow> RootType \<Rightarrow> ('om, 'lm, 'x) cell heap \<Rightarrow> pointer \<Rightarrow> ('om, 'lm, 'x) cell heap \<Rightarrow> pointer \<Rightarrow> bool" where
  "sameValue M L m IsOcmAgent h p h' q \<longleftrightarrow> rc_abs (ptrR (tOcmAgent m) (ocmAgentR M)) h p = rc_abs (ptrR (tOcmAgent m) (ocmAgentR M)) h' q"
| "sameValue M L m IsOcmAgentList h p h' q \<longleftrightarrow> rc_abs (ptrR (tOcmAgentList m) (ocmAgentListR M L m)) h p = rc_abs (ptrR (tOcmAgentList m) (ocmAgentListR M L m)) h' q"
| "sameValue M L m IsManagedNotification h p h' q \<longleftrightarrow> rc_abs (ptrR (tManagedNotification m) (managedNotificationR M)) h p = rc_abs (ptrR (tManagedNotification m) (managedNotificationR M)) h' q"
| "sameValue M L m IsManagedNotificationList h p h' q \<longleftrightarrow> rc_abs (ptrR (tManagedNotificationList m) (managedNotificationListR M L m)) h p = rc_abs (ptrR (tManagedNotificationList m) (managedNotificationListR M L m)) h' q"
| "sameValue M L m IsManagedFleetNotification h p h' q \<longleftrightarrow> rc_abs (ptrR (tManagedFleetNotification m) (managedFleetNotificationR M)) h p = rc_abs (ptrR (tManagedFleetNotification m) (managedFleetNotificationR M)) h' q"
| "sameValue M L m IsManagedFleetNotificationList h p h' q \<longleftrightarrow> rc_abs (ptrR (tManagedFleetNotificationList m) (managedFleetNotificationListR M L m)) h p = rc_abs (ptrR (tManagedFleetNotificationList m) (managedFleetNotificationListR M L m)) h' q"
| "sameValue M L m IsManagedFleetNotificationRecord h p h' q \<longleftrightarrow> rc_abs (ptrR (tManagedFleetNotificationRecord m) (managedFleetNotificationRecordR M)) h p = rc_abs (ptrR (tManagedFleetNotificationRecord m) (managedFleetNotificationRecordR M)) h' q"
| "sameValue M L m IsManagedFleetNotificationRecordList h p h' q \<longleftrightarrow> rc_abs (ptrR (tManagedFleetNotificationRecordList m) (managedFleetNotificationRecordListR M L m)) h p = rc_abs (ptrR (tManagedFleetNotificationRecordList m) (managedFleetNotificationRecordListR M L m)) h' q"

text \<open>What \<open>DeepCopyObject\<close> of any type does, given that \<open>DeepCopy\<close> makes deep copies.\<close>
definition copyOutcome :: "RootType \<Rightarrow> ('c, pointer, 'v option) Reach \<Rightarrow> 'c heap \<Rightarrow> pointer \<Rightarrow> RuntimeObject \<Rightarrow> 'c heap \<Rightarrow> bool" where
  "copyOutcome t R h p obj h' \<longleftrightarrow> (\<exists>q. obj = Some (t, q) \<and> q \<noteq> None \<and> grows h h' \<and> rc_abs R h p = rc_abs R h' q \<and> rc_wf R h' q \<and>
     rc_fp R h' q \<subseteq> {length h..<length h'} \<and> rc_abs R h p = rc_abs R h' p \<and> rc_fp R h' p = rc_fp R h p \<and>
     (\<forall>h''. agree ({..<length h'} - rc_fp R h' q) h' h'' \<longrightarrow> rc_abs R h p = rc_abs R h'' p) \<and>
     (\<forall>h''. agree ({..<length h'} - rc_fp R h' p) h' h'' \<longrightarrow> rc_abs R h p = rc_abs R h'' q))"

lemma copyObject:
  assumes T: "elemType T" and f: "deepCopies f R" and w: "rc_wf (ptrR T R) h p" and p: "p \<noteq> None"
    and run: "(let (c, h) = newCopy T f p h in if c \<noteq> None then (Some (t, c), h) else (None, h)) = (obj, h')"
  shows "copyOutcome t (ptrR T R) h p obj h'"
proof -
  obtain q h1 where q: "newCopy T f p h = (q, h1)" by fastforce
  note d = deepCopies_ptr[OF T f, unfolded deepCopies_def]
  note c = dc_laws(1-4)[OF d w q] and k = deep_copyable.grows_keeps[OF d w dc_laws(1)[OF d w q]] and i = deep_copyable.copy_independent[OF d w q]
  have "q \<noteq> None" using c(2) p by (auto simp: ptrR_def ptrAbs_def split: option.splits)
  with run q have "obj = Some (t, q)" "h' = h1" by (auto simp: Let_def)
  with c k i \<open>q \<noteq> None\<close> show ?thesis unfolding copyOutcome_def by auto
qed

text \<open>The outcome for each type of object.\<close>
lemma DeepCopyObject_outcome:
  assumes ok: "metav1_ok m M L" and run: "DeepCopyObject m t p h = (obj, h')" and p: "p \<noteq> None" and w: "objWf M L m t h p"
  shows "t = IsOcmAgent \<Longrightarrow> copyOutcome t (ptrR (tOcmAgent m) (ocmAgentR M)) h p obj h'"
    and "t = IsOcmAgentList \<Longrightarrow> copyOutcome t (ptrR (tOcmAgentList m) (ocmAgentListR M L m)) h p obj h'"
    and "t = IsManagedNotification \<Longrightarrow> copyOutcome t (ptrR (tManagedNotification m) (managedNotificationR M)) h p obj h'"
    and "t = IsManagedNotificationList \<Longrightarrow> copyOutcome t (ptrR (tManagedNotificationList m) (managedNotificationListR M L m)) h p obj h'"
    and "t = IsManagedFleetNotification \<Longrightarrow> copyOutcome t (ptrR (tManagedFleetNotification m) (managedFleetNotificationR M)) h p obj h'"
    and "t = IsManagedFleetNotificationList \<Longrightarrow> copyOutcome t (ptrR (tManagedFleetNotificationList m) (managedFleetNotificationListR M L m)) h p obj h'"
    and "t = IsManagedFleetNotificationRecord \<Longrightarrow> copyOutcome t (ptrR (tManagedFleetNotificationRecord m) (managedFleetNotificationRecordR M)) h p obj h'"
    and "t = IsManagedFleetNotificationRecordList \<Longrightarrow> copyOutcome t (ptrR (tManagedFleetNotificationRecordList m) (managedFleetNotificationRecordListR M L m)) h p obj h'"
  using run w p
  by (auto intro!: copyObject OcmAgent_copies[OF ok] OcmAgentList_copies[OF ok] ManagedNotification_copies[OF ok] ManagedNotificationList_copies[OF ok] ManagedFleetNotification_copies[OF ok] ManagedFleetNotificationList_copies[OF ok] ManagedFleetNotificationRecord_copies[OF ok] ManagedFleetNotificationRecordList_copies[OF ok] simp: OcmAgent_DeepCopyObject_def OcmAgent_DeepCopy_def OcmAgentList_DeepCopyObject_def OcmAgentList_DeepCopy_def ManagedNotification_DeepCopyObject_def ManagedNotification_DeepCopy_def ManagedNotificationList_DeepCopyObject_def ManagedNotificationList_DeepCopy_def ManagedFleetNotification_DeepCopyObject_def ManagedFleetNotification_DeepCopy_def ManagedFleetNotificationList_DeepCopyObject_def ManagedFleetNotificationList_DeepCopy_def ManagedFleetNotificationRecord_DeepCopyObject_def ManagedFleetNotificationRecord_DeepCopy_def ManagedFleetNotificationRecordList_DeepCopyObject_def ManagedFleetNotificationRecordList_DeepCopy_def       )

text \<open>The outcome, in terms of objects.\<close>
lemma DeepCopyObject_copies:
  assumes "metav1_ok m M L" and "DeepCopyObject m t p h = (obj, h')" and "p \<noteq> None" and "objWf M L m t h p"
  shows "\<exists>q. obj = Some (t, q) \<and> q \<noteq> None \<and> grows h h' \<and> sameValue M L m t h p h' q \<and> objWf M L m t h' q \<and>
     objFp M L m t h' q \<subseteq> {length h..<length h'} \<and> sameValue M L m t h p h' p \<and> objFp M L m t h' p = objFp M L m t h p \<and>
     (\<forall>h''. agree ({..<length h'} - objFp M L m t h' q) h' h'' \<longrightarrow> sameValue M L m t h p h'' p) \<and>
     (\<forall>h''. agree ({..<length h'} - objFp M L m t h' p) h' h'' \<longrightarrow> sameValue M L m t h p h'' q)"
  using DeepCopyObject_outcome[OF assms] by (cases t; simp add: copyOutcome_def)

section \<open>Metadata for the witnesses\<close>

text \<open>Object metadata that own a slice of finalizers, and list metadata without references.\<close>
definition memMetav1 :: "(slice, unit, unit) Metav1" where
  "memMetav1 = \<lparr>m_Time_DeepCopy = newCopy tTime (\<lambda>x h. (x, h)), m_ObjectMeta_DeepCopyInto = unlessNil (copyFlat tString),
     m_ListMeta_DeepCopyInto = (\<lambda>x h. (x, h)), m_ObjectMeta_zero = NilSlice, m_ListMeta_zero = ()\<rparr>"

lemma memMetav1_ok: "metav1_ok memMetav1 (sliceR tString plainR) plainR"
  using deepCopies_ptr[OF _ deepCopies_plain, of tTime] deepCopies_flat[of tString] deepCopies_plain by (simp add: metav1_ok_def memMetav1_def)

definition heapAgent :: "slice hOcmAgent" where
  "heapAgent = \<lparr>hoa_TypeMeta = (''OcmAgent'', ''ocmagent.managed.openshift.io/v1alpha1''), hoa_ObjectMeta = Slice 0 0 1,
     hoa_Spec = \<lparr>hoas_AgentConfig = \<lparr>hac_OcmBaseUrl = ''https://api.openshift.com'', hac_Services = Slice 1 1 2\<rparr>, hoas_OcmAgentImage = ''quay.io/app-sre/ocm-agent:v1'',
       hoas_TokenSecret = ''ocm-access-token'', hoas_Replicas = 2, hoas_FleetMode = False\<rparr>,
     hoa_Status = \<lparr>oast_ServiceStatus = '''', oast_AvailableReplicas = 0\<rparr>\<rparr>"

definition memHeap :: "(slice, unit, unit) cell heap" where
  "memHeap = [AString [''ocmagent.managed.openshift.io''], AString [''unused'', ''service_logs'', ''clusters_mgmt''], AOcmAgent [heapAgent]]"

lemma heapAgent_wf: "objWf (sliceR tString plainR) plainR memMetav1 IsOcmAgent memHeap (Some (2, 0))"
  by (simp add: ptrR_def ptrWf_def structR_def bothR_def bothWf_def sliceR_def sliceWf_def plainR_def load_def elems_def memHeap_def heapAgent_def
      tOcmAgent_def tString_def)

section \<open>Properties\<close>

text \<open>C13. A deep copy of an object of the API, of any type, has the value of the original, nil slices apart from empty ones; all its references are
  to existing arrays of the right types; everything that can be reached from it is new, and nothing that existed before has changed.\<close>
theorem deepcopy_faithful:
  assumes "metav1_ok m M L" and "DeepCopyObject m t p h = (obj, h')" and "p \<noteq> None" and "objWf M L m t h p"
  shows "\<exists>q. obj = Some (t, q) \<and> q \<noteq> None \<and> sameValue M L m t h p h' q \<and> objWf M L m t h' q \<and>
    objFp M L m t h' q \<subseteq> {length h..<length h'} \<and> length h \<le> length h' \<and> (\<forall>a < length h. h' ! a = h ! a)"
proof -
  obtain q where "obj = Some (t, q)" "q \<noteq> None" "grows h h'" "sameValue M L m t h p h' q" "objWf M L m t h' q" "objFp M L m t h' q \<subseteq> {length h..<length h'}"
    using DeepCopyObject_copies[OF assms] by blast
  then show ?thesis by (auto simp: grows_def)
qed

theorem deepcopy_faithful_witness:
  "\<exists>q h'. DeepCopyObject memMetav1 IsOcmAgent (Some (2, 0)) memHeap = (Some (IsOcmAgent, q), h') \<and>
     sameValue (sliceR tString plainR) plainR memMetav1 IsOcmAgent memHeap (Some (2, 0)) h' q \<and>
     objFp (sliceR tString plainR) plainR memMetav1 IsOcmAgent h' q \<subseteq> {3..<length h'}"
proof -
  obtain obj h' where run: "DeepCopyObject memMetav1 IsOcmAgent (Some (2, 0)) memHeap = (obj, h')" by fastforce
  have "length memHeap = 3" by (simp add: memHeap_def)
  with deepcopy_faithful[OF memMetav1_ok run _ heapAgent_wf] run show ?thesis by auto
qed

text \<open>C12. A deep copy is isolated from its original: whatever is written later to memory that can be reached from the copy, or to new memory, leaves the value
  of the original as it was, and the other way round. So a reconciler may change the object that it was handed, and the cache keeps its own.\<close>
theorem deepcopy_isolated:
  assumes "metav1_ok m M L" and "DeepCopyObject m t p h = (Some (t, q), h')" and "p \<noteq> None" and "objWf M L m t h p"
  shows "((\<forall>a < length h'. a \<notin> objFp M L m t h' q \<longrightarrow> a < length h'' \<and> h'' ! a = h' ! a) \<longrightarrow> sameValue M L m t h p h'' p) \<and>
    ((\<forall>a < length h'. a \<notin> objFp M L m t h' p \<longrightarrow> a < length h'' \<and> h'' ! a = h' ! a) \<longrightarrow> sameValue M L m t h p h'' q)"
  using DeepCopyObject_copies[OF assms(1,2,3,4)] unfolding agree_def by auto

text \<open>The copy of the agent, evaluated; then its list of services is overwritten.\<close>
lemma memHeap_copy:
  "DeepCopyObject memMetav1 IsOcmAgent (Some (2, 0)) memHeap = (Some (IsOcmAgent, Some (3, 0)), memHeap @
     [AOcmAgent [heapAgent\<lparr>hoa_ObjectMeta := Slice 4 0 1, hoa_Spec := (hoa_Spec heapAgent)\<lparr>hoas_AgentConfig :=
        (hoas_AgentConfig (hoa_Spec heapAgent))\<lparr>hac_Services := Slice 5 0 2\<rparr>\<rparr>\<rparr>],
      AString [''ocmagent.managed.openshift.io''], AString [''service_logs'', ''clusters_mgmt'']])"
  by (simp add: OcmAgent_DeepCopyObject_def OcmAgent_DeepCopy_def newCopy_def makeArray_def OcmAgent_DeepCopyInto_def OcmAgentSpec_DeepCopyInto_def
      AgentConfig_DeepCopyInto_def memMetav1_def unlessNil_def copyFlat_def load_def store_def elems_def memHeap_def heapAgent_def tOcmAgent_def tString_def)

theorem deepcopy_isolated_witness:
  "\<exists>h'. DeepCopyObject memMetav1 IsOcmAgent (Some (2, 0)) memHeap = (Some (IsOcmAgent, Some (3, 0)), h') \<and>
     sameValue (sliceR tString plainR) plainR memMetav1 IsOcmAgent memHeap (Some (2, 0)) (h'[5 := AString [''other'']]) (Some (2, 0))"
proof -
  obtain h' where run: "DeepCopyObject memMetav1 IsOcmAgent (Some (2, 0)) memHeap = (Some (IsOcmAgent, Some (3, 0)), h')" using memHeap_copy by blast
  have "5 \<in> objFp (sliceR tString plainR) plainR memMetav1 IsOcmAgent h' (Some (3, 0))"
    using run memHeap_copy by (auto simp: ptrR_def ptrFp_def structR_def bothR_def bothFp_def sliceR_def sliceFp_def load_def elems_def memHeap_def heapAgent_def tOcmAgent_def)
  then have "\<forall>a < length h'. a \<notin> objFp (sliceR tString plainR) plainR memMetav1 IsOcmAgent h' (Some (3, 0)) \<longrightarrow>
      a < length (h'[5 := AString [''other'']]) \<and> h'[5 := AString [''other'']] ! a = h' ! a" by (metis length_list_update nth_list_update_neq)
  with deepcopy_isolated[OF memMetav1_ok run _ heapAgent_wf] run show ?thesis by blast
qed

end
