(* ===== verification/Recovery.thy ===== *)
theory Recovery
  imports ControllerProps
begin

text \<open>
  Recovery from faults. A reconciliation that fails may have written some objects of the agent and not others, and may have been told that
  a write failed which was carried out. What it leaves behind is nevertheless fit for the next one: every object that it touched is one that it would
  have made, or one it found with only the repaired part changed. So the first reconciliation without faults brings
  everything in place, after any number of failed ones and whatever others did in between, as long as they left the agent what it needs.
\<close>

section \<open>What a step leaves behind\<close>

lemma accepts_either: "accepts view m W s \<Longrightarrow> m s = (q, s') \<Longrightarrow> view s' \<in> insert (view s) (W (view s))"
  by (cases q) (auto simp: accepts_def)

context managed_resource
begin

text \<open>Whatever the outcome of \<open>ensureObject\<close>, faults included, the stored object is as before, the prepared one or the repaired one.\<close>
lemma ensure_stores:
  assumes api: "api c view"
    and run: "ensureObject c kind wrap as key prepared changed repair s = (q, s')"
    and prep: "\<And>x. prepared = Inr x \<Longrightarrow>
      \<exists>refs. x = put_meta expected ((metaOf (wrap expected))\<lparr>om_OwnerReferences := refs\<rparr>)"
  obtains (same) "cl_Objects (view s') ref = cl_Objects (view s) ref"
  | (made) x z where "prepared = Inr x" "sameButServer (wrap x) (wrap z)" "cl_Objects (view s') ref = Some (wrap z)"
  | (mended) y z where "cl_Objects (view s) ref = Some (wrap y)" "sameButServer (wrap (repair y)) (wrap z)"
      "cl_Objects (view s') ref = Some (wrap z)"
  using run unfolding ensureObject_def
proof (cases rule: onResult_cases)
  case (err e s1)
  have v: "view s1 = view s" by (rule getAs_view[OF api err(1)])
  show thesis
  proof (cases "IsNotFound e \<and> (\<exists>x. prepared = Inr x)")
    case True
    then obtain x where x: "prepared = Inr x" by blast
    then obtain refs where refs: "x = put_meta expected ((metaOf (wrap expected))\<lparr>om_OwnerReferences := refs\<rparr>)" using prep by blast
    have refx: "objRef (wrap x) = ref" "om_DeletionTimestamp (metaOf (wrap x)) = None"
      unfolding refs setMeta_wrap[symmetric] objRef_setMeta ref_eq by (simp_all add: kind_wrap metaKey_def expected_live)
    obtain q1 where cr: "c_Create c (wrap x) s1 = (q1, s')"
      using err(2) True x by (auto elim!: andThen_cases)
    from api refx(2) have "accepts view (c_Create c (wrap x)) (createResults (wrap x)) s1" by (simp add: api_def)
    from accepts_either[OF this cr] v consider "view s' = view s" | z where "sameButServer (wrap x) z" "cl_Objects (view s') ref = Some z"
      by (auto simp: createResults_def refx(1))
    then show thesis by cases (use same made[OF x] same_wrap in \<open>simp, blast\<close>)
  next
    case False
    with err(2) v same show thesis by (auto split: if_splits sum.splits)
  qed
next
  case (val y s1)
  from api val(1) have y: "cl_Objects (view s) ref = Some (wrap y)" "objRef (wrap y) = ref" "view s1 = view s"
      "persisted (wrap y) = Some (wrap y)"
    by (auto elim!: getAs_cases simp: ref_eq)
  show thesis
  proof (cases "changed y")
    case True
    have refr: "objRef (wrap (repair y)) = ref" using y(2) by (simp add: objRef_def kind_wrap meta_repair)
    obtain q1 where up: "c_Update c (wrap (repair y)) s1 = (q1, s')" using val(2) True by (auto elim!: andThen_cases)
    have "keepsMark (wrap (repair y)) (view s1)" using y by (simp add: keepsMark_def refr meta_repair)
    with api have "accepts view (c_Update c (wrap (repair y))) (updateResults (wrap (repair y))) s1" by (simp add: api_def)
    from accepts_either[OF this up] y(3) consider "view s' = view s"
      | z where "sameButServer (wrap (repair y)) z" "cl_Objects (view s') ref = persisted z"
      by (auto simp: updateResults_def refr)
    then show thesis
    proof cases
      case (2 z)
      from same_persisted[OF 2(1)] y(4) have "persisted z = Some z" by (simp add: persisted_def meta_repair split: if_splits)
      with 2 mended y(1) same_wrap[OF 2(1)] show thesis by auto
    qed (use same in auto)
  next
    case False
    with val(2) y(3) same show thesis by simp
  qed
qed

text \<open>A property of the object that holds of what is made and survives a repair is kept.\<close>
lemma ensure_keeps_property:
  assumes api: "api c view"
    and run: "ensureObject c kind wrap as key prepared changed repair s = (q, s')"
    and prep: "\<And>x. prepared = Inr x \<Longrightarrow>
      \<exists>refs. x = put_meta expected ((metaOf (wrap expected))\<lparr>om_OwnerReferences := refs\<rparr>)"
    and made: "\<And>refs. P (put_meta expected ((metaOf (wrap expected))\<lparr>om_OwnerReferences := refs\<rparr>))"
    and mended: "\<And>y. P y \<Longrightarrow> P (repair y)"
    and server: "\<And>y uid rv. P y \<Longrightarrow> P (put_meta y ((metaOf (wrap y))\<lparr>om_UID := uid, om_ResourceVersion := rv\<rparr>))"
    and before: "\<And>y. cl_Objects (view s) ref = Some (wrap y) \<Longrightarrow> P y"
    and after: "cl_Objects (view s') ref = Some (wrap z)"
  shows "P z"
proof -
  have same: "P z'" if "sameButServer (wrap y) (wrap z')" "P y" for y z'
    using that(1) server[OF that(2)] unfolding sameButServer_def setMeta_wrap by (auto dest: wrap_inj)
  consider (kept) "cl_Objects (view s') ref = cl_Objects (view s) ref"
    | (new) x z' where "prepared = Inr x" "sameButServer (wrap x) (wrap z')" "cl_Objects (view s') ref = Some (wrap z')"
    | (changed) y z' where "cl_Objects (view s) ref = Some (wrap y)" "sameButServer (wrap (repair y)) (wrap z')"
        "cl_Objects (view s') ref = Some (wrap z')"
    by (rule ensure_stores[OF api run prep])
  then show ?thesis
  proof cases
    case kept
    with before after show ?thesis by simp
  next
    case (new x z')
    with prep obtain refs where "x = put_meta expected ((metaOf (wrap expected))\<lparr>om_OwnerReferences := refs\<rparr>)" by blast
    with new made same[of x z'] have "P z'" by simp
    with new(3) after wrap_inj show ?thesis by auto
  next
    case (changed y z')
    with before mended same[of "repair y" z'] have "P z'" by blast
    with changed(3) after wrap_inj show ?thesis by auto
  qed
qed

end

section \<open>Invariants of steps\<close>

text \<open>A property of the cluster that a step keeps, whatever its outcome.\<close>
definition maintains :: "('s \<Rightarrow> Cluster) \<Rightarrow> (Cluster \<Rightarrow> bool) \<Rightarrow> ('s, 'a) step \<Rightarrow> bool" where
  "maintains view I m \<longleftrightarrow> (\<forall>s q s'. m s = (q, s') \<longrightarrow> I (view s) \<longrightarrow> I (view s'))"

lemma maintainsI: "(\<And>s q s'. m s = (q, s') \<Longrightarrow> I (view s) \<Longrightarrow> I (view s')) \<Longrightarrow> maintains view I m"
  by (auto simp: maintains_def)

lemma maintainsD: "maintains view I m \<Longrightarrow> m s = (q, s') \<Longrightarrow> I (view s) \<Longrightarrow> I (view s')"
  by (simp add: maintains_def)

lemma maintains_ok [simp]: "maintains view I (ok x)"
  by (simp add: maintains_def)

lemma maintains_andThen:
  assumes "maintains view I m" and "\<And>x. maintains view I (f x)"
  shows "maintains view I (andThen m f)"
proof (rule maintainsI)
  fix s q s'' assume "andThen m f s = (q, s'')" and "I (view s)"
  then show "I (view s'')"
    by (cases rule: andThen_cases) (use maintainsD[OF assms(1)] maintainsD[OF assms(2)] in blast)+
qed

lemma maintains_forEach: "(\<And>x. x \<in> set xs \<Longrightarrow> maintains view I (f x)) \<Longrightarrow> maintains view I (forEach xs f)"
  by (induction xs) (auto intro: maintains_andThen)

lemma maintains_ignore: "maintains view I (ignore m) \<Longrightarrow> maintains view I m"
proof (rule maintainsI)
  fix s q s' assume m: "maintains view I (ignore m)" and run: "m s = (q, s')" and I: "I (view s)"
  then obtain q' where "ignore m s = (q', s')" by (cases q) (simp_all add: andThen_def)
  then show "I (view s')" by (rule maintainsD[OF m _ I])
qed

lemma maintains_ensures:
  assumes "ensures view m R G D fit goal" and "\<And>cl cl'. touches R G cl cl' \<Longrightarrow> I cl \<Longrightarrow> I cl'"
  shows "maintains view I m"
  using ensures_touches[OF assms(1)] assms(2) by (blast intro: maintainsI)

section \<open>What an agent needs\<close>

text \<open>The cluster is fit for an agent and has what it needs.\<close>
definition workable :: "'s ocmAgentHandler \<Rightarrow> OcmAgent \<Rightarrow> Cluster \<Rightarrow> bool" where
  "workable h a cl \<longleftrightarrow> bodyFit h a cl \<and> prerequisites h a cl"

definition neededRefs :: "Env \<Rightarrow> OcmAgent \<Rightarrow> Ref set" where
  "neededRefs env a = {deploymentRef env a, serviceRef env a, metricsRef env a, proxyRef, versionRef, sourceRef env a}"

lemma workable_same:
  assumes "\<And>r. r \<in> neededRefs (h_Env h) a \<Longrightarrow> cl_Objects cl' r = cl_Objects cl r" and "workable h a cl"
  shows "workable h a cl'"
  using assms
  by (simp add: workable_def neededRefs_def bodyFit_def deploymentFit_def servicesLabelled_def labelled_def prerequisites_def
      replicasSet_def clusterToken_def sourceRef_def split: if_splits)

lemma workable_touches:
  assumes "touches R G cl cl'" and "R \<inter> neededRefs (h_Env h) a = {}" and "workable h a cl"
  shows "workable h a cl'"
  using workable_same[of h a cl' cl] touches_objects[OF assms(1)] assms(2,3) by blast

lemma needed_kinds: "kinds (neededRefs env a) \<subseteq> {KDeployment, KService, KProxy, KClusterVersion, KSecret}"
  by (auto simp: neededRefs_def sourceRef_def)

lemma maintains_other_kinds:
  assumes "ensures view m R G D fit goal" and "kinds R \<subseteq> {KConfigMap, KNetworkPolicy, KServiceMonitor, KPodDisruptionBudget}"
  shows "maintains view (workable h a) m"
proof (rule maintains_ensures[OF assms(1)])
  fix cl cl' assume "touches R G cl cl'" and "workable h a cl"
  moreover have "R \<inter> neededRefs (h_Env h) a = {}" by (rule kinds_disjoint) (use assms(2) needed_kinds[of "h_Env h" a] in auto)
  ultimately show "workable h a cl'" using workable_touches by blast
qed

text \<open>For the stored deployment and the stored services, what is needed is a property of each.\<close>
lemma workable_deployment:
  assumes t: "touches {deploymentRef (h_Env h) a} G cl cl'" and w: "workable h a cl"
    and d: "\<And>d. cl_Objects cl' (deploymentRef (h_Env h) a) = Some (ODeployment d) \<Longrightarrow>
      om_Labels (dep_Meta d) = oneLabel ''app'' (oa_Name a) \<and> ds_Replicas (dep_Spec d) \<noteq> None"
  shows "workable h a cl'"
proof -
  have same: "cl_Objects cl' r = cl_Objects cl r" if "fst r \<noteq> KDeployment" for r
    by (rule touches_objects[OF t]) (use that in \<open>auto simp: deploymentRef_def\<close>)
  note s = same[of "serviceRef (h_Env h) a"] same[of "metricsRef (h_Env h) a"] same[of proxyRef] same[of versionRef]
    same[of pullRef] same[of "tokenRef (h_Env h) a"]
  show ?thesis using w d s
    by (simp add: workable_def bodyFit_def deploymentFit_def servicesLabelled_def labelled_def prerequisites_def replicasSet_def clusterToken_def cong: if_cong)
qed

lemma workable_service:
  assumes t: "touches {objRef (OService svc)} G cl cl'" and w: "workable h a cl" and l: "labelled svc cl'"
    and svc: "svc \<in> {buildOCMAgentService (h_Env h) a, buildOCMAgentMetricsService (h_Env h) a}"
  shows "workable h a cl'"
proof -
  have ref: "objRef (OService svc) \<in> {serviceRef (h_Env h) a, metricsRef (h_Env h) a}" using svc by auto
  have same: "cl_Objects cl' r = cl_Objects cl r" if "r \<noteq> objRef (OService svc)" for r
    by (rule touches_objects[OF t]) (use that in simp)
  have other: "cl_Objects cl' r = cl_Objects cl r" if "fst r \<noteq> KService" for r
    by (rule same) (use that in \<open>auto simp: objRef_def\<close>)
  note s = other[of "deploymentRef (h_Env h) a"] other[of proxyRef] other[of versionRef] other[of pullRef] other[of "tokenRef (h_Env h) a"]
  have "labelled x cl'" if "labelled x cl" "x \<in> {buildOCMAgentService (h_Env h) a, buildOCMAgentMetricsService (h_Env h) a}" for x
  proof (cases "objRef (OService x) = objRef (OService svc)")
    case True
    with that svc service_refs_distinct[of "h_Env h" a] have "x = svc" by auto
    with l show ?thesis by simp
  next
    case False
    with same[of "objRef (OService x)"] that(1) show ?thesis by (simp add: labelled_def)
  qed
  with w s show ?thesis
    by (simp add: workable_def bodyFit_def deploymentFit_def servicesLabelled_def prerequisites_def replicasSet_def clusterToken_def cong: if_cong)
qed

section \<open>No run destroys what the agent needs\<close>

lemma credentials_maintain:
  assumes plat: "platform h view" and own: "ownSecret (h_Env h) a"
  shows "maintains view (workable h a) (ensureCredentials h a)"
proof (rule maintains_ignore, rule maintains_ensures[OF ensureCredentials_ensures[OF plat own]])
  let ?T = "if oa_FleetMode a then {} else {tokenRef (h_Env h) a}"
  fix cl cl' assume t: "touches ?T (agentGauges a) cl cl'" and w: "workable h a cl"
  have "tokenRef (h_Env h) a \<notin> neededRefs (h_Env h) a" if "\<not> oa_FleetMode a"
    using own that by (auto simp: neededRefs_def sourceRef_def ownSecret_def tokenRef_def deploymentRef_def serviceRef_def metricsRef_def
        proxyRef_def versionRef_def)
  then have "?T \<inter> neededRefs (h_Env h) a = {}" by simp
  from workable_touches[OF t this w] show "workable h a cl'" .
qed

lemma deployment_maintains:
  assumes plat: "platform h view"
  shows "maintains view (workable h a) (ensureDeployment h a)"
proof (rule maintainsI)
  fix s q s' assume run: "ensureDeployment h a s = (q, s')" and w: "workable h a (view s)"
  let ?P = "\<lambda>d. om_Labels (dep_Meta d) = oneLabel ''app'' (oa_Name a) \<and> ds_Replicas (dep_Spec d) \<noteq> None"
  have before: "?P d" if "cl_Objects (view s) (deploymentRef (h_Env h) a) = Some (ODeployment d)" for d
    using w that by (simp add: workable_def bodyFit_def deploymentFit_def prerequisites_def replicasSet_def)
  from ensureDeployment_scheme[OF plat, of a] obtain f where
    f: "ensureDeployment h a = andThen (getAs (h_Client h) KProxy asProxy ProxyNamespacedName) f"
    and step: "\<And>px s. f px s = ignore (ensureObject (h_Client h) KDeployment ODeployment asDeployment (BuildNamespacedName (h_Env h) (oa_Name a))
       (prepareOwned h a ODeployment (\<lambda>x m. x\<lparr>dep_Meta := m\<rparr>) (expectedDeployment (h_Env h) a (px_Status px)))
       (\<lambda>x. \<not> runsAgent a (px_Status px) x)
       (\<lambda>x. x\<lparr>dep_Spec := dep_Spec (expectedDeployment (h_Env h) a (px_Status px))\<rparr>)) s \<or>
     (\<exists>e s'. f px s = (Inl e, s') \<and> view s' = view s)" by blast
  have after: "?P d" if d: "cl_Objects (view s') (deploymentRef (h_Env h) a) = Some (ODeployment d)" for d
    using run[unfolded f]
  proof (cases rule: andThen_cases)
    case (err e)
    with px.getAs_view[OF platform_api[OF plat]] before d show ?thesis by metis
  next
    case (val px s1)
    have v: "view s1 = view s" by (rule px.getAs_view[OF platform_api[OF plat] val(1)])
    from step[of px s1] show ?thesis
    proof
      let ?E = "expectedDeployment (h_Env h) a (px_Status px)"
      assume "f px s1 = ignore (ensureObject (h_Client h) KDeployment ODeployment asDeployment (BuildNamespacedName (h_Env h) (oa_Name a))
         (prepareOwned h a ODeployment (\<lambda>x m. x\<lparr>dep_Meta := m\<rparr>) ?E) (\<lambda>x. \<not> runsAgent a (px_Status px) x) (\<lambda>x. x\<lparr>dep_Spec := dep_Spec ?E\<rparr>)) s1"
      with val(2) obtain q' where "ensureObject (h_Client h) KDeployment ODeployment asDeployment (metaKey (metaOf (ODeployment ?E)))
         (prepareOwned h a ODeployment (\<lambda>x m. x\<lparr>dep_Meta := m\<rparr>) ?E) (\<lambda>x. \<not> runsAgent a (px_Status px) x) (\<lambda>x. x\<lparr>dep_Spec := dep_Spec ?E\<rparr>) s1 = (q', s')"
        by (auto elim!: andThen_cases)
      then show ?thesis
        by (rule deployment.ensure_keeps_property[OF platform_api[OF plat] _ deployment.owned_prepared[OF plat], where P = ?P])
          (use before d v in auto)
    qed (use before d v val(2) in auto)
  qed
  from ensures_touches[OF ensureDeployment_ensures[OF plat] run] w after show "workable h a (view s')"
    by (rule workable_deployment)
qed

lemma service_maintains:
  assumes plat: "platform h view" and svc: "svc = freshService (BuildNamespacedName (h_Env h) name) labels spec"
    and built: "svc \<in> {buildOCMAgentService (h_Env h) a, buildOCMAgentMetricsService (h_Env h) a}"
  shows "maintains view (workable h a) (ensureOneService h a svc)"
proof (rule maintainsI)
  fix s q s' assume run: "ensureOneService h a svc s = (q, s')" and w: "workable h a (view s)"
  let ?n = "BuildNamespacedName (h_Env h) name"
  from w built have before: "labelled svc (view s)" by (auto simp: workable_def bodyFit_def servicesLabelled_def)
  from run obtain q' where "ensureObject (h_Client h) KService OService asService (metaKey (metaOf (OService (freshService ?n labels spec))))
     (prepareOwned h a OService (\<lambda>x m. x\<lparr>svc_Meta := m\<rparr>) (freshService ?n labels spec))
     (\<lambda>x. \<not> \<not> serviceConfigChanged x (freshService ?n labels spec)) (\<lambda>x. x\<lparr>svc_Spec := spec\<rparr>) s = (q', s')"
    unfolding svc ensureOneService_scheme[OF refl] by (auto elim!: andThen_cases)
  then have "om_Labels (svc_Meta x) = labels" if "cl_Objects (view s') (KService, ?n) = Some (OService x)" for x
    by (rule service.ensure_keeps_property[OF platform_api[OF plat] _ service.owned_prepared[OF plat],
        where P = "\<lambda>x. om_Labels (svc_Meta x) = labels"]) (use before that in \<open>auto simp: svc labelled_def newMeta_def\<close>)
  then have "labelled svc (view s')" by (simp add: labelled_def svc newMeta_def)
  with ensures_touches[OF ensureOneService_ensures[OF plat refl svc] run] w show "workable h a (view s')"
    using built by (rule workable_service)
qed

lemma services_maintain:
  assumes "platform h view"
  shows "maintains view (workable h a) (ensureService h a)"
proof -
  obtain spec spec' where "buildOCMAgentService (h_Env h) a = freshService (BuildNamespacedName (h_Env h) (oa_Name a)) None spec"
    "buildOCMAgentMetricsService (h_Env h) a = freshService (BuildNamespacedName (h_Env h) (oa_Name a @ ''-metrics'')) (oneLabel ''app'' (oa_Name a)) spec'"
    using services_fresh[of "h_Env h" a] by blast
  from this[THEN service_maintains[OF assms]] show ?thesis
    unfolding ensureService_def Let_def by (intro maintains_forEach) auto
qed

lemma restart_maintains:
  assumes plat: "platform h view"
  shows "maintains view (workable h a) (restartOCMAgentPods h a)"
proof (rule maintainsI)
  fix s q s' assume run: "restartOCMAgentPods h a s = (q, s')" and w: "workable h a (view s)"
  let ?P = "\<lambda>d. om_Labels (dep_Meta d) = oneLabel ''app'' (oa_Name a) \<and> ds_Replicas (dep_Spec d) \<noteq> None"
  have before: "?P d" if "cl_Objects (view s) (deploymentRef (h_Env h) a) = Some (ODeployment d)" for d
    using w that by (simp add: workable_def bodyFit_def deploymentFit_def prerequisites_def replicasSet_def)
  have after: "?P z" if z: "cl_Objects (view s') (deploymentRef (h_Env h) a) = Some (ODeployment z)" for z
    using run unfolding restartOCMAgentPods_def Let_def
  proof (cases rule: onResult_cases)
    case (err e s1)
    with dep.getAs_view[OF platform_api[OF plat] err(1)] before z show ?thesis by simp
  next
    case (val d s1)
    from platform_api[OF plat] val(1) have g: "cl_Objects (view s) (deploymentRef (h_Env h) a) = Some (ODeployment d)"
      "objRef (ODeployment d) = deploymentRef (h_Env h) a" "view s1 = view s"
      by (auto elim!: dep.getAs_cases simp: deploymentRef_def)
    let ?x = "annotateRestart (FormatRFC3339 (h_Zone h) (h_Now h s1)) d"
    from val(2) obtain r where up: "c_Update (h_Client h) (ODeployment ?x) s1 = (r, s')" by (auto elim!: onResult_cases)
    have ref: "objRef (ODeployment ?x) = deploymentRef (h_Env h) a" using g(2) by (simp add: objRef_def)
    with g have "keepsMark (ODeployment ?x) (view s1)" by (simp add: keepsMark_def)
    with platform_api[OF plat] have "accepts view (c_Update (h_Client h) (ODeployment ?x)) (updateResults (ODeployment ?x)) s1" by (simp add: api_def)
    from accepts_either[OF this up] z g(1,3) consider "z = d" | y where "sameButServer (ODeployment ?x) y" "persisted y = Some (ODeployment z)"
      by (auto simp: updateResults_def ref)
    then show ?thesis
      by cases (use before[OF g(1)] in \<open>auto simp: sameButServer_def persisted_def annotateRestart_def Let_def split: if_splits\<close>)
  qed
  from restart_touches[OF plat run] w after show "workable h a (view s')" by (rule workable_deployment)
qed

lemma exist_maintains:
  assumes plat: "platform h view" and own: "ownSecret (h_Env h) a"
  shows "maintains view (workable h a) (EnsureOCMAgentResourcesExist h a)"
proof -
  have "maintains view (workable h a) (ensureAllConfigMaps h a)" "maintains view (workable h a) (ensureAllNetworkPolicies h a)"
    "maintains view (workable h a) (ensureServiceMonitor h a)" "maintains view (workable h a) (ensurePodDisruptionBudget h a)"
    by (rule maintains_other_kinds[OF ensureAllConfigMaps_ensures[OF plat]] maintains_other_kinds[OF ensureAllNetworkPolicies_ensures[OF plat]]
        maintains_other_kinds[OF ensureServiceMonitor_ensures[OF plat]] maintains_other_kinds[OF ensurePodDisruptionBudget_ensures[OF plat]], simp)+
  then have body: "maintains view (workable h a) (ensureBody h a)"
    unfolding ensureBody_def using deployment_maintains[OF plat] services_maintain[OF plat]
    by (intro maintains_forEach) (auto split: if_splits)
  show ?thesis
    unfolding EnsureExist_body ensureCredentials_def[symmetric]
    using credentials_maintain[OF assms] body restart_maintains[OF plat] by (auto intro!: maintains_andThen)
qed

section \<open>Attempts\<close>

text \<open>There is a resource to reconcile, not being deleted, in the namespace of the operator, with what it needs.\<close>
definition serviceable :: "'s ocmAgentHandler \<Rightarrow> ('s \<Rightarrow> Cluster) \<Rightarrow> NamespacedName \<Rightarrow> Cluster \<Rightarrow> bool" where
  "serviceable h view request cl \<longleftrightarrow> (\<exists>a. agentAt request a cl \<and> \<not> deleting a \<and> manageable h view a \<and>
     oa_Namespace a = operatorNamespace (h_Env h) \<and> workable h a cl)"

text \<open>All of this depends on the names and the specification of the resource only.\<close>
lemma workable_agent:
  assumes "oa_Name b = oa_Name a" and "oa_Namespace b = oa_Namespace a" and "oa_Spec b = oa_Spec a"
  shows "workable h b cl = workable h a cl" and "manageable h view b = manageable h view a"
  using assms
  by (simp_all add: workable_def bodyFit_def deploymentFit_def servicesLabelled_def labelled_def prerequisites_def replicasSet_def
      deploymentRef_def tokenRef_def manageable_def ownSecret_def serviceRef_def metricsRef_def
      buildOCMAgentService_def buildOCMAgentMetricsService_def Let_def)

text \<open>Whatever becomes of the request to add the finalizer, the resource stays otherwise as it is.\<close>
lemma claim_leaves:
  assumes w: "wired r handler view" and at: "agentAt request a (view s)" "objRef (OOcmAgent a) = agentRef request"
    and run: "claimAgent r a s = (q, s')" and live: "\<not> deleting a"
  shows "\<exists>b. agentAt request b (view s') \<and> \<not> deleting b \<and> oa_Name b = oa_Name a \<and> oa_Namespace b = oa_Namespace a \<and> oa_Spec b = oa_Spec a"
proof (cases "hasFinalizer a")
  case True
  with run w at(1) live show ?thesis by (auto simp: claimAgent_def wired_def finalizer_update(1))
next
  case False
  from w have api: "api (r_Client r) view" "finalizers_ok (r_Controllerutil r)" by (simp_all add: wired_def)
  from finalizer_update(2)[OF api(2)] obtain fs where fs:
    "AddFinalizer (r_Controllerutil r) (oa_Meta a) ReconcileOCMAgentFinalizer = (oa_Meta a)\<lparr>om_Finalizers := fs\<rparr>" by blast
  let ?a = "a\<lparr>oa_Meta := (oa_Meta a)\<lparr>om_Finalizers := fs\<rparr>\<rparr>"
  have ref: "objRef (OOcmAgent ?a) = agentRef request" using at(2) by (simp add: objRef_def metaKey_def)
  have "keepsMark (OOcmAgent ?a) (view s)" using at(1) ref by (simp add: keepsMark_def agentAt_def)
  with api(1) have acc: "accepts view (c_Update (r_Client r) (OOcmAgent ?a)) (updateResults (OOcmAgent ?a)) s" by (simp add: api_def)
  from run fs False have up: "c_Update (r_Client r) (OOcmAgent ?a) s = (q, s')"
    by (simp add: claimAgent_def finalizer_update(1)[OF api(2)])
  from accepts_either[OF acc up] consider "view s' = view s" | z where "sameButServer (OOcmAgent ?a) z" "cl_Objects (view s') (agentRef request) = persisted z"
    by (auto simp: updateResults_def ref)
  then show ?thesis
    by cases (use at(1) live in \<open>auto simp: agentAt_def sameButServer_def persisted_def deleting_def\<close>)
qed

lemma serviceable_gauge:
  assumes "cl' = cl\<lparr>cl_Gauges := g\<rparr>"
  shows "agentAt request a cl \<Longrightarrow> agentAt request a cl'" and "workable h a cl \<Longrightarrow> workable h a cl'"
  using assms workable_same[of h a cl' cl] by (simp_all add: agentAt_def)

text \<open>An attempt, whatever its outcome, leaves the resource serviceable.\<close>
lemma reconcile_maintains:
  assumes w: "wired r (handlerOf h) view"
  shows "maintains view (serviceable h view request) (Reconcile r request)"
proof (rule maintainsI)
  fix s q s' assume run: "Reconcile r request s = (q, s')" and inv: "serviceable h view request (view s)"
  then obtain a where a: "agentAt request a (view s)" "\<not> deleting a" "manageable h view a" "oa_Namespace a = operatorNamespace (h_Env h)"
    "workable h a (view s)" unfolding serviceable_def by blast
  from a(3) have m: "platform h view" "ownSecret (h_Env h) a" by (simp_all add: manageable_def)
  from w run a(1) show "serviceable h view request (view s')"
  proof (cases rule: run.stored_cases)
    case (kept s1)
    note g = serviceable_gauge[OF kept(3)]
    have ex: "agentAt request a (view s2) \<and> workable h a (view s2)" if "EnsureExist (handlerOf h) a s1 = (q2, s2)" for q2 s2
      using run.methods_keep_agent(1)[OF a(3) that g(1)[OF a(1)]] maintainsD[OF exist_maintains[OF m]] that g(2)[OF a(5)]
      by (simp add: handlerOf_def)
    from kept(4) show ?thesis
    proof (cases rule: andThen_cases)
      case (err e)
      with ex a show ?thesis unfolding serviceable_def by blast
    next
      case (val u s2)
      note at2 = ex[OF val(1)]
      from val(2) obtain q' where cl: "claimAgent r a s2 = (q', s')" by (auto elim!: andThen_cases)
      from claim_leaves[OF w conjunct1[OF at2] kept(2) cl a(2)] obtain b where b: "agentAt request b (view s')" "\<not> deleting b"
        "oa_Name b = oa_Name a" "oa_Namespace b = oa_Namespace a" "oa_Spec b = oa_Spec a" by blast
      have t: "touches {agentRef request} {} (view s2) (view s')"
        using claim_touches[OF w conjunct1[OF at2] kept(2) cl] by (rule touches_mono) auto
      have "{agentRef request} \<inter> neededRefs (h_Env h) a = {}" by (rule kinds_disjoint) (use needed_kinds[of "h_Env h" a] in auto)
      from workable_touches[OF t this conjunct2[OF at2]] have "workable h a (view s')" .
      with workable_agent[OF b(3-5)] b a(3,4) show ?thesis unfolding serviceable_def by metis
    qed
  qed (use inv a(2) in simp_all)
qed

text \<open>Attempts with faults, between which others may do whatever leaves the resource serviceable: change or delete its objects, edit it, rotate the
  pull secret.\<close>
inductive upkeep :: "'s OcmAgentReconciler \<Rightarrow> NamespacedName \<Rightarrow> ('s \<Rightarrow> Cluster) \<Rightarrow> (Cluster \<Rightarrow> bool) \<Rightarrow> 's \<Rightarrow> 's \<Rightarrow> bool"
  for r request view I where
  attempt: "Reconcile r request s = (q, s') \<Longrightarrow> upkeep r request view I s s'"
| others: "I (view s') \<Longrightarrow> upkeep r request view I s s'"

lemma upkeep_invariant:
  assumes "maintains view I (Reconcile r request)" and "(upkeep r request view I)\<^sup>*\<^sup>* s s'" and "I (view s)"
  shows "I (view s')"
  using assms(2,3) by (induction rule: rtranclp_induct) (auto elim!: upkeep.cases intro: maintainsD[OF assms(1)])

section \<open>Properties\<close>

text \<open>C5. Recovery: after any number of reconciliations with faults at any call, also of writes that were carried out and reported as failed, and whatever
  others did in between as long as they left the resource serviceable, the first reconciliation without faults
  succeeds, puts everything in place and sets the finalizer. No failed attempt leaves anything behind that a later one cannot deal with.\<close>
theorem reconcile_recovers:
  assumes faulty: "wired r (handlerOf h) view" and start: "serviceable h view request (view s)"
    and attempts: "(upkeep r request view (serviceable h view request))\<^sup>*\<^sup>* s s'"
    and up: "wired r' (handlerOf (h\<lparr>h_Client := c\<rparr>)) view" "api_up (r_Client r') view" "platform_up (h\<lparr>h_Client := c\<rparr>) view"
  shows "\<exists>a z s''. agentAt request a (view s') \<and> Reconcile r' request s' = (Inr \<lparr>res_RequeueAfter = 5 * 60000000000\<rparr>, s'') \<and>
    deployed h a (view s'') \<and> agentAt request z (view s'') \<and> hasFinalizer z \<and> oa_Spec z = oa_Spec a"
proof -
  let ?h = "h\<lparr>h_Client := c\<rparr>"
  from upkeep_invariant[OF reconcile_maintains[OF faulty] attempts start] obtain a where a: "agentAt request a (view s')" "\<not> deleting a"
    "manageable h view a" "oa_Namespace a = operatorNamespace (h_Env ?h)" "bodyFit ?h a (view s')" "prerequisites ?h a (view s')"
    by (auto simp: serviceable_def workable_def client_irrelevant)
  have m: "manageable ?h view a" using a(3) platform_up_platform[OF up(3)] by (simp add: manageable_def)
  obtain s'' where s'': "Reconcile r' request s' = (Inr \<lparr>res_RequeueAfter = SyncPeriodDefault\<rparr>, s'')"
    using reconcile_exists_up[OF up a(1,2) m a(4-6)] by blast
  from run.reconcile_exists[OF up(1) s'' a(1) m a(2,5)] s'' a(1) show ?thesis
    by (auto simp: client_irrelevant SyncPeriodDefault_def)
qed

text \<open>A client whose creations are carried out while the answer gets lost.\<close>
definition lossyClient :: "Cluster Client" where
  "lossyClient = memClient\<lparr>c_Create := \<lambda>x s. (Inl (ApiError ''timeout''), snd (c_Create memClient x s))\<rparr>"

definition lossyReconciler :: "Cluster OcmAgentReconciler" where
  "lossyReconciler = memReconciler\<lparr>r_Client := lossyClient, r_OCMAgentHandlerBuilder := NewBuilder memHandler lossyClient\<rparr>"

abbreviation lossyHandler :: "Cluster ocmAgentHandler" where
  "lossyHandler \<equiv> memHandler\<lparr>h_Client := lossyClient\<rparr>"

lemma lossyClient_api: "api lossyClient memView"
proof -
  have "accepts memView (c_Create lossyClient x) (createResults x) s" if "om_DeletionTimestamp (metaOf x) = None" for x s
  proof -
    from memClient_api that have "accepts memView (c_Create memClient x) (createResults x) s" by (simp add: api_def)
    from accepts_either[OF this, of "fst (c_Create memClient x s)" "snd (c_Create memClient x s)"] show ?thesis
      by (simp add: accepts_def lossyClient_def)
  qed
  moreover have "c_Get lossyClient = c_Get memClient" "c_Update lossyClient = c_Update memClient" "c_Delete lossyClient = c_Delete memClient"
    by (simp_all add: lossyClient_def)
  ultimately show ?thesis using memClient_api unfolding api_def by auto
qed

lemma lossy_wired: "wired lossyReconciler (handlerOf lossyHandler) memView" "platform lossyHandler memView"
  using lossyClient_api memReconciler_wired(1) memHandler_platform
  by (simp_all add: wired_def lossyReconciler_def NewBuilder_handler platform_def gauges_ok_def)

lemma lossy_mem: "lossyHandler\<lparr>h_Client := memClient\<rparr> = memHandler"
  by (simp add: memHandler_def)

text \<open>One attempt with lost answers, which fails, then one without faults.\<close>
theorem reconcile_recovers_witness:
  "\<exists>q s' a s''. Reconcile lossyReconciler sampleKey (agentCluster (agentWith [] None)) = (q, s') \<and>
     Reconcile memReconciler sampleKey s' = (Inr \<lparr>res_RequeueAfter = 5 * 60000000000\<rparr>, s'') \<and> deployed lossyHandler a (memView s'')"
proof -
  let ?a = "agentWith [] None"
  obtain q s' where run: "Reconcile lossyReconciler sampleKey (agentCluster ?a) = (q, s')" by fastforce
  then have steps: "(upkeep lossyReconciler sampleKey memView I)\<^sup>*\<^sup>* (agentCluster ?a) s'" for I by (intro r_into_rtranclp upkeep.attempt)
  have v: "memView (agentCluster ?a) = agentCluster ?a" by (rule agentCluster_view) simp
  have "manageable lossyHandler memView ?a" using agentWith_manageable[of "[]" None] lossy_wired(2) by (simp add: manageable_def)
  moreover have "workable lossyHandler ?a (memView (agentCluster ?a))"
    unfolding v using agentCluster_ready[of "[]" None] by (simp add: workable_def client_irrelevant)
  moreover have "agentAt sampleKey ?a (memView (agentCluster ?a))" unfolding v by (rule agentCluster_at)
  moreover have "\<not> deleting ?a" "oa_Namespace ?a = operatorNamespace (h_Env lossyHandler)"
    using agentWith_fields(5)[of "[]" None] sampleAgent_fields(5) by (simp_all add: deleting_def)
  ultimately have "serviceable lossyHandler memView sampleKey (memView (agentCluster ?a))" unfolding serviceable_def by blast
  from reconcile_recovers[OF lossy_wired(1) this steps, of memReconciler memClient] memReconciler_wired memHandler_up run
  show ?thesis unfolding lossy_mem by blast
qed

section \<open>Deletions\<close>

text \<open>Whatever becomes of the request to remove the finalizer, a resource that nothing else holds is as before or gone.\<close>
lemma release_leaves:
  assumes w: "wired r handler view" and at: "agentAt request a (view s)" "objRef (OOcmAgent a) = agentRef request"
    and run: "releaseAgent r a s = (q, s')" and del: "deleting a" and fin: "om_Finalizers (oa_Meta a) = [ReconcileOCMAgentFinalizer]"
  shows "agentAt request a (view s') \<or> cl_Objects (view s') (agentRef request) = None"
proof -
  from w have api: "api (r_Client r) view" "finalizers_ok (r_Controllerutil r)" by (simp_all add: wired_def)
  from finalizer_update(3)[OF api(2)] obtain fs where fs:
    "RemoveFinalizer (r_Controllerutil r) (oa_Meta a) ReconcileOCMAgentFinalizer = (oa_Meta a)\<lparr>om_Finalizers := fs\<rparr>"
    "set fs = set (om_Finalizers (oa_Meta a)) - {ReconcileOCMAgentFinalizer}" by blast
  let ?a = "a\<lparr>oa_Meta := (oa_Meta a)\<lparr>om_Finalizers := fs\<rparr>\<rparr>"
  from fs(2) fin have "fs = []" by simp
  have ref: "objRef (OOcmAgent ?a) = agentRef request" using at(2) by (simp add: objRef_def metaKey_def)
  have "keepsMark (OOcmAgent ?a) (view s)" using at(1) ref by (simp add: keepsMark_def agentAt_def)
  with api(1) have acc: "accepts view (c_Update (r_Client r) (OOcmAgent ?a)) (updateResults (OOcmAgent ?a)) s" by (simp add: api_def)
  from run fs(1) fin have up: "c_Update (r_Client r) (OOcmAgent ?a) s = (q, s')"
    by (simp add: releaseAgent_def finalizer_update(1)[OF api(2)] hasFinalizer_def)
  from accepts_either[OF acc up] consider "view s' = view s" | z where "sameButServer (OOcmAgent ?a) z" "cl_Objects (view s') (agentRef request) = persisted z"
    by (auto simp: updateResults_def ref)
  then show ?thesis
    by cases (use at(1) del \<open>fs = []\<close> in \<open>auto simp: sameButServer_def persisted_def deleting_def\<close>)
qed

lemma teardown_leaves:
  assumes w: "wired r (handlerOf h) view" and m: "manageable h view a" and del: "deleting a"
    and fin: "om_Finalizers (oa_Meta a) = [ReconcileOCMAgentFinalizer]" and step: "teardown r request view refs s s'"
    and inv: "agentAt request a (view s) \<or> cl_Objects (view s) (agentRef request) = None"
  shows "agentAt request a (view s') \<or> cl_Objects (view s') (agentRef request) = None"
  using step
proof (cases rule: teardown.cases)
  case (attempt q)
  from w attempt show ?thesis
  proof (cases rule: reconcile_cases)
    case (found b s1)
    with inv have b: "b = a" by (simp add: agentAt_def)
    note g = run.gauge_keeps[OF m found(3)]
    from found(4) b del have "andThen (EnsureAbsent (handlerOf h) a) (\<lambda>_. andThen (releaseAgent r a) (\<lambda>_. ok emptyResult)) s1 = (q, s')" by simp
    then show ?thesis
    proof (cases rule: andThen_cases)
      case (err e)
      with run.methods_keep_agent(2)[OF m] g(2) found(1) b show ?thesis by blast
    next
      case (val u s2)
      note at2 = run.methods_keep_agent(2)[OF m val(1) g(2)[OF found(1)[unfolded b]]]
      from val(2) obtain q' where "releaseAgent r a s2 = (q', s')" by (auto elim!: andThen_cases)
      from release_leaves[OF w at2 found(2)[unfolded b] this del fin] show ?thesis .
    qed
  qed (use inv in \<open>auto simp: agentAt_def\<close>)
next
  case others
  with inv show ?thesis by (simp add: agentAt_def)
qed

text \<open>C6. Deletions complete: after any sequence of attempts with faults to reconcile a resource that is being deleted and that only the operator holds,
  interleaved with other activity, one attempt without faults succeeds; then the resource is gone, and of everything that the operator
  makes for the agent at most three objects are left: the two config maps that the removal never deletes, which the last attempt leaves as they
  were, and possibly the metrics service.\<close>
theorem teardown_completes:
  assumes faulty: "wired r (handlerOf h) view" and m: "manageable h view a" and del: "deleting a"
    and fin: "om_Finalizers (oa_Meta a) = [ReconcileOCMAgentFinalizer]"
    and name: "oa_Name a \<noteq> TrustedCaBundleConfigMapName" and start: "agentAt request a (view s)" "unheld (h_Env h) a (view s)"
    and steps: "(teardown r request view (absentRefs (h_Env h) a))\<^sup>*\<^sup>* s s'"
    and up: "wired r' (handlerOf (h\<lparr>h_Client := c\<rparr>)) view" "api_up (r_Client r') view" "platform_up (h\<lparr>h_Client := c\<rparr>) view"
  shows "\<exists>s''. Reconcile r' request s' = (Inr \<lparr>res_RequeueAfter = 0\<rparr>, s'') \<and> cl_Objects (view s'') (KOcmAgent, request) = None \<and>
    (\<forall>x \<in> agentRefs (h_Env h) a \<union> absentRefs (h_Env h) a - {metricsRef (h_Env h) a}. cl_Objects (view s'') x =
       (if x \<in> {configRef (h_Env h) a, trustRef (h_Env h)} then cl_Objects (view s') x else None))"
proof -
  let ?h = "h\<lparr>h_Client := c\<rparr>"
  from start have "teardownInv h view request a (view s)" by (simp add: teardownInv_def)
  with steps have inv: "teardownInv h view request a (view s')"
    by (induction rule: rtranclp_induct) (auto intro: teardown_step[OF faulty m del])
  from steps start(1) have "agentAt request a (view s') \<or> cl_Objects (view s') (agentRef request) = None"
    by (induction rule: rtranclp_induct) (auto dest: teardown_leaves[OF faulty m del fin])
  then have "\<exists>s''. Reconcile r' request s' = (Inr emptyResult, s'') \<and> cl_Objects (view s'') (agentRef request) = None \<and>
      (\<forall>x \<in> removedRefs (h_Env h) a. absent x (view s'')) \<and> (\<forall>x \<in> leftRefs (h_Env h) a. cl_Objects (view s'') x = cl_Objects (view s') x)"
  proof
    assume at: "agentAt request a (view s')"
    have m': "manageable ?h view a" using m platform_up_platform[OF up(3)] by (simp add: manageable_def)
    obtain s'' where s'': "Reconcile r' request s' = (Inr emptyResult, s'')" using reconcile_removes_up[OF up at del m'] by blast
    have "unheld (h_Env ?h) a (view s')" using inv by (simp add: teardownInv_def)
    from retried.reconcile_removes[OF up(1) s'' at m' del this] reconcile_leaves[OF up(1) s'' at m' del name] fin s'' show ?thesis by auto
  next
    assume none: "cl_Objects (view s') (agentRef request) = None"
    from none up(2) obtain e s1 where g: "getAs (r_Client r') KOcmAgent asOcmAgent request s' = (Inl e, s1)" "IsNotFound e" "view s1 = view s'"
      by (auto elim!: oa.getAs_up[where key = request and s = s'])
    let ?s'' = "r_GaugeSet r' MetricOcmAgentResourceAbsent [] 1 s1"
    have "Reconcile r' request s' = (Inr emptyResult, ?s'')"
      using g by (simp add: Reconcile_def onResult_def UpdateMetricOcmAgentResourceAbsent_def andThen_def)
    moreover have "cl_Objects (view ?s'') = cl_Objects (view s')" using up(1) g(3) by (simp add: wired_def)
    moreover have "\<forall>x \<in> removedRefs (h_Env h) a. absent x (view s')" using inv none by (auto simp: teardownInv_def tornDown_def agentAt_def)
    ultimately show ?thesis using none by (auto simp: absent_def)
  qed
  then show ?thesis using removedRefs_made[of "h_Env h" a] unfolding emptyResult_def leftRefs_def absent_def by fastforce
qed

text \<open>From a cluster with all the objects, an attempt by a client that loses the answers to its deletions, then one without faults.\<close>
definition deafClient :: "Cluster Client" where
  "deafClient = memClient\<lparr>c_Delete := \<lambda>x s. (Inl (ApiError ''timeout''), snd (c_Delete memClient x s))\<rparr>"

definition deafReconciler :: "Cluster OcmAgentReconciler" where
  "deafReconciler = memReconciler\<lparr>r_Client := deafClient, r_OCMAgentHandlerBuilder := NewBuilder memHandler deafClient\<rparr>"

abbreviation deafHandler :: "Cluster ocmAgentHandler" where
  "deafHandler \<equiv> memHandler\<lparr>h_Client := deafClient\<rparr>"

lemma deafClient_api: "api deafClient memView"
proof -
  have "accepts memView (c_Delete deafClient x) (deleteResults x) s" for x s
  proof -
    from memClient_api have "accepts memView (c_Delete memClient x) (deleteResults x) s" by (simp add: api_def)
    from accepts_either[OF this, of "fst (c_Delete memClient x s)" "snd (c_Delete memClient x s)"] show ?thesis
      by (simp add: accepts_def deafClient_def)
  qed
  moreover have "c_Get deafClient = c_Get memClient" "c_Update deafClient = c_Update memClient" "c_Create deafClient = c_Create memClient"
    by (simp_all add: deafClient_def)
  ultimately show ?thesis using memClient_api unfolding api_def by auto
qed

lemma deaf_wired: "wired deafReconciler (handlerOf deafHandler) memView" "platform deafHandler memView" "deafHandler\<lparr>h_Client := memClient\<rparr> = memHandler"
  using deafClient_api memReconciler_wired(1) memHandler_platform
  by (simp_all add: wired_def deafReconciler_def NewBuilder_handler platform_def gauges_ok_def) (simp add: memHandler_def)

theorem teardown_completes_witness:
  "let a = agentWith [ReconcileOCMAgentFinalizer] (Some 7); env = h_Env memHandler; s = runningCluster a in
     \<exists>q s' s''. Reconcile deafReconciler sampleKey s = (q, s') \<and> Reconcile memReconciler sampleKey s' = (Inr \<lparr>res_RequeueAfter = 0\<rparr>, s'') \<and>
       cl_Objects (memView s'') (KOcmAgent, sampleKey) = None \<and> cl_Objects (memView s) (deploymentRef env a) \<noteq> None \<and>
       cl_Objects (memView s'') (deploymentRef env a) = None \<and> cl_Objects (memView s'') (configRef env a) = cl_Objects (memView s') (configRef env a)"
proof -
  let ?a = "agentWith [ReconcileOCMAgentFinalizer] (Some 7)" and ?env = "h_Env memHandler"
  obtain q s' where run: "Reconcile deafReconciler sampleKey (runningCluster ?a) = (q, s')" by fastforce
  then have steps: "(teardown deafReconciler sampleKey memView R)\<^sup>*\<^sup>* (runningCluster ?a) s'" for R by (intro r_into_rtranclp teardown.attempt)
  have v: "memView (runningCluster ?a) = runningCluster ?a" by (rule running_view) simp
  have a: "deleting ?a" "om_Finalizers (oa_Meta ?a) = [ReconcileOCMAgentFinalizer]" "oa_Name ?a \<noteq> TrustedCaBundleConfigMapName"
    "agentAt sampleKey ?a (memView (runningCluster ?a))" "unheld (h_Env deafHandler) ?a (memView (runningCluster ?a))"
    unfolding v using running_at running_removable sample_names by (simp_all add: deleting_def unheld_def removable_def)
  have "manageable deafHandler memView ?a" using agentWith_manageable deaf_wired(2) by (simp add: manageable_def)
  from teardown_completes[OF deaf_wired(1) this a steps, of memReconciler memClient] memReconciler_wired memHandler_up
  obtain s'' where s'': "Reconcile memReconciler sampleKey s' = (Inr \<lparr>res_RequeueAfter = 0\<rparr>, s'')" "cl_Objects (memView s'') (KOcmAgent, sampleKey) = None"
    and all: "\<And>x. x \<in> agentRefs ?env ?a \<union> absentRefs ?env ?a - {metricsRef ?env ?a} \<Longrightarrow> cl_Objects (memView s'') x =
      (if x \<in> {configRef ?env ?a, trustRef ?env} then cl_Objects (memView s') x else None)"
    unfolding deaf_wired(3) by auto
  have "deploymentRef ?env ?a \<in> agentRefs ?env ?a \<union> absentRefs ?env ?a - {metricsRef ?env ?a}"
    "configRef ?env ?a \<in> agentRefs ?env ?a \<union> absentRefs ?env ?a - {metricsRef ?env ?a}" "deploymentRef ?env ?a \<notin> {configRef ?env ?a, trustRef ?env}"
    by (simp_all add: agentRefs_def bodyRefs_def configMapRefs_def) (simp_all add: deploymentRef_def configRef_def trustRef_def metricsRef_def)
  with run s'' all running_objects(1)[of ?a] show ?thesis unfolding Let_def v by auto
qed

end
