(* ===== verification/Permissions.thy ===== *)
theory Permissions
  imports Startup
begin

text \<open>
  What the service account of the operator may do (\<^verbatim>\<open>deploy_pko\<close>: a cluster role and three roles, with their bindings), and what its
  code asks for. The authorizer of the API server is not part of the repository: it is the parameter \<open>authorize\<close>, with \<open>rbac_ok\<close> for the
  documented meaning of roles, which only ever add permissions. \<open>enforced\<close> is a client whose requests pass the
  authorizer first.

  The roles are enough: behind the authorizer both controllers behave as if they were allowed everything. They are also tight: outside the
  namespace of the operator they allow nothing but reads and the config map for the alert manager.
\<close>

section \<open>Model\<close>

record PolicyRule =
  pr_APIGroups :: "string list"
  pr_Resources :: "string list"
  pr_Verbs :: "string list"

text \<open>A bound role: its namespace, or none for a cluster role with a cluster role binding.\<close>
record Grant =
  g_Namespace :: "string option"
  g_Rules :: "PolicyRule list"

definition clusterRole :: Grant where
  "clusterRole = \<lparr>g_Namespace = None, g_Rules = [
     \<lparr>pr_APIGroups = [''''], pr_Resources = [''secrets'', ''services'', ''configmaps''], pr_Verbs = [''get'', ''list'', ''watch'']\<rparr>,
     \<lparr>pr_APIGroups = [''apps''], pr_Resources = [''deployments''], pr_Verbs = [''get'', ''list'', ''watch'']\<rparr>,
     \<lparr>pr_APIGroups = [''ocmagent.managed.openshift.io''], pr_Resources = [''*''], pr_Verbs = [''get'', ''list'', ''watch'']\<rparr>,
     \<lparr>pr_APIGroups = [''config.openshift.io''], pr_Resources = [''clusterversions''], pr_Verbs = [''get'', ''list'', ''watch'']\<rparr>,
     \<lparr>pr_APIGroups = [''config.openshift.io''], pr_Resources = [''proxies''], pr_Verbs = [''get'', ''list'', ''watch'']\<rparr>]\<rparr>"

definition operatorRole :: Grant where
  "operatorRole = \<lparr>g_Namespace = Some ''openshift-ocm-agent-operator'', g_Rules = [
     \<lparr>pr_APIGroups = [''''], pr_Resources = [''services'', ''services/finalizers'', ''configmaps'', ''secrets''], pr_Verbs = [''*'']\<rparr>,
     \<lparr>pr_APIGroups = [''''], pr_Resources = [''pods''], pr_Verbs = [''get'', ''list'', ''watch'']\<rparr>,
     \<lparr>pr_APIGroups = [''apps''], pr_Resources = [''deployments''], pr_Verbs = [''*'']\<rparr>,
     \<lparr>pr_APIGroups = [''monitoring.coreos.com''], pr_Resources = [''servicemonitors''], pr_Verbs = [''*'']\<rparr>,
     \<lparr>pr_APIGroups = [''apps''], pr_Resources = [''deployments'', ''deployments/finalizers'', ''replicasets''],
       pr_Verbs = [''get'', ''list'', ''watch'', ''update'']\<rparr>,
     \<lparr>pr_APIGroups = [''ocmagent.managed.openshift.io'', ''ocmagent.managed.openshift.io/finalizers''], pr_Resources = [''*''],
       pr_Verbs = [''get'', ''list'', ''watch'', ''update'', ''patch'']\<rparr>,
     \<lparr>pr_APIGroups = [''networking.k8s.io''], pr_Resources = [''networkpolicies'', ''networkpolicies/finalizers''], pr_Verbs = [''*'']\<rparr>,
     \<lparr>pr_APIGroups = [''policy''], pr_Resources = [''poddisruptionbudgets''],
       pr_Verbs = [''create'', ''delete'', ''get'', ''list'', ''patch'', ''update'', ''watch'']\<rparr>]\<rparr>"

definition configReaderRole :: Grant where
  "configReaderRole = \<lparr>g_Namespace = Some ''openshift-config'', g_Rules = [
     \<lparr>pr_APIGroups = [''''], pr_Resources = [''secrets''], pr_Verbs = [''get'', ''list'']\<rparr>]\<rparr>"

definition monitoringRole :: Grant where
  "monitoringRole = \<lparr>g_Namespace = Some ''openshift-monitoring'', g_Rules = [
     \<lparr>pr_APIGroups = [''''], pr_Resources = [''configmaps''],
       pr_Verbs = [''create'', ''delete'', ''get'', ''list'', ''patch'', ''update'', ''watch'']\<rparr>,
     \<lparr>pr_APIGroups = [''monitoring.coreos.com''], pr_Resources = [''servicemonitors''], pr_Verbs = [''get'', ''watch'', ''list'']\<rparr>,
     \<lparr>pr_APIGroups = [''networking.k8s.io''], pr_Resources = [''networkpolicies''], pr_Verbs = [''get'', ''watch'', ''list'']\<rparr>]\<rparr>"

definition operatorGrants :: "Grant list" where
  "operatorGrants = [clusterRole, operatorRole, configReaderRole, monitoringRole]"

section \<open>Authorization\<close>

text \<open>A request as the authorizer sees it. Requests for cluster-scoped resources have the empty namespace; a subresource is written
  after its resource, as in a rule.\<close>
record Attributes =
  at_Verb :: string
  at_APIGroup :: string
  at_Resource :: string
  at_Namespace :: string

definition listed :: "string \<Rightarrow> string list \<Rightarrow> bool" where
  "listed x xs \<longleftrightarrow> ''*'' \<in> set xs \<or> x \<in> set xs"

definition ruleAllows :: "PolicyRule \<Rightarrow> Attributes \<Rightarrow> bool" where
  "ruleAllows r a \<longleftrightarrow> listed (at_Verb a) (pr_Verbs r) \<and> listed (at_APIGroup a) (pr_APIGroups r) \<and> listed (at_Resource a) (pr_Resources r)"

definition grantAllows :: "Grant \<Rightarrow> Attributes \<Rightarrow> bool" where
  "grantAllows g a \<longleftrightarrow> (case g_Namespace g of None \<Rightarrow> True | Some ns \<Rightarrow> ns = at_Namespace a) \<and> list_ex (\<lambda>r. ruleAllows r a) (g_Rules g)"

definition granted :: "Grant list \<Rightarrow> Attributes \<Rightarrow> bool" where
  "granted gs a \<longleftrightarrow> list_ex (\<lambda>g. grantAllows g a) gs"

text \<open>The authorizer allows what a bound role grants.\<close>
definition rbac_ok :: "(Attributes \<Rightarrow> bool) \<Rightarrow> bool" where
  "rbac_ok authorize \<longleftrightarrow> (\<forall>a. granted operatorGrants a \<longrightarrow> authorize a)"

text \<open>The group and the resource of a kind of object.\<close>
primrec resourceOf :: "Kind \<Rightarrow> string \<times> string" where
  "resourceOf KDeployment = (''apps'', ''deployments'')"
| "resourceOf KConfigMap = ('''', ''configmaps'')"
| "resourceOf KSecret = ('''', ''secrets'')"
| "resourceOf KService = ('''', ''services'')"
| "resourceOf KNetworkPolicy = (''networking.k8s.io'', ''networkpolicies'')"
| "resourceOf KServiceMonitor = (''monitoring.coreos.com'', ''servicemonitors'')"
| "resourceOf KPodDisruptionBudget = (''policy'', ''poddisruptionbudgets'')"
| "resourceOf KOcmAgent = (''ocmagent.managed.openshift.io'', ''ocmagents'')"
| "resourceOf KProxy = (''config.openshift.io'', ''proxies'')"
| "resourceOf KClusterVersion = (''config.openshift.io'', ''clusterversions'')"

definition attributes :: "string \<Rightarrow> Kind \<Rightarrow> string \<Rightarrow> Attributes" where
  "attributes verb k ns = \<lparr>at_Verb = verb, at_APIGroup = fst (resourceOf k), at_Resource = snd (resourceOf k), at_Namespace = ns\<rparr>"

text \<open>A request that is not allowed is refused before it has an effect.\<close>
definition forbidden :: error where
  "forbidden = ApiError ''forbidden''"

definition checked :: "bool \<Rightarrow> ('s, 'a) step \<Rightarrow> ('s, 'a) step" where
  "checked allowed m = (if allowed then m else fail forbidden)"

definition enforced :: "(Attributes \<Rightarrow> bool) \<Rightarrow> 's Client \<Rightarrow> 's Client" where
  "enforced authorize c = \<lparr>
     c_Get = \<lambda>k key. checked (authorize (attributes ''get'' k (nn_Namespace key))) (c_Get c k key),
     c_Create = \<lambda>x. checked (authorize (attributes ''create'' (kindOf x) (om_Namespace (metaOf x)))) (c_Create c x),
     c_Update = \<lambda>x. checked (authorize (attributes ''update'' (kindOf x) (om_Namespace (metaOf x)))) (c_Update c x),
     c_Delete = \<lambda>x. checked (authorize (attributes ''delete'' (kindOf x) (om_Namespace (metaOf x)))) (c_Delete c x)\<rparr>"

definition recordAttributes :: "string \<Rightarrow> string \<Rightarrow> string \<Rightarrow> Attributes" where
  "recordAttributes verb resource ns =
     \<lparr>at_Verb = verb, at_APIGroup = fst GroupVersion, at_Resource = resource, at_Namespace = ns\<rparr>"

definition enforcedFleet :: "(Attributes \<Rightarrow> bool) \<Rightarrow> 's FleetClient \<Rightarrow> 's FleetClient" where
  "enforcedFleet authorize c = \<lparr>
     fc_Get = \<lambda>key. checked (authorize (recordAttributes ''get'' ''managedfleetnotificationrecords'' (nn_Namespace key))) (fc_Get c key),
     fc_StatusPatch = \<lambda>key doc. checked (authorize (recordAttributes ''patch'' ''managedfleetnotificationrecords/status'' (nn_Namespace key)))
       (fc_StatusPatch c key doc)\<rparr>"

text \<open>The handler and the reconciler behind the authorizer.\<close>
definition enforcedHandler :: "(Attributes \<Rightarrow> bool) \<Rightarrow> 's ocmAgentHandler \<Rightarrow> 's ocmAgentHandler" where
  "enforcedHandler authorize h = h\<lparr>h_Client := enforced authorize (h_Client h)\<rparr>"

section \<open>What the roles grant\<close>

lemmas rbac_simps = granted_def operatorGrants_def clusterRole_def operatorRole_def configReaderRole_def monitoringRole_def
  grantAllows_def ruleAllows_def listed_def attributes_def

lemma rbac_granted: "rbac_ok authorize \<Longrightarrow> granted operatorGrants a \<Longrightarrow> authorize a"
  by (simp add: rbac_ok_def)

lemma checked_True [simp]: "checked True m = m"
  by (simp add: checked_def)

lemma enforcedHandler_simps [simp]:
  "h_Client (enforcedHandler authorize h) = enforced authorize (h_Client h)"
  "h_Env (enforcedHandler authorize h) = h_Env h"
  "h_SetControllerReference (enforcedHandler authorize h) = h_SetControllerReference h"
  "h_Now (enforcedHandler authorize h) = h_Now h" "h_Zone (enforcedHandler authorize h) = h_Zone h"
  "h_GaugeSet (enforcedHandler authorize h) = h_GaugeSet h" "h_ipLiteral (enforcedHandler authorize h) = h_ipLiteral h"
  "h_parseFloat (enforcedHandler authorize h) = h_parseFloat h"
  "setControllerReference (enforcedHandler authorize h) = setControllerReference h"
  "prepareOwned (enforcedHandler authorize h) = prepareOwned h"
  by (simp_all add: enforcedHandler_def setControllerReference_def prepareOwned_def fun_eq_iff)

text \<open>A kind of object that may be read in a namespace, and one that may be managed there.\<close>
locale readable_kind = object_kind kind wrap as put_meta
  for kind :: Kind and wrap :: "'o \<Rightarrow> Object" and as :: "Object \<Rightarrow> 'o option"
    and put_meta :: "'o \<Rightarrow> ObjectMeta \<Rightarrow> 'o" +
  fixes ns :: string
  assumes may_get: "granted operatorGrants (attributes ''get'' kind ns)"
begin

lemma getAs_enforced:
  assumes "rbac_ok authorize" and "nn_Namespace key = ns"
  shows "getAs (enforced authorize c) kind as key = getAs c kind as key"
  using rbac_granted[OF assms(1) may_get] assms(2) by (simp add: getAs_def enforced_def)

text \<open>What follows a read need only agree on objects of the namespace.\<close>
lemma onResult_enforced:
  assumes "rbac_ok authorize" and "api c view" and "nn_Namespace key = ns"
    and "\<And>e. h' e = h e" and "\<And>y. om_Namespace (metaOf (wrap y)) = ns \<Longrightarrow> f' y = f y"
  shows "onResult (getAs (enforced authorize c) kind as key) h' f' = onResult (getAs c kind as key) h f"
proof
  fix s
  obtain q s' where run: "getAs c kind as key s = (q, s')" by fastforce
  have "f' y = f y" if "q = Inr y" for y
    using assms(2) run
    by (cases rule: getAs_cases) (use that assms(3,5) in \<open>auto simp: objRef_def metaKey_def\<close>)
  with run assms(4) show "onResult (getAs (enforced authorize c) kind as key) h' f' s = onResult (getAs c kind as key) h f s"
    by (cases q) (simp_all add: getAs_enforced[OF assms(1,3)] onResult_def)
qed

end

locale managed_kind = readable_kind kind wrap as put_meta ns
  for kind :: Kind and wrap :: "'o \<Rightarrow> Object" and as :: "Object \<Rightarrow> 'o option"
    and put_meta :: "'o \<Rightarrow> ObjectMeta \<Rightarrow> 'o" and ns :: string +
  assumes may_create: "granted operatorGrants (attributes ''create'' kind ns)"
    and may_update: "granted operatorGrants (attributes ''update'' kind ns)"
    and may_delete: "granted operatorGrants (attributes ''delete'' kind ns)"
begin

lemma writes_enforced:
  assumes "rbac_ok authorize" and "om_Namespace (metaOf (wrap x)) = ns"
  shows "c_Create (enforced authorize c) (wrap x) = c_Create c (wrap x)"
    and "c_Update (enforced authorize c) (wrap x) = c_Update c (wrap x)"
    and "c_Delete (enforced authorize c) (wrap x) = c_Delete c (wrap x)"
  using assms rbac_granted[OF assms(1) may_create] rbac_granted[OF assms(1) may_update] rbac_granted[OF assms(1) may_delete]
  by (simp_all add: enforced_def kind_wrap)

lemma ensureObject_enforced:
  assumes "rbac_ok authorize" and "api c view" and "nn_Namespace key = ns"
    and "\<And>x. prepared = Inr x \<Longrightarrow> om_Namespace (metaOf (wrap x)) = ns"
    and "\<And>y. metaOf (wrap (repair y)) = metaOf (wrap y)"
  shows "ensureObject (enforced authorize c) kind wrap as key prepared changed repair = ensureObject c kind wrap as key prepared changed repair"
  unfolding ensureObject_def
  by (rule onResult_enforced[OF assms(1-3)])
    (use assms(4,5) in \<open>auto simp: writes_enforced[OF assms(1)] split: sum.split\<close>)

lemma deleteObject_enforced:
  assumes "rbac_ok authorize" and "api c view" and "nn_Namespace key = ns"
  shows "deleteObject (enforced authorize c) kind wrap as key = deleteObject c kind wrap as key"
  unfolding deleteObject_def by (rule onResult_enforced[OF assms]) (simp_all add: writes_enforced[OF assms(1)])

text \<open>A resource that gets the agent as its controller stays in its namespace.\<close>
lemma owned_enforced:
  assumes "rbac_ok authorize" and "platform h view" and "nn_Namespace key = ns" and "om_Namespace (metaOf (wrap x)) = ns"
    and "\<And>y. metaOf (wrap (repair y)) = metaOf (wrap y)"
  shows "ensureObject (enforced authorize (h_Client h)) kind wrap as key (prepareOwned h a wrap put_meta x) changed repair =
    ensureObject (h_Client h) kind wrap as key (prepareOwned h a wrap put_meta x) changed repair"
proof (rule ensureObject_enforced[OF assms(1) platform_api[OF assms(2)] assms(3) _ assms(5)])
  fix y assume "prepareOwned h a wrap put_meta x = Inr y"
  then obtain m where m: "h_SetControllerReference h (oa_Meta a) (metaOf (wrap x)) = Inr m" "y = put_meta x m"
    by (auto simp: prepareOwned_def split: sum.splits)
  from platform_setref[OF assms(2) m(1)] assms(4) have "om_Namespace m = ns" by auto
  with m(2) show "om_Namespace (metaOf (wrap y)) = ns" by (simp add: setMeta_wrap[symmetric])
qed

end

abbreviation ownNamespace :: string where
  "ownNamespace \<equiv> ''openshift-ocm-agent-operator''"

interpretation may_dep: managed_kind KDeployment ODeployment asDeployment "\<lambda>x m. x\<lparr>dep_Meta := m\<rparr>" ownNamespace
  by unfold_locales (simp_all add: rbac_simps)

interpretation may_cm: managed_kind KConfigMap OConfigMap asConfigMap "\<lambda>x m. x\<lparr>cm_Meta := m\<rparr>" ownNamespace
  by unfold_locales (simp_all add: rbac_simps)

interpretation may_camo: managed_kind KConfigMap OConfigMap asConfigMap "\<lambda>x m. x\<lparr>cm_Meta := m\<rparr>" "''openshift-monitoring''"
  by unfold_locales (simp_all add: rbac_simps)

interpretation may_sec: managed_kind KSecret OSecret asSecret "\<lambda>x m. x\<lparr>sec_Meta := m\<rparr>" ownNamespace
  by unfold_locales (simp_all add: rbac_simps)

interpretation may_svc: managed_kind KService OService asService "\<lambda>x m. x\<lparr>svc_Meta := m\<rparr>" ownNamespace
  by unfold_locales (simp_all add: rbac_simps)

interpretation may_np: managed_kind KNetworkPolicy ONetworkPolicy asNetworkPolicy "\<lambda>x m. x\<lparr>np_Meta := m\<rparr>" ownNamespace
  by unfold_locales (simp_all add: rbac_simps)

interpretation may_sm: managed_kind KServiceMonitor OServiceMonitor asServiceMonitor "\<lambda>x m. x\<lparr>sm_Meta := m\<rparr>" ownNamespace
  by unfold_locales (simp_all add: rbac_simps)

interpretation may_pdb: managed_kind KPodDisruptionBudget OPodDisruptionBudget asPodDisruptionBudget "\<lambda>x m. x\<lparr>pdb_Meta := m\<rparr>" ownNamespace
  by unfold_locales (simp_all add: rbac_simps)

interpretation may_pull: readable_kind KSecret OSecret asSecret "\<lambda>x m. x\<lparr>sec_Meta := m\<rparr>" "''openshift-config''"
  by unfold_locales (simp_all add: rbac_simps)

interpretation may_oa: readable_kind KOcmAgent OOcmAgent asOcmAgent "\<lambda>x m. x\<lparr>oa_Meta := m\<rparr>" ownNamespace
  by unfold_locales (simp_all add: rbac_simps)

interpretation may_px: readable_kind KProxy OProxy asProxy "\<lambda>x m. x\<lparr>px_Meta := m\<rparr>" "''''"
  by unfold_locales (simp_all add: rbac_simps)

interpretation may_cv: readable_kind KClusterVersion OClusterVersion asClusterVersion "\<lambda>x m. x\<lparr>cv_Meta := m\<rparr>" "''''"
  by unfold_locales (simp_all add: rbac_simps)

section \<open>The functions of the handler\<close>

lemma deployment_enforced:
  assumes rbac: "rbac_ok authorize" and plat: "platform h view" and ns: "operatorNamespace (h_Env h) = ownNamespace"
  shows "ensureDeployment (enforcedHandler authorize h) a = ensureDeployment h a"
    and "ensureDeploymentDeleted (enforcedHandler authorize h) a = ensureDeploymentDeleted h a"
    and "restartOCMAgentPods (enforcedHandler authorize h) a = restartOCMAgentPods h a"
proof -
  note get = may_dep.onResult_enforced[OF rbac platform_api[OF plat]] and put = may_dep.writes_enforced[OF rbac]
  have env: "buildEnvVars (enforcedHandler authorize h) a = buildEnvVars h a"
    by (simp add: buildEnvVars_def may_px.getAs_enforced[OF rbac] ProxyNamespacedName_def)
  have owner: "om_Namespace m = ownNamespace"
    if "h_SetControllerReference h (oa_Meta a) (dep_Meta (withEnv vars (buildOCMAgentDeployment (h_Env h) a))) = Inr m" for m vars
    using platform_setref[OF plat that] ns by (auto simp: withEnv_def buildOCMAgentDeployment_def Let_def)
  show "ensureDeployment (enforcedHandler authorize h) a = ensureDeployment h a"
    unfolding ensureDeployment_def Let_def env enforcedHandler_simps owned_simps
    by (intro arg_cong2[where f = andThen] refl ext get) (auto simp: ns put owner split: sum.split)
  show "ensureDeploymentDeleted (enforcedHandler authorize h) a = ensureDeploymentDeleted h a"
    unfolding ensureDeploymentDeleted_def Let_def enforcedHandler_simps by (rule get) (simp_all add: ns put)
  show "restartOCMAgentPods (enforcedHandler authorize h) a = restartOCMAgentPods h a"
    unfolding restartOCMAgentPods_def Let_def enforcedHandler_simps by (rule get) (simp_all add: ns put annotateRestart_def Let_def)
qed

lemma secret_enforced:
  assumes rbac: "rbac_ok authorize" and plat: "platform h view" and ns: "operatorNamespace (h_Env h) = ownNamespace"
  shows "ensureAccessTokenSecret (enforcedHandler authorize h) a = ensureAccessTokenSecret h a"
    and "ensureFleetClientSecret (enforcedHandler authorize h) a = ensureFleetClientSecret h a"
    and "ensureAccessTokenSecretDeleted (enforcedHandler authorize h) a = ensureAccessTokenSecretDeleted h a"
proof -
  have fetch: "fetchAccessTokenPullSecret (enforcedHandler authorize h) = fetchAccessTokenPullSecret h"
    by (simp add: fetchAccessTokenPullSecret_def may_pull.getAs_enforced[OF rbac] PullSecretNamespacedName_def)
  show "ensureAccessTokenSecret (enforcedHandler authorize h) a = ensureAccessTokenSecret h a"
    unfolding ensureAccessTokenSecret_scheme fetch enforcedHandler_simps
    by (subst may_sec.owned_enforced[OF rbac plat]) (simp_all add: ns)
  show "ensureFleetClientSecret (enforcedHandler authorize h) a = ensureFleetClientSecret h a"
    by (simp add: ensureFleetClientSecret_def may_sec.getAs_enforced[OF rbac] ns)
  show "ensureAccessTokenSecretDeleted (enforcedHandler authorize h) a = ensureAccessTokenSecretDeleted h a"
    unfolding ensureAccessTokenSecretDeleted_def Let_def enforcedHandler_simps deleteObject_handler[symmetric]
    by (rule may_sec.deleteObject_enforced[OF rbac platform_api[OF plat]]) (simp add: ns)
qed

lemma configMaps_enforced:
  assumes rbac: "rbac_ok authorize" and plat: "platform h view" and ns: "operatorNamespace (h_Env h) = ownNamespace"
  shows "ensureAllConfigMaps (enforcedHandler authorize h) a = ensureAllConfigMaps h a"
    and "ensureAllConfigMapsDeleted (enforcedHandler authorize h) a = ensureAllConfigMapsDeleted h a"
proof -
  have own: "ensureConfigMap (enforcedHandler authorize h) a (freshCM (BuildNamespacedName (h_Env h) n) labels d) True =
      ensureConfigMap h a (freshCM (BuildNamespacedName (h_Env h) n) labels d) True" for n labels d
    unfolding ensureConfigMap_scheme enforcedHandler_simps if_True
    by (subst may_cm.owned_enforced[OF rbac plat]) (simp_all add: ns)
  have camo: "ensureConfigMap (enforcedHandler authorize h) a (freshCM CAMOConfigMapNamespacedName labels d) False =
      ensureConfigMap h a (freshCM CAMOConfigMapNamespacedName labels d) False" for labels d
    unfolding ensureConfigMap_scheme enforcedHandler_simps if_False
    by (subst may_camo.ensureObject_enforced[OF rbac platform_api[OF plat]]) (simp_all add: CAMOConfigMapNamespacedName_def)
  have version: "fetchClusterVersion (enforcedHandler authorize h) = fetchClusterVersion h"
    by (simp add: fetchClusterVersion_def may_cv.getAs_enforced[OF rbac])
  have fresh: "buildOCMAgentConfigMap (h_Env h) a cid = freshCM (BuildNamespacedName (h_Env h) (oa_Name a @ ConfigMapSuffix)) None (cm_Data (buildOCMAgentConfigMap (h_Env h) a cid))"
    "buildTrustedCaConfigMap (h_Env h) = freshCM (BuildNamespacedName (h_Env h) TrustedCaBundleConfigMapName) (oneLabel InjectCaBundleIndicator ''true'') None" for cid
    by (simp_all add: buildOCMAgentConfigMap_def buildTrustedCaConfigMap_def freshCM_def Let_def)
  have camoFresh: "x = freshCM CAMOConfigMapNamespacedName None (cm_Data x)" if "buildCAMOConfigMap (h_ipLiteral h) a = Inr x" for x
    using that by (auto simp: buildCAMOConfigMap_def freshCM_def split: sum.splits)
  have steps: "ensureConfigMap (enforcedHandler authorize h) a (buildOCMAgentConfigMap (h_Env h) a cid) True = ensureConfigMap h a (buildOCMAgentConfigMap (h_Env h) a cid) True"
    "ensureConfigMap (enforcedHandler authorize h) a (buildTrustedCaConfigMap (h_Env h)) True = ensureConfigMap h a (buildTrustedCaConfigMap (h_Env h)) True"
    "buildCAMOConfigMap (h_ipLiteral h) a = Inr x \<Longrightarrow> ensureConfigMap (enforcedHandler authorize h) a x False = ensureConfigMap h a x False" for cid x
    using own camo fresh camoFresh by metis+
  have camoStep: "(case buildCAMOConfigMap (h_ipLiteral h) a of Inl err \<Rightarrow> fail err | Inr x \<Rightarrow> ensureConfigMap (enforcedHandler authorize h) a x False) =
      (case buildCAMOConfigMap (h_ipLiteral h) a of Inl err \<Rightarrow> fail err | Inr x \<Rightarrow> ensureConfigMap h a x False)"
    using steps(3) by (simp split: sum.split)
  show "ensureAllConfigMaps (enforcedHandler authorize h) a = ensureAllConfigMaps h a"
    unfolding ensureAllConfigMaps_def enforcedHandler_simps version Let_def if_distrib[where f = "\<lambda>x. ensureConfigMap _ a x True"] steps(1,2) camoStep ..
  have "ensureConfigMapDeleted (enforcedHandler authorize h) n = ensureConfigMapDeleted h n"
    if "n = BuildNamespacedName (h_Env h) (oa_Name a) \<or> n = CAMOConfigMapNamespacedName" for n
    using that may_cm.deleteObject_enforced[OF rbac platform_api[OF plat], of n] may_camo.deleteObject_enforced[OF rbac platform_api[OF plat], of n] ns
    unfolding ensureConfigMapDeleted_def deleteObject_handler[symmetric] enforcedHandler_simps
    by (auto simp: CAMOConfigMapNamespacedName_def)
  then show "ensureAllConfigMapsDeleted (enforcedHandler authorize h) a = ensureAllConfigMapsDeleted h a"
    by (simp add: ensureAllConfigMapsDeleted_def)
qed

lemma services_enforced:
  assumes rbac: "rbac_ok authorize" and plat: "platform h view" and ns: "operatorNamespace (h_Env h) = ownNamespace"
  shows "ensureService (enforcedHandler authorize h) a = ensureService h a"
    and "ensureServiceDeleted (enforcedHandler authorize h) a = ensureServiceDeleted h a"
proof -
  have one: "ensureOneService (enforcedHandler authorize h) a (freshService (BuildNamespacedName (h_Env h) n) labels spec) =
      ensureOneService h a (freshService (BuildNamespacedName (h_Env h) n) labels spec)" for n labels spec
    unfolding ensureOneService_scheme[OF refl] ensureOneService_scheme[of _ "enforcedHandler authorize h", unfolded enforcedHandler_simps, OF refl]
    by (subst may_svc.owned_enforced[OF rbac plat]) (simp_all add: ns)
  show "ensureService (enforcedHandler authorize h) a = ensureService h a"
    using services_fresh[of "h_Env h" a] by (auto simp: ensureService_def one simp del: freshService_simps)
  have "serviceDeleteLoop (enforcedHandler authorize h) names = serviceDeleteLoop h names" for names
    by (induction names) (auto intro!: may_svc.onResult_enforced[OF rbac platform_api[OF plat]] simp: ns may_svc.writes_enforced[OF rbac])
  then show "ensureServiceDeleted (enforcedHandler authorize h) a = ensureServiceDeleted h a" by (simp only: ensureServiceDeleted_def)
qed

lemma policies_enforced:
  assumes rbac: "rbac_ok authorize" and plat: "platform h view" and ns: "operatorNamespace (h_Env h) = ownNamespace"
  shows "ensureAllNetworkPolicies (enforcedHandler authorize h) a = ensureAllNetworkPolicies h a"
    and "ensureAllNetworkPoliciesDeleted (enforcedHandler authorize h) a = ensureAllNetworkPoliciesDeleted h a"
proof -
  have name: "nn_Namespace (buildNetworkPolicyName (h_Env h) a n) = ownNamespace" if "n \<in> set (policyNamespaces a)" for n
    using that by (auto simp: buildNetworkPolicyName_def policyNamespaces_def ns split: if_splits)
  have "ensureNetworkPolicy (enforcedHandler authorize h) a n = ensureNetworkPolicy h a n" if "n \<in> set (policyNamespaces a)" for n
    unfolding ensureNetworkPolicy_scheme enforcedHandler_simps
    by (subst may_np.owned_enforced[OF rbac plat]) (simp_all add: name[OF that])
  moreover have "ensureNetworkPolicyDeleted (enforcedHandler authorize h) a n = ensureNetworkPolicyDeleted h a n" if "n \<in> set (policyNamespaces a)" for n
    unfolding ensureNetworkPolicyDeleted_def Let_def deleteObject_handler[symmetric] enforcedHandler_simps
    by (rule may_np.deleteObject_enforced[OF rbac platform_api[OF plat] name[OF that]])
  moreover have "forEach xs f = forEach xs g" if "\<And>x. x \<in> set xs \<Longrightarrow> f x = g x" for xs and f g :: "string \<Rightarrow> ('a, unit) step"
    using that by (induction xs) simp_all
  ultimately show "ensureAllNetworkPolicies (enforcedHandler authorize h) a = ensureAllNetworkPolicies h a"
    "ensureAllNetworkPoliciesDeleted (enforcedHandler authorize h) a = ensureAllNetworkPoliciesDeleted h a"
    unfolding ensureAllNetworkPolicies_def ensureAllNetworkPoliciesDeleted_def by blast+
qed

lemma monitors_enforced:
  assumes rbac: "rbac_ok authorize" and plat: "platform h view" and ns: "operatorNamespace (h_Env h) = ownNamespace"
  shows "ensureServiceMonitor (enforcedHandler authorize h) a = ensureServiceMonitor h a"
    and "ensureServiceMonitorDeleted (enforcedHandler authorize h) a = ensureServiceMonitorDeleted h a"
    and "ensurePodDisruptionBudget (enforcedHandler authorize h) a = ensurePodDisruptionBudget h a"
    and "ensurePodDisruptionBudgetDeleted (enforcedHandler authorize h) a = ensurePodDisruptionBudgetDeleted h a"
proof -
  show "ensureServiceMonitor (enforcedHandler authorize h) a = ensureServiceMonitor h a"
    unfolding ensureServiceMonitor_scheme enforcedHandler_simps
    by (subst may_sm.owned_enforced[OF rbac plat]) (simp_all add: ns)
  show "ensurePodDisruptionBudget (enforcedHandler authorize h) a = ensurePodDisruptionBudget h a"
    unfolding ensurePodDisruptionBudget_scheme enforcedHandler_simps
    by (subst may_pdb.owned_enforced[OF rbac plat]) (simp_all add: ns)
  show "ensureServiceMonitorDeleted (enforcedHandler authorize h) a = ensureServiceMonitorDeleted h a"
    unfolding ensureServiceMonitorDeleted_def Let_def deleteObject_handler[symmetric] enforcedHandler_simps
    by (rule may_sm.deleteObject_enforced[OF rbac platform_api[OF plat]]) (simp add: ns)
  show "ensurePodDisruptionBudgetDeleted (enforcedHandler authorize h) a = ensurePodDisruptionBudgetDeleted h a"
    unfolding ensurePodDisruptionBudgetDeleted_def Let_def enforcedHandler_simps
    by (rule may_pdb.onResult_enforced[OF rbac platform_api[OF plat]]) (simp_all add: ns may_pdb.writes_enforced[OF rbac])
qed

lemmas functions_enforced = deployment_enforced secret_enforced configMaps_enforced services_enforced policies_enforced monitors_enforced

lemma handler_enforced:
  assumes "rbac_ok authorize" and "platform h view" and "operatorNamespace (h_Env h) = ownNamespace"
  shows "handlerOf (enforcedHandler authorize h) = handlerOf h"
  by (simp add: handlerOf_def fun_eq_iff EnsureOCMAgentResourcesExist_def EnsureOCMAgentResourcesAbsent_def Let_def
      functions_enforced[OF assms] cong: if_cong)

section \<open>The controllers\<close>

text \<open>The reconciler with both of its clients behind the authorizer.\<close>
definition enforcedReconciler :: "(Attributes \<Rightarrow> bool) \<Rightarrow> 's ocmAgentHandler \<Rightarrow> 's OcmAgentReconciler \<Rightarrow> 's OcmAgentReconciler" where
  "enforcedReconciler authorize h r = r\<lparr>r_Client := enforced authorize (r_Client r),
     r_OCMAgentHandlerBuilder := NewBuilder h (enforced authorize (h_Client h))\<rparr>"

lemma reconcile_enforced:
  assumes rbac: "rbac_ok authorize" and w: "wired r (handlerOf h) view" and plat: "platform h view"
    and ns: "operatorNamespace (h_Env h) = ownNamespace" and req: "nn_Namespace request = ownNamespace"
  shows "OcmAgentController.Reconcile (enforcedReconciler authorize h r) request = OcmAgentController.Reconcile r request"
proof -
  let ?r = "enforcedReconciler authorize h r"
  from w have api: "api (r_Client r) view" and new: "New (r_OCMAgentHandlerBuilder r) = Inr (handlerOf h)"
    and fin: "finalizers_ok (r_Controllerutil r)" by (simp_all add: wired_def)
  have same: "New (r_OCMAgentHandlerBuilder ?r) = New (r_OCMAgentHandlerBuilder r)" "r_Controllerutil ?r = r_Controllerutil r"
    "r_GaugeSet ?r = r_GaugeSet r" "r_Client ?r = enforced authorize (r_Client r)"
    using handler_enforced[OF rbac plat ns] new
    by (simp_all add: enforcedReconciler_def NewBuilder_handler enforcedHandler_def)
  have may_update: "granted operatorGrants (attributes ''update'' KOcmAgent ownNamespace)" by (simp add: rbac_simps)
  have update: "c_Update (enforced authorize (r_Client r)) (OOcmAgent x) = c_Update (r_Client r) (OOcmAgent x)"
    if "om_Namespace (oa_Meta x) = ownNamespace" for x
    using rbac_granted[OF rbac may_update] that by (simp add: enforced_def)
  have meta: "om_Namespace (AddFinalizer (r_Controllerutil r) m f) = om_Namespace m"
    "om_Namespace (RemoveFinalizer (r_Controllerutil r) m f) = om_Namespace m" for m f
  proof -
    obtain fs fs' where "AddFinalizer (r_Controllerutil r) m f = m\<lparr>om_Finalizers := fs\<rparr>" "RemoveFinalizer (r_Controllerutil r) m f = m\<lparr>om_Finalizers := fs'\<rparr>"
      using finalizer_update(2,3)[OF fin] by blast
    then show "om_Namespace (AddFinalizer (r_Controllerutil r) m f) = om_Namespace m"
      "om_Namespace (RemoveFinalizer (r_Controllerutil r) m f) = om_Namespace m" by simp_all
  qed
  have updates: "c_Update (enforced authorize (r_Client r)) (OOcmAgent (y\<lparr>oa_Meta := AddFinalizer (r_Controllerutil r) (oa_Meta y) f\<rparr>)) =
      c_Update (r_Client r) (OOcmAgent (y\<lparr>oa_Meta := AddFinalizer (r_Controllerutil r) (oa_Meta y) f\<rparr>))"
    "c_Update (enforced authorize (r_Client r)) (OOcmAgent (y\<lparr>oa_Meta := RemoveFinalizer (r_Controllerutil r) (oa_Meta y) f\<rparr>)) =
      c_Update (r_Client r) (OOcmAgent (y\<lparr>oa_Meta := RemoveFinalizer (r_Controllerutil r) (oa_Meta y) f\<rparr>))"
    if "oa_Namespace y = ownNamespace" for y f
    by (rule update, simp add: meta that)+
  show ?thesis
    unfolding OcmAgentController.Reconcile_def same new sum.case
    by (rule may_oa.onResult_enforced[OF rbac api req], rule refl) (simp only: updates metaOf.simps cong: if_cong)
qed

lemma fleet_enforced:
  assumes rbac: "rbac_ok authorize" and api: "fleet_api c view" and req: "nn_Namespace request = ownNamespace"
  shows "FleetController.Reconcile (enforcedFleet authorize c) clock request = FleetController.Reconcile c clock request"
proof
  fix s
  have may: "authorize (recordAttributes ''get'' ''managedfleetnotificationrecords'' ownNamespace)"
    "authorize (recordAttributes ''patch'' ''managedfleetnotificationrecords/status'' ownNamespace)"
    by (rule rbac_granted[OF rbac], simp add: rbac_simps recordAttributes_def GroupVersion_def)+
  obtain q s' where get: "fc_Get c request s = (q, s')" by fastforce
  have "fleetKey nr = request" if "q = Inr nr" for nr
    using api get that unfolding fleet_api_def by (metis fst_conv)
  with get may req show "FleetController.Reconcile (enforcedFleet authorize c) clock request s = FleetController.Reconcile c clock request s"
    by (cases q) (auto simp: FleetController.Reconcile_def enforcedFleet_def patchRemove_def andThen_def split: option.split)
qed

section \<open>Properties\<close>

text \<open>C9. The permissions are enough: for requests in the namespace of the operator, both controllers behave behind the authorizer as they do
  with everything allowed, whatever the state and whatever faults occur. No request of their code is ever refused, whether it reads or writes,
  deploys or removes.\<close>
theorem permissions_suffice:
  assumes "rbac_ok authorize" and "wired r (handlerOf h) view" and "platform h view" and "fleet_api c stored"
    and "operatorNamespace (h_Env h) = ''openshift-ocm-agent-operator''" and "nn_Namespace request = ''openshift-ocm-agent-operator''"
  shows "OcmAgentController.Reconcile (enforcedReconciler authorize h r) request = OcmAgentController.Reconcile r request \<and>
    FleetController.Reconcile (enforcedFleet authorize c) clock request = FleetController.Reconcile c clock request"
  using reconcile_enforced[OF assms(1-3,5,6)] fleet_enforced[OF assms(1,4,6)] by blast

text \<open>Behind an authorizer that allows what the roles grant and nothing else.\<close>
theorem permissions_suffice_witness:
  "OcmAgentController.Reconcile (enforcedReconciler (granted operatorGrants) memHandler memReconciler) ControllerProps.sampleKey =
     OcmAgentController.Reconcile memReconciler ControllerProps.sampleKey \<and>
   FleetController.Reconcile (enforcedFleet (granted operatorGrants) memFleet) (\<lambda>_ _. 0) ControllerProps.sampleKey =
     FleetController.Reconcile memFleet (\<lambda>_ _. 0) ControllerProps.sampleKey"
proof -
  have "rbac_ok (granted operatorGrants)" by (simp add: rbac_ok_def)
  moreover have "fleet_api memFleet FleetController.memView" using memFleet_up by (simp add: fleet_api_up_def)
  ultimately show ?thesis
    by (rule permissions_suffice[OF _ memReconciler_wired(1) memHandler_platform]) simp_all
qed

text \<open>C15. The permissions are tight: what the roles allow beyond reading is in the namespace of the operator, or concerns config maps in the
  namespace of the monitoring stack. They allow neither the creation nor the deletion of the resources of the operator's own group.\<close>
theorem permissions_confined:
  assumes "granted operatorGrants a" and "at_Verb a \<notin> {''get'', ''list'', ''watch''}"
  shows "at_Namespace a = ''openshift-ocm-agent-operator'' \<and>
      (at_APIGroup a = ''ocmagent.managed.openshift.io'' \<longrightarrow> at_Verb a \<in> {''update'', ''patch''}) \<or>
    at_Namespace a = ''openshift-monitoring'' \<and> at_APIGroup a = [] \<and> at_Resource a = ''configmaps''"
  using assms
proof (simp add: rbac_simps, elim disjE conjE)
qed simp_all

theorem permissions_confined_witness:
  "granted operatorGrants (attributes ''create'' KConfigMap (nn_Namespace CAMOConfigMapNamespacedName)) \<and>
   \<not> granted operatorGrants (attributes ''create'' KSecret (nn_Namespace CAMOConfigMapNamespacedName))"
proof -
  have "granted operatorGrants (attributes ''create'' KConfigMap (nn_Namespace CAMOConfigMapNamespacedName))"
    by (simp add: rbac_simps CAMOConfigMapNamespacedName_def)
  moreover have "\<not> granted operatorGrants (attributes ''create'' KSecret (nn_Namespace CAMOConfigMapNamespacedName))"
    using permissions_confined[of "attributes ''create'' KSecret (nn_Namespace CAMOConfigMapNamespacedName)"]
    by (auto simp: attributes_def CAMOConfigMapNamespacedName_def)
  ultimately show ?thesis by blast
qed

text \<open>The caches fill: every kind that a controller watches may be listed and watched in every namespace that the cache of the manager
  covers. Leader election, which a flag turns on, has no permission: no verb is allowed on the leases that it needs.\<close>
theorem cache_permissions:
  "list_all (\<lambda>ns. list_all (\<lambda>verb.
      list_all (\<lambda>k. granted operatorGrants (attributes verb k ns)) (w_For OcmAgentController.SetupWithManager # w_Owns OcmAgentController.SetupWithManager) \<and>
      granted operatorGrants (recordAttributes verb ''managedfleetnotificationrecords'' ns)) [''list'', ''watch''])
    (mo_DefaultNamespaces (managerOptions ''openshift-ocm-agent-operator'' flags)) \<and>
   mo_LeaderElection (managerOptions ''openshift-ocm-agent-operator'' flags) = fg_enableLeaderElection flags \<and>
   \<not> granted operatorGrants \<lparr>at_Verb = verb, at_APIGroup = ''coordination.k8s.io'', at_Resource = ''leases'', at_Namespace = ns'\<rparr>"
  by (simp add: managerOptions_def OcmAgentController.SetupWithManager_def rbac_simps recordAttributes_def GroupVersion_def)

end
