(* ===== verification/Schemas.thy ===== *)
theory Schemas
  imports Notifications FleetRecords K8s_Types GoJson "HOL-Library.Monad_Syntax"
begin

text \<open>
  The documents of the API types: how the specifications and status values of \<^verbatim>\<open>api/v1alpha1\<close> are written as JSON by their tags, and the
  generated schemas (\<^verbatim>\<open>deploy/crds\<close>) that the API server checks them against. The status of a notification is also read back.

  Documents are trees (\<open>json\<close>); their text is not modelled here. A nil slice is written as null and an empty one as an empty array; with \<open>omitempty\<close> both
  are left out. The rest of the development does not tell nil from empty, so the types with a slice that is always written have
  records of their own here (\<open>\<dots>Doc\<close>), in which a slice is an option. The type \<open>metav1.Time\<close> and the formats and patterns that the server knows are
  parameters (\<open>Wire\<close>), with \<open>wire_ok\<close> for what is documented of them: an instant is written in whole seconds.

  The locale \<open>written_type\<close> is the contract of a type: its documents conform to its schema exactly when the value meets the
  validation markers in the source and holds no nil slice that would be written. It is closed under slices; each type of the API interprets it. The locale
  \<open>read_type\<close> extends it by reading back.
\<close>

section \<open>Schemas\<close>

text \<open>The part of OpenAPI v3 that the schemas use. A string may have a format, an enumeration and a pattern; an object has properties and
  the names of those that are required.\<close>
datatype Schema =
    SBoolean
  | SInteger "string option"
  | SString "string option" "string list option" "string option"
  | SArray Schema
  | SObject "(string \<times> Schema) list" "string list"

text \<open>What \<open>metav1.Time\<close> and the server contribute: writing and reading an instant, the format \<open>date-time\<close>, and patterns.\<close>
record Wire =
  wi_TimeText :: "Time \<Rightarrow> string"
  wi_ParseTime :: "string \<Rightarrow> Time option"
  wi_DateTime :: "string \<Rightarrow> bool"
  wi_Matches :: "string \<Rightarrow> string \<Rightarrow> bool"

text \<open>Instants from 1970 to the end of the year 9999.\<close>
definition dated :: "Time \<Rightarrow> bool" where
  "dated t \<longleftrightarrow> 0 \<le> t \<and> t < 253402300800 * 1000000000"

definition wholeSecond :: "Time \<Rightarrow> Time" where
  "wholeSecond t = t - t mod 1000000000"

definition referencePattern :: string where
  "referencePattern = ''^https?:'' @ [CHR 0x5C] @ ''/'' @ [CHR 0x5C] @ ''/.+$''"

text \<open>What the pattern says: the scheme, then at least one character and no newline.\<close>
definition httpReference :: "string \<Rightarrow> bool" where
  "httpReference s \<longleftrightarrow> list_ex (\<lambda>p. take (length p) s = p \<and> length p < length s \<and> CHR 0x0A \<notin> set (drop (length p) s)) [''http://'', ''https://'']"

definition wire_ok :: "Wire \<Rightarrow> bool" where
  "wire_ok w \<longleftrightarrow>
     (\<forall>t. dated t \<longrightarrow> wi_ParseTime w (wi_TimeText w t) = Some (wholeSecond t) \<and> wi_DateTime w (wi_TimeText w t)) \<and>
     (\<forall>s. wi_Matches w referencePattern s \<longleftrightarrow> httpReference s)"

text \<open>The literal of an integer: digits, with a minus sign in front of a negative one.\<close>
definition showInt :: "int \<Rightarrow> string" where
  "showInt i = (if i < 0 then CHR ''-'' # showNat (nat (- i)) else showNat (nat i))"

definition intLiteral :: "string \<Rightarrow> int option" where
  "intLiteral s =
     (case s of
        [] \<Rightarrow> None
      | c # cs \<Rightarrow>
          if c = CHR ''-'' then (if cs \<noteq> [] \<and> list_all isDigit cs then Some (- int (readNat cs)) else None)
          else if list_all isDigit s then Some (int (readNat s)) else None)"

definition inWidth :: "nat \<Rightarrow> int \<Rightarrow> bool" where
  "inWidth n i \<longleftrightarrow> - (2 ^ (n - 1)) \<le> i \<and> i < 2 ^ (n - 1)"

fun conforms :: "Wire \<Rightarrow> Schema \<Rightarrow> json \<Rightarrow> bool" where
  "conforms w SBoolean (JBool b) = True"
| "conforms w (SInteger fmt) (JNum lit) =
     (case intLiteral lit of None \<Rightarrow> False | Some i \<Rightarrow> fmt = Some ''int32'' \<longrightarrow> inWidth 32 i)"
| "conforms w (SString fmt enum pat) (JStr s) =
     ((fmt = Some ''date-time'' \<longrightarrow> wi_DateTime w s) \<and> (case enum of None \<Rightarrow> True | Some vs \<Rightarrow> s \<in> set vs) \<and>
      (case pat of None \<Rightarrow> True | Some p \<Rightarrow> wi_Matches w p s))"
| "conforms w (SArray item) (JArr vs) = (\<forall>v \<in> set vs. conforms w item v)"
| "conforms w (SObject properties required) (JObj ms) =
     ((\<forall>k \<in> set required. member ms k \<noteq> None) \<and>
      (\<forall>p \<in> set properties. case member ms (fst p) of None \<Rightarrow> True | Some v \<Rightarrow> conforms w (snd p) v))"
| "conforms w _ _ = False"

abbreviation sString :: Schema where
  "sString \<equiv> SString None None None"

definition agentConfigSchema :: Schema where
  "agentConfigSchema = SObject [(''ocmBaseUrl'', sString), (''services'', SArray sString)] [''ocmBaseUrl'', ''services'']"

definition ocmAgentSpecSchema :: Schema where
  "ocmAgentSpecSchema = SObject [
     (''agentConfig'', agentConfigSchema),
     (''fleetMode'', SBoolean),
     (''ocmAgentImage'', sString),
     (''replicas'', SInteger (Some ''int32'')),
     (''tokenSecret'', sString)]
   [''agentConfig'', ''ocmAgentImage'', ''replicas'', ''tokenSecret'']"

definition ocmAgentStatusSchema :: Schema where
  "ocmAgentStatusSchema = SObject [
     (''availableReplicas'', SInteger (Some ''int32'')),
     (''serviceStatus'', sString)]
   [''availableReplicas'', ''serviceStatus'']"

definition severitySchema :: Schema where
  "severitySchema = SString None (Some [''Debug'', ''Info'', ''Warning'', ''Major'', ''Critical'', ''Error'', ''Fatal'']) None"

definition referencesSchema :: Schema where
  "referencesSchema = SArray (SString None None (Some referencePattern))"

definition notificationSchema :: Schema where
  "notificationSchema = SObject [
     (''activeBody'', sString),
     (''logType'', sString),
     (''name'', sString),
     (''references'', referencesSchema),
     (''resendWait'', SInteger (Some ''int32'')),
     (''resolvedBody'', sString),
     (''severity'', severitySchema),
     (''summary'', sString)]
   [''activeBody'', ''name'', ''resendWait'', ''severity'', ''summary'']"

definition managedNotificationSpecSchema :: Schema where
  "managedNotificationSpecSchema = SObject [(''notifications'', SArray notificationSchema)] [''notifications'']"

definition conditionSchema :: Schema where
  "conditionSchema = SObject [
     (''lastTransitionTime'', SString (Some ''date-time'') None None),
     (''reason'', sString),
     (''status'', sString),
     (''type'', SString None (Some [''AlertFiring'', ''AlertResolved'', ''ServiceLogSent'']) None)]
   [''status'', ''type'']"

definition recordSchema :: Schema where
  "recordSchema = SObject [
     (''conditions'', SArray conditionSchema),
     (''name'', sString),
     (''serviceLogSentCount'', SInteger (Some ''int32''))]
   [''name'']"

definition managedNotificationStatusSchema :: Schema where
  "managedNotificationStatusSchema = SObject [(''notificationRecords'', SArray recordSchema)] []"

definition fleetNotificationSchema :: Schema where
  "fleetNotificationSchema = SObject [
     (''limitedSupport'', SBoolean),
     (''logType'', sString),
     (''name'', sString),
     (''notificationMessage'', sString),
     (''references'', referencesSchema),
     (''resendWait'', SInteger (Some ''int32'')),
     (''severity'', severitySchema),
     (''summary'', sString)]
   [''name'', ''notificationMessage'', ''resendWait'', ''severity'', ''summary'']"

definition managedFleetNotificationSpecSchema :: Schema where
  "managedFleetNotificationSpecSchema = SObject [(''fleetNotification'', fleetNotificationSchema)] [''fleetNotification'']"

definition itemSchema :: Schema where
  "itemSchema = SObject [
     (''firingNotificationSentCount'', SInteger None),
     (''hostedClusterID'', sString),
     (''lastTransitionTime'', SString (Some ''date-time'') None None),
     (''resolvedNotificationSentCount'', SInteger None)]
   [''firingNotificationSentCount'', ''hostedClusterID'', ''resolvedNotificationSentCount'']"

definition byNameSchema :: Schema where
  "byNameSchema = SObject [
     (''notificationName'', sString),
     (''notificationRecordItems'', SArray itemSchema),
     (''resendWait'', SInteger (Some ''int32''))]
   [''notificationName'', ''notificationRecordItems'', ''resendWait'']"

definition fleetRecordStatusSchema :: Schema where
  "fleetRecordStatusSchema = SObject [
     (''managementCluster'', sString),
     (''notificationRecordByName'', SArray byNameSchema)]
   [''managementCluster'', ''notificationRecordByName'']"

text \<open>The schemas are data of the deployment; the table that is generated as Go code has no entry.\<close>
definition GetOpenAPIDefinitions :: "'ref \<Rightarrow> Schema gomap" where
  "GetOpenAPIDefinitions ref = Some fmempty"

section \<open>Writing\<close>

text \<open>A field, and one with \<open>omitempty\<close>.\<close>
definition field :: "string \<Rightarrow> json \<Rightarrow> (string \<times> json) list" where
  "field k v = [(k, v)]"

definition omitempty :: "bool \<Rightarrow> string \<Rightarrow> json \<Rightarrow> (string \<times> json) list" where
  "omitempty isZero k v = (if isZero then [] else [(k, v)])"

definition String_json :: "Wire \<Rightarrow> string \<Rightarrow> json" where
  "String_json w s = JStr s"

definition Bool_json :: "Wire \<Rightarrow> bool \<Rightarrow> json" where
  "Bool_json w b = JBool b"

definition Int32_json :: "Wire \<Rightarrow> int32 \<Rightarrow> json" where
  "Int32_json w n = JNum (showInt (sint n))"

definition Int_json :: "Wire \<Rightarrow> int64 \<Rightarrow> json" where
  "Int_json w n = JNum (showInt (sint n))"

text \<open>A slice; \<open>None\<close> is nil.\<close>
definition Slice_json :: "(Wire \<Rightarrow> 'a \<Rightarrow> json) \<Rightarrow> Wire \<Rightarrow> 'a list option \<Rightarrow> json" where
  "Slice_json enc w xs = (case xs of None \<Rightarrow> JNull | Some vs \<Rightarrow> JArr (map (enc w) vs))"

text \<open>A pointer to an instant; its field has \<open>omitempty\<close>, so that nil is left out.\<close>
definition timeField :: "Wire \<Rightarrow> string \<Rightarrow> Time option \<Rightarrow> (string \<times> json) list" where
  "timeField w k t = (case t of None \<Rightarrow> [] | Some t \<Rightarrow> field k (JStr (wi_TimeText w t)))"

text \<open>The types with slices that are written even when they are empty.\<close>

record AgentConfigDoc =
  acd_OcmBaseUrl :: string
  acd_Services :: "string list option"

record OcmAgentSpecDoc =
  osd_AgentConfig :: AgentConfigDoc
  osd_OcmAgentImage :: string
  osd_TokenSecret :: string
  osd_Replicas :: int32
  osd_FleetMode :: bool

record ManagedNotificationSpecDoc =
  mnd_Notifications :: "Notification list option"

record NotificationRecordByNameDoc =
  rbd_NotificationName :: string
  rbd_ResendWait :: int32
  rbd_NotificationRecordItems :: "NotificationRecordItem list option"

record ManagedFleetNotificationRecordStatusDoc =
  frd_ManagementCluster :: string
  frd_NotificationRecordByName :: "NotificationRecordByNameDoc list option"

definition AgentConfig_json :: "Wire \<Rightarrow> AgentConfigDoc \<Rightarrow> json" where
  "AgentConfig_json w c = JObj (
     field ''ocmBaseUrl'' (String_json w (acd_OcmBaseUrl c)) @
     field ''services'' (Slice_json String_json w (acd_Services c)))"

definition OcmAgentSpec_json :: "Wire \<Rightarrow> OcmAgentSpecDoc \<Rightarrow> json" where
  "OcmAgentSpec_json w s = JObj (
     field ''agentConfig'' (AgentConfig_json w (osd_AgentConfig s)) @
     field ''ocmAgentImage'' (String_json w (osd_OcmAgentImage s)) @
     field ''tokenSecret'' (String_json w (osd_TokenSecret s)) @
     field ''replicas'' (Int32_json w (osd_Replicas s)) @
     omitempty (\<not> osd_FleetMode s) ''fleetMode'' (Bool_json w (osd_FleetMode s)))"

definition OcmAgentStatus_json :: "Wire \<Rightarrow> OcmAgentStatus \<Rightarrow> json" where
  "OcmAgentStatus_json w s = JObj (
     field ''serviceStatus'' (String_json w (oast_ServiceStatus s)) @
     field ''availableReplicas'' (Int32_json w (oast_AvailableReplicas s)))"

definition Notification_json :: "Wire \<Rightarrow> Notification \<Rightarrow> json" where
  "Notification_json w n = JObj (
     field ''name'' (String_json w (notif_Name n)) @
     field ''summary'' (String_json w (notif_Summary n)) @
     field ''activeBody'' (String_json w (notif_ActiveDesc n)) @
     omitempty (notif_ResolvedDesc n = []) ''resolvedBody'' (String_json w (notif_ResolvedDesc n)) @
     omitempty (notif_LogType n = []) ''logType'' (String_json w (notif_LogType n)) @
     omitempty (notif_References n = []) ''references'' (Slice_json String_json w (Some (notif_References n))) @
     field ''severity'' (String_json w (notif_Severity n)) @
     field ''resendWait'' (Int32_json w (notif_ResendWait n)))"

definition ManagedNotificationSpec_json :: "Wire \<Rightarrow> ManagedNotificationSpecDoc \<Rightarrow> json" where
  "ManagedNotificationSpec_json w s = JObj (field ''notifications'' (Slice_json Notification_json w (mnd_Notifications s)))"

definition NotificationCondition_json :: "Wire \<Rightarrow> NotificationCondition \<Rightarrow> json" where
  "NotificationCondition_json w c = JObj (
     field ''type'' (String_json w (cond_Type c)) @
     field ''status'' (String_json w (cond_Status c)) @
     timeField w ''lastTransitionTime'' (cond_LastTransitionTime c) @
     omitempty (cond_Reason c = []) ''reason'' (String_json w (cond_Reason c)))"

definition NotificationRecord_json :: "Wire \<Rightarrow> NotificationRecord \<Rightarrow> json" where
  "NotificationRecord_json w r = JObj (
     field ''name'' (String_json w (rec_Name r)) @
     omitempty (rec_ServiceLogSentCount r = 0) ''serviceLogSentCount'' (Int32_json w (rec_ServiceLogSentCount r)) @
     omitempty (rec_Conditions r = []) ''conditions'' (Slice_json NotificationCondition_json w (Some (rec_Conditions r))))"

definition ManagedNotificationStatus_json :: "Wire \<Rightarrow> ManagedNotificationStatus \<Rightarrow> json" where
  "ManagedNotificationStatus_json w s = JObj (
     omitempty (mnstatus_NotificationRecords s = []) ''notificationRecords''
       (Slice_json NotificationRecord_json w (Some (mnstatus_NotificationRecords s))))"

definition FleetNotification_json :: "Wire \<Rightarrow> FleetNotification \<Rightarrow> json" where
  "FleetNotification_json w n = JObj (
     field ''name'' (String_json w (fn_Name n)) @
     field ''summary'' (String_json w (fn_Summary n)) @
     field ''notificationMessage'' (String_json w (fn_NotificationMessage n)) @
     omitempty (fn_LogType n = []) ''logType'' (String_json w (fn_LogType n)) @
     omitempty (fn_References n = []) ''references'' (Slice_json String_json w (Some (fn_References n))) @
     field ''severity'' (String_json w (fn_Severity n)) @
     field ''resendWait'' (Int32_json w (fn_ResendWait n)) @
     omitempty (\<not> fn_LimitedSupport n) ''limitedSupport'' (Bool_json w (fn_LimitedSupport n)))"

definition ManagedFleetNotificationSpec_json :: "Wire \<Rightarrow> ManagedFleetNotificationSpec \<Rightarrow> json" where
  "ManagedFleetNotificationSpec_json w s = JObj (field ''fleetNotification'' (FleetNotification_json w (mfnspec_FleetNotification s)))"

definition NotificationRecordItem_json :: "Wire \<Rightarrow> NotificationRecordItem \<Rightarrow> json" where
  "NotificationRecordItem_json w i = JObj (
     field ''hostedClusterID'' (String_json w (item_HostedClusterID i)) @
     field ''firingNotificationSentCount'' (Int_json w (item_FiringNotificationSentCount i)) @
     field ''resolvedNotificationSentCount'' (Int_json w (item_ResolvedNotificationSentCount i)) @
     timeField w ''lastTransitionTime'' (item_LastTransitionTime i))"

definition NotificationRecordByName_json :: "Wire \<Rightarrow> NotificationRecordByNameDoc \<Rightarrow> json" where
  "NotificationRecordByName_json w r = JObj (
     field ''notificationName'' (String_json w (rbd_NotificationName r)) @
     field ''resendWait'' (Int32_json w (rbd_ResendWait r)) @
     field ''notificationRecordItems'' (Slice_json NotificationRecordItem_json w (rbd_NotificationRecordItems r)))"

definition ManagedFleetNotificationRecordStatus_json :: "Wire \<Rightarrow> ManagedFleetNotificationRecordStatusDoc \<Rightarrow> json" where
  "ManagedFleetNotificationRecordStatus_json w s = JObj (
     field ''managementCluster'' (String_json w (frd_ManagementCluster s)) @
     field ''notificationRecordByName'' (Slice_json NotificationRecordByName_json w (frd_NotificationRecordByName s)))"

section \<open>Reading\<close>

text \<open>The status of a notification, as a client reads it. A missing member and null leave the zero value; unknown members are ignored; a value of another type is an error (\<open>None\<close>).\<close>

definition readString :: "Wire \<Rightarrow> json \<Rightarrow> string option" where
  "readString w j = (case j of JStr s \<Rightarrow> Some s | JNull \<Rightarrow> Some [] | _ \<Rightarrow> None)"

definition readInteger :: "nat \<Rightarrow> json \<Rightarrow> int option" where
  "readInteger n j =
     (case j of
        JNum lit \<Rightarrow> (case intLiteral lit of None \<Rightarrow> None | Some i \<Rightarrow> if inWidth n i then Some i else None)
      | JNull \<Rightarrow> Some 0
      | _ \<Rightarrow> None)"

definition readInt32 :: "Wire \<Rightarrow> json \<Rightarrow> int32 option" where
  "readInt32 w j = map_option word_of_int (readInteger 32 j)"

fun readAll :: "('x \<Rightarrow> 'a option) \<Rightarrow> 'x list \<Rightarrow> 'a list option" where
  "readAll f [] = Some []"
| "readAll f (x # xs) = do { a \<leftarrow> f x; as \<leftarrow> readAll f xs; Some (a # as) }"

definition readSlice :: "(Wire \<Rightarrow> json \<Rightarrow> 'a option) \<Rightarrow> Wire \<Rightarrow> json \<Rightarrow> 'a list option" where
  "readSlice dec w j = (case j of JArr vs \<Rightarrow> readAll (dec w) vs | JNull \<Rightarrow> Some [] | _ \<Rightarrow> None)"

definition readTime :: "Wire \<Rightarrow> json \<Rightarrow> Time option option" where
  "readTime w j = (case j of JStr s \<Rightarrow> map_option Some (wi_ParseTime w s) | JNull \<Rightarrow> Some None | _ \<Rightarrow> None)"

definition members :: "json \<Rightarrow> (string \<times> json) list option" where
  "members j = (case j of JObj ms \<Rightarrow> Some ms | JNull \<Rightarrow> Some [] | _ \<Rightarrow> None)"

definition at :: "(string \<times> json) list \<Rightarrow> string \<Rightarrow> json" where
  "at ms k = (case member ms k of None \<Rightarrow> JNull | Some v \<Rightarrow> v)"

definition readNotificationCondition :: "Wire \<Rightarrow> json \<Rightarrow> NotificationCondition option" where
  "readNotificationCondition w j = do {
     ms \<leftarrow> members j;
     typ \<leftarrow> readString w (at ms ''type'');
     status \<leftarrow> readString w (at ms ''status'');
     time \<leftarrow> readTime w (at ms ''lastTransitionTime'');
     reason \<leftarrow> readString w (at ms ''reason'');
     Some \<lparr>cond_Type = typ, cond_Status = status, cond_LastTransitionTime = time, cond_Reason = reason\<rparr> }"

definition readNotificationRecord :: "Wire \<Rightarrow> json \<Rightarrow> NotificationRecord option" where
  "readNotificationRecord w j = do {
     ms \<leftarrow> members j;
     name \<leftarrow> readString w (at ms ''name'');
     sent \<leftarrow> readInt32 w (at ms ''serviceLogSentCount'');
     conditions \<leftarrow> readSlice readNotificationCondition w (at ms ''conditions'');
     Some \<lparr>rec_Name = name, rec_ServiceLogSentCount = sent, rec_Conditions = conditions\<rparr> }"

definition readManagedNotificationStatus :: "Wire \<Rightarrow> json \<Rightarrow> ManagedNotificationStatus option" where
  "readManagedNotificationStatus w j = do {
     ms \<leftarrow> members j;
     records \<leftarrow> readSlice readNotificationRecord w (at ms ''notificationRecords'');
     Some \<lparr>mnstatus_NotificationRecords = records\<rparr> }"

section \<open>Values\<close>

text \<open>The validation markers in the source, as conditions on values.\<close>

definition severities :: "NotificationSeverity list" where
  "severities = [SeverityDebug, SeverityInfo, SeverityWarning, SeverityMajor, SeverityCritical, SeverityError, SeverityFatal]"

definition conditionTypes :: "NotificationConditionType list" where
  "conditionTypes = [ConditionAlertFiring, ConditionAlertResolved, ConditionServiceLogSent]"

definition notificationFits :: "Notification \<Rightarrow> bool" where
  "notificationFits n \<longleftrightarrow> notif_Severity n \<in> set severities \<and> list_all httpReference (notif_References n)"

definition fleetNotificationFits :: "FleetNotification \<Rightarrow> bool" where
  "fleetNotificationFits n \<longleftrightarrow> fn_Severity n \<in> set severities \<and> list_all httpReference (fn_References n)"

definition conditionFits :: "NotificationCondition \<Rightarrow> bool" where
  "conditionFits c \<longleftrightarrow> cond_Type c \<in> set conditionTypes"

definition recordFits :: "NotificationRecord \<Rightarrow> bool" where
  "recordFits r \<longleftrightarrow> list_all conditionFits (rec_Conditions r)"

text \<open>Values whose instants can be written.\<close>

abbreviation datedOption :: "Time option \<Rightarrow> bool" where
  "datedOption t \<equiv> pred_option dated t"

definition conditionDated :: "NotificationCondition \<Rightarrow> bool" where
  "conditionDated c \<longleftrightarrow> datedOption (cond_LastTransitionTime c)"

definition recordDated :: "NotificationRecord \<Rightarrow> bool" where
  "recordDated r \<longleftrightarrow> list_all conditionDated (rec_Conditions r)"

definition itemDated :: "NotificationRecordItem \<Rightarrow> bool" where
  "itemDated i \<longleftrightarrow> datedOption (item_LastTransitionTime i)"

definition byNameDated :: "NotificationRecordByNameDoc \<Rightarrow> bool" where
  "byNameDated r \<longleftrightarrow> pred_option (list_all itemDated) (rbd_NotificationRecordItems r)"

text \<open>A slice that is written as an array, with good elements.\<close>
definition given :: "('a \<Rightarrow> bool) \<Rightarrow> 'a list option \<Rightarrow> bool" where
  "given P xs \<longleftrightarrow> (case xs of None \<Rightarrow> False | Some vs \<Rightarrow> list_all P vs)"

text \<open>Values as they are read back, with instants in whole seconds.\<close>

definition conditionStored :: "NotificationCondition \<Rightarrow> NotificationCondition" where
  "conditionStored c = c\<lparr>cond_LastTransitionTime := map_option wholeSecond (cond_LastTransitionTime c)\<rparr>"

definition recordStored :: "NotificationRecord \<Rightarrow> NotificationRecord" where
  "recordStored r = r\<lparr>rec_Conditions := map conditionStored (rec_Conditions r)\<rparr>"

definition statusStored :: "ManagedNotificationStatus \<Rightarrow> ManagedNotificationStatus" where
  "statusStored s = s\<lparr>mnstatus_NotificationRecords := map recordStored (mnstatus_NotificationRecords s)\<rparr>"

section \<open>Literals and members\<close>

lemma showNat_nonempty [simp]: "showNat n \<noteq> []"
  by (subst showNat.simps) simp

lemma showNat_isDigit: "list_all isDigit (showNat n)"
proof -
  have "isDigit c" if "c \<in> set (showNat n)" for c
    using showNat_digits[OF that] by (simp add: isDigit_def less_eq_char_def)
  then show ?thesis by (simp add: list_all_iff)
qed

lemma intLiteral_showInt [simp]: "intLiteral (showInt i) = Some i"
proof (cases "i < 0")
  case True
  then show ?thesis by (simp add: showInt_def intLiteral_def showNat_isDigit readNat_showNat)
next
  case False
  obtain c cs where c: "showNat (nat i) = c # cs" by (meson list.exhaust showNat_nonempty)
  moreover have "isDigit c" using showNat_isDigit[of "nat i"] c by simp
  then have "c \<noteq> CHR ''-''" by (auto simp: isDigit_def less_eq_char_def)
  ultimately show ?thesis
    using False showNat_isDigit[of "nat i"] readNat_showNat[of "nat i"] by (simp add: showInt_def intLiteral_def)
qed

lemma sint_inWidth: "inWidth 32 (sint (n :: int32))" "inWidth 64 (sint (m :: int64))"
  using sint_range_size[of n] sint_range_size[of m] by (simp_all add: inWidth_def word_size)

text \<open>Looking up members of a document that is written field by field.\<close>
lemma member_fields [simp]:
  "member [] k = None"
  "member (field k' v @ ms) k = (case member ms k of Some u \<Rightarrow> Some u | None \<Rightarrow> if k = k' then Some v else None)"
  "member (omitempty z k' v @ ms) k = (case member ms k of Some u \<Rightarrow> Some u | None \<Rightarrow> if k = k' \<and> \<not> z then Some v else None)"
  "member (timeField w k' t @ ms) k =
     (case member ms k of Some u \<Rightarrow> Some u | None \<Rightarrow> if k = k' then map_option (\<lambda>t. JStr (wi_TimeText w t)) t else None)"
  "member (field k' v) k = (if k = k' then Some v else None)"
  "member (omitempty z k' v) k = (if k = k' \<and> \<not> z then Some v else None)"
  "member (timeField w k' t) k = (if k = k' then map_option (\<lambda>t. JStr (wi_TimeText w t)) t else None)"
  by (auto simp: member_def field_def omitempty_def timeField_def map_add_def split: option.splits)

section \<open>The contract of a type\<close>

locale written_type =
  fixes sch :: Schema and enc :: "Wire \<Rightarrow> 'a \<Rightarrow> json" and writable :: "'a \<Rightarrow> bool" and fits :: "'a \<Rightarrow> bool"
  assumes conforms_iff: "wire_ok w \<Longrightarrow> writable x \<Longrightarrow> conforms w sch (enc w x) \<longleftrightarrow> fits x"
begin

lemma slice_conforms:
  "wire_ok w \<Longrightarrow> pred_option (list_all writable) xs \<Longrightarrow> conforms w (SArray sch) (Slice_json enc w xs) \<longleftrightarrow> given fits xs"
  by (cases xs) (auto simp: Slice_json_def given_def list_all_iff conforms_iff)

lemma slice: "written_type (SArray sch) (Slice_json enc) (pred_option (list_all writable)) (given fits)"
  by unfold_locales (rule slice_conforms)

end

locale read_type = written_type +
  fixes dec :: "Wire \<Rightarrow> json \<Rightarrow> 'a option" and stored :: "'a \<Rightarrow> 'a"
  assumes reads_back: "wire_ok w \<Longrightarrow> writable x \<Longrightarrow> dec w (enc w x) = Some (stored x)"
begin

lemma slice_reads: "wire_ok w \<Longrightarrow> list_all writable xs \<Longrightarrow> readSlice dec w (Slice_json enc w (Some xs)) = Some (map stored xs)"
  by (induction xs) (auto simp: readSlice_def Slice_json_def reads_back)

end

lemmas read_simps = readString_def readInteger_def readInt32_def readTime_def members_def at_def

lemma given_simps [simp]: "given P None \<longleftrightarrow> False" "given P (Some xs) \<longleftrightarrow> list_all P xs" "given (\<lambda>_. True) ys \<longleftrightarrow> ys \<noteq> None"
  by (simp_all add: given_def list_all_iff split: option.splits)

lemma list_all_unrestricted [simp]: "list_all (\<lambda>_. True) vs" "pred_option (list_all (\<lambda>_. True)) xs"
  by (simp_all add: list_all_iff pred_option_def)

interpretation str: read_type sString String_json "\<lambda>_. True" "\<lambda>_. True" readString "\<lambda>s. s"
  by unfold_locales (simp_all add: String_json_def readString_def)

interpretation ref: written_type "SString None None (Some referencePattern)" String_json "\<lambda>_. True" httpReference
  by unfold_locales (simp add: String_json_def wire_ok_def)

interpretation sev: written_type severitySchema String_json "\<lambda>_. True" "\<lambda>s. s \<in> set severities"
  by unfold_locales (simp add: String_json_def severitySchema_def severities_def SeverityDebug_def SeverityInfo_def
      SeverityWarning_def SeverityMajor_def SeverityCritical_def SeverityError_def SeverityFatal_def)

interpretation ctype: written_type "SString None (Some [''AlertFiring'', ''AlertResolved'', ''ServiceLogSent'']) None" String_json
  "\<lambda>_. True" "\<lambda>s. s \<in> set conditionTypes"
  by unfold_locales (simp add: String_json_def conditionTypes_def ConditionAlertFiring_def ConditionAlertResolved_def
      ConditionServiceLogSent_def)

interpretation flag: written_type SBoolean Bool_json "\<lambda>_. True" "\<lambda>_. True"
  by unfold_locales (simp add: Bool_json_def)

interpretation i32: read_type "SInteger (Some ''int32'')" Int32_json "\<lambda>_. True" "\<lambda>_. True" readInt32 "\<lambda>n. n"
  by unfold_locales (simp_all add: Int32_json_def readInt32_def readInteger_def sint_inWidth)

interpretation i64: written_type "SInteger None" Int_json "\<lambda>_. True" "\<lambda>_. True"
  by unfold_locales (simp add: Int_json_def)

text \<open>What is left out reads as the zero value.\<close>
lemma read_absent [simp]:
  "readString w JNull = Some []" "readInt32 w JNull = Some 0" "readSlice dec w JNull = Some []"
  "readTime w JNull = Some None" "members (JObj ms) = Some ms"
  by (simp_all add: read_simps readSlice_def)

lemma written_time:
  assumes "wire_ok w" and "dated t"
  shows "readTime w (JStr (wi_TimeText w t)) = Some (Some (wholeSecond t))"
    and "conforms w (SString (Some ''date-time'') None None) (JStr (wi_TimeText w t))"
  using assms by (simp_all add: readTime_def wire_ok_def)

lemmas leaves = str.reads_back str.conforms_iff flag.conforms_iff i32.reads_back i32.conforms_iff i64.conforms_iff
  sev.conforms_iff ctype.conforms_iff str.slice_conforms ref.slice_conforms

section \<open>The types of the API\<close>

interpretation aconf: written_type agentConfigSchema AgentConfig_json "\<lambda>_. True" "\<lambda>c. acd_Services c \<noteq> None"
  by unfold_locales (simp add: agentConfigSchema_def AgentConfig_json_def leaves del: conforms.simps(3,4))

interpretation aspec: written_type ocmAgentSpecSchema OcmAgentSpec_json "\<lambda>_. True" "\<lambda>s. acd_Services (osd_AgentConfig s) \<noteq> None"
  by unfold_locales (simp add: ocmAgentSpecSchema_def OcmAgentSpec_json_def leaves aconf.conforms_iff del: conforms.simps(3,4))

interpretation astat: written_type ocmAgentStatusSchema OcmAgentStatus_json "\<lambda>_. True" "\<lambda>_. True"
  by unfold_locales (simp add: ocmAgentStatusSchema_def OcmAgentStatus_json_def leaves del: conforms.simps(3,4))

interpretation notif: written_type notificationSchema Notification_json "\<lambda>_. True" notificationFits
  by unfold_locales (auto simp: notificationSchema_def referencesSchema_def Notification_json_def leaves notificationFits_def
      simp del: conforms.simps(3,4))

interpretation mnspec: written_type managedNotificationSpecSchema ManagedNotificationSpec_json "\<lambda>_. True"
  "\<lambda>s. given notificationFits (mnd_Notifications s)"
  by unfold_locales (simp add: managedNotificationSpecSchema_def ManagedNotificationSpec_json_def notif.slice_conforms del: conforms.simps(3,4))

interpretation cond: read_type conditionSchema NotificationCondition_json conditionDated conditionFits readNotificationCondition conditionStored
proof
  fix w c assume *: "wire_ok w" "conditionDated c"
  note defs = conditionSchema_def NotificationCondition_json_def readNotificationCondition_def at_def leaves written_time
      conditionFits_def conditionDated_def conditionStored_def
  show "readNotificationCondition w (NotificationCondition_json w c) = Some (conditionStored c)"
    using * by (cases "cond_LastTransitionTime c") (simp_all add: defs del: conforms.simps(3,4))
  show "conforms w conditionSchema (NotificationCondition_json w c) \<longleftrightarrow> conditionFits c"
    using * by (cases "cond_LastTransitionTime c") (simp_all add: defs del: conforms.simps(3,4))
qed

interpretation rcd: read_type recordSchema NotificationRecord_json recordDated recordFits readNotificationRecord recordStored
  by unfold_locales (auto simp: recordSchema_def NotificationRecord_json_def readNotificationRecord_def at_def leaves recordFits_def
      recordDated_def recordStored_def cond.slice_reads cond.slice_conforms simp del: conforms.simps(3,4))

interpretation mnstatus: read_type managedNotificationStatusSchema ManagedNotificationStatus_json
  "\<lambda>s. list_all recordDated (mnstatus_NotificationRecords s)" "\<lambda>s. list_all recordFits (mnstatus_NotificationRecords s)"
  readManagedNotificationStatus statusStored
proof
  fix w and s :: ManagedNotificationStatus assume *: "wire_ok w" "list_all recordDated (mnstatus_NotificationRecords s)"
  note defs = managedNotificationStatusSchema_def ManagedNotificationStatus_json_def readManagedNotificationStatus_def at_def
      statusStored_def rcd.slice_reads rcd.slice_conforms
  show "readManagedNotificationStatus w (ManagedNotificationStatus_json w s) = Some (statusStored s)"
    using * by (cases "mnstatus_NotificationRecords s = []") (simp_all add: defs del: conforms.simps(3,4))
  show "conforms w managedNotificationStatusSchema (ManagedNotificationStatus_json w s) \<longleftrightarrow> list_all recordFits (mnstatus_NotificationRecords s)"
    using * by (cases "mnstatus_NotificationRecords s = []") (simp_all add: defs del: conforms.simps(3,4))
qed

interpretation fnotif: written_type fleetNotificationSchema FleetNotification_json "\<lambda>_. True" fleetNotificationFits
  by unfold_locales (auto simp: fleetNotificationSchema_def referencesSchema_def FleetNotification_json_def leaves
      fleetNotificationFits_def simp del: conforms.simps(3,4))

interpretation mfnspec: written_type managedFleetNotificationSpecSchema ManagedFleetNotificationSpec_json
  "\<lambda>_. True" "\<lambda>s. fleetNotificationFits (mfnspec_FleetNotification s)"
  by unfold_locales (simp add: managedFleetNotificationSpecSchema_def ManagedFleetNotificationSpec_json_def
      fnotif.conforms_iff del: conforms.simps(3,4))

interpretation item: written_type itemSchema NotificationRecordItem_json itemDated "\<lambda>_. True"
proof
  fix w i assume *: "wire_ok w" "itemDated i"
  show "conforms w itemSchema (NotificationRecordItem_json w i) \<longleftrightarrow> True"
    using * by (cases "item_LastTransitionTime i")
      (simp_all add: itemSchema_def NotificationRecordItem_json_def leaves written_time itemDated_def del: conforms.simps(3,4))
qed

interpretation byname: written_type byNameSchema NotificationRecordByName_json byNameDated "\<lambda>r. rbd_NotificationRecordItems r \<noteq> None"
  by unfold_locales (simp add: byNameSchema_def NotificationRecordByName_json_def leaves byNameDated_def item.slice_conforms
      del: conforms.simps(3,4))

interpretation frstatus: written_type fleetRecordStatusSchema ManagedFleetNotificationRecordStatus_json
  "\<lambda>s. pred_option (list_all byNameDated) (frd_NotificationRecordByName s)"
  "\<lambda>s. given (\<lambda>r. rbd_NotificationRecordItems r \<noteq> None) (frd_NotificationRecordByName s)"
  by unfold_locales (simp add: fleetRecordStatusSchema_def ManagedFleetNotificationRecordStatus_json_def leaves byname.slice_conforms
      del: conforms.simps(3,4))

section \<open>Properties\<close>

text \<open>C16. The generated schemas say what the types and their validation markers say, except that they refuse nil slices where the tag has no
  \<open>omitempty\<close>: the document of the specification of an agent conforms exactly when its services are not nil, that of its status always;
  those of notifications conform exactly when the slice of notifications is not nil, every severity is one of the constants and every reference is
  an HTTP URL; those of their status exactly when every condition has one of the three types; and those of the history of a fleet exactly
  when neither the slice of records nor the items of a record are nil. In the last two, instants are from the years 1970 to 9999.\<close>
theorem schemas_match_types:
  assumes "wire_ok w"
  shows "(conforms w ocmAgentSpecSchema (OcmAgentSpec_json w spec) \<longleftrightarrow> acd_Services (osd_AgentConfig spec) \<noteq> None) \<and>
    conforms w ocmAgentStatusSchema (OcmAgentStatus_json w status) \<and>
    (conforms w managedNotificationSpecSchema (ManagedNotificationSpec_json w mns) \<longleftrightarrow>
      (\<exists>ns. mnd_Notifications mns = Some ns \<and>
        (\<forall>n \<in> set ns. notif_Severity n \<in> set severities \<and> list_all httpReference (notif_References n)))) \<and>
    (conforms w managedFleetNotificationSpecSchema (ManagedFleetNotificationSpec_json w \<lparr>mfnspec_FleetNotification = fn\<rparr>) \<longleftrightarrow>
      fn_Severity fn \<in> set severities \<and> list_all httpReference (fn_References fn)) \<and>
    (list_all recordDated (mnstatus_NotificationRecords mst) \<longrightarrow>
      (conforms w managedNotificationStatusSchema (ManagedNotificationStatus_json w mst) \<longleftrightarrow>
        (\<forall>r \<in> set (mnstatus_NotificationRecords mst). \<forall>c \<in> set (rec_Conditions r). cond_Type c \<in> set conditionTypes))) \<and>
    (pred_option (list_all byNameDated) (frd_NotificationRecordByName frs) \<longrightarrow>
      (conforms w fleetRecordStatusSchema (ManagedFleetNotificationRecordStatus_json w frs) \<longleftrightarrow>
        (\<exists>rs. frd_NotificationRecordByName frs = Some rs \<and> (\<forall>r \<in> set rs. rbd_NotificationRecordItems r \<noteq> None))))"
proof -
  have given: "given P xs \<longleftrightarrow> (\<exists>vs. xs = Some vs \<and> (\<forall>v \<in> set vs. P v))" for P :: "'x \<Rightarrow> bool" and xs
    by (cases xs) (simp_all add: list_all_iff)
  show ?thesis
    using assms aspec.conforms_iff astat.conforms_iff mnspec.conforms_iff mfnspec.conforms_iff[of w "\<lparr>mfnspec_FleetNotification = fn\<rparr>"]
      mnstatus.conforms_iff frstatus.conforms_iff
    by (simp add: given list_all_iff notificationFits_def fleetNotificationFits_def recordFits_def conditionFits_def del: conforms.simps)
qed

text \<open>Storing commutes with the methods that record a sent service log.\<close>
lemma SetCondition_stored: "map conditionStored (SetCondition cs c) = SetCondition (map conditionStored cs) (conditionStored c)"
  by (induction cs) (auto simp: conditionStored_def)

lemma SetStatus_stored: "recordStored (SetStatus r nct reason cs (Some t)) = SetStatus (recordStored r) nct reason cs (Some (wholeSecond t))"
  by (simp add: SetStatus_def recordStored_def SetCondition_stored Let_def) (simp add: conditionStored_def)

lemma SetNotificationRecord_stored: "map recordStored (SetNotificationRecord rs r) = SetNotificationRecord (map recordStored rs) (recordStored r)"
  unfolding SetNotificationRecord_def by (induction rs) (auto simp: recordStored_def countSent_def)

lemma SetCondition_all: "list_all P cs \<Longrightarrow> P c \<Longrightarrow> list_all P (SetCondition cs c)"
  by (induction cs) auto

lemma SetNotificationRecord_all: "list_all P rs \<Longrightarrow> P (countSent r) \<Longrightarrow> list_all P (SetNotificationRecord rs r)"
  using SetNotificationRecord_subset[of rs r] by (auto simp: list_all_iff)

lemma wholeSecond_bounds: "wholeSecond t \<le> t" "t - 1000000000 < wholeSecond t"
  by (simp_all add: wholeSecond_def)

text \<open>C28. The resend window across the API server: when a service log has been recorded as sent at \<open>t0\<close>, the document of the status is
  accepted and read back, and then a firing alert may be sent again exactly from \<open>t0\<close>, cut to the whole second, plus the resend wait on: never
  later than before, and less than a second earlier.\<close>
theorem read_back_window:
  assumes "wire_ok w" and "GetNotificationForName m n = Inr t"
    and "- maxHours \<le> sint (notif_ResendWait t)" and "sint (notif_ResendWait t) \<le> maxHours"
    and "rec_Name r = n" and "dated t0"
    and "list_all recordDated (r # rs)" and "list_all recordFits (r # rs)"
    and "mnstatus_NotificationRecords (mn_Status m) =
           SetNotificationRecord rs (SetStatus r ConditionServiceLogSent reason ConditionTrue (Some t0))"
  shows "conforms w managedNotificationStatusSchema (ManagedNotificationStatus_json w (mn_Status m)) \<and>
    (\<exists>st. readManagedNotificationStatus w (ManagedNotificationStatus_json w (mn_Status m)) = Some st \<and>
      CanBeSent (m\<lparr>mn_Status := st\<rparr>) n True now = Inr (wholeSecond t0 + sint (notif_ResendWait t) * hourNs \<le> now)) \<and>
    wholeSecond t0 \<le> t0 \<and> t0 - 1000000000 < wholeSecond t0"
proof -
  let ?r = "SetStatus r ConditionServiceLogSent reason ConditionTrue (Some t0)" and ?m = "m\<lparr>mn_Status := statusStored (mn_Status m)\<rparr>"
  have "recordDated (countSent ?r)" "recordFits (countSent ?r)"
    using assms(6-8) by (simp_all add: recordDated_def recordFits_def SetStatus_def Let_def SetCondition_all conditionDated_def conditionFits_def conditionTypes_def)
  then have all: "list_all recordDated (mnstatus_NotificationRecords (mn_Status m))" "list_all recordFits (mnstatus_NotificationRecords (mn_Status m))"
    using assms(7-9) by (simp_all add: SetNotificationRecord_all)
  have "mnstatus_NotificationRecords (mn_Status ?m) =
      SetNotificationRecord (map recordStored rs) (SetStatus (recordStored r) ConditionServiceLogSent reason ConditionTrue (Some (wholeSecond t0)))"
    using assms(9) by (simp add: statusStored_def SetNotificationRecord_stored SetStatus_stored)
  moreover have "GetNotificationForName ?m n = Inr t" "rec_Name (recordStored r) = n"
    using assms(2,5) by (simp_all add: GetNotificationForName_def recordStored_def)
  ultimately have "CanBeSent ?m n True now = Inr (wholeSecond t0 + sint (notif_ResendWait t) * hourNs \<le> now)"
    using assms(3,4) by (intro window_after_sent)
  then show ?thesis
    using mnstatus.reads_back[OF assms(1) all(1)] mnstatus.conforms_iff[OF assms(1) all(1)] all(2) wholeSecond_bounds by auto
qed

text \<open>A wire on which an instant is the number of its second.\<close>
definition sampleWire :: Wire where
  "sampleWire = \<lparr>wi_TimeText = \<lambda>t. showInt (t div 1000000000), wi_ParseTime = \<lambda>s. map_option (\<lambda>i. i * 1000000000) (intLiteral s),
     wi_DateTime = \<lambda>s. intLiteral s \<noteq> None, wi_Matches = \<lambda>p s. p = referencePattern \<and> httpReference s\<rparr>"

lemma sampleWire_ok: "wire_ok sampleWire"
  by (auto simp: wire_ok_def sampleWire_def wholeSecond_def minus_mod_eq_div_mult)

text \<open>The history of a fleet with one record.\<close>
definition sampleHistory :: "NotificationRecordItem list option \<Rightarrow> ManagedFleetNotificationRecordStatusDoc" where
  "sampleHistory items = \<lparr>frd_ManagementCluster = ''mc'', frd_NotificationRecordByName =
     Some [\<lparr>rbd_NotificationName = ''audit'', rbd_ResendWait = 24, rbd_NotificationRecordItems = items\<rparr>]\<rparr>"

lemma schemas_match_types_witness:
  "conforms sampleWire managedNotificationSpecSchema (ManagedNotificationSpec_json sampleWire \<lparr>mnd_Notifications = Some [sampleNotification 24 []]\<rparr>) \<and>
   \<not> conforms sampleWire managedNotificationSpecSchema
       (ManagedNotificationSpec_json sampleWire \<lparr>mnd_Notifications = Some [(sampleNotification 24 [])\<lparr>notif_Severity := ''info''\<rparr>]\<rparr>) \<and>
   conforms sampleWire managedNotificationStatusSchema (ManagedNotificationStatus_json sampleWire \<lparr>mnstatus_NotificationRecords = [sampleRecord]\<rparr>) \<and>
   conforms sampleWire fleetRecordStatusSchema (ManagedFleetNotificationRecordStatus_json sampleWire (sampleHistory (Some []))) \<and>
   \<not> conforms sampleWire fleetRecordStatusSchema (ManagedFleetNotificationRecordStatus_json sampleWire (sampleHistory None))"
proof -
  let ?n = "sampleNotification 24 []" and ?st = "\<lparr>mnstatus_NotificationRecords = [sampleRecord]\<rparr>"
  note match = schemas_match_types[OF sampleWire_ok]
  have "notif_Severity ?n \<in> set severities" "notif_References ?n = []" "''info'' \<notin> set severities"
    by (simp_all add: sampleNotification_def severities_def SeverityDebug_def SeverityInfo_def SeverityWarning_def SeverityMajor_def
        SeverityCritical_def SeverityError_def SeverityFatal_def)
  then have "conforms sampleWire managedNotificationSpecSchema (ManagedNotificationSpec_json sampleWire \<lparr>mnd_Notifications = Some [?n]\<rparr>)"
    and "\<not> conforms sampleWire managedNotificationSpecSchema
      (ManagedNotificationSpec_json sampleWire \<lparr>mnd_Notifications = Some [?n\<lparr>notif_Severity := ''info''\<rparr>]\<rparr>)"
    using match by (simp_all del: conforms.simps)
  moreover have "list_all recordDated (mnstatus_NotificationRecords ?st)" by (simp add: recordDated_def)
  then have "conforms sampleWire managedNotificationStatusSchema (ManagedNotificationStatus_json sampleWire ?st)"
    using match[where mst = ?st] by (simp del: conforms.simps)
  moreover have "pred_option (list_all byNameDated) (frd_NotificationRecordByName (sampleHistory (Some [])))"
    "pred_option (list_all byNameDated) (frd_NotificationRecordByName (sampleHistory None))"
    by (simp_all add: sampleHistory_def byNameDated_def)
  then have "conforms sampleWire fleetRecordStatusSchema (ManagedFleetNotificationRecordStatus_json sampleWire (sampleHistory (Some [])))"
    "\<not> conforms sampleWire fleetRecordStatusSchema (ManagedFleetNotificationRecordStatus_json sampleWire (sampleHistory None))"
    using match[where frs = "sampleHistory (Some [])"] match[where frs = "sampleHistory None"]
    by (simp_all add: sampleHistory_def del: conforms.simps)
  ultimately show ?thesis by blast
qed

lemma read_back_window_witness:
  "\<exists>st. readManagedNotificationStatus sampleWire (ManagedNotificationStatus_json sampleWire (mn_Status (sampleManaged (sampleNotification 24 [])
       (SetNotificationRecord [] (SetStatus sampleRecord ConditionServiceLogSent ''sent'' ConditionTrue (Some 1500000000)))))) = Some st \<and>
     CanBeSent ((sampleManaged (sampleNotification 24 [])
       (SetNotificationRecord [] (SetStatus sampleRecord ConditionServiceLogSent ''sent'' ConditionTrue (Some 1500000000))))\<lparr>mn_Status := st\<rparr>)
       ''disk'' True (24 * hourNs + 1000000000) = Inr True"
  using read_back_window[OF sampleWire_ok, of "sampleManaged (sampleNotification 24 [])
      (SetNotificationRecord [] (SetStatus sampleRecord ConditionServiceLogSent ''sent'' ConditionTrue (Some 1500000000)))"
      "''disk''" "sampleNotification 24 []" sampleRecord 1500000000 "[]" "''sent''" "24 * hourNs + 1000000000"]
  by (simp add: maxHours_def dated_def recordDated_def recordFits_def wholeSecond_def del: conforms.simps)

text \<open>The fleet record among the sample resources of the repository (\<^verbatim>\<open>test/deploy\<close>) has items with the counter of an earlier version and without
  the two counters that are required: its status does not conform.\<close>
lemma sample_record_refused:
  "\<not> conforms w fleetRecordStatusSchema (JObj [(''managementCluster'', JStr ''xxx-yyy-zzz''), (''notificationRecordByName'', JArr [
     JObj [(''notificationName'', JStr ''notification A''), (''resendWait'', JNum ''60''), (''notificationRecordItems'', JArr [
       JObj [(''hostedClusterID'', JStr ''22b0n23htr7cbjhgmn3iihsrf18ii9ke''), (''serviceLogSentCount'', JNum ''0''),
             (''lastTransitionTime'', JStr ''2023-03-07T23:45:03Z'')],
       JObj [(''hostedClusterID'', JStr ''22b0ptk8lj7lr8kusnnmaqe9ltl0vbdh''), (''serviceLogSentCount'', JNum ''5''),
             (''lastTransitionTime'', JStr ''2023-03-07T23:45:03Z'')]])],
     JObj [(''notificationName'', JStr ''notification B''), (''resendWait'', JNum ''60''), (''notificationRecordItems'', JArr [
       JObj [(''hostedClusterID'', JStr ''22b42c7dlht72ldnqs52ipc9b7hmldjk''), (''serviceLogSentCount'', JNum ''0''),
             (''lastTransitionTime'', JStr ''2023-03-07T23:45:03Z'')]])]])])"
  by (simp add: fleetRecordStatusSchema_def byNameSchema_def itemSchema_def member_def)

end
