(* ===== verification/Spec2Isabelle.thy ===== *)
theory Spec2Isabelle
  imports Notifications FleetController ControllerProps StartupProps SeveralAgents DeepCopyProps Recovery Permissions Schemas
begin

text \<open>
  \<^bold>\<open>A model of ocm-agent-operator and the theorems that make it correct.\<close>

  The operator runs an OCM agent on an OpenShift cluster. Its parts are:

  \<^item> the \<^emph>\<open>OcmAgent controller\<close> (\<^verbatim>\<open>controllers/ocmagent\<close>), which brings the cluster in line with an OcmAgent
    resource, sets a finalizer on it, and cleans up when it is deleted;
  \<^item> the \<^emph>\<open>handler\<close> (\<^verbatim>\<open>pkg/ocmagenthandler\<close>), which the controller calls: it ensures or removes the secret, the
    deployment, the config maps, the services, the network policies, the service monitor and the
    disruption budget of an agent;
  \<^item> the \<^emph>\<open>notification types\<close> (\<^verbatim>\<open>api/v1alpha1\<close>), with the methods by which the agent decides whether a
    notification may be sent and keeps the history of what was sent;
  \<^item> the \<^emph>\<open>fleet notification controller\<close> (\<^verbatim>\<open>controllers/fleetnotification\<close>), which removes stale items from that
    history;
  \<^item> the \<^emph>\<open>start of the process\<close> (\<^verbatim>\<open>main.go\<close>), which reads the flags, registers types, controllers and probes with a
    manager, and runs it;
  \<^item> the \<^emph>\<open>deployment\<close> of the operator (\<^verbatim>\<open>deploy\<close>, \<^verbatim>\<open>deploy_pko\<close>): the roles of its service account and the generated schemas of its types.

  \<^bold>\<open>Style of the model.\<close> Structs are records, Go maps are finite maps with nil apart from the empty map, machine integers are
  words, instants are integers of nanoseconds. A function that may fail or change the cluster is a step
  \<open>'s \<Rightarrow> (error + 'a) \<times> 's\<close>; every early return is a branch, a nil dereference is the error \<open>Panic\<close>. Logging is
  left out, but for the start of the process. The definitions carry the names of the source and are composed as it composes them.
  Values have no identity in this model; only the generated deep copies, whose point is aliasing, are modelled over a heap.

  \<^bold>\<open>Outside the repository\<close> are the API server with its client and its authorizer, \<open>controllerutil\<close>, the manager of controller-runtime, the
  metadata types of Kubernetes with their methods, the clock, the Prometheus gauges, the environment, and the parsers of the standard library for IP literals and floating-point numbers. They are
  parameters. The state \<open>'s\<close> stands for all of it, and what the code relies on is stated over a view of the state
  as a \<open>Cluster\<close>: the objects, the log of accepted writes, and the gauges. \<open>api\<close> allows any call to fail at any time,
  before or after a write was carried out, and \<open>api_up\<close> excludes faults; both take reads to be up to date
  and describe one actor, so that other writers appear only between the runs of a reconciliation (as in
  \<open>teardown\<close>). A client in memory (\<open>memClient\<close>) satisfies the hypotheses; the witnesses use it.

  \<^bold>\<open>Theories.\<close>

  \<^item> \<open>OAO_Prelude\<close>: errors, steps and their sequencing, the locale \<open>keyed_slice\<close> for slices used as maps.
    \<open>GoTime\<close>, \<open>GoFmt\<close>, \<open>GoStrings\<close>, \<open>GoJson\<close>: what the source uses of the standard library (durations,
    decimal printing, paths, URLs and dates, JSON documents). The fuel of the JSON parser is twice the
    length of the text plus one, which every document needs at most, since each call consumes a character or returns.
  \<^item> \<open>Notifications\<close>: \<^verbatim>\<open>managednotification_types.go\<close>. The resend window, the conditions and records as keyed slices,
    the panics of \<open>CanBeSent\<close>, the overflow of the wait.
  \<^item> \<open>FleetRecords\<close>: \<^verbatim>\<open>managedfleetnotification_types.go\<close>, \<^verbatim>\<open>managedfleetnotificationrecord_types.go\<close>. The history refines
    a map from notification and hosted cluster to items; an invariant over all sequences of calls.
  \<^item> \<open>FleetController\<close>: \<^verbatim>\<open>fleetnotification_controller.go\<close>. One run removes the first stale item, also when the answer to its
    patch is lost, repeated runs end with exactly the fresh ones; the bounds of the end of life; the race of patches by position with the agent.
  \<^item> \<open>K8s_Types\<close>, \<open>K8s_Client\<close>: API types, the client and its laws. The locale \<open>object_kind\<close> is a kind of
    object; the locale \<open>managed_resource\<close> extends it by what makes a resource fit for the scheme \<open>get, create or
    repair\<close>, which all handlers share; each resource of the operator interprets it.
  \<^item> \<open>OAH_Consts\<close>: \<^verbatim>\<open>pkg/consts\<close>, \<^verbatim>\<open>pkg/util/namespace\<close>, \<^verbatim>\<open>pkg/localmetrics\<close>, the handler and what it relies on (\<open>platform\<close>).
  \<^item> \<open>Contracts\<close>: \<open>ensures\<close>, the contract of a step (what it may write, what it establishes, when it is quiet), and how
    contracts compose.
  \<^item> \<open>Deployments\<close>, \<open>Secrets\<close>, \<open>ConfigMaps\<close>, \<open>Services\<close>, \<open>NetworkPolicies\<close>, \<open>ServiceMonitors\<close>: one per file of the
    handler (the last one also has the disruption budget), with the contract of each ensure and delete
    function and its success without faults.
  \<^item> \<open>Handler\<close>, \<open>HandlerProps\<close>: \<open>EnsureOCMAgentResourcesExist\<close>. \<open>deployed\<close> is the abstract specification; the contracts of the
    components give total correctness without faults, partial correctness with them, quiescence and a frame.
    \<open>Removal\<close>: \<open>EnsureOCMAgentResourcesAbsent\<close>, in one run and with retries. The properties of a deletion range over everything that the operator makes for an
    agent (\<open>agentRefs\<close>), and name what is left: two config maps that the code never deletes (\<open>leftRefs\<close>), and after failed attempts possibly the metrics service.
  \<^item> \<open>OcmAgentController\<close>, \<open>ControllerProps\<close>: \<^verbatim>\<open>ocmagent_controller.go\<close>. The locale \<open>agent_handler\<close> is the interface
    \<open>OCMAgentHandler\<close>; the controller is verified against it, and the handler of the repository interprets it (\<open>run\<close> and, for
    deletions that are retried, \<open>retried\<close>). \<open>teardown\<close> is the state machine of a deletion with faults.
    \<open>Recovery\<close>: \<open>upkeep\<close> is the state machine of attempts with faults on a live resource; no attempt leaves a state that the next one
    without faults does not repair, and interrupted deletions complete.
  \<^item> \<open>SeveralAgents\<close>: agents side by side. \<open>apart\<close> says when they do not disturb each other; runs that must not restart pods.
  \<^item> \<open>GoFlag\<close>, \<open>Startup\<close>, \<open>StartupProps\<close>: the package \<^verbatim>\<open>flag\<close>; \<^verbatim>\<open>main.go\<close>, \<^verbatim>\<open>groupversion_info.go\<close>, \<^verbatim>\<open>version.go\<close>. The libraries
    are the parameter \<open>System\<close>, with \<open>runtime_ok\<close> for what they document and \<open>runtime_up\<close> for the absence of faults; \<open>leads\<close> is the
    calculus for steps that may end the process. What runs is complete, a start without faults succeeds, and \<open>operator_deploys\<close>
    joins the start with the controller.
  \<^item> \<open>Permissions\<close>: the roles in \<^verbatim>\<open>deploy_pko\<close>. \<open>rbac_ok\<close> is what roles mean to the authorizer. A client behind the authorizer
    serves both controllers as one without it does; the locales \<open>readable_kind\<close> and \<open>managed_kind\<close> carry this from kind to kind.
  \<^item> \<open>Schemas\<close>: the schemas in \<^verbatim>\<open>deploy/crds\<close> and the JSON tags of the API types. The locale \<open>written_type\<close> is the contract of a type
    (its documents conform to its schema exactly when the value meets the markers of the source and no nil slice is written), closed under slices and met by
    every type; \<open>read_type\<close> extends it for the status of a notification, which is read back; \<open>wire_ok\<close> is what is relied on of instants, formats and patterns.
  \<^item> \<open>GoHeap\<close>, \<open>DeepCopy\<close>, \<open>DeepCopyProps\<close>: \<^verbatim>\<open>zz_generated.deepcopy.go\<close> over a heap of arrays. The locale \<open>deep_copyable\<close> is the
    contract of a copying method; it is closed under structs, slices and pointers, and every method of the file meets it,
    given that those of the metadata do (\<open>metav1_ok\<close>).

  \<^bold>\<open>What the code does not do.\<close> Some theorems pin down deviations: \<open>cache_permissions\<close> (no lease for leader election), \<open>sample_record_refused\<close>, \<open>removal_leaves_config\<close>, \<open>metrics_service_survives\<close>,
  \<open>service_label_drift\<close>, \<open>fleet_switch_unnoticed\<close>, \<open>switch_keeps_policies\<close>, \<open>schemas_match_types\<close> (nil slices are refused), \<open>budget_stays\<close>, \<open>null_token_accepted\<close>, \<open>CanBeSent_panics_iff\<close>,
  \<open>resend_window_overflow\<close>, \<open>stale_bounds\<close>, \<open>patch_by_position_races\<close>, \<open>removal_cuts_alerts\<close>, \<open>restart_only_with_secret\<close> (a restart that
  is due is not made up for). They are why \<open>bodyFit\<close> asks for the
  labels of stored services and deployments to be the expected ones, and why \<open>teardown_safe\<close> excepts the metrics service and two config maps.

  \<^bold>\<open>Not modelled:\<close> build data, mocks and tests; the set-up of the logging library; the roles of the agent and of Prometheus, which are not the
  operator's. The event loop of the manager with its work queue, the cache of its client (reads are taken to be up to date) and garbage collection by
  owner references are the business of libraries and of the API server and not part of their laws here.
\<close>

end
